(* ===== verification/Gw_Prelude.thy ===== *)
theory Gw_Prelude
  imports Complex_Main "HOL-Library.Sublist" "HOL-Library.Word"
begin

text \<open>
  The part of the Go language and of its standard library that the gateway uses, and the lemmas
  that every component shares.

  \<^item> A Go \<^verbatim>\<open>string\<close> is a byte sequence, here a \<^typ>\<open>string\<close>; an \<^verbatim>\<open>error\<close> value is its message.
  \<^item> A pair \<^verbatim>\<open>(T, error)\<close> is a value of \<open>'a res\<close>, with \<open>Inl\<close> for the error.
  \<^item> A computation that may panic is a value of \<open>'a go\<close>; \<open>go_bind\<close> is sequencing, and a panic
    ends the computation.
  \<^item> A Go map with string keys is a \<open>string \<rightharpoonup> 'v\<close>. Ranging over a map visits its keys in an
    unspecified order: each operation that ranges takes the visiting order as an argument, a list
    \<open>ks\<close> that satisfies \<open>key_order ks m\<close>, and stops at the first hit (\<open>range_find\<close>).
  \<^item> \<open>FormatInt\<close> and \<open>ParseInt\<close> are \<^verbatim>\<open>strconv.FormatInt(i, 10)\<close> and
    \<^verbatim>\<open>strconv.ParseInt(s, 10, 64)\<close>.
\<close>

named_theorems go_simps "sequencing of computations that may panic"
named_theorems str_simps "Go string functions"
named_theorems evals "equations that evaluate a definition on concrete arguments"

section \<open>Errors and panics\<close>

type_synonym 'a res = "string + 'a"

datatype 'a go = Ret 'a | Panic string

fun go_bind :: "'a go \<Rightarrow> ('a \<Rightarrow> 'b go) \<Rightarrow> 'b go" where
  "go_bind (Ret x) f = f x"
| "go_bind (Panic s) f = Panic s"

fun is_panic :: "'a go \<Rightarrow> bool" where
  "is_panic (Ret x) = False"
| "is_panic (Panic s) = True"

lemma go_bind_eq_Ret [go_simps]: "go_bind m f = Ret y \<longleftrightarrow> (\<exists>x. m = Ret x \<and> f x = Ret y)"
  by (cases m) auto

lemma go_bind_Ret_right [go_simps]: "go_bind m Ret = m"
  by (cases m) auto

lemma go_bind_assoc [go_simps]: "go_bind (go_bind m f) g = go_bind m (\<lambda>x. go_bind (f x) g)"
  by (cases m) auto

lemma not_is_panic: "\<not> is_panic m \<longleftrightarrow> (\<exists>x. m = Ret x)"
  by (cases m) auto

text \<open>A loop that builds a list, each step of which may panic.\<close>

fun go_map :: "('a \<Rightarrow> 'b go) \<Rightarrow> 'a list \<Rightarrow> 'b list go" where
  "go_map f [] = Ret []"
| "go_map f (x # xs) = go_bind (f x) (\<lambda>y. go_bind (go_map f xs) (\<lambda>ys. Ret (y # ys)))"

lemma go_map_Ret_length: "go_map f xs = Ret ys \<Longrightarrow> length ys = length xs"
  by (induction xs arbitrary: ys) (auto simp: go_bind_eq_Ret)

text \<open>Sequencing of fallible reads: the first error is the result.\<close>

fun sbind :: "'e + 'a \<Rightarrow> ('a \<Rightarrow> 'e + 'b) \<Rightarrow> 'e + 'b" where
  "sbind (Inl e) f = Inl e"
| "sbind (Inr x) f = f x"

lemma sbind_eq_Inr [go_simps]: "sbind m f = Inr y \<longleftrightarrow> (\<exists>x. m = Inr x \<and> f x = Inr y)"
  by (cases m) auto

lemma isl_sbind: "isl (sbind m f) \<longleftrightarrow> isl m \<or> isl (f (projr m))"
  by (cases m) auto

lemma ex_Inr: "(\<exists>x. m = Inr x) \<longleftrightarrow> \<not> isl m"
  by (cases m) auto

lemma sbind_eq_Inl [go_simps]: "sbind m f = Inl e \<longleftrightarrow> m = Inl e \<or> (\<exists>x. m = Inr x \<and> f x = Inl e)"
  by (cases m) auto

section \<open>Maps and the order in which they are ranged over\<close>

definition key_order :: "'k list \<Rightarrow> ('k \<rightharpoonup> 'v) \<Rightarrow> bool" where
  "key_order ks m \<longleftrightarrow> distinct ks \<and> set ks = dom m"

fun range_find :: "('k \<Rightarrow> 'v \<Rightarrow> bool) \<Rightarrow> 'k list \<Rightarrow> ('k \<rightharpoonup> 'v) \<Rightarrow> ('k \<times> 'v) option" where
  "range_find P [] m = None"
| "range_find P (k # ks) m =
     (case m k of
        None \<Rightarrow> range_find P ks m
      | Some v \<Rightarrow> if P k v then Some (k, v) else range_find P ks m)"

lemma range_find_SomeD:
  "range_find P ks m = Some (k, v) \<Longrightarrow> k \<in> set ks \<and> m k = Some v \<and> P k v"
  by (induction ks) (auto split: option.splits if_splits)

lemma range_find_NoneD:
  "range_find P ks m = None \<Longrightarrow> k \<in> set ks \<Longrightarrow> m k = Some v \<Longrightarrow> \<not> P k v"
  by (induction ks) (auto split: option.splits if_splits)

lemma range_find_None_iff:
  "set ks = dom m \<Longrightarrow> range_find P ks m = None \<longleftrightarrow> (\<forall>k v. m k = Some v \<longrightarrow> \<not> P k v)"
proof (intro iffI allI impI)
  fix k v assume "set ks = dom m" "range_find P ks m = None" "m k = Some v"
  then show "\<not> P k v" by (intro range_find_NoneD [of P ks m]) auto
next
  assume none: "\<forall>k v. m k = Some v \<longrightarrow> \<not> P k v"
  show "range_find P ks m = None"
  proof (rule ccontr)
    assume "range_find P ks m \<noteq> None"
    then obtain k v where "range_find P ks m = Some (k, v)" by auto
    with none show False by (auto dest: range_find_SomeD)
  qed
qed

text \<open>When at most one entry satisfies the condition, the visiting order does not matter.\<close>

lemma range_find_unique:
  assumes ord: "set ks = dom m"
    and hit: "m k = Some v" "P k v"
    and uniq: "\<And>k' v'. m k' = Some v' \<Longrightarrow> P k' v' \<Longrightarrow> k' = k"
  shows "range_find P ks m = Some (k, v)"
proof (cases "range_find P ks m")
  case None
  then show ?thesis using ord hit by (simp add: range_find_None_iff)
next
  case (Some kv)
  obtain k' v' where kv: "kv = (k', v')" by (cases kv)
  with Some have "m k' = Some v'" "P k' v'" by (auto dest: range_find_SomeD)
  with uniq have "k' = k" by blast
  with \<open>m k' = Some v'\<close> hit Some kv show ?thesis by simp
qed

lemma range_find_Cons_hit: "m k = Some v \<Longrightarrow> P k v \<Longrightarrow> range_find P (k # ks) m = Some (k, v)"
  by simp

section \<open>Strings\<close>

text \<open>\<^verbatim>\<open>strings.HasPrefix\<close> and \<^verbatim>\<open>strings.HasSuffix\<close> are \<^const>\<open>prefix\<close> and \<^const>\<open>suffix\<close> of the
  library with the arguments swapped; \<^verbatim>\<open>strings.Contains\<close> is \<open>contains\<close>.\<close>

fun contains :: "string \<Rightarrow> string \<Rightarrow> bool" where
  "contains [] t = (t = [])"
| "contains (c # s) t = (prefix t (c # s) \<or> contains s t)"

lemma contains_iff [str_simps]: "contains s t \<longleftrightarrow> (\<exists>a b. s = a @ t @ b)"
proof (induction s)
  case Nil
  then show ?case by auto
next
  case (Cons c s)
  show ?case
  proof
    assume "contains (c # s) t"
    then consider "prefix t (c # s)" | "contains s t" by auto
    then show "\<exists>a b. c # s = a @ t @ b"
    proof cases
      case 1
      then obtain b where "c # s = [] @ t @ b" by (auto elim: prefixE)
      then show ?thesis by blast
    next
      case 2
      with Cons obtain a b where "s = a @ t @ b" by auto
      then have "c # s = (c # a) @ t @ b" by simp
      then show ?thesis by blast
    qed
  next
    assume "\<exists>a b. c # s = a @ t @ b"
    then obtain a b where eq: "c # s = a @ t @ b" by blast
    show "contains (c # s) t"
    proof (cases a)
      case Nil
      with eq have "prefix t (c # s)" unfolding prefix_def by auto
      then show ?thesis by simp
    next
      case (Cons d a')
      with eq Cons.IH show ?thesis by auto
    qed
  qed
qed

lemma contains_self [simp]: "contains s s"
  unfolding contains_iff by (rule exI [of _ "[]"]) simp

text \<open>\<^verbatim>\<open>strings.Replace(s, old, new, 1)\<close> for a non-empty \<open>old\<close>.\<close>

fun replace1 :: "string \<Rightarrow> string \<Rightarrow> string \<Rightarrow> string" where
  "replace1 [] old new = []"
| "replace1 (c # s) old new =
     (if prefix old (c # s) then new @ drop (length old) (c # s) else c # replace1 s old new)"

lemma replace1_not_contains: "old \<noteq> [] \<Longrightarrow> \<not> contains s old \<Longrightarrow> replace1 s old new = s"
  by (induction s) auto

text \<open>\<^verbatim>\<open>strings.Split(s, sep)\<close> for a separator of one byte.\<close>

fun split_on :: "char \<Rightarrow> string \<Rightarrow> string list" where
  "split_on c [] = [[]]"
| "split_on c (x # xs) =
     (if x = c then [] # split_on c xs
      else case split_on c xs of [] \<Rightarrow> [[x]] | p # ps \<Rightarrow> (x # p) # ps)"

lemma split_on_nonempty [simp]: "split_on c s \<noteq> []"
  by (cases s) (auto split: list.splits)

lemma split_on_no_sep [simp]: "c \<notin> set s \<Longrightarrow> split_on c s = [s]"
  by (induction s) auto

lemma split_on_append [simp]: "c \<notin> set s \<Longrightarrow> split_on c (s @ c # t) = s # split_on c t"
  by (induction s) auto

lemma split_on_parts: "p \<in> set (split_on c s) \<Longrightarrow> c \<notin> set p"
  by (induction s arbitrary: p) (auto split: list.splits if_splits)

text \<open>
  \<^verbatim>\<open>strings.ToLower\<close> on the ASCII letters. The gateway only compares the result with
  \<^verbatim>\<open>passthrough\<close> and \<^verbatim>\<open>true\<close>, and no character outside ASCII has a lower case that occurs in
  these two words.
\<close>

definition to_lower_char :: "char \<Rightarrow> char" where
  "to_lower_char c =
     (let n = (of_char c :: nat) in if 65 \<le> n \<and> n \<le> 90 then char_of (n + 32) else c)"

definition to_lower :: "string \<Rightarrow> string" where
  "to_lower s = map to_lower_char s"

section \<open>Numbers in base 10\<close>

definition digit_char :: "nat \<Rightarrow> char" where
  "digit_char d = char_of (48 + d)"

definition char_digit :: "char \<Rightarrow> nat option" where
  "char_digit c = (let n = (of_char c :: nat) in if 48 \<le> n \<and> n \<le> 57 then Some (n - 48) else None)"

lemma digit_char_numerals [evals]:
  "digit_char 0 = CHR ''0''" "digit_char (Suc 0) = CHR ''1''" "digit_char 1 = CHR ''1''"
  "digit_char 2 = CHR ''2''" "digit_char 3 = CHR ''3''" "digit_char 4 = CHR ''4''"
  "digit_char 5 = CHR ''5''" "digit_char 6 = CHR ''6''" "digit_char 7 = CHR ''7''"
  "digit_char 8 = CHR ''8''" "digit_char 9 = CHR ''9''"
  by (simp_all add: digit_char_def char_of_eq_iff)

lemma char_digit_chars [evals]:
  "char_digit CHR ''0'' = Some 0" "char_digit CHR ''1'' = Some 1" "char_digit CHR ''2'' = Some 2"
  "char_digit CHR ''3'' = Some 3" "char_digit CHR ''4'' = Some 4" "char_digit CHR ''5'' = Some 5"
  "char_digit CHR ''6'' = Some 6" "char_digit CHR ''7'' = Some 7" "char_digit CHR ''8'' = Some 8"
  "char_digit CHR ''9'' = Some 9"
  by (simp_all add: char_digit_def)

lemma char_digit_digit_char [simp]: "d < 10 \<Longrightarrow> char_digit (digit_char d) = Some d"
  by (simp add: char_digit_def digit_char_def)

fun nat_str :: "nat \<Rightarrow> string" where
  "nat_str n = (if n < 10 then [digit_char n] else nat_str (n div 10) @ [digit_char (n mod 10)])"

declare nat_str.simps [simp del, evals]

text \<open>The value of a digit string; \<open>None\<close> when a character is not a digit.\<close>

fun digits_val :: "nat \<Rightarrow> string \<Rightarrow> nat option" where
  "digits_val acc [] = Some acc"
| "digits_val acc (c # s) =
     (case char_digit c of None \<Rightarrow> None | Some d \<Rightarrow> digits_val (10 * acc + d) s)"

definition parse_nat :: "string \<Rightarrow> nat option" where
  "parse_nat s = (if s = [] then None else digits_val 0 s)"

lemma digits_val_append:
  "digits_val a (s @ t) = Option.bind (digits_val a s) (\<lambda>b. digits_val b t)"
  by (induction s arbitrary: a) (auto split: option.splits)

lemma digits_val_bound: "digits_val a w = Some n \<Longrightarrow> n < (a + 1) * 10 ^ length w"
proof (induction w arbitrary: a)
  case (Cons c w)
  then obtain k where k: "char_digit c = Some k" "digits_val (10 * a + k) w = Some n"
    by (auto split: option.splits)
  then have "k < 10" by (auto simp: char_digit_def Let_def split: if_splits)
  then have "10 * a + k + 1 \<le> 10 * (a + 1)" by simp
  then have "(10 * a + k + 1) * 10 ^ length w \<le> 10 * (a + 1) * 10 ^ length w" by (rule mult_le_mono1)
  also have "\<dots> = (a + 1) * 10 ^ length (c # w)" by (simp add: algebra_simps)
  finally show ?case by (rule less_le_trans [OF Cons.IH [OF k(2)]])
qed simp

lemma nat_str_nonempty [simp]: "nat_str n \<noteq> []"
  by (subst nat_str.simps) simp

lemma digits_val_nat_str [simp]: "digits_val 0 (nat_str n) = Some n"
proof (induction n rule: nat_str.induct)
  case (1 n)
  show ?case
  proof (cases "n < 10")
    case True
    then show ?thesis by (simp add: nat_str.simps [of n])
  next
    case False
    with "1" have "digits_val 0 (nat_str (n div 10)) = Some (n div 10)" by simp
    with False show ?thesis by (simp add: nat_str.simps [of n] digits_val_append)
  qed
qed

lemma parse_nat_nat_str [simp]: "parse_nat (nat_str n) = Some n"
  by (simp add: parse_nat_def)

lemma nat_str_inj [simp]: "nat_str a = nat_str b \<longleftrightarrow> a = b"
  by (metis digits_val_nat_str option.inject)

lemma set_nat_str: "c \<in> set (nat_str n) \<Longrightarrow> char_digit c \<noteq> None"
proof (induction n rule: nat_str.induct)
  case (1 n)
  then show ?case by (cases "n < 10") (auto simp: nat_str.simps [of n])
qed

lemma set_nat_str_char: "char_digit c = None \<Longrightarrow> c \<notin> set (nat_str n)"
  using set_nat_str by blast

lemma minus_not_digit [simp]: "char_digit CHR ''-'' = None"
  by (simp add: char_digit_def)

lemma plus_not_digit [simp]: "char_digit CHR ''+'' = None"
  by (simp add: char_digit_def)

definition FormatInt :: "int \<Rightarrow> string" where
  "FormatInt i = (if i < 0 then CHR ''-'' # nat_str (nat (- i)) else nat_str (nat i))"

definition max_int64 :: int where "max_int64 = 9223372036854775807"
definition min_int64 :: int where "min_int64 = - 9223372036854775808"

definition int64_ok :: "int \<Rightarrow> bool" where
  "int64_ok i \<longleftrightarrow> min_int64 \<le> i \<and> i \<le> max_int64"

text \<open>The wrap-around of signed 64-bit arithmetic.\<close>

definition wrap64 :: "int \<Rightarrow> int" where
  "wrap64 i = sint (word_of_int i :: 64 word)"

text \<open>Integer division that truncates towards zero, of Go's \<^verbatim>\<open>/\<close> and of \<^verbatim>\<open>big.Int.Quo\<close>.\<close>

definition quo :: "int \<Rightarrow> int \<Rightarrow> int" where
  "quo a b = sgn a * sgn b * (\<bar>a\<bar> div \<bar>b\<bar>)"

definition parse_sign :: "string \<Rightarrow> bool \<times> string" where
  "parse_sign s =
     (case s of [] \<Rightarrow> (False, [])
      | c # t \<Rightarrow> if c = CHR ''-'' then (True, t) else if c = CHR ''+'' then (False, t) else (False, s))"

text \<open>\<^verbatim>\<open>strconv.Quote\<close> of a string of printable ASCII characters other than the quote and the
  backslash, which is what the error messages below are built from.\<close>

definition quote :: "string \<Rightarrow> string" where
  "quote s = CHR 0x22 # s @ [CHR 0x22]"

definition ParseInt :: "string \<Rightarrow> int res" where
  "ParseInt s =
     (let (neg, t) = parse_sign s in
      case parse_nat t of
        None \<Rightarrow> Inl (''strconv.ParseInt: parsing '' @ quote s @ '': invalid syntax'')
      | Some n \<Rightarrow>
          (let i = (if neg then - int n else int n) in
           if int64_ok i then Inr i
           else Inl (''strconv.ParseInt: parsing '' @ quote s @ '': value out of range'')))"

lemma parse_sign_digits: "char_digit (hd s) \<noteq> None \<Longrightarrow> s \<noteq> [] \<Longrightarrow> parse_sign s = (False, s)"
  by (cases s) (auto simp: parse_sign_def)

lemma parse_sign_nat_str [simp]: "parse_sign (nat_str n) = (False, nat_str n)"
  using set_nat_str [of "hd (nat_str n)" n] by (intro parse_sign_digits) simp_all

lemma parse_sign_minus [simp]: "parse_sign (CHR ''-'' # t) = (True, t)"
  by (simp add: parse_sign_def)

lemma ParseInt_FormatInt: "int64_ok i \<Longrightarrow> ParseInt (FormatInt i) = Inr i"
  by (auto simp: ParseInt_def FormatInt_def)

lemma FormatInt_inj [simp]: "FormatInt a = FormatInt b \<longleftrightarrow> a = b"
proof
  assume eq: "FormatInt a = FormatInt b"
  have no_minus: "nat_str n \<noteq> CHR ''-'' # s" for n s
    using set_nat_str [of "CHR ''-''" n] by auto
  show "a = b"
    using eq no_minus [of "nat a"] no_minus [of "nat b"]
    by (auto simp: FormatInt_def split: if_splits dest: sym)
qed simp

lemma set_FormatInt: "c \<in> set (FormatInt i) \<Longrightarrow> c = CHR ''-'' \<or> char_digit c \<noteq> None"
  using set_nat_str by (auto simp: FormatInt_def split: if_splits)

lemma FormatInt_nonempty [simp]: "FormatInt i \<noteq> []"
  by (simp add: FormatInt_def)

declare FormatInt_def [evals] ParseInt_def [evals] parse_nat_def [evals] parse_sign_def [evals]
  int64_ok_def [evals] max_int64_def [evals] min_int64_def [evals] quote_def [evals]

lemma ParseInt_Inr_range: "ParseInt s = Inr i \<Longrightarrow> int64_ok i"
  by (auto simp: ParseInt_def Let_def split: prod.splits option.splits if_splits)

section \<open>Keyed stores\<close>

text \<open>
  The contract of a component that keeps values under keys: after a \<open>put\<close> the new value is found
  under its key and nothing else changes. The order cache, the request maps, the peers of a service
  and the fields of a message interpret it. A sequence of puts leaves, under each key, the value
  put last.
\<close>

locale keyed_store =
  fixes put :: "'k \<Rightarrow> 'v \<Rightarrow> 's \<Rightarrow> 's"
    and get :: "'s \<Rightarrow> 'k \<Rightarrow> 'v option"
  assumes get_put: "get (put k v s) k' = (if k' = k then Some v else get s k')"
begin

lemma get_put_same: "get (put k v s) k = Some v"
  by (simp add: get_put)

lemma get_put_other: "k' \<noteq> k \<Longrightarrow> get (put k v s) k' = get s k'"
  by (simp add: get_put)

lemma get_put_twice: "get (put k v (put k w s)) = get (put k v s)"
  by (rule ext) (simp add: get_put)

lemma get_put_commute: "k \<noteq> l \<Longrightarrow> get (put k v (put l w s)) = get (put l w (put k v s))"
  by (rule ext) (simp add: get_put)

lemma get_puts: "get (fold (\<lambda>(k, v). put k v) kvs s) = get s ++ map_of (rev kvs)"
proof (induction kvs arbitrary: s)
  case Nil
  then show ?case by simp
next
  case (Cons kv kvs)
  obtain k v where kv: "kv = (k, v)" by (cases kv)
  have "get (put k v s) = (get s)(k \<mapsto> v)" by (rule ext) (simp add: get_put)
  then show ?case using kv Cons.IH [of "put k v s"]
    by (simp add: map_add_def fun_eq_iff split: option.splits)
qed

end

end
