(* ===== verification/No_Store.thy ===== *)
theory No_Store
  imports Gw_Prelude
begin

text \<open>
  The message store of the market data service (\<^verbatim>\<open>service/fix/nostore.go\<close>). It keeps the sequence numbers of
  a session, as Go \<^verbatim>\<open>int\<close>s of 64 bits, and no messages.

  The locale \<open>seq_store\<close> is what the FIX engine relies on when it calls a store through the interface
  \<^verbatim>\<open>MessageStore\<close>: each operation acts on the three observable values in the documented way. Its client
  lemma states that a store then follows the abstract counters of \<open>abs_step\<close> along every sequence of
  calls. The interpretations are \<open>noStore\<close> and, as the reference, the engine's own \<open>memoryStore\<close>
  (\<^verbatim>\<open>vendor/github.com/quickfixgo/quickfix/store.go\<close>), so that the two cannot be told apart by sequence
  numbers.
\<close>

section \<open>The store\<close>

record noStore =
  ns_senderMsgSeqNum :: "64 word"
  ns_targetMsgSeqNum :: "64 word"
  ns_creationTime :: int

definition NextSenderMsgSeqNum :: "noStore \<Rightarrow> 64 word" where
  "NextSenderMsgSeqNum n = ns_senderMsgSeqNum n + 1"

definition NextTargetMsgSeqNum :: "noStore \<Rightarrow> 64 word" where
  "NextTargetMsgSeqNum n = ns_targetMsgSeqNum n + 1"

definition IncrNextTargetMsgSeqNum :: "noStore \<Rightarrow> noStore" where
  "IncrNextTargetMsgSeqNum n = n\<lparr>ns_targetMsgSeqNum := ns_targetMsgSeqNum n + 1\<rparr>"

definition IncrNextSenderMsgSeqNum :: "noStore \<Rightarrow> noStore" where
  "IncrNextSenderMsgSeqNum n = n\<lparr>ns_senderMsgSeqNum := ns_senderMsgSeqNum n + 1\<rparr>"

definition SetNextSenderMsgSeqNum :: "64 word \<Rightarrow> noStore \<Rightarrow> noStore" where
  "SetNextSenderMsgSeqNum num n = n\<lparr>ns_senderMsgSeqNum := num - 1\<rparr>"

definition SetNextTargetMsgSeqNum :: "64 word \<Rightarrow> noStore \<Rightarrow> noStore" where
  "SetNextTargetMsgSeqNum num n = n\<lparr>ns_targetMsgSeqNum := num - 1\<rparr>"

definition CreationTime :: "noStore \<Rightarrow> int" where
  "CreationTime n = ns_creationTime n"

definition SaveMessage :: "64 word \<Rightarrow> string \<Rightarrow> noStore \<Rightarrow> noStore" where
  "SaveMessage seqNum msg n = n"

definition GetMessages :: "64 word \<Rightarrow> 64 word \<Rightarrow> noStore \<Rightarrow> string list" where
  "GetMessages beginSeqNum endSeqNum n = []"

definition Refresh :: "noStore \<Rightarrow> noStore" where
  "Refresh n = n"

definition Reset :: "int \<Rightarrow> noStore \<Rightarrow> noStore" where
  "Reset now n = n\<lparr>ns_senderMsgSeqNum := 0, ns_targetMsgSeqNum := 0, ns_creationTime := now\<rparr>"

definition noStore_Close :: "noStore \<Rightarrow> noStore" where
  "noStore_Close n = n"

definition noStore_Create :: "int \<Rightarrow> noStore" where
  "noStore_Create now = Reset now \<lparr>ns_senderMsgSeqNum = 0, ns_targetMsgSeqNum = 0, ns_creationTime = 0\<rparr>"

section \<open>The engine's memory store\<close>

record memoryStore =
  ms_senderMsgSeqNum :: "64 word"
  ms_targetMsgSeqNum :: "64 word"
  ms_creationTime :: int
  ms_messageMap :: "64 word \<rightharpoonup> string"

definition ms_NextSenderMsgSeqNum :: "memoryStore \<Rightarrow> 64 word" where
  "ms_NextSenderMsgSeqNum s = ms_senderMsgSeqNum s + 1"

definition ms_NextTargetMsgSeqNum :: "memoryStore \<Rightarrow> 64 word" where
  "ms_NextTargetMsgSeqNum s = ms_targetMsgSeqNum s + 1"

definition ms_Reset :: "int \<Rightarrow> memoryStore \<Rightarrow> memoryStore" where
  "ms_Reset now s = s\<lparr>ms_senderMsgSeqNum := 0, ms_targetMsgSeqNum := 0, ms_creationTime := now,
     ms_messageMap := Map.empty\<rparr>"

definition ms_Create :: "int \<Rightarrow> memoryStore" where
  "ms_Create now = ms_Reset now \<lparr>ms_senderMsgSeqNum = 0, ms_targetMsgSeqNum = 0, ms_creationTime = 0,
     ms_messageMap = Map.empty\<rparr>"

section \<open>The interface\<close>

datatype store_op = IncrSender | IncrTarget | SetSender "64 word" | SetTarget "64 word"
  | Save "64 word" string | OpRefresh | OpReset int | OpClose

fun noStore_step :: "store_op \<Rightarrow> noStore \<Rightarrow> noStore" where
  "noStore_step IncrSender n = IncrNextSenderMsgSeqNum n"
| "noStore_step IncrTarget n = IncrNextTargetMsgSeqNum n"
| "noStore_step (SetSender num) n = SetNextSenderMsgSeqNum num n"
| "noStore_step (SetTarget num) n = SetNextTargetMsgSeqNum num n"
| "noStore_step (Save i m) n = SaveMessage i m n"
| "noStore_step OpRefresh n = Refresh n"
| "noStore_step (OpReset now) n = Reset now n"
| "noStore_step OpClose n = noStore_Close n"

fun ms_step :: "store_op \<Rightarrow> memoryStore \<Rightarrow> memoryStore" where
  "ms_step IncrSender s = s\<lparr>ms_senderMsgSeqNum := ms_senderMsgSeqNum s + 1\<rparr>"
| "ms_step IncrTarget s = s\<lparr>ms_targetMsgSeqNum := ms_targetMsgSeqNum s + 1\<rparr>"
| "ms_step (SetSender num) s = s\<lparr>ms_senderMsgSeqNum := num - 1\<rparr>"
| "ms_step (SetTarget num) s = s\<lparr>ms_targetMsgSeqNum := num - 1\<rparr>"
| "ms_step (Save i m) s = s\<lparr>ms_messageMap := (ms_messageMap s)(i \<mapsto> m)\<rparr>"
| "ms_step OpRefresh s = s"
| "ms_step (OpReset now) s = ms_Reset now s"
| "ms_step OpClose s = s"

text \<open>The abstract store: the next two sequence numbers and the creation time.\<close>

fun abs_step :: "store_op \<Rightarrow> 64 word \<times> 64 word \<times> int \<Rightarrow> 64 word \<times> 64 word \<times> int" where
  "abs_step IncrSender (s, t, c) = (s + 1, t, c)"
| "abs_step IncrTarget (s, t, c) = (s, t + 1, c)"
| "abs_step (SetSender num) (s, t, c) = (num, t, c)"
| "abs_step (SetTarget num) (s, t, c) = (s, num, c)"
| "abs_step (Save i m) (s, t, c) = (s, t, c)"
| "abs_step OpRefresh (s, t, c) = (s, t, c)"
| "abs_step (OpReset now) (s, t, c) = (1, 1, now)"
| "abs_step OpClose (s, t, c) = (s, t, c)"

locale seq_store =
  fixes step :: "store_op \<Rightarrow> 's \<Rightarrow> 's"
    and obs :: "'s \<Rightarrow> 64 word \<times> 64 word \<times> int"
    and create :: "int \<Rightarrow> 's"
  assumes obs_step: "obs (step p s) = abs_step p (obs s)"
    and obs_create: "obs (create now) = (1, 1, now)"
begin

lemma obs_steps: "obs (fold step ps s) = fold abs_step ps (obs s)"
  by (induction ps arbitrary: s) (simp_all add: obs_step)

lemma obs_run: "obs (fold step ps (create now)) = fold abs_step ps (1, 1, now)"
  by (simp add: obs_steps obs_create)

end

definition noStore_obs :: "noStore \<Rightarrow> 64 word \<times> 64 word \<times> int" where
  "noStore_obs n = (NextSenderMsgSeqNum n, NextTargetMsgSeqNum n, CreationTime n)"

definition ms_obs :: "memoryStore \<Rightarrow> 64 word \<times> 64 word \<times> int" where
  "ms_obs s = (ms_NextSenderMsgSeqNum s, ms_NextTargetMsgSeqNum s, ms_creationTime s)"

lemmas noStore_defs = noStore_obs_def NextSenderMsgSeqNum_def NextTargetMsgSeqNum_def CreationTime_def
  IncrNextSenderMsgSeqNum_def IncrNextTargetMsgSeqNum_def SetNextSenderMsgSeqNum_def
  SetNextTargetMsgSeqNum_def SaveMessage_def Refresh_def Reset_def noStore_Close_def noStore_Create_def

interpretation no_store: seq_store noStore_step noStore_obs noStore_Create
proof unfold_locales
  fix p n show "noStore_obs (noStore_step p n) = abs_step p (noStore_obs n)"
    by (cases p) (simp_all add: noStore_defs)
qed (simp add: noStore_defs)

interpretation memory_store: seq_store ms_step ms_obs ms_Create
proof unfold_locales
  fix p s show "ms_obs (ms_step p s) = abs_step p (ms_obs s)"
    by (cases p) (simp_all add: ms_obs_def ms_NextSenderMsgSeqNum_def ms_NextTargetMsgSeqNum_def ms_Reset_def)
qed (simp add: ms_obs_def ms_NextSenderMsgSeqNum_def ms_NextTargetMsgSeqNum_def ms_Reset_def ms_Create_def)

section \<open>Properties\<close>

text \<open>
  C13: along every sequence of calls, the store without messages shows the engine the same next sender
  number, next target number and creation time as the engine's own memory store, wrap-around of the
  numbers included; it never returns a message for a resend.
\<close>

theorem no_store_equivalent:
  "NextSenderMsgSeqNum (fold noStore_step ps (noStore_Create now)) =
     ms_NextSenderMsgSeqNum (fold ms_step ps (ms_Create now)) \<and>
   NextTargetMsgSeqNum (fold noStore_step ps (noStore_Create now)) =
     ms_NextTargetMsgSeqNum (fold ms_step ps (ms_Create now)) \<and>
   CreationTime (fold noStore_step ps (noStore_Create now)) =
     ms_creationTime (fold ms_step ps (ms_Create now)) \<and>
   GetMessages i j (fold noStore_step ps (noStore_Create now)) = []"
proof -
  have "noStore_obs (fold noStore_step ps (noStore_Create now)) = ms_obs (fold ms_step ps (ms_Create now))"
    by (simp only: no_store.obs_run memory_store.obs_run)
  then show ?thesis by (simp add: noStore_obs_def ms_obs_def GetMessages_def)
qed

text \<open>The number of increments of the sender number in a sequence of calls.\<close>

fun keeps_numbers :: "store_op \<Rightarrow> bool" where
  "keeps_numbers (SetSender _) = False"
| "keeps_numbers (SetTarget _) = False"
| "keeps_numbers (OpReset _) = False"
| "keeps_numbers _ = True"

lemma abs_steps_count:
  "list_all keeps_numbers ps \<Longrightarrow>
   fold abs_step ps (s, t, c) =
     (s + of_nat (count_list ps IncrSender), t + of_nat (count_list ps IncrTarget), c)"
proof (induction ps arbitrary: s t)
  case (Cons p ps)
  then show ?case by (cases p) (simp_all add: algebra_simps)
qed simp

lemma unat_Suc_of_nat: "n < 2 ^ 63 \<Longrightarrow> unat (1 + of_nat n :: 64 word) = Suc n"
  by (simp add: unat_word_ariths unat_of_nat take_bit_eq_mod)

text \<open>
  A session that only sends and receives numbers its messages one after the other from 1: after a
  sequence of calls without a reset and without setting the numbers, the next sender number is one more
  than the number of sent messages and the next target number one more than that of received messages,
  as long as there were fewer than 2 to the 63 of them.
\<close>

theorem no_store_counts:
  assumes "list_all keeps_numbers ps" "count_list ps IncrSender < 2 ^ 63" "count_list ps IncrTarget < 2 ^ 63"
  shows "unat (NextSenderMsgSeqNum (fold noStore_step ps (noStore_Create now))) = Suc (count_list ps IncrSender) \<and>
    unat (NextTargetMsgSeqNum (fold noStore_step ps (noStore_Create now))) = Suc (count_list ps IncrTarget)"
  using no_store.obs_run [of ps now] abs_steps_count [OF assms(1), of 1 1 now]
    unat_Suc_of_nat [OF assms(2)] unat_Suc_of_nat [OF assms(3)]
  by (simp add: noStore_obs_def)

theorem no_store_counts_witness:
  "unat (NextSenderMsgSeqNum (fold noStore_step [IncrSender, Save 1 ''A'', IncrTarget, IncrSender]
     (noStore_Create 7))) = 3"
  using no_store_counts [of "[IncrSender, Save 1 ''A'', IncrTarget, IncrSender]" 7] by simp

end
