(* ===== verification/Nonce.thy ===== *)
theory Nonce
  imports Gw_Prelude
begin

text \<open>
  The nonces that authenticate requests to the exchange (\<^verbatim>\<open>service/peer/nonce.go\<close>). The two package
  variables are 64-bit words; a mutex makes \<open>GetNonce\<close> atomic, so that the calls of all peers form one
  sequence. The clock is an argument: \<open>now\<close> is what \<^verbatim>\<open>time.Now().Unix()\<close> returns.

  The exchange refuses a nonce that is not greater than the one before. The theorems show when the
  nonces of the process increase, and that the bound of 1000 calls per second, 999 in the second of the start, is exact.
\<close>

record nonce_state =
  ts :: "64 word"
  nonce :: "64 word"

definition nonce_init :: "int \<Rightarrow> nonce_state" where
  "nonce_init now = \<lparr>ts = of_int now * 1000, nonce = 1\<rparr>"

definition GetNonce :: "int \<Rightarrow> nonce_state \<Rightarrow> nonce_state \<times> string" where
  "GetNonce now s =
     (let n = of_int now * 1000;
          s = (if ts s = n then s\<lparr>nonce := nonce s + 1\<rparr> else s\<lparr>ts := n, nonce := 1\<rparr>)
      in (s, nat_str (unat (ts s + nonce s))))"

text \<open>The nonces of a sequence of calls, given the clock at each call.\<close>

fun nonces :: "int list \<Rightarrow> nonce_state \<Rightarrow> string list" where
  "nonces [] s = []"
| "nonces (now # clock) s = (let (s', v) = GetNonce now s in v # nonces clock s')"

section \<open>Lemmas\<close>

text \<open>Times for which the arithmetic does not wrap: until the year 584 million.\<close>

definition clock_ok :: "int \<Rightarrow> bool" where
  "clock_ok now \<longleftrightarrow> 0 \<le> now \<and> now < 2 ^ 54"

text \<open>The state as numbers: the second \<open>t\<close> and the number \<open>k\<close> of the last nonce.\<close>

definition nonce_at :: "int \<Rightarrow> nat \<Rightarrow> nonce_state" where
  "nonce_at t k = \<lparr>ts = of_int t * 1000, nonce = of_nat k\<rparr>"

lemma unat_small: "n < 2 ^ 64 \<Longrightarrow> unat (of_nat n :: 64 word) = n"
  by (simp add: unat_of_nat take_bit_eq_mod)

lemma ts_of_nat: "0 \<le> t \<Longrightarrow> (of_int t * 1000 :: 64 word) = of_nat (nat t * 1000)"
  by simp

lemma clock_nat: "clock_ok t \<Longrightarrow> nat t < 2 ^ 54"
  by (simp add: clock_ok_def nat_less_iff)

lemma clock_bound: "clock_ok t \<Longrightarrow> k < 2 ^ 32 \<Longrightarrow> nat t * 1000 + k < 2 ^ 64"
  using clock_nat [of t] by simp

lemma clock_bound0: "clock_ok t \<Longrightarrow> nat t * 1000 < 2 ^ 64"
  using clock_bound [of t 0] by simp

lemma ts_eq_iff:
  assumes "clock_ok t" "clock_ok u"
  shows "(of_int t * 1000 :: 64 word) = of_int u * 1000 \<longleftrightarrow> t = u"
proof
  assume "(of_int t * 1000 :: 64 word) = of_int u * 1000"
  then have "unat (of_nat (nat t * 1000) :: 64 word) = unat (of_nat (nat u * 1000) :: 64 word)"
    using assms by (simp only: ts_of_nat clock_ok_def)
  then have "nat t * 1000 = nat u * 1000" by (simp only: unat_small clock_bound0 assms)
  then show "t = u" using assms by (simp add: clock_ok_def nat_eq_iff)
qed simp

lemma nonce_value:
  assumes "clock_ok t" "k < 2 ^ 32"
  shows "unat (of_int t * 1000 + of_nat k :: 64 word) = nat t * 1000 + k"
proof -
  have "(of_int t * 1000 + of_nat k :: 64 word) = of_nat (nat t * 1000 + k)"
    using assms(1) by (simp only: ts_of_nat clock_ok_def of_nat_add)
  then show ?thesis by (simp only: unat_small clock_bound assms)
qed

lemma GetNonce_at:
  assumes "clock_ok t" "clock_ok now" "k + 1 < 2 ^ 32"
  shows "GetNonce now (nonce_at t k) =
    (let k' = (if now = t then k + 1 else 1) in (nonce_at now k', nat_str (nat now * 1000 + k')))"
  using nonce_value [OF assms(2,3)] nonce_value [OF assms(2), of 1] ts_eq_iff [OF assms(1,2)]
  by (auto simp: GetNonce_def nonce_at_def Let_def ac_simps)

text \<open>As long as no second has more than 1000 calls, the nonces increase.\<close>

lemma nonces_increase:
  assumes "sorted (t # clock)" "\<forall>u \<in> set (t # clock). clock_ok u"
    and "k + count_list clock t \<le> 1000" "\<forall>u \<in> set clock. u \<noteq> t \<longrightarrow> count_list clock u \<le> 1000"
  shows "\<exists>ns. nonces clock (nonce_at t k) = map nat_str ns \<and> sorted_wrt (<) ((nat t * 1000 + k) # ns)"
  using assms
proof (induction clock arbitrary: t k)
  case Nil
  then show ?case by simp
next
  case (Cons now clock)
  define k' where "k' = (if now = t then k + 1 else 1)"
  have ok: "clock_ok t" "clock_ok now" "t \<le> now" using Cons.prems by auto
  have le: "k \<le> 1000" using Cons.prems(3) by simp
  have step: "GetNonce now (nonce_at t k) = (nonce_at now k', nat_str (nat now * 1000 + k'))"
    using GetNonce_at [OF ok(1,2), of k] le by (simp add: k'_def)
  have "k' + count_list clock now \<le> 1000"
    using Cons.prems(3,4) by (cases "now = t") (auto simp: k'_def)
  moreover have "count_list clock u \<le> 1000" if "u \<in> set clock" "u \<noteq> now" for u
  proof (cases "u = t")
    case True
    then show ?thesis using Cons.prems(3) that by simp
  next
    case False
    with that Cons.prems(4) have "count_list (now # clock) u \<le> 1000" by (metis list.set_intros(2))
    with that show ?thesis by simp
  qed
  ultimately obtain ns where ns: "nonces clock (nonce_at now k') = map nat_str ns"
      "sorted_wrt (<) ((nat now * 1000 + k') # ns)"
    using Cons.IH [of now k'] Cons.prems(1,2) by auto
  have "nat t * 1000 + k < nat now * 1000 + k'"
    using ok le by (cases "now = t") (auto simp: k'_def clock_ok_def)
  with ns step show ?case
    by (intro exI [of _ "(nat now * 1000 + k') # ns"]) (auto simp: Let_def)
qed

lemma nonce_init_at: "nonce_init now = nonce_at now 1"
  by (simp add: nonce_init_def nonce_at_def)

section \<open>Properties\<close>

text \<open>
  C24: as long as the clock does not go back and the process makes at most 999 requests in the second in
  which it starts and at most 1000 in every other second, the nonces are the decimal texts of strictly
  increasing numbers, so none is used twice.
\<close>

theorem nonces_strictly_increase:
  assumes "sorted (start # clock)" "\<forall>u \<in> set (start # clock). clock_ok u"
    and "count_list clock start \<le> 999" "\<forall>u \<in> set clock. count_list clock u \<le> 1000"
  shows "\<exists>ns. nonces clock (nonce_init start) = map nat_str ns \<and> sorted_wrt (<) ns"
  using nonces_increase [of start clock 1] assms by (auto simp: nonce_init_at)

theorem nonces_strictly_increase_witness:
  "\<exists>ns. nonces [1700000000, 1700000000, 1700000001] (nonce_init 1700000000) = map nat_str ns \<and> sorted_wrt (<) ns"
  by (rule nonces_strictly_increase) (simp_all add: clock_ok_def)

lemma nonces_same_second:
  "clock_ok t \<Longrightarrow> k + m < 2 ^ 32 \<Longrightarrow>
   nonces (replicate m t @ clock) (nonce_at t k) =
     map (\<lambda>j. nat_str (nat t * 1000 + j)) [k + 1 ..< k + m + 1] @ nonces clock (nonce_at t (k + m))"
proof (induction m arbitrary: k)
  case (Suc m)
  have "GetNonce t (nonce_at t k) = (nonce_at t (k + 1), nat_str (nat t * 1000 + (k + 1)))"
    using GetNonce_at [of t t k] Suc.prems by simp
  then show ?case using Suc.IH [of "k + 1"] Suc.prems by (simp add: upt_conv_Cons Let_def)
qed simp

text \<open>
  The bound is exact. When a process makes one request more than that in a second, and another at the
  start of the next second, the last two nonces are the same.
\<close>

theorem nonce_repeats:
  assumes "clock_ok t" "clock_ok (t + 1)"
  shows "nonces (replicate 1000 t @ [t + 1]) (nonce_init t) ! 999 =
    nonces (replicate 1000 t @ [t + 1]) (nonce_init t) ! 1000"
proof -
  have "nonces [t + 1] (nonce_at t 1001) = [nat_str (nat (t + 1) * 1000 + 1)]"
    using GetNonce_at [OF assms, of 1001] by (simp add: Let_def)
  moreover have "nat (t + 1) * 1000 + 1 = nat t * 1000 + 1001"
    using assms by (simp add: clock_ok_def nat_add_distrib)
  ultimately show ?thesis
    using nonces_same_second [OF assms(1), of 1 1000 "[t + 1]"]
    by (simp add: nonce_init_at nth_append del: upt_Suc)
qed

theorem nonce_repeats_witness:
  "nonces (replicate 1000 5 @ [6]) (nonce_init 5) ! 999 = nonces (replicate 1000 5 @ [6]) (nonce_init 5) ! 1000"
  using nonce_repeats [of 5] by (simp add: clock_ok_def)

end
