(* ===== verification/Peer_Lifecycle.thy ===== *)
theory Peer_Lifecycle
  imports Main
begin

text \<open>
  The goroutines around one peer, interleaved. Four of them share the mutex of the service and the
  unbuffered channels of the peer:

  \<^item> the \<^emph>\<open>listener\<close> (\<^verbatim>\<open>Peer.listen\<close>) passes on what the websocket delivers, and at the end sends on
    \<^verbatim>\<open>disconnect\<close> and closes \<^verbatim>\<open>exit\<close>;
  \<^item> the \<^emph>\<open>loop\<close> of the service (\<^verbatim>\<open>Service.listen\<close>) receives the messages of all peers one by one, and its
    handlers look up the peer under the mutex;
  \<^item> the \<^emph>\<open>watcher\<close> (started by \<^verbatim>\<open>FIX.FromAdmin\<close>) waits on \<^verbatim>\<open>disconnect\<close>, looks up the peer under the mutex
    and logs the FIX session out when the websocket has ended and the peer is still there;
  \<^item> the \<^emph>\<open>remover\<close> (\<^verbatim>\<open>Service.RemovePeer\<close>, called by \<^verbatim>\<open>OnLogout\<close>) holds the mutex while \<^verbatim>\<open>Peer.Close\<close> closes the
    websocket, waits for \<^verbatim>\<open>exit\<close> and closes \<^verbatim>\<open>disconnect\<close>.

  A state is the position of each goroutine and the shared variables; one step of one goroutine (or the
  rendezvous of two on a channel) is a function to an option, \<open>None\<close> when the goroutine has to wait. The
  theorems say exactly when nothing can move any more, when a send on a closed channel occurs, and what
  holds once a peer has been removed.
\<close>

section \<open>States\<close>

datatype owner = ByRemover | ByLoop | ByWatcher

datatype listener_pc = L_Init | L_Select | L_Send | L_Disc | L_CloseExit | L_Done
datatype loop_pc = S_Recv | S_Lock | S_Locked | S_Handle
datatype watcher_pc = W_Wait | W_Lock bool | W_Locked bool | W_Logout | W_Done
datatype remover_pc = R_Idle | R_Lock | R_Found | R_WaitExit | R_CloseDisc | R_Done

record lc =
  lc_lock :: "owner option"
  lc_inmap :: bool
  lc_started :: bool
  lc_ws_open :: bool
  lc_exit_closed :: bool
  lc_disc_closed :: bool
  lc_panic :: bool
  lc_L :: listener_pc
  lc_S :: loop_pc
  lc_W :: watcher_pc
  lc_R :: remover_pc

text \<open>After a successful logon: the peer is in the map, the goroutine of the listener has been created
  but has not run yet.\<close>

definition lc_init :: lc where
  "lc_init = \<lparr>lc_lock = None, lc_inmap = True, lc_started = False, lc_ws_open = True, lc_exit_closed = False,
     lc_disc_closed = False, lc_panic = False, lc_L = L_Init, lc_S = S_Recv, lc_W = W_Wait, lc_R = R_Idle\<rparr>"

section \<open>Steps\<close>

text \<open>The listener: its own steps (\<open>LRun\<close>), the delivery of a message by the websocket (\<open>LMsg\<close>), the end of
  the websocket (\<open>LEnd\<close>: a nil message, or the check of the connection after a second), and the hand-over
  of a message to the loop (\<open>LHand\<close>; the flag tells whether its handler looks up the peer). When a second has passed without a message,
  the listener checks the connection; it goes on when the connection is alive (\<open>LTimer\<close>). A send on a
  closed channel and a second close panic.\<close>

datatype listener_act = LRun | LMsg | LEnd | LTimer | LHand bool

fun listener_step :: "listener_act \<Rightarrow> lc \<Rightarrow> lc option" where
  "listener_step LRun s =
     (case lc_L s of
        L_Init \<Rightarrow> Some (s\<lparr>lc_started := True, lc_L := L_Select\<rparr>)
      | L_Disc \<Rightarrow> if lc_disc_closed s then Some (s\<lparr>lc_panic := True\<rparr>)
                  else if lc_W s = W_Wait then Some (s\<lparr>lc_L := L_CloseExit, lc_W := W_Lock True\<rparr>)
                  else None
      | L_CloseExit \<Rightarrow> if lc_exit_closed s then Some (s\<lparr>lc_panic := True\<rparr>)
                       else Some (s\<lparr>lc_exit_closed := True, lc_L := L_Done\<rparr>)
      | _ \<Rightarrow> None)"
| "listener_step LMsg s = (if lc_L s = L_Select then Some (s\<lparr>lc_L := L_Send\<rparr>) else None)"
| "listener_step LEnd s =
     (if lc_L s = L_Select \<and> \<not> lc_ws_open s then Some (s\<lparr>lc_L := L_Disc\<rparr>) else None)"
| "listener_step LTimer s = (if lc_L s = L_Select \<and> lc_ws_open s then Some s else None)"
| "listener_step (LHand lookup) s =
     (if lc_L s = L_Send \<and> lc_S s = S_Recv
      then Some (s\<lparr>lc_L := L_Select, lc_S := (if lookup then S_Lock else S_Recv)\<rparr>) else None)"

text \<open>The loop; \<open>S_Recv\<close> to \<open>S_Lock\<close> is the receipt of a message of another peer.\<close>

fun loop_step :: "lc \<Rightarrow> lc option" where
  "loop_step s =
     (case lc_S s of
        S_Recv \<Rightarrow> Some (s\<lparr>lc_S := S_Lock\<rparr>)
      | S_Lock \<Rightarrow> if lc_lock s = None then Some (s\<lparr>lc_lock := Some ByLoop, lc_S := S_Locked\<rparr>) else None
      | S_Locked \<Rightarrow> Some (s\<lparr>lc_lock := None, lc_S := S_Handle\<rparr>)
      | S_Handle \<Rightarrow> Some (s\<lparr>lc_S := S_Recv\<rparr>))"

text \<open>The watcher; the receipt of \<open>true\<close> is the rendezvous in \<open>listener_step\<close>, that of a closed channel gives
  \<open>false\<close>. It looks up the peer in both cases.\<close>

fun watcher_step :: "lc \<Rightarrow> lc option" where
  "watcher_step s =
     (case lc_W s of
        W_Wait \<Rightarrow> if lc_disc_closed s then Some (s\<lparr>lc_W := W_Lock False\<rparr>) else None
      | W_Lock dc \<Rightarrow> if lc_lock s = None then Some (s\<lparr>lc_lock := Some ByWatcher, lc_W := W_Locked dc\<rparr>) else None
      | W_Locked dc \<Rightarrow> Some (s\<lparr>lc_lock := None, lc_W := (if dc \<and> lc_inmap s then W_Logout else W_Done)\<rparr>)
      | W_Logout \<Rightarrow> Some (s\<lparr>lc_W := W_Done\<rparr>)
      | W_Done \<Rightarrow> None)"

text \<open>The remover, from the FIX session's end on.\<close>

fun remover_step :: "lc \<Rightarrow> lc option" where
  "remover_step s =
     (case lc_R s of
        R_Idle \<Rightarrow> Some (s\<lparr>lc_R := R_Lock\<rparr>)
      | R_Lock \<Rightarrow> if lc_lock s \<noteq> None then None
                  else if lc_inmap s then Some (s\<lparr>lc_lock := Some ByRemover, lc_R := R_Found\<rparr>)
                  else Some (s\<lparr>lc_R := R_Done\<rparr>)
      | R_Found \<Rightarrow> if lc_started s then Some (s\<lparr>lc_ws_open := False, lc_R := R_WaitExit\<rparr>)
                   else Some (s\<lparr>lc_R := R_CloseDisc\<rparr>)
      | R_WaitExit \<Rightarrow> if lc_exit_closed s then Some (s\<lparr>lc_R := R_CloseDisc\<rparr>) else None
      | R_CloseDisc \<Rightarrow> if lc_disc_closed s then Some (s\<lparr>lc_panic := True\<rparr>)
                       else Some (s\<lparr>lc_disc_closed := True, lc_inmap := False, lc_lock := None, lc_R := R_Done\<rparr>)
      | R_Done \<Rightarrow> None)"

datatype lc_act = Listener listener_act | Loop | Watcher | Remover | WsEnds

definition lc_step :: "lc_act \<Rightarrow> lc \<Rightarrow> lc option" where
  "lc_step a s =
     (if lc_panic s then None
      else case a of
             Listener la \<Rightarrow> listener_step la s
           | Loop \<Rightarrow> loop_step s
           | Watcher \<Rightarrow> watcher_step s
           | Remover \<Rightarrow> remover_step s
           | WsEnds \<Rightarrow> if lc_ws_open s then Some (s\<lparr>lc_ws_open := False\<rparr>) else None)"

inductive lc_reach :: "lc \<Rightarrow> lc \<Rightarrow> bool" for s0 where
  init: "lc_reach s0 s0"
| step: "lc_reach s0 s \<Longrightarrow> lc_step a s = Some t \<Longrightarrow> lc_reach s0 t"

definition stuck :: "lc \<Rightarrow> bool" where
  "stuck s \<longleftrightarrow> (\<forall>a. lc_step a s = None)"

text \<open>A schedule: the actions in the order in which they occur.\<close>

fun run_schedule :: "lc_act list \<Rightarrow> lc \<Rightarrow> lc option" where
  "run_schedule [] s = Some s"
| "run_schedule (a # as) s = (case lc_step a s of None \<Rightarrow> None | Some t \<Rightarrow> run_schedule as t)"

lemma run_schedule_reach: "lc_reach s0 s \<Longrightarrow> run_schedule as s = Some t \<Longrightarrow> lc_reach s0 t"
  by (induction as arbitrary: s) (auto split: option.splits intro: lc_reach.step)

section \<open>Invariants\<close>

text \<open>The mutex is held by the goroutine whose position says so; the channels are closed by the one
  goroutine that may close them; the watcher leaves its wait only when the listener has sent or the
  channel was closed.\<close>

definition lock_inv :: "lc \<Rightarrow> bool" where
  "lock_inv s \<longleftrightarrow>
     (lc_R s \<in> {R_Found, R_WaitExit, R_CloseDisc} \<longrightarrow> lc_lock s = Some ByRemover) \<and>
     (lc_S s = S_Locked \<longrightarrow> lc_lock s = Some ByLoop) \<and>
     (lc_W s \<in> {W_Locked True, W_Locked False} \<longrightarrow> lc_lock s = Some ByWatcher) \<and>
     (lc_lock s = Some ByRemover \<longrightarrow> lc_R s \<in> {R_Found, R_WaitExit, R_CloseDisc}) \<and>
     (lc_lock s = Some ByLoop \<longrightarrow> lc_S s = S_Locked) \<and>
     (lc_lock s = Some ByWatcher \<longrightarrow> lc_W s \<in> {W_Locked True, W_Locked False})"

definition chan_inv :: "lc \<Rightarrow> bool" where
  "chan_inv s \<longleftrightarrow>
     lc_exit_closed s = (lc_L s = L_Done) \<and>
     lc_disc_closed s = (lc_R s = R_Done) \<and>
     lc_inmap s = (lc_R s \<noteq> R_Done) \<and>
     lc_started s = (lc_L s \<noteq> L_Init) \<and>
     (lc_R s = R_WaitExit \<longrightarrow> lc_L s \<noteq> L_Init \<and> \<not> lc_ws_open s) \<and>
     (lc_W s \<noteq> W_Wait \<longrightarrow> lc_L s \<in> {L_CloseExit, L_Done} \<or> lc_R s = R_Done)"

definition lc_inv :: "lc \<Rightarrow> bool" where
  "lc_inv s \<longleftrightarrow> lock_inv s \<and> chan_inv s"

lemma lc_inv_init: "lc_inv lc_init"
  by (simp add: lc_inv_def lock_inv_def chan_inv_def lc_init_def)

lemma lock_inv_listener: "lock_inv s \<Longrightarrow> pred_option lock_inv (listener_step a s)"
  by (cases a; cases "lc_L s"; simp add: lock_inv_def; fastforce?)

lemma lock_inv_loop: "lock_inv s \<Longrightarrow> pred_option lock_inv (loop_step s)"
  by (cases "lc_S s"; simp add: lock_inv_def; fastforce?)

lemma lock_inv_watcher: "lock_inv s \<Longrightarrow> pred_option lock_inv (watcher_step s)"
  by (cases "lc_W s"; simp add: lock_inv_def; fastforce?)

lemma lock_inv_remover: "lock_inv s \<Longrightarrow> pred_option lock_inv (remover_step s)"
  by (cases "lc_R s"; simp add: lock_inv_def; fastforce?)

lemma chan_inv_listener: "chan_inv s \<Longrightarrow> pred_option chan_inv (listener_step a s)"
  by (cases a; cases "lc_L s"; simp add: chan_inv_def; fastforce?)

lemma chan_inv_loop: "chan_inv s \<Longrightarrow> pred_option chan_inv (loop_step s)"
  by (cases "lc_S s"; simp add: chan_inv_def; fastforce?)

lemma chan_inv_watcher: "chan_inv s \<Longrightarrow> pred_option chan_inv (watcher_step s)"
  by (cases "lc_W s"; simp add: chan_inv_def; fastforce?)

lemma chan_inv_remover: "chan_inv s \<Longrightarrow> pred_option chan_inv (remover_step s)"
  by (cases "lc_R s"; simp add: chan_inv_def; fastforce?)

lemmas lc_inv_steps = lock_inv_listener lock_inv_loop lock_inv_watcher lock_inv_remover
  chan_inv_listener chan_inv_loop chan_inv_watcher chan_inv_remover

lemma lc_inv_step: "lc_inv s \<Longrightarrow> pred_option lc_inv (lc_step a s)"
proof -
  assume inv: "lc_inv s"
  then have parts: "lock_inv s" "chan_inv s" by (simp_all add: lc_inv_def)
  have both: "pred_option lock_inv r \<Longrightarrow> pred_option chan_inv r \<Longrightarrow> pred_option lc_inv r" for r
    by (cases r) (simp_all add: lc_inv_def)
  have ws: "lc_inv (s\<lparr>lc_ws_open := False\<rparr>)"
    using parts by (simp add: lc_inv_def lock_inv_def chan_inv_def)
  show ?thesis
    unfolding lc_step_def
    by (cases a) (simp_all add: ws both lc_inv_steps parts del: listener_step.simps loop_step.simps
        watcher_step.simps remover_step.simps)
qed

lemma lc_inv_reach: "lc_reach s0 s \<Longrightarrow> lc_inv s0 \<Longrightarrow> lc_inv s"
proof (induction rule: lc_reach.induct)
  case (step s a t)
  then show ?case using lc_inv_step [of s a] by simp
qed

section \<open>Standstill\<close>

text \<open>What the world outside does: the exchange sends a message to this or to another peer, a second passes, the websocket ends, and the
  FIX session ends.\<close>

definition external :: "lc_act \<Rightarrow> lc \<Rightarrow> bool" where
  "external a s \<longleftrightarrow> a \<in> {Listener LMsg, Listener LTimer, WsEnds} \<or> a = Loop \<and> lc_S s = S_Recv \<or> a = Remover \<and> lc_R s = R_Idle"

text \<open>No goroutine can move until the world outside does something.\<close>

definition standstill :: "lc \<Rightarrow> bool" where
  "standstill s \<longleftrightarrow> (\<forall>a. \<not> external a s \<longrightarrow> lc_step a s = None)"

text \<open>All work is done: the mutex is free, the loop waits for a message, the listener for the websocket, unless it has ended, and the
  watcher for the listener, unless it has ended. The peer has not been removed, or its removal is over.\<close>

definition idle :: "lc \<Rightarrow> bool" where
  "idle s \<longleftrightarrow> lc_lock s = None \<and> lc_S s = S_Recv \<and> (lc_L s = L_Select \<and> lc_ws_open s \<or> lc_L s = L_Done) \<and>
     (lc_R s = R_Idle \<and> lc_W s \<in> {W_Wait, W_Done} \<or> lc_R s = R_Done \<and> lc_W s = W_Done)"

text \<open>The three goroutines wait for each other: the remover holds the mutex and waits for the listener,
  the listener waits for the loop to take its message, and the loop waits for the mutex.\<close>

definition deadlocked :: "lc \<Rightarrow> bool" where
  "deadlocked s \<longleftrightarrow> lc_R s = R_WaitExit \<and> lc_L s = L_Send \<and> lc_S s = S_Lock \<and> lc_lock s = Some ByRemover"

lemma stuck_deadlocked:
  assumes "lc_inv s" "deadlocked s"
  shows "stuck s"
  unfolding stuck_def
proof
  fix a
  show "lc_step a s = None"
  proof (cases a)
    case (Listener la)
    with assms show ?thesis by (cases la) (simp_all add: lc_step_def deadlocked_def)
  next
    case Watcher
    with assms show ?thesis
      by (cases "lc_W s") (auto simp: lc_step_def deadlocked_def lc_inv_def chan_inv_def lock_inv_def)
  qed (use assms in \<open>auto simp: lc_step_def deadlocked_def lc_inv_def chan_inv_def\<close>)
qed

lemma stuck_loop:
  assumes "stuck s" "\<not> lc_panic s"
  shows "lc_S s = S_Lock \<and> lc_lock s \<noteq> None"
  using assms(1) [unfolded stuck_def, rule_format, of Loop] assms(2)
  by (cases "lc_S s") (auto simp: lc_step_def split: if_splits)

lemma stuck_remover:
  assumes "stuck s" "\<not> lc_panic s" "lc_inv s"
  shows "lc_R s = R_WaitExit \<and> lc_lock s = Some ByRemover"
proof -
  have loop: "lc_S s = S_Lock" "lc_lock s \<noteq> None" using stuck_loop assms by auto
  have w: "\<nexists>dc. lc_W s = W_Locked dc"
    using assms(1) [unfolded stuck_def, rule_format, of Watcher] assms(2) by (auto simp: lc_step_def)
  then have "lc_lock s = Some ByRemover"
    using loop assms(3) by (cases "lc_lock s"; cases "the (lc_lock s)") (auto simp: lc_inv_def lock_inv_def)
  moreover have "lc_R s \<in> {R_Found, R_WaitExit, R_CloseDisc}"
    using calculation assms(3) by (simp add: lc_inv_def lock_inv_def)
  ultimately show ?thesis
    using assms(1) [unfolded stuck_def, rule_format, of Remover] assms(2) by (auto simp: lc_step_def split: if_splits)
qed

lemma stuck_listener:
  assumes "stuck s" "\<not> lc_panic s" "lc_inv s"
  shows "lc_L s = L_Send"
proof -
  have r: "lc_R s = R_WaitExit" using stuck_remover assms by blast
  have run: "listener_step LRun s = None" "listener_step LMsg s = None"
    using assms(1) [unfolded stuck_def, rule_format, of "Listener LRun"]
      assms(1) [unfolded stuck_def, rule_format, of "Listener LMsg"] assms(2) by (simp_all add: lc_step_def)
  have "\<not> lc_exit_closed s"
    using assms(1) [unfolded stuck_def, rule_format, of Remover] assms(2) r by (simp add: lc_step_def split: if_splits)
  then show ?thesis
    using run r assms(3) by (cases "lc_L s") (auto simp: lc_inv_def chan_inv_def split: if_splits)
qed

lemma still_listener:
  assumes "standstill s" "\<not> lc_panic s" "lc_inv s"
  shows "lc_L s = L_Select \<and> lc_ws_open s \<or> lc_L s = L_Send \<and> lc_S s \<noteq> S_Recv \<or> lc_L s = L_Done"
proof -
  have own: "listener_step LRun s = None" "listener_step LEnd s = None" "listener_step (LHand True) s = None" "watcher_step s = None"
    using assms(1) [unfolded standstill_def, rule_format, of "Listener LRun"] assms(1) [unfolded standstill_def, rule_format, of "Listener LEnd"]
      assms(1) [unfolded standstill_def, rule_format, of "Listener (LHand True)"] assms(1) [unfolded standstill_def, rule_format, of Watcher]
      assms(2) by (simp_all add: lc_step_def external_def)
  then show ?thesis
    using assms(3) by (cases "lc_L s") (auto simp: lc_inv_def chan_inv_def split: if_splits watcher_pc.splits)
qed

lemma still_rest:
  assumes "standstill s" "\<not> lc_panic s"
  shows "lc_S s = S_Recv \<or> lc_S s = S_Lock \<and> lc_lock s \<noteq> None"
    and "lc_R s \<noteq> R_Idle \<Longrightarrow> remover_step s = None" and "watcher_step s = None"
  using assms(1) [unfolded standstill_def, rule_format, of Loop] assms(1) [unfolded standstill_def, rule_format, of Remover]
    assms(1) [unfolded standstill_def, rule_format, of Watcher] assms(2)
  by (cases "lc_S s"; auto simp: lc_step_def external_def split: if_splits)+

lemma still_cases:
  assumes "standstill s" "\<not> lc_panic s" "lc_inv s"
  shows "deadlocked s \<or> idle s"
proof (cases "lc_lock s")
  case None
  then have "lc_S s = S_Recv" "lc_R s \<in> {R_Idle, R_Done}"
    using still_rest [OF assms(1,2)] assms(3) by (cases "lc_R s"; auto simp: lc_inv_def lock_inv_def split: if_splits)+
  then show ?thesis
    using None still_listener [OF assms] still_rest(3) [OF assms(1,2)] assms(3)
    by (cases "lc_W s") (auto simp: idle_def lc_inv_def chan_inv_def split: if_splits)
next
  case (Some holder)
  have "holder = ByRemover"
    using still_rest(1,3) [OF assms(1,2)] assms(3) Some
    by (cases holder) (auto simp: lc_inv_def lock_inv_def split: watcher_pc.splits)
  then have "lc_R s = R_WaitExit" "\<not> lc_exit_closed s"
    using still_rest(2) [OF assms(1,2)] assms(3) Some by (cases "lc_R s"; auto simp: lc_inv_def lock_inv_def split: if_splits)+
  then show ?thesis
    using still_listener [OF assms] still_rest(1) [OF assms(1,2)] assms(3) Some \<open>holder = ByRemover\<close>
    by (auto simp: deadlocked_def lc_inv_def chan_inv_def)
qed

lemma idle_still: "idle s \<Longrightarrow> lc_inv s \<Longrightarrow> standstill s"
  unfolding standstill_def
proof (intro allI impI)
  fix a assume "idle s" "lc_inv s" "\<not> external a s"
  then show "lc_step a s = None"
  proof (cases a)
    case (Listener la)
    with \<open>idle s\<close> \<open>\<not> external a s\<close> show ?thesis by (cases la) (auto simp: lc_step_def external_def idle_def)
  qed (auto simp: lc_step_def external_def idle_def lc_inv_def chan_inv_def)
qed

text \<open>
  C26: what a service with this peer can come to a standstill in. In a reachable state in which the process has not
  panicked, the goroutines wait for the world outside exactly when all work is done or in one deadlock: the remover holds the mutex and
  waits for the listener, the listener waits for the loop to take a message, and the loop waits for the mutex. The deadlock is for ever:
  nothing that the world outside does moves any goroutine, while an idle service takes the next message.
\<close>

theorem stuck_iff_deadlocked:
  assumes "lc_reach lc_init s" "\<not> lc_panic s"
  shows "(standstill s \<longleftrightarrow> deadlocked s \<or> idle s) \<and> (stuck s \<longleftrightarrow> deadlocked s)"
proof (intro conjI)
  have inv: "lc_inv s" using lc_inv_reach [OF assms(1) lc_inv_init] .
  show "stuck s \<longleftrightarrow> deadlocked s"
  proof
    assume "stuck s"
    then show "deadlocked s"
      using stuck_loop [OF _ assms(2)] stuck_remover [OF _ assms(2) inv] stuck_listener [OF _ assms(2) inv]
      unfolding deadlocked_def by blast
  qed (rule stuck_deadlocked [OF inv])
  have "deadlocked s \<Longrightarrow> standstill s" using stuck_deadlocked [OF inv] by (simp add: stuck_def standstill_def)
  then show "standstill s \<longleftrightarrow> deadlocked s \<or> idle s"
    using still_cases [OF _ assms(2) inv] idle_still [OF _ inv] by blast
qed

text \<open>Two messages arrive; while the handler of the first is about to look up the peer, the session ends.\<close>

definition deadlock_schedule :: "lc_act list" where
  "deadlock_schedule = [Listener LRun, Listener LMsg, Listener (LHand True), Listener LMsg, Remover, Remover, Remover]"

definition deadlock_state :: lc where
  "deadlock_state = \<lparr>lc_lock = Some ByRemover, lc_inmap = True, lc_started = True, lc_ws_open = False,
     lc_exit_closed = False, lc_disc_closed = False, lc_panic = False, lc_L = L_Send, lc_S = S_Lock,
     lc_W = W_Wait, lc_R = R_WaitExit\<rparr>"

lemma deadlock_schedule_run: "run_schedule deadlock_schedule lc_init = Some deadlock_state"
  by (simp add: deadlock_schedule_def deadlock_state_def lc_init_def lc_step_def)

lemma deadlock_reach: "lc_reach lc_init deadlock_state"
  using run_schedule_reach [OF lc_reach.init deadlock_schedule_run] .

theorem stuck_iff_deadlocked_witness: "(standstill deadlock_state \<longleftrightarrow> deadlocked deadlock_state \<or> idle deadlock_state) \<and> stuck deadlock_state"
proof -
  have "\<not> lc_panic deadlock_state" "deadlocked deadlock_state" by (simp_all add: deadlock_state_def deadlocked_def)
  with stuck_iff_deadlocked [OF deadlock_reach] show ?thesis by blast
qed

text \<open>
  C28: this deadlock can occur. There is a schedule, of two messages of the exchange and the end of the
  FIX session, after which the service can do nothing any more, for no session: the loop never takes
  another message and the mutex is never released.
\<close>

theorem remove_peer_can_deadlock:
  "\<exists>s. lc_reach lc_init s \<and> lc_R s = R_WaitExit \<and> \<not> lc_panic s \<and> stuck s"
proof (intro exI conjI)
  show "stuck deadlock_state"
    using stuck_deadlocked [OF lc_inv_reach [OF deadlock_reach lc_inv_init]]
    by (simp add: deadlocked_def deadlock_state_def)
  show "lc_reach lc_init deadlock_state" by (rule deadlock_reach)
qed (simp_all add: deadlock_state_def)

text \<open>The session ends before the goroutine of the listener has run for the first time.\<close>

definition race_schedule :: "lc_act list" where
  "race_schedule = [Remover, Remover, Remover, Remover, Listener LRun, WsEnds, Listener LEnd, Listener LRun]"

text \<open>
  C32: when the FIX session ends before the listener has set the flag \<^verbatim>\<open>started\<close>, \<^verbatim>\<open>Peer.Close\<close> neither closes the
  websocket nor waits for the listener, and the whole process panics later, when the listener sends on
  the closed channel \<^verbatim>\<open>disconnect\<close>.
\<close>

theorem close_before_start_panics:
  "\<exists>s. lc_reach lc_init s \<and> lc_R s = R_Done \<and> lc_panic s"
proof -
  obtain s where "run_schedule race_schedule lc_init = Some s" "lc_R s = R_Done" "lc_panic s"
    by (simp add: race_schedule_def lc_init_def lc_step_def)
  then show ?thesis using run_schedule_reach [OF lc_reach.init] by blast
qed

section \<open>Once the listener has started\<close>

definition lc_running :: lc where
  "lc_running = lc_init\<lparr>lc_started := True, lc_L := L_Select\<rparr>"

definition down_inv :: "lc \<Rightarrow> bool" where
  "down_inv s \<longleftrightarrow> \<not> lc_panic s \<and> lc_L s \<noteq> L_Init \<and>
     (lc_R s \<in> {R_CloseDisc, R_Done} \<longrightarrow> lc_L s = L_Done \<and> \<not> lc_ws_open s)"

lemma down_inv_step:
  assumes "chan_inv s" "down_inv s"
  shows "pred_option down_inv (lc_step a s)"
proof (cases a)
  case (Listener la)
  with assms show ?thesis
    by (cases la; cases "lc_L s"; simp add: lc_step_def chan_inv_def down_inv_def; fastforce?)
next
  case Loop
  with assms show ?thesis by (cases "lc_S s"; simp add: lc_step_def down_inv_def)
next
  case Watcher
  with assms show ?thesis by (cases "lc_W s"; simp add: lc_step_def down_inv_def)
next
  case Remover
  with assms show ?thesis by (cases "lc_R s"; simp add: lc_step_def chan_inv_def down_inv_def; fastforce?)
next
  case WsEnds
  with assms show ?thesis by (simp add: lc_step_def down_inv_def)
qed

definition started_inv :: "lc \<Rightarrow> bool" where
  "started_inv s \<longleftrightarrow> lc_inv s \<and> down_inv s"

lemma started_inv_step: "started_inv s \<Longrightarrow> lc_step a s = Some t \<Longrightarrow> started_inv t"
  using lc_inv_step [of s a] down_inv_step [of s a] by (simp add: started_inv_def lc_inv_def)

lemma started_inv_reach: "lc_reach lc_running s \<Longrightarrow> started_inv s"
proof (induction rule: lc_reach.induct)
  case init
  show ?case
    by (simp add: started_inv_def down_inv_def lc_inv_def lock_inv_def chan_inv_def lc_running_def lc_init_def)
next
  case (step s a t)
  then show ?case using started_inv_step by blast
qed

text \<open>
  C25: once the listener has started, no schedule makes the process panic on these channels, and when
  \<^verbatim>\<open>RemovePeer\<close> has returned, the websocket is closed, the listener has ended, the peer is no longer in the
  map and the mutex is not held by the remover.
\<close>

theorem removed_peer_is_down:
  assumes "lc_reach lc_running s"
  shows "\<not> lc_panic s \<and>
    (lc_R s = R_Done \<longrightarrow> \<not> lc_ws_open s \<and> lc_L s = L_Done \<and> \<not> lc_inmap s \<and> lc_lock s \<noteq> Some ByRemover)"
proof -
  have inv: "chan_inv s" "lock_inv s" "down_inv s"
    using started_inv_reach [OF assms] by (simp_all add: started_inv_def lc_inv_def)
  have "lc_R s = R_Done \<Longrightarrow> lc_lock s \<noteq> Some ByRemover" using inv(2) by (simp add: lock_inv_def)
  with inv(1,3) show ?thesis by (simp add: chan_inv_def down_inv_def)
qed

definition orderly_schedule :: "lc_act list" where
  "orderly_schedule = [Remover, Remover, Remover, Listener LEnd, Listener LRun, Listener LRun, Remover, Remover]"

theorem removed_peer_is_down_witness:
  "\<exists>s. run_schedule orderly_schedule lc_running = Some s \<and> lc_R s = R_Done \<and> \<not> lc_inmap s \<and> lc_L s = L_Done"
proof -
  obtain s where s: "run_schedule orderly_schedule lc_running = Some s" "lc_R s = R_Done"
    by (simp add: orderly_schedule_def lc_running_def lc_init_def lc_step_def)
  then have "lc_reach lc_running s" using run_schedule_reach [OF lc_reach.init] by blast
  from removed_peer_is_down [OF this] s show ?thesis by blast
qed

section \<open>The amount of work\<close>

text \<open>
  A step function whose states have a potential: every step that changes the state takes one unit from it, except that a step may bring in
  a bounded number of units from outside. Then a schedule has no more changes than the potential of its first state and what came in,
  and an endless run into which nothing comes any more stays where it is from some point on.
\<close>

locale paid_steps =
  fixes step :: "'a \<Rightarrow> 's \<Rightarrow> 's option" and pot :: "'s \<Rightarrow> nat" and gain :: "'a \<Rightarrow> 's \<Rightarrow> nat"
  assumes pays: "step a s = Some t \<Longrightarrow> t \<noteq> s \<Longrightarrow> Suc (pot t) \<le> pot s + gain a s"
begin

fun run :: "'a list \<Rightarrow> 's \<Rightarrow> 's option" where
  "run [] s = Some s"
| "run (a # as) s = (case step a s of None \<Rightarrow> None | Some t \<Rightarrow> run as t)"

fun gains :: "'a list \<Rightarrow> 's \<Rightarrow> nat" where
  "gains [] s = 0"
| "gains (a # as) s = gain a s + (case step a s of None \<Rightarrow> 0 | Some t \<Rightarrow> gains as t)"

fun changes :: "'a list \<Rightarrow> 's \<Rightarrow> nat" where
  "changes [] s = 0"
| "changes (a # as) s = (case step a s of None \<Rightarrow> 0 | Some t \<Rightarrow> (if t = s then 0 else 1) + changes as t)"

lemma work_bounded: "run as s = Some t \<Longrightarrow> changes as s + pot t \<le> pot s + gains as s"
proof (induction as arbitrary: s)
  case (Cons a as)
  then obtain u where u: "step a s = Some u" "run as u = Some t" by (auto split: option.splits)
  with Cons.IH [OF u(2)] pays [OF u(1)] show ?case by (cases "u = s") auto
qed simp

lemma endless_run:
  assumes "\<And>i. step (a i) (s i) = Some (s (Suc i))" "\<And>i. n \<le> i \<Longrightarrow> gain (a i) (s i) = 0"
  shows "\<exists>m \<ge> n. \<forall>i \<ge> m. s i = s m"
  using assms(2)
proof (induction "pot (s n)" arbitrary: n rule: less_induct)
  case less
  show ?case
  proof (cases "\<forall>i \<ge> n. s (Suc i) = s i")
    case True
    have "s i = s n" if "n \<le> i" for i using that by (induction rule: dec_induct) (use True in simp_all)
    then show ?thesis by blast
  next
    case False
    define j where "j = (LEAST i. n \<le> i \<and> s (Suc i) \<noteq> s i)"
    have j: "n \<le> j" "s (Suc j) \<noteq> s j" using False LeastI_ex [of "\<lambda>i. n \<le> i \<and> s (Suc i) \<noteq> s i"] by (auto simp: j_def)
    have before: "s (Suc i) = s i" if "n \<le> i" "i < j" for i using not_less_Least [of i] that unfolding j_def by blast
    have "i \<le> j \<longrightarrow> s i = s n" if "n \<le> i" for i using that by (induction rule: dec_induct) (simp_all add: before)
    then have "s j = s n" using j(1) by blast
    then have "pot (s (Suc j)) < pot (s n)" using pays [OF assms(1) j(2)] less.prems [OF j(1)] by simp
    moreover have "gain (a i) (s i) = 0" if "Suc j \<le> i" for i using less.prems [of i] that j(1) by simp
    ultimately obtain m where m: "Suc j \<le> m" "\<forall>i \<ge> m. s i = s m" using less.hyps [of "Suc j"] by blast
    from m(1) j(1) have "n \<le> m" by simp
    with m(2) show ?thesis by blast
  qed
qed

end

text \<open>The steps that are left of each goroutine; a message that is in hand makes the loop take three more.\<close>

definition lc_pot :: "lc \<Rightarrow> nat" where
  "lc_pot s =
     (case lc_L s of L_Init \<Rightarrow> 4 | L_Select \<Rightarrow> 3 | L_Send \<Rightarrow> 7 | L_Disc \<Rightarrow> 2 | L_CloseExit \<Rightarrow> 1 | L_Done \<Rightarrow> 0) +
     (case lc_S s of S_Recv \<Rightarrow> 0 | S_Lock \<Rightarrow> 3 | S_Locked \<Rightarrow> 2 | S_Handle \<Rightarrow> 1) +
     (case lc_W s of W_Wait \<Rightarrow> 4 | W_Lock _ \<Rightarrow> 3 | W_Locked _ \<Rightarrow> 2 | W_Logout \<Rightarrow> 1 | W_Done \<Rightarrow> 0) +
     (case lc_R s of R_Idle \<Rightarrow> 5 | R_Lock \<Rightarrow> 4 | R_Found \<Rightarrow> 3 | R_WaitExit \<Rightarrow> 2 | R_CloseDisc \<Rightarrow> 1 | R_Done \<Rightarrow> 0) +
     (if lc_ws_open s then 1 else 0) + (if lc_panic s then 0 else 1)"

text \<open>A message comes in: from the websocket of the peer, or from another peer to the loop.\<close>

definition receives :: "lc_act \<Rightarrow> lc \<Rightarrow> bool" where
  "receives a s \<longleftrightarrow> a = Listener LMsg \<or> a = Loop \<and> lc_S s = S_Recv"

lemma lc_step_pays:
  assumes "lc_step a s = Some t" "a \<noteq> Listener LTimer"
  shows "Suc (lc_pot t) \<le> lc_pot s + (if receives a s then 5 else 0)"
proof (cases a)
  case (Listener la)
  with assms show ?thesis
    by (cases la; cases "lc_L s"; cases "lc_W s") (auto simp: lc_step_def lc_pot_def receives_def split: if_splits)
next
  case Loop
  with assms show ?thesis by (cases "lc_S s") (auto simp: lc_step_def lc_pot_def receives_def split: if_splits)
next
  case Watcher
  with assms show ?thesis by (cases "lc_W s") (auto simp: lc_step_def lc_pot_def split: if_splits)
next
  case Remover
  with assms show ?thesis by (cases "lc_R s") (auto simp: lc_step_def lc_pot_def split: if_splits)
next
  case WsEnds
  with assms show ?thesis by (auto simp: lc_step_def lc_pot_def split: if_splits)
qed

lemma lc_step_moves:
  assumes "lc_step a s = Some t" "a \<noteq> Listener LTimer"
  shows "(lc_L t, lc_S t, lc_W t, lc_R t, lc_panic t, lc_ws_open t) \<noteq> (lc_L s, lc_S s, lc_W s, lc_R s, lc_panic s, lc_ws_open s)"
proof (cases a)
  case (Listener la)
  with assms show ?thesis by (cases la; cases "lc_L s") (auto simp: lc_step_def split: if_splits)
next
  case Loop
  with assms show ?thesis by (cases "lc_S s") (auto simp: lc_step_def split: if_splits)
next
  case Watcher
  with assms show ?thesis by (cases "lc_W s") (auto simp: lc_step_def split: if_splits)
next
  case Remover
  with assms show ?thesis by (cases "lc_R s") (auto simp: lc_step_def split: if_splits)
next
  case WsEnds
  with assms show ?thesis by (auto simp: lc_step_def split: if_splits)
qed

lemma lc_step_changes: "lc_step a s = Some t \<Longrightarrow> a \<noteq> Listener LTimer \<Longrightarrow> t \<noteq> s"
  using lc_step_moves by blast

lemma timer_stays: "lc_step (Listener LTimer) s = Some t \<Longrightarrow> t = s"
  by (auto simp: lc_step_def split: if_splits)

interpretation lifecycle: paid_steps lc_step lc_pot "\<lambda>a s. if receives a s then 5 else 0"
  by unfold_locales (use lc_step_pays timer_stays in blast)

lemma lifecycle_run: "lifecycle.run = run_schedule"
proof (intro ext)
  show "lifecycle.run as s = run_schedule as s" for as s by (induction as arbitrary: s) (auto split: option.split)
qed

text \<open>The number of messages that come in on a schedule.\<close>

fun received :: "lc_act list \<Rightarrow> lc \<Rightarrow> nat" where
  "received [] s = 0"
| "received (a # as) s = (if receives a s then 1 else 0) + (case lc_step a s of None \<Rightarrow> 0 | Some t \<Rightarrow> received as t)"

lemma lifecycle_gains: "lifecycle.gains as s = 5 * received as s"
  by (induction as arbitrary: s) (auto split: option.split)

text \<open>The steps of a schedule other than the checks of a connection that is alive.\<close>

definition work :: "lc_act list \<Rightarrow> nat" where
  "work as = length (filter (\<lambda>a. a \<noteq> Listener LTimer) as)"

lemma lifecycle_changes: "run_schedule as s = Some t \<Longrightarrow> lifecycle.changes as s = work as"
proof (induction as arbitrary: s)
  case (Cons a as)
  then obtain u where u: "lc_step a s = Some u" "run_schedule as u = Some t" by (auto split: option.splits)
  have "u = s \<longleftrightarrow> a = Listener LTimer"
  proof
    assume "u = s"
    show "a = Listener LTimer"
    proof (rule ccontr)
      assume "a \<noteq> Listener LTimer"
      then show False using lc_step_changes [OF u(1)] \<open>u = s\<close> by simp
    qed
  qed (use timer_stays u(1) in blast)
  then show ?case using Cons.IH [OF u(2)] u(1) by (simp add: work_def)
qed (simp add: work_def)

text \<open>
  C27: the goroutines around a peer come to rest. From the logon on, no schedule has more than fifteen steps and five steps
  for each message that comes in, when the checks of a live connection are not counted, which the listener makes every second. In an endless
  run into which only finitely many messages come, nothing else happens from some point on than these checks.
\<close>

theorem lifecycle_comes_to_rest:
  "(run_schedule as lc_init = Some t \<longrightarrow> work as \<le> 15 + 5 * received as lc_init) \<and>
   ((\<forall>i. lc_step (a i) (s i) = Some (s (Suc i))) \<longrightarrow> (\<forall>i \<ge> n. \<not> receives (a i) (s i)) \<longrightarrow>
      (\<exists>m. \<forall>i \<ge> m. a i = Listener LTimer \<and> s i = s m))"
proof (intro conjI impI)
  assume "run_schedule as lc_init = Some t"
  then have "work as + lc_pot t \<le> lc_pot lc_init + 5 * received as lc_init"
    using lifecycle.work_bounded lifecycle_changes by (metis lifecycle_run lifecycle_gains)
  then show "work as \<le> 15 + 5 * received as lc_init" by (simp add: lc_pot_def lc_init_def)
next
  assume run: "\<forall>i. lc_step (a i) (s i) = Some (s (Suc i))" and quiet: "\<forall>i \<ge> n. \<not> receives (a i) (s i)"
  then obtain m where m: "\<forall>i \<ge> m. s i = s m" using lifecycle.endless_run [of a s n] by auto
  then have "a i = Listener LTimer" if "m \<le> i" for i
    using lc_step_changes [of "a i" "s i" "s (Suc i)"] run that by (metis le_SucI)
  then show "\<exists>m. \<forall>i \<ge> m. a i = Listener LTimer \<and> s i = s m" using m by blast
qed

text \<open>An endless run: a message is handed on, and then only seconds pass.\<close>

definition quiet_act :: "nat \<Rightarrow> lc_act" where
  "quiet_act i = Listener (if i = 0 then LMsg else if i = 1 then LHand False else LTimer)"

definition quiet_state :: "nat \<Rightarrow> lc" where
  "quiet_state i = lc_init\<lparr>lc_started := True, lc_L := (if i = 1 then L_Send else L_Select)\<rparr>"

lemma quiet_run: "lc_step (quiet_act i) (quiet_state i) = Some (quiet_state (Suc i))"
  by (simp add: lc_step_def quiet_act_def quiet_state_def lc_init_def)

theorem lifecycle_comes_to_rest_witness:
  "(\<exists>s. run_schedule deadlock_schedule lc_init = Some s \<and> work deadlock_schedule \<le> 15 + 5 * received deadlock_schedule lc_init) \<and>
   (\<exists>m. \<forall>i \<ge> m. quiet_act i = Listener LTimer \<and> quiet_state i = quiet_state m)"
proof -
  have "\<not> receives (quiet_act i) (quiet_state i)" if "2 \<le> i" for i using that by (simp add: receives_def quiet_act_def)
  with lifecycle_comes_to_rest [of deadlock_schedule deadlock_state quiet_act quiet_state 2] deadlock_schedule_run quiet_run
  show ?thesis by blast
qed

end
