(* ===== verification/Go_Float64.thy ===== *)
theory Go_Float64
  imports Gw_Prelude
begin

text \<open>
  Go's \<^verbatim>\<open>float64\<close>: IEEE 754 binary64 with rounding to nearest, ties to even. A finite value
  \<open>Fin s m e\<close> is the number \<open>(-1)^s * m * 2^e\<close> in its canonical form (\<open>f64_ok\<close>: a 53-bit
  mantissa, normalised unless the exponent is the least one), so zero has two representations
  that differ in their sign. The operations compute the exact result as a fraction of natural
  numbers and round it once (\<open>round_frac\<close>).

  The lemmas show that every operation returns a canonical value, that rounding never crosses a
  representable number, and from this that adding a non-negative number never decreases a sum.
\<close>

datatype float64 = Fin bool nat int | Inf bool | NaN

section \<open>Rounding\<close>

fun ilog2 :: "nat \<Rightarrow> nat" where
  "ilog2 n = (if n < 2 then 0 else Suc (ilog2 (n div 2)))"

declare ilog2.simps [simp del]

text \<open>The fraction \<open>n / d\<close> divided by \<open>2^e\<close>.\<close>

definition scale :: "nat \<Rightarrow> nat \<Rightarrow> int \<Rightarrow> nat \<times> nat" where
  "scale n d e = (if 0 \<le> e then (n, d * 2 ^ nat e) else (n * 2 ^ nat (- e), d))"

definition frac_log2 :: "nat \<Rightarrow> nat \<Rightarrow> int" where
  "frac_log2 n d =
     (let k = int (ilog2 n) - int (ilog2 d); (a, b) = scale n d k
      in if b \<le> a then k else k - 1)"

definition round_div :: "nat \<Rightarrow> nat \<Rightarrow> nat" where
  "round_div a b =
     (let q = a div b; r = a mod b
      in if 2 * r < b \<or> (2 * r = b \<and> even q) then q else Suc q)"

definition min_exp :: int where "min_exp = - 1074"
definition max_exp :: int where "max_exp = 971"

definition frac_exp :: "nat \<Rightarrow> nat \<Rightarrow> int" where
  "frac_exp n d = max (frac_log2 n d - 52) min_exp"

definition pack :: "bool \<Rightarrow> nat \<Rightarrow> int \<Rightarrow> float64" where
  "pack s m e =
     (let (m', e') = (if m = 2 ^ 53 then (2 ^ 52, e + 1) else (m, e))
      in if e' > max_exp then Inf s else Fin s m' e')"

definition round_frac :: "bool \<Rightarrow> nat \<Rightarrow> nat \<Rightarrow> float64" where
  "round_frac s n d =
     (if n = 0 then Fin s 0 min_exp
      else let e = frac_exp n d; (a, b) = scale n d e in pack s (round_div a b) e)"

text \<open>Rounding of \<open>m * 2^e\<close>.\<close>

definition round_dyadic :: "bool \<Rightarrow> nat \<Rightarrow> int \<Rightarrow> float64" where
  "round_dyadic s m e = (let (n, d) = scale m 1 (- e) in round_frac s n d)"

section \<open>Operations\<close>

definition f64_zero :: float64 where "f64_zero = Fin False 0 min_exp"
definition f64_one :: float64 where "f64_one = Fin False (2 ^ 52) (- 52)"
definition f64_three :: float64 where "f64_three = Fin False (3 * 2 ^ 51) (- 51)"

definition smant :: "bool \<Rightarrow> nat \<Rightarrow> int" where
  "smant s m = (if s then - int m else int m)"

fun f64_neg :: "float64 \<Rightarrow> float64" where
  "f64_neg (Fin s m e) = Fin (\<not> s) m e"
| "f64_neg (Inf s) = Inf (\<not> s)"
| "f64_neg NaN = NaN"

fun f64_add :: "float64 \<Rightarrow> float64 \<Rightarrow> float64" where
  "f64_add (Fin s1 m1 e1) (Fin s2 m2 e2) =
     (let e = min e1 e2;
          v = smant s1 m1 * 2 ^ nat (e1 - e) + smant s2 m2 * 2 ^ nat (e2 - e)
      in if v = 0 then Fin (s1 \<and> s2) 0 min_exp else round_dyadic (v < 0) (nat \<bar>v\<bar>) e)"
| "f64_add (Inf s1) (Inf s2) = (if s1 = s2 then Inf s1 else NaN)"
| "f64_add (Inf s1) (Fin s2 m2 e2) = Inf s1"
| "f64_add (Fin s1 m1 e1) (Inf s2) = Inf s2"
| "f64_add NaN y = NaN"
| "f64_add x NaN = NaN"

fun f64_mul :: "float64 \<Rightarrow> float64 \<Rightarrow> float64" where
  "f64_mul (Fin s1 m1 e1) (Fin s2 m2 e2) = round_dyadic (s1 \<noteq> s2) (m1 * m2) (e1 + e2)"
| "f64_mul (Inf s1) (Inf s2) = Inf (s1 \<noteq> s2)"
| "f64_mul (Inf s1) (Fin s2 m2 e2) = (if m2 = 0 then NaN else Inf (s1 \<noteq> s2))"
| "f64_mul (Fin s1 m1 e1) (Inf s2) = (if m1 = 0 then NaN else Inf (s1 \<noteq> s2))"
| "f64_mul NaN y = NaN"
| "f64_mul x NaN = NaN"

fun f64_div :: "float64 \<Rightarrow> float64 \<Rightarrow> float64" where
  "f64_div (Fin s1 m1 e1) (Fin s2 m2 e2) =
     (if m2 = 0 then (if m1 = 0 then NaN else Inf (s1 \<noteq> s2))
      else let (n, d) = scale m1 m2 (e2 - e1) in round_frac (s1 \<noteq> s2) n d)"
| "f64_div (Inf s1) (Inf s2) = NaN"
| "f64_div (Inf s1) (Fin s2 m2 e2) = Inf (s1 \<noteq> s2)"
| "f64_div (Fin s1 m1 e1) (Inf s2) = Fin (s1 \<noteq> s2) 0 min_exp"
| "f64_div NaN y = NaN"
| "f64_div x NaN = NaN"

text \<open>The comparisons; every comparison with \<open>NaN\<close> is false, and the two zeros are equal.\<close>

fun f64_lt :: "float64 \<Rightarrow> float64 \<Rightarrow> bool" where
  "f64_lt (Fin s1 m1 e1) (Fin s2 m2 e2) =
     (let e = min e1 e2
      in smant s1 m1 * 2 ^ nat (e1 - e) < smant s2 m2 * 2 ^ nat (e2 - e))"
| "f64_lt (Inf s1) (Inf s2) = (s1 \<and> \<not> s2)"
| "f64_lt (Inf s1) (Fin s2 m2 e2) = s1"
| "f64_lt (Fin s1 m1 e1) (Inf s2) = (\<not> s2)"
| "f64_lt NaN y = False"
| "f64_lt x NaN = False"

fun f64_eq :: "float64 \<Rightarrow> float64 \<Rightarrow> bool" where
  "f64_eq (Fin s1 m1 e1) (Fin s2 m2 e2) =
     (let e = min e1 e2
      in smant s1 m1 * 2 ^ nat (e1 - e) = smant s2 m2 * 2 ^ nat (e2 - e))"
| "f64_eq (Inf s1) (Inf s2) = (s1 = s2)"
| "f64_eq _ _ = False"

definition f64_le :: "float64 \<Rightarrow> float64 \<Rightarrow> bool" where
  "f64_le x y \<longleftrightarrow> f64_lt x y \<or> f64_eq x y"

text \<open>The source's \<^verbatim>\<open>if x < 0 { x = -x }\<close>.\<close>

definition f64_abs :: "float64 \<Rightarrow> float64" where
  "f64_abs x = (if f64_lt x f64_zero then f64_neg x else x)"

text \<open>\<^verbatim>\<open>math.Abs\<close> of the standard library, which also clears the sign of a zero.\<close>

fun math_Abs :: "float64 \<Rightarrow> float64" where
  "math_Abs (Fin s m e) = Fin False m e"
| "math_Abs (Inf s) = Inf False"
| "math_Abs NaN = NaN"

text \<open>The conversion \<^verbatim>\<open>int64(x)\<close> truncates towards zero. Go leaves the result open when it does not fit; here it is that of the amd64
  architecture.\<close>

fun f64_to_int64 :: "float64 \<Rightarrow> int" where
  "f64_to_int64 (Fin s m e) =
     (let n = (if 0 \<le> e then int m * 2 ^ nat e else int m div 2 ^ nat (- e)); v = (if s then - n else n)
      in if - (2 ^ 63) \<le> v \<and> v < 2 ^ 63 then v else - (2 ^ 63))"
| "f64_to_int64 _ = - (2 ^ 63)"

text \<open>The float64 nearest to an integer, \<^verbatim>\<open>float64(i)\<close>.\<close>

definition f64_of_int :: "int \<Rightarrow> float64" where
  "f64_of_int i = (if i = 0 then f64_zero else round_frac (i < 0) (nat \<bar>i\<bar>) 1)"

section \<open>Canonical values\<close>

fun f64_ok :: "float64 \<Rightarrow> bool" where
  "f64_ok (Fin s m e) = (m < 2 ^ 53 \<and> min_exp \<le> e \<and> e \<le> max_exp \<and> (2 ^ 52 \<le> m \<or> e = min_exp))"
| "f64_ok (Inf s) = True"
| "f64_ok NaN = True"

fun f64_nonneg :: "float64 \<Rightarrow> bool" where
  "f64_nonneg (Fin s m e) = (f64_ok (Fin s m e) \<and> (s \<longrightarrow> m = 0))"
| "f64_nonneg (Inf s) = (\<not> s)"
| "f64_nonneg NaN = False"

fun f64_finite :: "float64 \<Rightarrow> bool" where
  "f64_finite (Fin s m e) = True"
| "f64_finite _ = False"

section \<open>The value of a fraction and of a finite float\<close>

definition qfrac :: "nat \<Rightarrow> nat \<Rightarrow> rat" where
  "qfrac n d = of_nat n / of_nat d"

fun f64_rat :: "float64 \<Rightarrow> rat" where
  "f64_rat (Fin s m e) = of_int (smant s m) * 2 powi e"
| "f64_rat _ = 0"

lemma ilog2_bounds: "0 < n \<Longrightarrow> 2 ^ ilog2 n \<le> n \<and> n < 2 ^ Suc (ilog2 n)"
proof (induction n rule: ilog2.induct)
  case (1 n)
  show ?case
  proof (cases "n < 2")
    case True
    with "1.prems" have "n = 1" by simp
    then show ?thesis by (simp add: ilog2.simps)
  next
    case False
    then have IH: "2 ^ ilog2 (n div 2) \<le> n div 2" "n div 2 < 2 ^ Suc (ilog2 (n div 2))"
      using "1.IH" by auto
    have "ilog2 n = Suc (ilog2 (n div 2))" using False by (simp add: ilog2.simps [of n])
    with IH show ?thesis by auto
  qed
qed

lemma scale_qfrac:
  assumes "scale n d e = (a, b)" "0 < d"
  shows "0 < b" "qfrac a b = qfrac n d / 2 powi e"
  using assms by (auto simp: scale_def qfrac_def power_int_def field_simps split: if_splits)

lemma qfrac_ge_iff: "0 < b \<Longrightarrow> of_nat k \<le> qfrac a b \<longleftrightarrow> k * b \<le> a"
proof -
  assume "0 < b"
  then have "of_nat k \<le> qfrac a b \<longleftrightarrow> (of_nat (k * b) :: rat) \<le> of_nat a"
    by (simp add: qfrac_def field_simps)
  then show ?thesis by (simp only: of_nat_le_iff)
qed

lemma qfrac_less_iff: "0 < b \<Longrightarrow> qfrac a b < of_nat k \<longleftrightarrow> a < k * b"
  by (metis qfrac_ge_iff linorder_not_le)

lemma qfrac_le_iff: "0 < b \<Longrightarrow> qfrac a b \<le> of_nat k \<longleftrightarrow> a \<le> k * b"
proof -
  assume "0 < b"
  then have "qfrac a b \<le> of_nat k \<longleftrightarrow> (of_nat a :: rat) \<le> of_nat (k * b)"
    by (simp add: qfrac_def field_simps)
  then show ?thesis by (simp only: of_nat_le_iff)
qed

lemma frac_log2_bounds:
  assumes "0 < n" "0 < d"
  shows "2 powi frac_log2 n d \<le> qfrac n d" "qfrac n d < 2 powi (frac_log2 n d + 1)"
proof -
  let ?N = "ilog2 n" and ?D = "ilog2 d"
  let ?k = "int ?N - int ?D"
  obtain a b where ab: "scale n d ?k = (a, b)" by fastforce
  note sc = scale_qfrac [OF ab assms(2)]
  have N: "2 ^ ?N \<le> n" "n < 2 ^ Suc ?N" and D: "2 ^ ?D \<le> d" "d < 2 ^ Suc ?D"
    using ilog2_bounds assms by auto
  have Nr: "(2::rat) ^ ?N \<le> of_nat n" "(of_nat n :: rat) < 2 ^ Suc ?N"
    and Dr: "(2::rat) ^ ?D \<le> of_nat d" "(of_nat d :: rat) < 2 ^ Suc ?D"
    using N D by (metis of_nat_le_iff of_nat_less_iff of_nat_numeral of_nat_power)+
  have up: "qfrac n d < 2 powi (?k + 1)"
  proof -
    have "qfrac n d < 2 ^ Suc ?N / 2 ^ ?D"
      unfolding qfrac_def using Nr Dr by (intro frac_less) auto
    also have "\<dots> = 2 powi (?k + 1)"
      by (simp add: power_int_diff power_int_add field_simps)
    finally show ?thesis .
  qed
  have lo: "2 powi (?k - 1) < qfrac n d"
  proof -
    have "2 powi (int ?N - int (Suc ?D)) = (2::rat) powi (int ?N) / 2 powi (int (Suc ?D))"
      by (rule power_int_diff) simp
    moreover have "?k - 1 = int ?N - int (Suc ?D)" by simp
    ultimately have "2 powi (?k - 1) = (2::rat) powi (int ?N) / 2 powi (int (Suc ?D))"
      by (simp only:)
    also have "\<dots> = 2 ^ ?N / 2 ^ Suc ?D" by (simp only: power_int_of_nat)
    finally have "2 powi (?k - 1) = (2::rat) ^ ?N / 2 ^ Suc ?D" .
    also have "\<dots> < qfrac n d"
      unfolding qfrac_def using Nr Dr assms by (intro frac_less2) auto
    finally show ?thesis .
  qed
  have test: "b \<le> a \<longleftrightarrow> 2 powi ?k \<le> qfrac n d"
  proof -
    have "b \<le> a \<longleftrightarrow> 1 \<le> qfrac a b" using qfrac_ge_iff [OF sc(1), of 1 a] by simp
    also have "\<dots> \<longleftrightarrow> 2 powi ?k \<le> qfrac n d" by (simp add: sc(2) le_divide_eq)
    finally show ?thesis .
  qed
  have "frac_log2 n d = (if b \<le> a then ?k else ?k - 1)"
    by (simp add: frac_log2_def Let_def ab)
  with up lo test show "2 powi frac_log2 n d \<le> qfrac n d" "qfrac n d < 2 powi (frac_log2 n d + 1)"
    by (auto split: if_splits)
qed

section \<open>Rounding is canonical and does not cross a representable number\<close>

lemma round_div_ge: "0 < b \<Longrightarrow> k * b \<le> a \<Longrightarrow> k \<le> round_div a b"
proof -
  assume "0 < b" "k * b \<le> a"
  then have "k \<le> a div b" by (simp add: less_eq_div_iff_mult_less_eq)
  then show ?thesis by (simp add: round_div_def Let_def)
qed

lemma round_div_le: "0 < b \<Longrightarrow> a \<le> k * b \<Longrightarrow> round_div a b \<le> k"
proof -
  assume b: "0 < b" and a: "a \<le> k * b"
  show ?thesis
  proof (cases "a = k * b")
    case True
    with b show ?thesis by (simp add: round_div_def)
  next
    case False
    with a b have "a div b < k" by (simp add: div_less_iff_less_mult)
    then show ?thesis by (simp add: round_div_def Let_def)
  qed
qed

lemma frac_exp_mantissa:
  assumes "0 < n" "0 < d" "scale n d (frac_exp n d) = (a, b)"
  shows "0 < b" "round_div a b \<le> 2 ^ 53"
    "frac_exp n d = min_exp \<or> 2 ^ 52 * b \<le> a" "min_exp \<le> frac_exp n d"
proof -
  let ?e = "frac_exp n d" and ?k = "frac_log2 n d"
  note sc = scale_qfrac [OF assms(3,2)] and lg = frac_log2_bounds [OF assms(1,2)]
  show b: "0 < b" by (rule sc(1))
  show "min_exp \<le> ?e" by (simp add: frac_exp_def)
  have "qfrac a b < 2 powi (?k + 1) / 2 powi ?e"
    using lg(2) by (simp add: sc(2) divide_strict_right_mono)
  also have "\<dots> = 2 powi (?k + 1 - ?e)" by (simp add: power_int_diff)
  also have "\<dots> \<le> 2 powi 53"
    by (rule power_int_increasing) (auto simp: frac_exp_def)
  also have "\<dots> = of_nat (2 ^ 53)" by (simp add: power_int_def)
  finally have "a < 2 ^ 53 * b" using b by (simp only: qfrac_less_iff)
  then show "round_div a b \<le> 2 ^ 53" using b by (intro round_div_le) auto
  show "?e = min_exp \<or> 2 ^ 52 * b \<le> a"
  proof (cases "?e = min_exp")
    case False
    then have "?e = ?k - 52" by (auto simp: frac_exp_def max_def split: if_splits)
    then have "qfrac n d / 2 powi ?e = 2 powi 52 * (qfrac n d / 2 powi ?k)"
      by (simp add: power_int_diff)
    moreover have "2 powi 52 * 1 \<le> 2 powi 52 * (qfrac n d / 2 powi ?k)"
      using lg(1) by (intro mult_left_mono) auto
    ultimately have "2 powi 52 \<le> qfrac a b" by (simp only: sc(2) mult_1_right)
    moreover have "(2::rat) powi 52 = of_nat (2 ^ 52)" by (simp add: power_int_def)
    ultimately have "2 ^ 52 * b \<le> a" using b by (simp only: qfrac_ge_iff)
    then show ?thesis ..
  qed simp
qed

lemma round_frac_ok: "0 < d \<Longrightarrow> f64_ok (round_frac s n d)"
proof (cases "n = 0")
  case True
  then show ?thesis by (simp add: round_frac_def min_exp_def max_exp_def)
next
  case False
  assume d: "0 < d"
  obtain a b where ab: "scale n d (frac_exp n d) = (a, b)" by fastforce
  note fm = frac_exp_mantissa [OF _ d ab]
  have "2 ^ 52 * b \<le> a \<Longrightarrow> 2 ^ 52 \<le> round_div a b"
    using fm(1) False by (intro round_div_ge) auto
  with fm False show ?thesis
    by (auto simp: round_frac_def pack_def ab Let_def)
qed

lemma round_dyadic_ok: "f64_ok (round_dyadic s m e)"
  by (auto simp: round_dyadic_def scale_def intro!: round_frac_ok split: prod.splits if_splits)

lemma f64_ok_zero [simp]: "f64_ok f64_zero"
  by (simp add: f64_zero_def min_exp_def max_exp_def)

lemma f64_ok_neg [simp]: "f64_ok (f64_neg x) = f64_ok x"
  by (cases x) auto

lemma f64_ok_add: "f64_ok (f64_add x y)"
  by (cases "(x, y)" rule: f64_add.cases)
     (auto simp: round_dyadic_ok Let_def min_exp_def max_exp_def)

lemma f64_ok_mul: "f64_ok (f64_mul x y)"
  by (cases "(x, y)" rule: f64_mul.cases) (auto simp: round_dyadic_ok)

lemma f64_ok_div: "f64_ok (f64_div x y)"
  by (cases "(x, y)" rule: f64_div.cases)
     (auto simp: scale_def min_exp_def max_exp_def intro!: round_frac_ok split: prod.splits if_splits)

lemmas f64_ok_ops = f64_ok_add f64_ok_mul f64_ok_div

section \<open>Order\<close>

lemma powi_split: "e \<le> e1 \<Longrightarrow> (2::rat) powi e1 = 2 ^ nat (e1 - e) * 2 powi e"
  using power_int_add [of "2::rat" "e1 - e" e] by (simp add: power_int_def)

lemma f64_rat_scaled:
  "e \<le> e1 \<Longrightarrow> f64_rat (Fin s m e1) = of_int (smant s m * 2 ^ nat (e1 - e)) * 2 powi e"
  by (simp add: powi_split [of e e1])

lemma f64_lt_rat [simp]:
  "f64_lt (Fin s1 m1 e1) (Fin s2 m2 e2) \<longleftrightarrow> f64_rat (Fin s1 m1 e1) < f64_rat (Fin s2 m2 e2)"
  using f64_rat_scaled [of "min e1 e2" e1 s1 m1] f64_rat_scaled [of "min e1 e2" e2 s2 m2]
  by (simp add: Let_def del: f64_rat.simps of_int_mult)

lemma f64_eq_rat [simp]:
  "f64_eq (Fin s1 m1 e1) (Fin s2 m2 e2) \<longleftrightarrow> f64_rat (Fin s1 m1 e1) = f64_rat (Fin s2 m2 e2)"
  using f64_rat_scaled [of "min e1 e2" e1 s1 m1] f64_rat_scaled [of "min e1 e2" e2 s2 m2]
  by (simp add: Let_def del: f64_rat.simps of_int_mult)

declare f64_lt.simps(1) [simp del] f64_eq.simps(1) [simp del]

lemma f64_le_rat [simp]:
  "f64_le (Fin s1 m1 e1) (Fin s2 m2 e2) \<longleftrightarrow> f64_rat (Fin s1 m1 e1) \<le> f64_rat (Fin s2 m2 e2)"
  by (auto simp: f64_le_def simp del: f64_rat.simps)

lemma f64_le_Inf [simp]: "x \<noteq> NaN \<Longrightarrow> f64_le x (Inf False)"
  by (cases x) (auto simp: f64_le_def)

lemma f64_le_trans: "f64_le x y \<Longrightarrow> f64_le y z \<Longrightarrow> f64_le x z"
  by (cases x; cases y; cases z) (auto simp: f64_le_def simp del: f64_rat.simps)

lemma f64_lt_le_trans: "f64_lt x y \<Longrightarrow> f64_le y z \<Longrightarrow> f64_lt x z"
  by (cases x; cases y; cases z) (auto simp: f64_le_def simp del: f64_rat.simps)

lemma f64_le_refl: "x \<noteq> NaN \<Longrightarrow> f64_le x x"
  by (cases x) (auto simp: f64_le_def)

text \<open>A representable number below a fraction is below its rounding.\<close>

lemma pack_ge:
  assumes "f64_rat (Fin False m e) \<le> f64_rat (Fin False m' e')"
  shows "f64_le (Fin False m e) (pack False m' e')"
proof (cases "m' = 2 ^ 53")
  case True
  have "f64_rat (Fin False (2 ^ 52) (e' + 1)) = f64_rat (Fin False m' e')"
    by (simp add: True smant_def power_int_add)
  with assms True show ?thesis by (auto simp: pack_def simp del: f64_rat.simps)
next
  case False
  with assms show ?thesis by (auto simp: pack_def simp del: f64_rat.simps)
qed

lemma round_frac_ge:
  assumes ok: "f64_ok (Fin False m e)" and d: "0 < d" and n: "0 < n"
    and le: "f64_rat (Fin False m e) \<le> qfrac n d"
  shows "f64_le (Fin False m e) (round_frac False n d)"
proof -
  let ?E = "frac_exp n d"
  obtain a b where ab: "scale n d ?E = (a, b)" by fastforce
  note fm = frac_exp_mantissa [OF n d ab] and sc = scale_qfrac [OF ab d]
  have "f64_rat (Fin False m e) \<le> f64_rat (Fin False (round_div a b) ?E)"
  proof (cases "?E \<le> e")
    case True
    let ?k = "m * 2 ^ nat (e - ?E)"
    have v: "f64_rat (Fin False m e) = of_nat ?k * 2 powi ?E"
      using f64_rat_scaled [OF True, of False m] by (simp add: smant_def)
    with le have "of_nat ?k \<le> qfrac a b" by (simp add: sc(2) le_divide_eq)
    then have "?k * b \<le> a" using fm(1) by (simp only: qfrac_ge_iff)
    then have "?k \<le> round_div a b" using fm(1) by (intro round_div_ge)
    then have "of_nat ?k * (2::rat) powi ?E \<le> of_nat (round_div a b) * 2 powi ?E"
      by (intro mult_right_mono) (simp_all only: of_nat_le_iff, simp)
    moreover have "f64_rat (Fin False (round_div a b) ?E) = of_nat (round_div a b) * 2 powi ?E"
      by (simp add: smant_def)
    ultimately show ?thesis by (simp only: v)
  next
    case False
    then have "?E \<noteq> min_exp" using ok by auto
    with fm have "2 ^ 52 \<le> round_div a b" by (intro round_div_ge) auto
    then have "(of_nat (2 ^ 52) :: rat) \<le> of_nat (round_div a b)" by (simp only: of_nat_le_iff)
    then have big: "2 powi 52 * 2 powi ?E \<le> f64_rat (Fin False (round_div a b) ?E)"
      by (simp add: smant_def)
    have "m \<le> 2 ^ 53" using ok by simp
    then have "(of_nat m :: rat) \<le> of_nat (2 ^ 53)" by (simp only: of_nat_le_iff)
    then have "f64_rat (Fin False m e) \<le> 2 powi 53 * 2 powi e" by (simp add: smant_def)
    also have "\<dots> = 2 powi (53 + e)" by (simp add: power_int_add)
    also have "\<dots> \<le> 2 powi (52 + ?E)" using False by (intro power_int_increasing) auto
    also have "\<dots> = 2 powi 52 * 2 powi ?E" by (simp add: power_int_add)
    finally show ?thesis using big by (rule order_trans)
  qed
  then have "f64_le (Fin False m e) (pack False (round_div a b) ?E)" by (rule pack_ge)
  then show ?thesis using n by (simp add: round_frac_def ab)
qed

lemma round_dyadic_frac:
  obtains n d where "round_dyadic s m e = round_frac s n d" "0 < d" "qfrac n d = of_nat m * 2 powi e"
    "n = 0 \<longleftrightarrow> m = 0"
proof -
  obtain n d where nd: "scale m 1 (- e) = (n, d)" by fastforce
  note sc = scale_qfrac [OF nd]
  have "qfrac n d = of_nat m * 2 powi e"
    using sc(2) by (simp add: qfrac_def power_int_minus field_simps)
  moreover have "n = 0 \<longleftrightarrow> m = 0" using nd by (auto simp: scale_def split: if_splits)
  ultimately show thesis using that [of n d] sc(1) nd by (simp add: round_dyadic_def)
qed

section \<open>Sums of non-negative numbers\<close>

lemma f64_nonneg_zero [simp]: "f64_nonneg f64_zero"
  by (simp add: f64_zero_def min_exp_def max_exp_def)

lemma round_frac_nonneg: "0 < d \<Longrightarrow> f64_nonneg (round_frac False n d)"
  using round_frac_ok [of d False n]
  by (auto simp: round_frac_def pack_def Let_def split: prod.splits if_splits)

lemma round_dyadic_nonneg: "f64_nonneg (round_dyadic False m e)"
  by (metis round_dyadic_frac round_frac_nonneg)

lemma f64_nonneg_add: "f64_nonneg x \<Longrightarrow> f64_nonneg y \<Longrightarrow> f64_nonneg (f64_add x y)"
proof (cases "(x, y)" rule: f64_add.cases)
  case (1 s1 m1 e1 s2 m2 e2)
  assume nn: "f64_nonneg x" "f64_nonneg y"
  let ?v = "smant s1 m1 * 2 ^ nat (e1 - min e1 e2) + smant s2 m2 * 2 ^ nat (e2 - min e1 e2)"
  have "0 \<le> ?v" using 1 nn by (auto simp: smant_def)
  then show ?thesis using 1 round_dyadic_nonneg by (auto simp: Let_def min_exp_def max_exp_def)
qed auto

lemma f64_add_ge_left:
  assumes x: "f64_nonneg x" and y: "f64_nonneg y"
  shows "f64_le x (f64_add x y)"
proof (cases "(x, y)" rule: f64_add.cases)
  case (1 s1 m1 e1 s2 m2 e2)
  let ?e = "min e1 e2"
  let ?v = "smant s1 m1 * 2 ^ nat (e1 - ?e) + smant s2 m2 * 2 ^ nat (e2 - ?e)"
  have sum: "of_int ?v * 2 powi ?e = f64_rat (Fin s1 m1 e1) + f64_rat (Fin s2 m2 e2)"
    using f64_rat_scaled [of ?e e1 s1 m1] f64_rat_scaled [of ?e e2 s2 m2]
    by (simp only: min.cobounded1 min.cobounded2 of_int_add distrib_right)
  have x': "f64_rat (Fin s1 m1 e1) = f64_rat (Fin False m1 e1)"
    and y': "0 \<le> f64_rat (Fin s2 m2 e2)"
    and pos: "0 \<le> ?v" and ok: "f64_ok (Fin False m1 e1)"
    using 1 x y by (auto simp: smant_def)
  have ge: "f64_rat (Fin False m1 e1) \<le> of_int ?v * 2 powi ?e"
    using y' by (simp only: sum x' le_add_same_cancel1)
  show ?thesis
  proof (cases "?v = 0")
    case True
    then have "f64_rat (Fin s1 m1 e1) \<le> 0" using ge x' by (simp only: of_int_0 mult_zero_left)
    moreover have "f64_add x y = Fin (s1 \<and> s2) 0 min_exp" using 1 True by (simp add: Let_def)
    ultimately show ?thesis using 1 by (simp add: smant_def)
  next
    case False
    obtain n d where nd: "round_dyadic False (nat ?v) ?e = round_frac False n d" "0 < d"
      "qfrac n d = of_nat (nat ?v) * 2 powi ?e" "n = 0 \<longleftrightarrow> nat ?v = 0"
      by (rule round_dyadic_frac)
    have "f64_le (Fin False m1 e1) (round_frac False n d)"
      using round_frac_ge [OF ok nd(2)] nd(3,4) ge pos False by simp
    moreover have "f64_add x y = round_frac False n d"
      using 1 False pos nd(1) by (simp add: Let_def)
    ultimately show ?thesis using x' 1
      by (cases "round_frac False n d") (auto simp: f64_le_def simp del: f64_rat.simps)
  qed
qed (use x y in auto)

lemma f64_nonneg_abs: "f64_ok x \<Longrightarrow> x \<noteq> NaN \<Longrightarrow> f64_nonneg (f64_abs x)"
  by (cases x)
     (auto simp: f64_abs_def f64_zero_def smant_def mult_less_0_iff not_less [symmetric]
       dest: order.strict_trans [OF _ zero_less_power_int [of "2::rat"]])

lemma f64_nonneg_not_NaN: "f64_nonneg x \<Longrightarrow> x \<noteq> NaN"
  by auto

section \<open>Running totals\<close>

text \<open>A running total of non-negative amounts, for any addition that rounds without going below
  its left argument: it stays non-negative and never decreases.\<close>

locale running_total =
  fixes nonneg :: "'q \<Rightarrow> bool" and zero :: 'q and plus :: "'q \<Rightarrow> 'q \<Rightarrow> 'q" and le :: "'q \<Rightarrow> 'q \<Rightarrow> bool"
  assumes nonneg_zero: "nonneg zero"
    and nonneg_plus: "nonneg x \<Longrightarrow> nonneg y \<Longrightarrow> nonneg (plus x y)"
    and plus_ge: "nonneg x \<Longrightarrow> nonneg y \<Longrightarrow> le x (plus x y)"
    and le_refl: "nonneg x \<Longrightarrow> le x x"
    and le_trans: "le x y \<Longrightarrow> le y z \<Longrightarrow> le x z"
begin

lemma total_nonneg: "nonneg a \<Longrightarrow> \<forall>x \<in> set xs. nonneg (f x) \<Longrightarrow> nonneg (foldl (\<lambda>q x. plus q (f x)) a xs)"
  by (induction xs arbitrary: a) (auto intro: nonneg_plus)

lemma total_ge_start:
  "nonneg a \<Longrightarrow> \<forall>x \<in> set xs. nonneg (f x) \<Longrightarrow> le a (foldl (\<lambda>q x. plus q (f x)) a xs)"
proof (induction xs arbitrary: a)
  case Nil
  then show ?case by (simp add: le_refl)
next
  case (Cons x xs)
  then have "le (plus a (f x)) (foldl (\<lambda>q x. plus q (f x)) (plus a (f x)) xs)"
    by (simp add: nonneg_plus)
  with Cons.prems show ?case using plus_ge [of a "f x"] le_trans by auto
qed

lemma total_mono:
  "\<forall>x \<in> set (xs @ ys). nonneg (f x) \<Longrightarrow>
   le (foldl (\<lambda>q x. plus q (f x)) zero xs) (foldl (\<lambda>q x. plus q (f x)) zero (xs @ ys))"
  using total_ge_start [of "foldl (\<lambda>q x. plus q (f x)) zero xs" ys f]
    total_nonneg [OF nonneg_zero, of xs f] by simp

end

interpretation f64_total: running_total f64_nonneg f64_zero f64_add f64_le
  by unfold_locales
     (auto intro: f64_nonneg_add f64_add_ge_left f64_le_refl f64_nonneg_not_NaN f64_le_trans)

declare ilog2.simps [evals] scale_def [evals] frac_log2_def [evals] round_div_def [evals]
  min_exp_def [evals] max_exp_def [evals] frac_exp_def [evals] pack_def [evals]
  round_frac_def [evals] round_dyadic_def [evals] f64_zero_def [evals] smant_def [evals]
  f64_abs_def [evals] f64_of_int_def [evals]

text \<open>From \<open>2^1024\<close> on, rounding gives an infinity.\<close>

lemma round_frac_overflow:
  assumes "2 ^ 1024 \<le> n"
  shows "round_frac s n 1 = Inf s"
proof -
  have n: "0 < n" using assms by (metis less_le_trans zero_less_numeral zero_less_power)
  have "1024 \<le> frac_log2 n 1"
  proof (rule ccontr)
    assume "\<not> 1024 \<le> frac_log2 n 1"
    then have "(2::rat) powi (frac_log2 n 1 + 1) \<le> 2 powi (int 1024)" by (intro power_int_increasing) auto
    also have "\<dots> = of_nat (2 ^ 1024)" unfolding power_int_of_nat by (simp only: of_nat_power of_nat_numeral)
    also have "\<dots> \<le> qfrac n 1" using assms unfolding qfrac_def by (simp only: of_nat_1 div_by_1 of_nat_le_iff)
    finally show False using frac_log2_bounds(2) [OF n zero_less_one] by simp
  qed
  then have e: "max_exp < frac_exp n 1" by (simp add: frac_exp_def max_exp_def)
  obtain a b where ab: "scale n 1 (frac_exp n 1) = (a, b)" by fastforce
  have "pack s m (frac_exp n 1) = Inf s" for m using e by (simp add: pack_def)
  then show ?thesis using n by (simp add: round_frac_def ab)
qed

text \<open>Below \<open>2^1023\<close>, it does not.\<close>

lemma round_frac_finite:
  assumes "n < 2 ^ 1023" "0 < n"
  shows "f64_finite (round_frac s n 1)"
proof -
  have "frac_log2 n 1 < 1023"
  proof (rule ccontr)
    assume "\<not> frac_log2 n 1 < 1023"
    then have "(2::rat) powi (int 1023) \<le> 2 powi (frac_log2 n 1)" by (intro power_int_increasing) auto
    also have "\<dots> \<le> qfrac n 1" using frac_log2_bounds(1) [OF assms(2) zero_less_one] .
    also have "\<dots> < of_nat (2 ^ 1023)" using assms(1) unfolding qfrac_def by (simp only: of_nat_1 div_by_1 of_nat_less_iff)
    finally show False unfolding power_int_of_nat by (simp only: of_nat_power of_nat_numeral)
  qed
  then have e: "frac_exp n 1 + 1 \<le> max_exp" by (simp add: frac_exp_def max_exp_def min_exp_def)
  obtain a b where ab: "scale n 1 (frac_exp n 1) = (a, b)" by fastforce
  have "f64_finite (pack s m (frac_exp n 1))" for m using e by (simp add: pack_def)
  then show ?thesis using assms(2) by (simp add: round_frac_def Let_def case_prod_beta)
qed

section \<open>Rounding is exact on representable numbers\<close>

lemma powi2_less: "(2::rat) powi a < 2 powi b \<longleftrightarrow> a < b"
  by (metis linorder_not_le order_less_irrefl one_le_numeral power_int_increasing order.strict_trans2 power_int_strict_increasing one_less_numeral_iff semiring_norm(76))

lemma frac_exp_float:
  assumes "f64_ok (Fin s m e)" "0 < d" "0 < n" "qfrac n d = of_nat m * 2 powi e"
  shows "frac_exp n d = e"
proof -
  note lg = frac_log2_bounds [OF assms(3,2), unfolded assms(4)]
  let ?l = "frac_log2 n d"
  have "(of_nat m :: rat) < 2 ^ 53" using assms(1) by (metis f64_ok.simps(1) of_nat_less_iff of_nat_numeral of_nat_power)
  then have "of_nat m * 2 powi e < (2::rat) powi (53 + e)" by (simp add: power_int_add)
  then have "(2::rat) powi ?l < 2 powi (53 + e)" using lg(1) by simp
  then have up: "?l < 53 + e" by (simp add: powi2_less)
  show ?thesis
  proof (cases "e = min_exp")
    case True
    with up show ?thesis by (simp add: frac_exp_def)
  next
    case False
    then have "(2 ^ 52 :: rat) \<le> of_nat m" using assms(1) by (metis f64_ok.simps(1) of_nat_le_iff of_nat_numeral of_nat_power)
    then have "(2::rat) powi (52 + e) \<le> of_nat m * 2 powi e" by (simp add: power_int_add)
    then have "(2::rat) powi (52 + e) < 2 powi (?l + 1)" using lg(2) by simp
    then have "?l = 52 + e" using up by (simp only: powi2_less)
    with assms(1) show ?thesis by (simp add: frac_exp_def)
  qed
qed

lemma round_frac_float:
  assumes "f64_ok (Fin s m e)" "0 < m" "0 < d" "qfrac n d = of_nat m * 2 powi e"
  shows "round_frac s n d = Fin s m e"
proof -
  have n: "0 < n" using assms(2-4) by (cases n) (auto simp: qfrac_def)
  obtain a b where ab: "scale n d e = (a, b)" by fastforce
  note sc = scale_qfrac [OF ab assms(3)]
  have "qfrac a b = of_nat m" using sc(2) assms(4) by simp
  then have "a = m * b" using qfrac_le_iff [OF sc(1), of a m] qfrac_ge_iff [OF sc(1), of m a] by simp
  then have "round_div a b = m" using sc(1) by (simp add: round_div_def)
  then show ?thesis
    using n assms(1) by (simp add: round_frac_def frac_exp_float [OF assms(1,3) n assms(4)] ab pack_def)
qed

lemma round_dyadic_float:
  assumes "f64_ok (Fin s m e)" "0 < m" "of_nat k * 2 powi i = (of_nat m * 2 powi e :: rat)"
  shows "round_dyadic s k i = Fin s m e"
proof -
  obtain n d where "round_dyadic s k i = round_frac s n d" "0 < d" "qfrac n d = of_nat k * 2 powi i"
    using round_dyadic_frac by blast
  with round_frac_float [OF assms(1,2)] assms(3) show ?thesis by simp
qed

lemma f64_add_zero_left:
  assumes "f64_ok (Fin False m e)" "0 < m"
  shows "f64_add f64_zero (Fin False m e) = Fin False m e"
proof -
  have "min_exp \<le> e" using assms(1) by simp
  then have "of_nat (m * 2 ^ nat (e - min_exp)) * 2 powi min_exp = (of_nat m * 2 powi e :: rat)"
    by (simp add: powi_split [of min_exp e])
  moreover have "\<not> int m * 2 ^ nat (e - min_exp) < 0" by (simp add: not_less)
  ultimately show ?thesis
    using round_dyadic_float [OF assms, of "m * 2 ^ nat (e - min_exp)" min_exp] assms(2) \<open>min_exp \<le> e\<close>
    by (simp add: f64_zero_def smant_def min_def nat_mult_distrib nat_power_eq Let_def)
qed

lemma f64_ok_samples: "f64_ok f64_one" "f64_ok f64_three"
  by (simp_all add: f64_one_def f64_three_def min_exp_def max_exp_def)

lemma f64_sample_sums: "f64_add f64_zero f64_one = f64_one" "f64_add f64_zero f64_three = f64_three"
  using f64_add_zero_left f64_ok_samples by (simp_all add: f64_one_def f64_three_def)

lemma f64_three_times_one: "f64_mul f64_three f64_one = f64_three"
proof -
  have "of_nat (3 * 2 ^ 51 * 2 ^ 52) * 2 powi (- 103) = (of_nat (3 * 2 ^ 51) * 2 powi (- 51) :: rat)"
    using power_int_add [of "2::rat" 52 "- 103"] by simp
  from round_dyadic_float [OF f64_ok_samples(2) [unfolded f64_three_def] _ this]
  show ?thesis by (simp add: f64_one_def f64_three_def)
qed

lemma f64_three_over_one: "f64_div f64_three f64_one = f64_three"
  by (simp add: f64_one_def f64_three_def evals)

end
