(* ===== verification/Go_Decimal.thy ===== *)
theory Go_Decimal
  imports Go_Float64
begin

text \<open>
  The arbitrary-precision decimals the gateway computes quantities and prices with
  (\<^verbatim>\<open>vendor/github.com/shopspring/decimal\<close>): the record \<open>Decimal\<close> is \<open>value * 10^exp\<close>. Modelled are the
  operations the gateway calls: parsing (\<open>NewFromString\<close>), the conversion from a float
  (\<open>NewFromFloat\<close>, which looks for the shortest digit string and panics on infinities and NaN), the
  conversion to a float, subtraction, comparison and printing with a fixed number of places.

  \<open>dec_rat\<close> gives a decimal its value; the lemmas state that subtraction and comparison are exact
  and that what \<open>StringFixed\<close> prints is read back by \<open>NewFromString\<close> with the same value.
\<close>

record Decimal =
  dec_value :: int
  dec_exp :: int

definition mk_dec :: "int \<Rightarrow> int \<Rightarrow> Decimal" where
  "mk_dec v e = \<lparr>dec_value = v, dec_exp = e\<rparr>"

definition dec_zero :: Decimal where
  "dec_zero = mk_dec 0 1"

definition rescale :: "Decimal \<Rightarrow> int \<Rightarrow> Decimal" where
  "rescale d e =
     (let p = 10 ^ nat \<bar>e - dec_exp d\<bar>
      in if e > dec_exp d then mk_dec (quo (dec_value d) p) e
         else if e < dec_exp d then mk_dec (dec_value d * p) e
         else mk_dec (dec_value d) e)"

definition dec_sub :: "Decimal \<Rightarrow> Decimal \<Rightarrow> Decimal" where
  "dec_sub d d2 =
     (let base = min (dec_exp d) (dec_exp d2)
      in mk_dec (dec_value (rescale d base) - dec_value (rescale d2 base)) base)"

definition dec_cmp :: "Decimal \<Rightarrow> Decimal \<Rightarrow> int" where
  "dec_cmp d d2 =
     (if dec_exp d = dec_exp d2 then sgn (dec_value d - dec_value d2)
      else let base = min (dec_exp d) (dec_exp d2)
           in sgn (dec_value (rescale d base) - dec_value (rescale d2 base)))"

section \<open>Printing\<close>

definition dec_round :: "Decimal \<Rightarrow> int \<Rightarrow> Decimal" where
  "dec_round d places =
     (let ret = rescale d (- places - 1);
          v = (if dec_value ret < 0 then dec_value ret - 5 else dec_value ret + 5);
          q = v div 10; m = v mod 10
      in mk_dec (if q < 0 \<and> m \<noteq> 0 then q + 1 else q) (dec_exp ret + 1))"

text \<open>The digits of \<open>n\<close> before and after the decimal point, \<open>k\<close> of them after it: the substrings
  \<^verbatim>\<open>intPart\<close> and \<^verbatim>\<open>fractionalPart\<close> of \<^verbatim>\<open>Decimal.string\<close>.\<close>

definition split_digits :: "nat \<Rightarrow> nat \<Rightarrow> string \<times> string" where
  "split_digits n k =
     (let str = nat_str n
      in if length str > k then (take (length str - k) str, drop (length str - k) str)
         else (''0'', replicate (k - length str) CHR ''0'' @ str))"

definition dec_string :: "Decimal \<Rightarrow> string" where
  "dec_string d =
     (if dec_exp d \<ge> 0 then FormatInt (dec_value (rescale d 0))
      else let (ip, fp) = split_digits (nat \<bar>dec_value d\<bar>) (nat (- dec_exp d));
               number = (if fp = [] then ip else ip @ ''.'' @ fp)
           in if dec_value d < 0 then ''-'' @ number else number)"

definition StringFixed :: "Decimal \<Rightarrow> int \<Rightarrow> string" where
  "StringFixed d places = dec_string (dec_round d places)"

section \<open>Parsing\<close>

fun trim_right0 :: "string \<Rightarrow> string" where
  "trim_right0 [] = []"
| "trim_right0 (c # s) =
     (let t = trim_right0 s in if t = [] \<and> c = CHR ''0'' then [] else c # t)"

text \<open>\<^verbatim>\<open>big.Int.SetString(s, 10)\<close>.\<close>

definition big_SetString :: "string \<Rightarrow> int option" where
  "big_SetString s =
     (let (neg, t) = parse_sign s
      in map_option (\<lambda>n. if neg then - int n else int n) (parse_nat t))"

definition int32_ok :: "int \<Rightarrow> bool" where
  "int32_ok i \<longleftrightarrow> - 2147483648 \<le> i \<and> i \<le> 2147483647"

text \<open>\<^verbatim>\<open>strings.IndexAny(value, "Ee")\<close> and the two halves around it.\<close>

definition is_e :: "char \<Rightarrow> bool" where
  "is_e c \<longleftrightarrow> c = CHR ''E'' \<or> c = CHR ''e''"

definition NewFromString :: "string \<Rightarrow> Decimal res" where
  "NewFromString s =
     (let value = takeWhile (\<lambda>c. \<not> is_e c) s;
          rest = dropWhile (\<lambda>c. \<not> is_e c) s;
          expo = (if rest = [] then Some 0
                  else case big_SetString (tl rest) of
                         None \<Rightarrow> None | Some i \<Rightarrow> if int32_ok i then Some i else None)
      in case expo of
           None \<Rightarrow> Inl (''can't convert '' @ s @ '' to decimal: exponent is not numeric'')
         | Some ex \<Rightarrow>
             (case split_on CHR ''.'' value of
                [p] \<Rightarrow> (case big_SetString value of
                         None \<Rightarrow> Inl (''can't convert '' @ value @ '' to decimal'')
                       | Some v \<Rightarrow> Inr (mk_dec v ex))
              | [p, q] \<Rightarrow>
                  (let dp = trim_right0 q; ex' = ex - int (length dp)
                   in case big_SetString (p @ dp) of
                        None \<Rightarrow> Inl (''can't convert '' @ value @ '' to decimal'')
                      | Some v \<Rightarrow> if int32_ok ex' then Inr (mk_dec v ex')
                                  else Inl (''can't convert '' @ s @ '' to decimal: fractional part too long''))
              | _ \<Rightarrow> Inl (''can't convert '' @ value @ '' to decimal: too many .s'')))"

section \<open>Conversion to and from floats\<close>

text \<open>\<^verbatim>\<open>Decimal.Float64\<close>: the nearest float64.\<close>

definition dec_Float64 :: "Decimal \<Rightarrow> float64" where
  "dec_Float64 d =
     (if dec_exp d \<le> 0 then round_frac (dec_value d < 0) (nat \<bar>dec_value d\<bar>) (10 ^ nat (- dec_exp d))
      else round_frac (dec_value d < 0) (nat \<bar>dec_value d\<bar> * 10 ^ nat (dec_exp d)) 1)"

text \<open>
  The digit strings of \<^verbatim>\<open>decimal-go.go\<close>: digits, most significant first and without trailing
  zeros, and the position \<open>dp\<close> of the decimal point. \<open>assign_shift m e\<close> is \<^verbatim>\<open>Assign(m)\<close> followed by
  \<^verbatim>\<open>Shift(e)\<close>, the exact decimal expansion of \<open>m * 2^e\<close>.
\<close>

fun nat_digits :: "nat \<Rightarrow> nat list" where
  "nat_digits n = (if n < 10 then [n] else nat_digits (n div 10) @ [n mod 10])"

declare nat_digits.simps [simp del]

definition trim_zeros :: "nat list \<Rightarrow> nat list" where
  "trim_zeros ds = rev (dropWhile (\<lambda>d. d = 0) (rev ds))"

definition assign_shift :: "nat \<Rightarrow> int \<Rightarrow> nat list \<times> int" where
  "assign_shift m e =
     (let ds = nat_digits (if 0 \<le> e then m * 2 ^ nat e else m * 5 ^ nat (- e))
      in (trim_zeros ds, int (length ds) + min e 0))"

definition round_down :: "nat list \<times> int \<Rightarrow> nat \<Rightarrow> nat list \<times> int" where
  "round_down d nd = (if nd \<ge> length (fst d) then d else (trim_zeros (take nd (fst d)), snd d))"

definition round_up :: "nat list \<times> int \<Rightarrow> nat \<Rightarrow> nat list \<times> int" where
  "round_up d nd =
     (if nd \<ge> length (fst d) then d
      else case dropWhile (\<lambda>c. c = 9) (rev (take nd (fst d))) of
             [] \<Rightarrow> ([1], snd d + 1)
           | c # cs \<Rightarrow> (rev (Suc c # cs), snd d))"

definition should_round_up :: "nat list \<Rightarrow> nat \<Rightarrow> bool" where
  "should_round_up ds nd =
     (if nd \<ge> length ds then False
      else if ds ! nd = 5 \<and> nd + 1 = length ds then nd > 0 \<and> odd (ds ! (nd - 1))
      else ds ! nd \<ge> 5)"

definition digit_at :: "nat list \<Rightarrow> nat \<Rightarrow> nat" where
  "digit_at ds i = (if i < length ds then ds ! i else 0)"

function shortest_loop :: "nat list \<times> int \<Rightarrow> nat list \<Rightarrow> nat list \<Rightarrow> bool \<Rightarrow> nat \<Rightarrow> nat list \<times> int" where
  "shortest_loop d lo up incl i =
     (if i \<ge> length (fst d) then d
      else let l = digit_at lo i; m = digit_at (fst d) i; u = digit_at up i;
               okdown = (l \<noteq> m \<or> incl \<and> i + 1 = length lo);
               okup = (m \<noteq> u \<and> (incl \<or> m + 1 < u \<or> i + 1 < length up))
           in if okdown \<and> okup then
                (if should_round_up (fst d) (i + 1) then round_up d (i + 1) else round_down d (i + 1))
              else if okdown then round_down d (i + 1)
              else if okup then round_up d (i + 1)
              else shortest_loop d lo up incl (i + 1))"
  by pat_completeness auto
termination
  by (relation "measure (\<lambda>(d, lo, up, incl, i). length (fst d) - i)") auto

declare shortest_loop.simps [simp del]

text \<open>\<^verbatim>\<open>roundShortest\<close>, for a mantissa \<open>m\<close> and the exponent \<open>e\<close> of its last bit
  (\<^verbatim>\<open>exp - mantbits\<close> in the source).\<close>

definition roundShortest :: "nat \<Rightarrow> int \<Rightarrow> nat list \<times> int" where
  "roundShortest m e =
     (let d = assign_shift m e
      in if m = 0 then ([], snd d)
         else if e > min_exp \<and> 332 * (snd d - int (length (fst d))) \<ge> 100 * e then d
         else let up = assign_shift (2 * m + 1) (e - 1);
                  (mlo, elo) = (if m > 2 ^ 52 \<or> e = min_exp then (m - 1, e) else (2 * m - 1, e - 1));
                  lo = assign_shift (2 * mlo + 1) (elo - 1)
              in shortest_loop d (fst lo) (fst up) (even m) 0)"

definition digits_nat :: "nat list \<Rightarrow> nat" where
  "digits_nat ds = foldl (\<lambda>a d. 10 * a + d) 0 ds"

fun NewFromFloat :: "float64 \<Rightarrow> Decimal go" where
  "NewFromFloat (Fin s m e) =
     (if m = 0 then Ret (mk_dec 0 0)
      else let (ds, dp) = roundShortest m e; v = int (digits_nat ds); ex = dp - int (length ds)
           in if length ds < 19 then Ret (mk_dec (if s then - v else v) ex) else Ret (mk_dec v ex))"
| "NewFromFloat (Inf s) = Panic (''Cannot create a Decimal from '' @ (if s then ''-Inf'' else ''+Inf''))"
| "NewFromFloat NaN = Panic ''Cannot create a Decimal from NaN''"

section \<open>Exact arithmetic\<close>

definition dec_rat :: "Decimal \<Rightarrow> rat" where
  "dec_rat d = of_int (dec_value d) * 10 powi dec_exp d"

lemma powi10_split: "e \<le> f \<Longrightarrow> (10::rat) powi f = 10 ^ nat (f - e) * 10 powi e"
  using power_int_add [of "10::rat" "f - e" e] by (simp add: power_int_def)

lemma dec_exp_rescale [simp]: "dec_exp (rescale d e) = e"
  by (simp add: rescale_def mk_dec_def Let_def)

lemma dec_rat_rescale: "e \<le> dec_exp d \<Longrightarrow> dec_rat (rescale d e) = dec_rat d"
proof -
  assume e: "e \<le> dec_exp d"
  have "rescale d e = mk_dec (dec_value d * 10 ^ nat (dec_exp d - e)) e"
    using e by (auto simp: rescale_def Let_def)
  then show ?thesis
    using powi10_split [OF e] by (simp add: dec_rat_def mk_dec_def)
qed

lemma dec_rat_sub: "dec_rat (dec_sub a b) = dec_rat a - dec_rat b"
proof -
  let ?e = "min (dec_exp a) (dec_exp b)"
  have "dec_rat a = of_int (dec_value (rescale a ?e)) * 10 powi ?e"
    "dec_rat b = of_int (dec_value (rescale b ?e)) * 10 powi ?e"
    using dec_rat_rescale [of ?e a] dec_rat_rescale [of ?e b] by (simp_all add: dec_rat_def)
  then show ?thesis
    by (simp add: dec_sub_def mk_dec_def Let_def dec_rat_def [of "\<lparr>dec_value = _, dec_exp = _\<rparr>"]
        algebra_simps)
qed

lemma sgn_dec_rat: "sgn (dec_rat d) = of_int (sgn (dec_value d))"
proof -
  have "sgn (of_int v :: rat) = of_int (sgn v)" for v by (auto simp: sgn_if)
  then show ?thesis by (simp add: dec_rat_def sgn_mult)
qed

lemma dec_cmp_sub: "dec_cmp a b = sgn (dec_value (dec_sub a b))"
  by (auto simp: dec_cmp_def dec_sub_def mk_dec_def rescale_def Let_def)

lemma dec_cmp_rat: "of_int (dec_cmp a b) = sgn (dec_rat a - dec_rat b)"
  by (simp only: dec_cmp_sub sgn_dec_rat [symmetric] dec_rat_sub)

lemma dec_cmp_zero: "dec_cmp d dec_zero = 0 \<longleftrightarrow> dec_rat d = 0"
  using dec_cmp_rat [of d dec_zero] by (auto simp: dec_rat_def dec_zero_def mk_dec_def sgn_0_0)

section \<open>Printing and parsing are inverse\<close>

lemma digits_val_zeros: "digits_val a (replicate j CHR ''0'') = Some (a * 10 ^ j)"
  by (induction j arbitrary: a) (simp_all add: char_digit_chars algebra_simps)

lemma trim_right0_decomp: "\<exists>j. s = trim_right0 s @ replicate j CHR ''0''"
proof (induction s)
  case Nil
  show ?case by simp
next
  case (Cons c s)
  then obtain j where j: "s = trim_right0 s @ replicate j CHR ''0''" by blast
  show ?case
  proof (cases "trim_right0 s = [] \<and> c = CHR ''0''")
    case True
    with j have "c # s = trim_right0 (c # s) @ replicate (Suc j) CHR ''0''" by simp
    then show ?thesis by blast
  next
    case False
    with j show ?thesis by (auto simp: Let_def)
  qed
qed

text \<open>Removing trailing zeros of the fractional part keeps the number.\<close>

lemma trim_fraction:
  assumes "digits_val 0 (p @ q) = Some n"
  obtains m where "digits_val 0 (p @ trim_right0 q) = Some m"
    "of_nat m * (10::rat) powi (- int (length (trim_right0 q))) = of_nat n * 10 powi (- int (length q))"
proof -
  obtain j where j: "q = trim_right0 q @ replicate j CHR ''0''" using trim_right0_decomp by blast
  from assms have "digits_val 0 ((p @ trim_right0 q) @ replicate j CHR ''0'') = Some n"
    using j by (metis append_assoc)
  then obtain m where m: "digits_val 0 (p @ trim_right0 q) = Some m" "n = m * 10 ^ j"
    by (auto simp: digits_val_append [of 0 "p @ trim_right0 q"] digits_val_zeros bind_eq_Some_conv
        simp del: append_assoc)
  have len: "- int (length (trim_right0 q)) - (- int (length q)) = int j"
    using arg_cong [OF j, of length] unfolding length_append length_replicate by linarith
  then have "of_nat m * (10::rat) powi (- int (length (trim_right0 q)))
      = of_nat n * 10 powi (- int (length q))"
    using powi10_split [of "- int (length q)" "- int (length (trim_right0 q))"] by (simp add: m(2))
  with m(1) show thesis by (rule that)
qed

definition is_num_char :: "char \<Rightarrow> bool" where
  "is_num_char c \<longleftrightarrow> c = CHR ''-'' \<or> char_digit c \<noteq> None"

lemma is_num_char_plain: "is_num_char c \<Longrightarrow> \<not> is_e c \<and> c \<noteq> CHR ''.''"
  by (auto simp: is_num_char_def is_e_def char_digit_def split: if_splits)

lemma NewFromString_plain:
  assumes "\<forall>c \<in> set s. is_num_char c"
  shows "NewFromString s = (case big_SetString s of
     None \<Rightarrow> Inl (''can't convert '' @ s @ '' to decimal'') | Some v \<Rightarrow> Inr (mk_dec v 0))"
proof -
  have "\<forall>c \<in> set s. \<not> is_e c" using assms is_num_char_plain by blast
  then have "takeWhile (\<lambda>c. \<not> is_e c) s = s" "dropWhile (\<lambda>c. \<not> is_e c) s = []"
    by (simp_all only: takeWhile_eq_all_conv dropWhile_eq_Nil_conv)
  moreover have "split_on CHR ''.'' s = [s]"
    using assms is_num_char_plain by (intro split_on_no_sep) blast
  ultimately show ?thesis
    unfolding NewFromString_def Let_def by (simp only: simp_thms if_True option.case list.case)
qed

lemma NewFromString_fixed:
  assumes "\<forall>c \<in> set p. is_num_char c" "\<forall>c \<in> set q. is_num_char c"
    and "int32_ok (- int (length (trim_right0 q)))"
  shows "NewFromString (p @ ''.'' @ q) = (case big_SetString (p @ trim_right0 q) of
     None \<Rightarrow> Inl (''can't convert '' @ (p @ ''.'' @ q) @ '' to decimal'')
   | Some v \<Rightarrow> Inr (mk_dec v (- int (length (trim_right0 q)))))"
proof -
  let ?s = "p @ ''.'' @ q"
  have "\<forall>c \<in> set ?s. \<not> is_e c" using assms is_num_char_plain by (auto simp: is_e_def)
  then have "takeWhile (\<lambda>c. \<not> is_e c) ?s = ?s" "dropWhile (\<lambda>c. \<not> is_e c) ?s = []"
    by (simp_all only: takeWhile_eq_all_conv dropWhile_eq_Nil_conv)
  moreover have "CHR ''.'' \<notin> set p" "CHR ''.'' \<notin> set q" using assms is_num_char_plain by blast+
  then have "split_on CHR ''.'' ?s = [p, q]" by simp
  moreover have "int32_ok (0 - int (length (trim_right0 q)))" using assms(3) by simp
  ultimately show ?thesis
    unfolding NewFromString_def Let_def
    by (simp only: simp_thms if_True option.case list.case diff_0)
qed

lemma digits_val_leading: "digits_val 0 (replicate j CHR ''0'' @ s) = digits_val 0 s"
  by (simp add: digits_val_append digits_val_zeros)

lemma split_digits_props:
  assumes "split_digits n k = (ip, fp)"
  shows "digits_val 0 (ip @ fp) = Some n" "length fp = k" "ip \<noteq> []"
    "\<forall>c \<in> set (ip @ fp). char_digit c \<noteq> None"
proof -
  have "digits_val 0 (''0'' @ replicate j CHR ''0'' @ nat_str n) = Some n" for j
    using digits_val_leading [of "Suc j" "nat_str n"] by simp
  with assms show "digits_val 0 (ip @ fp) = Some n"
    by (auto simp: split_digits_def Let_def split: if_splits)
  show "length fp = k" "ip \<noteq> []" using assms
    by (auto simp: split_digits_def Let_def split: if_splits)
  have "\<forall>c \<in> set (take i (nat_str n)) \<union> set (drop i (nat_str n)). char_digit c \<noteq> None" for i
    using set_nat_str by (meson UnE in_set_dropD in_set_takeD)
  then show "\<forall>c \<in> set (ip @ fp). char_digit c \<noteq> None" using assms set_nat_str
    by (auto simp: split_digits_def Let_def char_digit_chars split: if_splits) blast+
qed

lemma dec_string_split:
  assumes "dec_exp d < 0" "split_digits (nat \<bar>dec_value d\<bar>) (nat (- dec_exp d)) = (ip, fp)"
  shows "dec_string d = (if dec_value d < 0 then ''-'' @ ip else ip) @ ''.'' @ fp"
proof -
  have "fp \<noteq> []" using split_digits_props(2) [OF assms(2)] assms(1) by auto
  with assms show ?thesis by (simp add: dec_string_def)
qed

lemma big_SetString_digits:
  assumes "digits_val 0 s = Some n" "s \<noteq> []"
  shows "big_SetString s = Some (int n)" "big_SetString (CHR ''-'' # s) = Some (- int n)"
proof -
  from assms have "char_digit (hd s) \<noteq> None" by (cases s) (auto split: option.splits)
  then have "parse_sign s = (False, s)" using assms(2) by (rule parse_sign_digits)
  with assms show "big_SetString s = Some (int n)" "big_SetString (CHR ''-'' # s) = Some (- int n)"
    by (simp_all add: big_SetString_def parse_nat_def)
qed

lemma length_trim_right0: "length (trim_right0 s) \<le> length s"
  by (induction s) (auto simp: Let_def)

lemma NewFromString_dec_string:
  assumes "dec_exp d < 0" "int32_ok (dec_exp d)"
  obtains x where "NewFromString (dec_string d) = Inr x" "dec_rat x = dec_rat d"
proof -
  let ?v = "dec_value d" and ?k = "nat (- dec_exp d)"
  obtain ip fp where sd: "split_digits (nat \<bar>?v\<bar>) ?k = (ip, fp)" by fastforce
  note P = split_digits_props [OF sd]
  from P(1) obtain m where m: "digits_val 0 (ip @ trim_right0 fp) = Some m"
    and val: "of_nat m * (10::rat) powi (- int (length (trim_right0 fp)))
      = of_nat (nat \<bar>?v\<bar>) * 10 powi (- int (length fp))" by (rule trim_fraction)
  let ?p = "if ?v < 0 then ''-'' @ ip else ip" and ?e = "- int (length (trim_right0 fp))"
  let ?w = "if ?v < 0 then - int m else int m"
  have "\<forall>c \<in> set ?p. is_num_char c" "\<forall>c \<in> set fp. is_num_char c"
    using P(4) by (auto simp: is_num_char_def)
  moreover have "int32_ok ?e"
    using assms P(2) length_trim_right0 [of fp] by (simp add: int32_ok_def)
  moreover have "big_SetString (?p @ trim_right0 fp) = Some ?w"
    using big_SetString_digits [OF m] P(3) by auto
  ultimately have "NewFromString (dec_string d) = Inr (mk_dec ?w ?e)"
    using NewFromString_fixed [of ?p fp] dec_string_split [OF assms(1) sd] by (simp only: option.case)
  moreover have "dec_rat (mk_dec ?w ?e) = dec_rat d"
    using val assms(1) P(2) by (auto simp: dec_rat_def mk_dec_def)
  ultimately show thesis by (rule that)
qed

lemma NewFromString_FormatInt: "NewFromString (FormatInt i) = Inr (mk_dec i 0)"
proof -
  have "\<forall>c \<in> set (FormatInt i). is_num_char c" using set_FormatInt by (auto simp: is_num_char_def)
  moreover have "big_SetString (FormatInt i) = Some i"
    by (auto simp: big_SetString_def FormatInt_def)
  ultimately show ?thesis by (simp only: NewFromString_plain option.case)
qed

lemma dec_exp_round [simp]: "dec_exp (dec_round d p) = - p"
  by (simp add: dec_round_def mk_dec_def Let_def)

text \<open>What \<^const>\<open>StringFixed\<close> prints is read back as the rounded number.\<close>

lemma NewFromString_StringFixed:
  assumes "0 \<le> p" "int32_ok p"
  obtains x where "NewFromString (StringFixed d p) = Inr x" "dec_rat x = dec_rat (dec_round d p)"
proof (cases "p = 0")
  case True
  then have "StringFixed d p = FormatInt (dec_value (dec_round d p))"
    by (simp add: StringFixed_def dec_string_def rescale_def mk_dec_def)
  moreover have "dec_rat (mk_dec (dec_value (dec_round d p)) 0) = dec_rat (dec_round d p)"
    using True by (simp add: dec_rat_def mk_dec_def)
  ultimately show thesis using NewFromString_FormatInt that by metis
next
  case False
  with assms have "dec_exp (dec_round d p) < 0" "int32_ok (dec_exp (dec_round d p))"
    by (simp_all add: int32_ok_def)
  then show thesis using that [unfolded StringFixed_def] by (rule NewFromString_dec_string)
qed

section \<open>The error of rounding\<close>

text \<open>Rescaling to a coarser exponent truncates towards zero.\<close>

lemma rescale_truncates:
  fixes d e
  defines "t \<equiv> dec_value (rescale d e)"
  obtains eps :: rat where "dec_rat d = (of_int t + eps) * 10 powi e" "\<bar>eps\<bar> < 1" "0 < t \<Longrightarrow> 0 \<le> eps" "t < 0 \<Longrightarrow> eps \<le> 0"
proof (cases "e \<le> dec_exp d")
  case True
  then have "dec_rat d = of_int t * 10 powi e"
    using dec_rat_rescale [of e d] by (simp add: dec_rat_def t_def)
  then show thesis using that [of 0] by simp
next
  case False
  define k where "k = nat (e - dec_exp d)"
  define v where "v = dec_value d"
  define r where "r = \<bar>v\<bar> mod 10 ^ k"
  have pw: "(10::rat) powi e = 10 ^ k * 10 powi dec_exp d" using False by (simp add: powi10_split k_def)
  have t: "t = sgn v * (\<bar>v\<bar> div 10 ^ k)"
    using False by (simp add: t_def rescale_def Let_def mk_dec_def quo_def k_def v_def)
  have v: "v = t * 10 ^ k + sgn v * r"
  proof -
    have "\<bar>v\<bar> = (\<bar>v\<bar> div 10 ^ k) * 10 ^ k + r" unfolding r_def by (simp only: div_mult_mod_eq)
    then have "sgn v * \<bar>v\<bar> = sgn v * (\<bar>v\<bar> div 10 ^ k) * 10 ^ k + sgn v * r" by (metis distrib_left mult.assoc)
    then show ?thesis by (simp add: t mult_sgn_abs)
  qed
  have r: "0 \<le> r" "r < 10 ^ k" by (simp_all add: r_def)
  define eps :: rat where "eps = of_int (sgn v * r) / 10 ^ k"
  have "of_int v = (of_int t + eps) * (10::rat) ^ k"
    by (subst v) (simp add: eps_def algebra_simps)
  then have "dec_rat d = (of_int t + eps) * 10 powi e"
    by (simp add: dec_rat_def v_def [symmetric] pw)
  moreover have "\<bar>eps\<bar> < 1"
  proof -
    have "\<bar>of_int (sgn v * r) :: rat\<bar> \<le> of_int r" using r(1) by (cases "v = 0") (simp_all add: sgn_if)
    also have "\<dots> < 10 ^ k" using r(2) by (metis of_int_less_iff of_int_numeral of_int_power)
    finally show ?thesis by (simp add: eps_def)
  qed
  moreover have "0 \<le> eps" if "0 < t"
  proof -
    have "0 < v"
      using that by (cases "0 < v") (auto simp: t sgn_if zero_less_mult_iff pos_imp_zdiv_neg_iff split: if_splits)
    then show ?thesis using r(1) by (simp add: eps_def)
  qed
  moreover have "eps \<le> 0" if "t < 0"
  proof -
    have "v < 0"
      using that by (cases "v < 0") (auto simp: t sgn_if mult_less_0_iff pos_imp_zdiv_neg_iff split: if_splits)
    then show ?thesis using r(1) by (simp add: eps_def divide_nonpos_pos)
  qed
  ultimately show thesis by (rule that)
qed

lemma dec_round_digits:
  fixes d p
  defines "t \<equiv> dec_value (rescale d (- p - 1))" and "q \<equiv> dec_value (dec_round d p)"
  shows "0 < t \<Longrightarrow> - 4 \<le> 10 * q - t \<and> 10 * q - t \<le> 5"
    "t < 0 \<Longrightarrow> - 5 \<le> 10 * q - t \<and> 10 * q - t \<le> 4" "t = 0 \<Longrightarrow> q = 0"
proof -
  have q: "q = (let v = (if t < 0 then t - 5 else t + 5) in if v div 10 < 0 \<and> v mod 10 \<noteq> 0 then v div 10 + 1 else v div 10)"
    by (simp add: q_def dec_round_def Let_def mk_dec_def t_def)
  show "0 < t \<Longrightarrow> - 4 \<le> 10 * q - t \<and> 10 * q - t \<le> 5"
    using div_mult_mod_eq [of "t + 5" 10] pos_mod_bound [of 10 "t + 5"] pos_mod_sign [of 10 "t + 5"]
    by (auto simp: q Let_def pos_imp_zdiv_neg_iff simp del: div_mult_mod_eq)
  show "- 5 \<le> 10 * q - t \<and> 10 * q - t \<le> 4" if "t < 0"
  proof -
    define a m where "a = (t - 5) div 10" and "m = (t - 5) mod 10"
    have am: "t - 5 = a * 10 + m" "0 \<le> m" "m < 10"
      unfolding a_def m_def by (simp_all only: div_mult_mod_eq pos_mod_sign pos_mod_bound zero_less_numeral)
    have "q = (if m = 0 then a else a + 1)"
      using that by (simp add: q Let_def pos_imp_zdiv_neg_iff a_def [symmetric] m_def [symmetric])
    with am show ?thesis by (cases "m = 0") auto
  qed
  show "t = 0 \<Longrightarrow> q = 0" by (simp add: q Let_def)
qed

lemma dec_round_error: "\<bar>dec_rat (dec_round d p) - dec_rat d\<bar> \<le> 10 powi (- p) / 2"
proof -
  define t where "t = dec_value (rescale d (- p - 1))"
  define q where "q = dec_value (dec_round d p)"
  define u :: rat where "u = 10 powi (- p - 1)"
  obtain eps where eps: "dec_rat d = (of_int t + eps) * u" "\<bar>eps\<bar> < 1" "0 < t \<Longrightarrow> 0 \<le> eps" "t < 0 \<Longrightarrow> eps \<le> 0"
    using rescale_truncates [of d "- p - 1"] unfolding t_def u_def by metis
  have u: "(10::rat) powi (- p) = 10 * u" "0 < u"
    using powi10_split [of "- p - 1" "- p"] by (simp_all add: u_def)
  have "dec_rat (dec_round d p) - dec_rat d = (of_int (10 * q - t) - eps) * u"
    by (simp add: dec_rat_def [of "dec_round d p"] q_def [symmetric] u eps(1) algebra_simps)
  moreover have "\<bar>of_int (10 * q - t) - eps\<bar> \<le> 5"
  proof -
    consider "0 < t" | "t < 0" | "t = 0" by linarith
    then show ?thesis
    proof cases
      case 1
      then have "- 4 \<le> (of_int (10 * q - t) :: rat)" "(of_int (10 * q - t) :: rat) \<le> 5"
        using dec_round_digits(1) [of d p] by (simp_all add: t_def q_def)
      with eps 1 show ?thesis by (simp add: abs_le_iff abs_less_iff)
    next
      case 2
      then have "- 5 \<le> (of_int (10 * q - t) :: rat)" "(of_int (10 * q - t) :: rat) \<le> 4"
        using dec_round_digits(2) [of d p] by (simp_all add: t_def q_def)
      with eps 2 show ?thesis by (simp add: abs_le_iff abs_less_iff)
    next
      case 3
      then have "q = 0" using dec_round_digits(3) [of d p] by (simp add: t_def q_def)
      with eps 3 show ?thesis by simp
    qed
  qed
  ultimately have "\<bar>dec_rat (dec_round d p) - dec_rat d\<bar> \<le> 5 * u"
    using u(2) by (simp add: abs_mult)
  then show ?thesis by (simp add: u)
qed

lemma read_StringFixed:
  assumes "0 \<le> p" "int32_ok p"
  shows "\<exists>x. NewFromString (StringFixed d p) = Inr x \<and> \<bar>dec_rat x - dec_rat d\<bar> \<le> 10 powi (- p) / 2"
proof -
  obtain x where "NewFromString (StringFixed d p) = Inr x" "dec_rat x = dec_rat (dec_round d p)"
    using NewFromString_StringFixed [OF assms] .
  then show ?thesis using dec_round_error [of d p] by auto
qed

section \<open>Properties\<close>

text \<open>
  A decimal that is printed with a fixed number of places and read again is within half a unit of
  the last place of the original, for every decimal and every non-negative number of places.
\<close>

theorem StringFixed_within_half_ulp:
  assumes "0 \<le> p" "int32_ok p"
  shows "\<exists>x. NewFromString (StringFixed d p) = Inr x \<and> \<bar>dec_rat x - dec_rat d\<bar> \<le> 10 powi (- p) / 2"
  using assms by (rule read_StringFixed)

theorem StringFixed_within_half_ulp_witness:
  "\<exists>x. NewFromString (StringFixed (mk_dec (- 123456) (- 5)) 4) = Inr x \<and>
     \<bar>dec_rat x - dec_rat (mk_dec (- 123456) (- 5))\<bar> \<le> 10 powi (- 4) / 2"
  by (rule StringFixed_within_half_ulp) (simp_all add: int32_ok_def)

end
