(* ===== verification/Go_Time.thy ===== *)
theory Go_Time
  imports Gw_Prelude
begin

text \<open>
  Instants and the date formats of the gateway. A \<^verbatim>\<open>time.Time\<close> is the number of nanoseconds since
  1970-01-01 00:00:00 UTC, an unbounded integer (Go covers years far outside int64 nanoseconds);
  \<^verbatim>\<open>UnixNano\<close> is that number wrapped to 64 bits. Modelled are the proleptic Gregorian calendar
  (\<open>days_of_civil\<close>, \<open>civil_of_days\<close>), \<^verbatim>\<open>Format\<close> and \<^verbatim>\<open>Parse\<close> for the layout
  \<^verbatim>\<open>2006-01-02 15:04:05\<close>, the FIX timestamp reader and writer
  (\<^verbatim>\<open>vendor/github.com/quickfixgo/quickfix/fix_utc_timestamp.go\<close>) with their four precisions.

  Shown: the calendar functions are inverse, and what \<^verbatim>\<open>Format\<close> writes is read back by \<^verbatim>\<open>Parse\<close>
  as the same instant, cut to whole seconds.
\<close>

type_synonym time = int

section \<open>The calendar\<close>

definition is_leap :: "int \<Rightarrow> bool" where
  "is_leap y \<longleftrightarrow> 4 dvd y \<and> (\<not> 100 dvd y \<or> 400 dvd y)"

definition month_days :: "bool \<Rightarrow> int list" where
  "month_days leap = [31, if leap then 29 else 28, 31, 30, 31, 30, 31, 31, 30, 31, 30, 31]"

definition days_in :: "int \<Rightarrow> int \<Rightarrow> int" where
  "days_in y m = month_days (is_leap y) ! nat (m - 1)"

text \<open>Days from 0001-01-01 to the first day of year \<open>y\<close>.\<close>

definition days_before_year :: "int \<Rightarrow> int" where
  "days_before_year y = 365 * (y - 1) + (y - 1) div 4 - (y - 1) div 100 + (y - 1) div 400"

definition days_of_civil :: "int \<Rightarrow> int \<Rightarrow> int \<Rightarrow> int" where
  "days_of_civil y m d =
     days_before_year y + sum_list (take (nat (m - 1)) (month_days (is_leap y))) + (d - 1) - 719162"

text \<open>The year and the day of the year, as \<^verbatim>\<open>absDate\<close> of the Go library computes them from
  400, 100, 4 and 1 year cycles.\<close>

definition year_of_days :: "int \<Rightarrow> int \<times> int" where
  "year_of_days n =
     (let a = n div 146097; r = n mod 146097;
          b = min 3 (r div 36524); r = r - 36524 * b;
          c = r div 1461; r = r - 1461 * c;
          e = min 3 (r div 365); r = r - 365 * e
      in (400 * a + 100 * b + 4 * c + e + 1, r))"

fun month_of_day :: "int list \<Rightarrow> int \<Rightarrow> int \<Rightarrow> int \<times> int" where
  "month_of_day [] m r = (m, r + 1)"
| "month_of_day (k # ks) m r = (if r < k then (m, r + 1) else month_of_day ks (m + 1) (r - k))"

definition civil_of_days :: "int \<Rightarrow> int \<times> int \<times> int" where
  "civil_of_days n =
     (let (y, r) = year_of_days (n + 719162); (m, d) = month_of_day (month_days (is_leap y)) 1 r
      in (y, m, d))"

definition civil_ok :: "int \<Rightarrow> int \<Rightarrow> int \<Rightarrow> bool" where
  "civil_ok y m d \<longleftrightarrow> 1 \<le> m \<and> m \<le> 12 \<and> 1 \<le> d \<and> d \<le> days_in y m"

section \<open>Instants\<close>

definition sec_ns :: int where "sec_ns = 1000000000"

definition mk_time :: "int \<Rightarrow> int \<Rightarrow> int \<Rightarrow> int \<Rightarrow> int \<Rightarrow> int \<Rightarrow> int \<Rightarrow> time" where
  "mk_time y mo d h mi s ns =
     (days_of_civil y mo d * 86400 + h * 3600 + mi * 60 + s) * sec_ns + ns"

definition time_zero :: time where
  "time_zero = mk_time 1 1 1 0 0 0 0"

definition UnixNano :: "time \<Rightarrow> int" where
  "UnixNano t = wrap64 t"

text \<open>\<^verbatim>\<open>time.Unix(0, nsec)\<close>.\<close>

definition Unix0 :: "int \<Rightarrow> time" where
  "Unix0 nsec = nsec"

section \<open>Formatting\<close>

fun pad :: "nat \<Rightarrow> nat \<Rightarrow> string" where
  "pad 0 n = []"
| "pad (Suc w) n = pad w (n div 10) @ [digit_char (n mod 10)]"

definition civil_of_time :: "time \<Rightarrow> int \<times> int \<times> int \<times> int \<times> int \<times> int \<times> int" where
  "civil_of_time t =
     (let secs = t div sec_ns; ns = t mod sec_ns; (y, mo, d) = civil_of_days (secs div 86400);
          r = secs mod 86400
      in (y, mo, d, r div 3600, r mod 3600 div 60, r mod 60, ns))"

text \<open>The year is written with four digits; it is between 0 and 9999 for every instant that a
  FIX timestamp denotes, and for every instant within the range of \<^verbatim>\<open>UnixNano\<close>.\<close>

definition FormatDate :: "time \<Rightarrow> string" where
  "FormatDate t =
     (let (y, mo, d, h, mi, s, ns) = civil_of_time t
      in pad 4 (nat y) @ ''-'' @ pad 2 (nat mo) @ ''-'' @ pad 2 (nat d))"

definition FormatDateTime :: "time \<Rightarrow> string" where
  "FormatDateTime t =
     (let (y, mo, d, h, mi, s, ns) = civil_of_time t
      in pad 4 (nat y) @ ''-'' @ pad 2 (nat mo) @ ''-'' @ pad 2 (nat d) @ '' '' @
         pad 2 (nat h) @ '':'' @ pad 2 (nat mi) @ '':'' @ pad 2 (nat s))"

datatype TimestampPrecision = Millis | Seconds | Micros | Nanos

definition FIXUTCTimestamp_Write :: "time \<Rightarrow> TimestampPrecision \<Rightarrow> string" where
  "FIXUTCTimestamp_Write t p =
     (let (y, mo, d, h, mi, s, ns) = civil_of_time t;
          secs = pad 4 (nat y) @ pad 2 (nat mo) @ pad 2 (nat d) @ ''-'' @
                 pad 2 (nat h) @ '':'' @ pad 2 (nat mi) @ '':'' @ pad 2 (nat s)
      in case p of
           Seconds \<Rightarrow> secs
         | Millis \<Rightarrow> secs @ ''.'' @ pad 3 (nat (ns div 1000000))
         | Micros \<Rightarrow> secs @ ''.'' @ pad 6 (nat (ns div 1000))
         | Nanos \<Rightarrow> secs @ ''.'' @ pad 9 (nat ns))"

section \<open>Parsing\<close>

text \<open>\<^verbatim>\<open>getnum\<close>: one or two digits, two when \<open>fixed\<close>.\<close>

definition getnum :: "bool \<Rightarrow> string \<Rightarrow> (int \<times> string) option" where
  "getnum fixed s =
     (case s of
        [] \<Rightarrow> None
      | c # t \<Rightarrow>
          (case char_digit c of
             None \<Rightarrow> None
           | Some a \<Rightarrow>
               (case t of
                  [] \<Rightarrow> if fixed then None else Some (int a, t)
                | c' # t' \<Rightarrow>
                    (case char_digit c' of
                       None \<Rightarrow> if fixed then None else Some (int a, t)
                     | Some b \<Rightarrow> Some (int (10 * a + b), t')))))"

definition getrange :: "bool \<Rightarrow> int \<Rightarrow> int \<Rightarrow> string \<Rightarrow> (int \<times> string) option" where
  "getrange fixed lo hi s =
     (case getnum fixed s of
        None \<Rightarrow> None
      | Some (n, t) \<Rightarrow> if lo \<le> n \<and> n \<le> hi then Some (n, t) else None)"

definition getyear :: "string \<Rightarrow> (int \<times> string) option" where
  "getyear s =
     (if length s < 4 then None
      else case digits_val 0 (take 4 s) of None \<Rightarrow> None | Some y \<Rightarrow> Some (int y, drop 4 s))"

fun skip :: "string \<Rightarrow> string \<Rightarrow> string option" where
  "skip [] s = Some s"
| "skip (c # p) s =
     (if c = CHR '' '' then
        (case s of
           [] \<Rightarrow> skip p []
         | d # _ \<Rightarrow> if d = CHR '' '' then skip p (dropWhile (\<lambda>x. x = CHR '' '') s) else None)
      else case s of [] \<Rightarrow> None | d # t \<Rightarrow> if d = c then skip p t else None)"

text \<open>\<^verbatim>\<open>parseNanoseconds\<close> of the text after the point, with its optional sign.\<close>

definition parse_frac :: "string \<Rightarrow> int option" where
  "parse_frac s =
     (let (neg, t) = parse_sign s
      in case digits_val 0 t of
           None \<Rightarrow> None
         | Some n \<Rightarrow>
             (let v = (if neg then - int n else int n)
              in if v < 0 \<or> sec_ns \<le> v then None else Some (v * 10 ^ (9 - length s))))"

text \<open>The fraction after the seconds: exactly \<open>k\<close> characters when the layout asks for them;
  otherwise an optional point with up to nine digits.\<close>

definition getfrac :: "nat option \<Rightarrow> string \<Rightarrow> (int \<times> string) option" where
  "getfrac layout s =
     (case layout of
        Some k \<Rightarrow>
          (case s of
             c # t \<Rightarrow> if c = CHR ''.'' \<and> k \<le> length t
                      then map_option (\<lambda>v. (v, drop k t)) (parse_frac (take k t)) else None
           | [] \<Rightarrow> None)
      | None \<Rightarrow>
          (case s of
             c # d # t \<Rightarrow>
               if c = CHR ''.'' \<and> char_digit d \<noteq> None then
                 (let ds = takeWhile (\<lambda>x. char_digit x \<noteq> None) (d # t)
                  in if length ds > 9 then None
                     else map_option (\<lambda>v. (v, drop (length ds) (d # t))) (parse_frac ds))
               else Some (0, s)
           | _ \<Rightarrow> Some (0, s)))"

text \<open>\<open>sep\<close> stands between the parts of the date, \<open>mid\<close> between the date and the time of day.\<close>

definition parse_layout :: "string \<Rightarrow> string \<Rightarrow> nat option \<Rightarrow> string \<Rightarrow> time option" where
  "parse_layout sep mid fr s0 =
     Option.bind (getyear s0) (\<lambda>(y, s1).
     Option.bind (skip sep s1) (\<lambda>s2.
     Option.bind (getrange True 1 12 s2) (\<lambda>(mo, s3).
     Option.bind (skip sep s3) (\<lambda>s4.
     Option.bind (getnum True s4) (\<lambda>(d, s5).
     Option.bind (skip mid s5) (\<lambda>s6.
     Option.bind (getrange False 0 23 s6) (\<lambda>(h, s7).
     Option.bind (skip '':'' s7) (\<lambda>s8.
     Option.bind (getrange True 0 59 s8) (\<lambda>(mi, s9).
     Option.bind (skip '':'' s9) (\<lambda>s10.
     Option.bind (getrange True 0 59 s10) (\<lambda>(s, s11).
     Option.bind (getfrac fr s11) (\<lambda>(ns, s12).
       if s12 = [] \<and> civil_ok y mo d then Some (mk_time y mo d h mi s ns) else None))))))))))))"

definition ParseDateTime :: "string \<Rightarrow> time option" where
  "ParseDateTime s = parse_layout ''-'' '' '' None s"

definition FIXUTCTimestamp_Read :: "string \<Rightarrow> (time \<times> TimestampPrecision) option" where
  "FIXUTCTimestamp_Read b =
     (if length b = 17 then map_option (\<lambda>t. (t, Seconds)) (parse_layout [] ''-'' None b)
      else if length b = 21 then map_option (\<lambda>t. (t, Millis)) (parse_layout [] ''-'' (Some 3) b)
      else if length b = 24 then map_option (\<lambda>t. (t, Micros)) (parse_layout [] ''-'' (Some 6) b)
      else if length b = 27 then map_option (\<lambda>t. (t, Nanos)) (parse_layout [] ''-'' (Some 9) b)
      else None)"

section \<open>The calendar functions are inverse\<close>

lemma dvd_last: "1 \<le> x \<Longrightarrow> x \<le> k \<Longrightarrow> k dvd k * z + x \<longleftrightarrow> x = k" for k x z :: int
  using zdvd_imp_le [of k x] by (auto simp: dvd_add_right_iff)

lemma cycles:
  fixes a b c e :: int
  assumes "0 \<le> b" "b \<le> 3" "0 \<le> c" "c \<le> 24" "0 \<le> e" "e \<le> 3"
    and y: "y = 400 * a + 100 * b + 4 * c + e + 1"
  shows "days_before_year y = 146097 * a + 36524 * b + 1461 * c + 365 * e"
    and "is_leap y \<longleftrightarrow> e = 3 \<and> (c \<noteq> 24 \<or> b = 3)"
proof -
  have d: "(y - 1) div 4 = 100 * a + 25 * b + c" "(y - 1) div 100 = 4 * a + b" "(y - 1) div 400 = a"
    using assms by auto
  show "days_before_year y = 146097 * a + 36524 * b + 1461 * c + 365 * e"
    unfolding days_before_year_def d by (simp add: y)
  have "4 dvd y \<longleftrightarrow> e = 3" "100 dvd y \<longleftrightarrow> e = 3 \<and> c = 24" "400 dvd y \<longleftrightarrow> e = 3 \<and> c = 24 \<and> b = 3"
    using dvd_last [of "e + 1" 4 "100 * a + 25 * b + c"] dvd_last [of "4 * c + e + 1" 100 "4 * a + b"]
      dvd_last [of "100 * b + 4 * c + e + 1" 400 a] assms by (auto simp: algebra_simps)
  then show "is_leap y \<longleftrightarrow> e = 3 \<and> (c \<noteq> 24 \<or> b = 3)" by (auto simp: is_leap_def)
qed

lemma year_of_days_inverse:
  assumes "year_of_days n = (y, r)"
  shows "n = days_before_year y + r" "0 \<le> r" "r < (if is_leap y then 366 else 365)"
proof -
  define a r0 where ar: "a = n div 146097" "r0 = n mod 146097"
  define b r1 where br: "b = min 3 (r0 div 36524)" "r1 = r0 - 36524 * b"
  define c r2 where cr: "c = r1 div 1461" "r2 = r1 - 1461 * c"
  define e where e: "e = min 3 (r2 div 365)"
  have n: "n = 146097 * a + r0" and r0: "0 \<le> r0" "r0 < 146097" by (simp_all add: ar)
  have b: "0 \<le> b" "b \<le> 3" "0 \<le> r1" "r1 \<le> (if b = 3 then 36524 else 36523)"
    using r0 unfolding br by (auto simp: min_def)
  have c: "0 \<le> c" "c \<le> 24" "0 \<le> r2" "r2 < 1461" "c = 24 \<Longrightarrow> b \<noteq> 3 \<Longrightarrow> r2 < 1460"
    using b unfolding cr by (auto split: if_splits)
  have ee: "0 \<le> e" "e \<le> 3" "0 \<le> r2 - 365 * e" "e \<noteq> 3 \<Longrightarrow> r2 - 365 * e < 365"
    using c unfolding e by (auto simp: min_def)
  have yr: "y = 400 * a + 100 * b + 4 * c + e + 1" "r = r2 - 365 * e"
  proof -
    have "(400 * a + 100 * b + 4 * c + e + 1, r2 - 365 * e) = (y, r)"
      using assms unfolding year_of_days_def Let_def ar br cr e .
    then show "y = 400 * a + 100 * b + 4 * c + e + 1" "r = r2 - 365 * e" by simp_all
  qed
  note cyc = cycles [OF b(1,2) c(1,2) ee(1,2) yr(1)]
  show "n = days_before_year y + r" unfolding cyc(1) using n yr(2) br(2) cr(2) by linarith
  show "0 \<le> r" using ee(3) yr(2) by simp
  show "r < (if is_leap y then 366 else 365)"
    using cyc(2) ee yr(2) c(4,5) by (cases "e = 3") auto
qed

lemma month_of_day_inverse:
  assumes "month_of_day ks m r = (m', d)" "0 \<le> r" "r < sum_list ks"
  shows "m \<le> m' \<and> m' < m + int (length ks) \<and> 1 \<le> d \<and> d \<le> ks ! nat (m' - m) \<and>
    sum_list (take (nat (m' - m)) ks) + (d - 1) = r"
  using assms
proof (induction ks arbitrary: m r)
  case Nil
  then show ?case by simp
next
  case (Cons k ks)
  show ?case
  proof (cases "r < k")
    case True
    with Cons.prems show ?thesis by auto
  next
    case False
    with Cons.prems Cons.IH [of "m + 1" "r - k"] have IH: "m + 1 \<le> m'" "m' < m + 1 + int (length ks)"
      "1 \<le> d" "d \<le> ks ! nat (m' - (m + 1))" "sum_list (take (nat (m' - (m + 1))) ks) + (d - 1) = r - k"
      by auto
    have "nat (m' - m) = Suc (nat (m' - (m + 1)))" using IH(1) by simp
    with IH show ?thesis by auto
  qed
qed

lemma civil_of_days_inverse:
  assumes "civil_of_days n = (y, m, d)"
  shows "days_of_civil y m d = n" "civil_ok y m d" "d \<le> 31"
proof -
  obtain r where yr: "year_of_days (n + 719162) = (y, r)"
    and md: "month_of_day (month_days (is_leap y)) 1 r = (m, d)"
    using assms by (auto simp: civil_of_days_def Let_def split: prod.splits)
  note Y = year_of_days_inverse [OF yr]
  have "sum_list (month_days (is_leap y)) = (if is_leap y then 366 else 365)"
    by (simp add: month_days_def)
  with Y have "r < sum_list (month_days (is_leap y))" by simp
  note M = month_of_day_inverse [OF md Y(2) this]
  show "days_of_civil y m d = n" using M Y(1) by (simp add: days_of_civil_def)
  show ok: "civil_ok y m d" using M by (auto simp: civil_ok_def days_in_def month_days_def)
  have "length (month_days (is_leap y)) = 12" "\<forall>k \<in> set (month_days (is_leap y)). k \<le> 31"
    by (simp_all add: month_days_def)
  moreover have "nat (m - 1) < 12" using ok unfolding civil_ok_def by linarith
  ultimately have "days_in y m \<le> 31" by (simp add: days_in_def)
  then show "d \<le> 31" using ok by (simp add: civil_ok_def)
qed

lemma civil_of_time_inverse:
  assumes "civil_of_time t = (y, mo, d, h, mi, s, ns)"
  shows "mk_time y mo d h mi s ns = t" "civil_ok y mo d" "d \<le> 31"
    "0 \<le> h" "h < 24" "0 \<le> mi" "mi < 60" "0 \<le> s" "s < 60" "0 \<le> ns" "ns < sec_ns"
proof -
  let ?q = "t div sec_ns" 
  have cd: "civil_of_days (?q div 86400) = (y, mo, d)"
    and v: "h = ?q mod 86400 div 3600" "mi = ?q mod 86400 mod 3600 div 60" "s = ?q mod 86400 mod 60"
      "ns = t mod sec_ns"
    using assms by (auto simp: civil_of_time_def Let_def split: prod.splits)
  note C = civil_of_days_inverse [OF cd]
  show "civil_ok y mo d" "d \<le> 31" by (rule C)+
  show "0 \<le> h" "h < 24" "0 \<le> mi" "mi < 60" "0 \<le> s" "s < 60" "0 \<le> ns" "ns < sec_ns"
    unfolding v by (auto simp: sec_ns_def)
  have "r mod 3600 mod 60 = r mod 60" for r :: int by (rule mod_mod_cancel) simp
  then have "r div 3600 * 3600 + r mod 3600 div 60 * 60 + r mod 60 = r" for r :: int
    using div_mult_mod_eq [of r 3600] div_mult_mod_eq [of "r mod 3600" 60] by (metis add.assoc)
  from this [of "?q mod 86400"] have "?q div 86400 * 86400 + h * 3600 + mi * 60 + s = ?q"
    unfolding v using div_mult_mod_eq [of ?q 86400] by linarith
  then show "mk_time y mo d h mi s ns = t" by (simp add: mk_time_def C(1) v(4))
qed

section \<open>Formatting and parsing are inverse\<close>

lemma length_pad [simp]: "length (pad w n) = w"
  by (induction w n rule: pad.induct) simp_all

lemma digits_val_pad: "digits_val 0 (pad w n) = Some (n mod 10 ^ w)"
proof (induction w n rule: pad.induct)
  case (2 w n)
  have "10 * (n div 10 mod 10 ^ w) + n mod 10 = n mod 10 ^ Suc w"
    by (metis add.commute mod_mult2_eq power_Suc)
  with 2 show ?case by (simp add: digits_val_append)
qed simp

lemma getyear_pad: "n < 10000 \<Longrightarrow> getyear (pad 4 n @ s) = Some (int n, s)"
  by (simp add: getyear_def digits_val_pad)

lemma pad2: "pad 2 n = [digit_char (n div 10 mod 10), digit_char (n mod 10)]"
  by (simp add: numeral_2_eq_2)

lemma digit_char_not_space: "d < 10 \<Longrightarrow> digit_char d \<noteq> CHR '' ''"
  using char_digit_digit_char [of d] by (auto simp: char_digit_def)

lemma getnum_pad: "n < 100 \<Longrightarrow> getnum f (pad 2 n @ s) = Some (int n, s)"
  by (simp add: getnum_def pad2)

lemma getrange_pad:
  "0 \<le> n \<Longrightarrow> lo \<le> n \<Longrightarrow> n \<le> hi \<Longrightarrow> hi < 100 \<Longrightarrow> getrange f lo hi (pad 2 (nat n) @ s) = Some (n, s)"
  by (simp add: getrange_def getnum_pad nat_less_iff)

lemma ParseDateTime_FormatDateTime:
  assumes "fst (civil_of_time t) \<in> {0..9999}"
  shows "ParseDateTime (FormatDateTime t) = Some (t div sec_ns * sec_ns)"
proof -
  obtain y mo d h mi s ns where c: "civil_of_time t = (y, mo, d, h, mi, s, ns)" by (metis prod_cases7)
  note I = civil_of_time_inverse [OF c]
  have y: "0 \<le> y" "y < 10000" using assms c by auto
  have t0: "mk_time y mo d h mi s 0 = t div sec_ns * sec_ns"
  proof -
    let ?q = "days_of_civil y mo d * 86400 + h * 3600 + mi * 60 + s"
    have t: "t = ?q * sec_ns + ns" using I(1) by (simp only: mk_time_def)
    have "t div sec_ns = ?q" unfolding t using I(10,11)
      by (subst add.commute, subst div_mult_self1) (simp_all add: sec_ns_def)
    then show ?thesis by (simp only: mk_time_def add_0_right)
  qed
  have d: "nat d < 100" "0 \<le> d" and mo: "1 \<le> mo" "mo \<le> 12" using I(2,3) by (auto simp: civil_ok_def)
  have "FormatDateTime t = pad 4 (nat y) @ CHR ''-'' # pad 2 (nat mo) @ CHR ''-'' # pad 2 (nat d) @
      CHR '' '' # pad 2 (nat h) @ CHR '':'' # pad 2 (nat mi) @ CHR '':'' # pad 2 (nat s) @ []"
    by (simp add: FormatDateTime_def c)
  moreover have "dropWhile (\<lambda>x. x = CHR '' '') (CHR '' '' # pad 2 (nat h) @ r) = pad 2 (nat h) @ r" for r
    using I(4,5) by (simp add: pad2 digit_char_not_space)
  ultimately show ?thesis
    using I y d mo t0 unfolding ParseDateTime_def parse_layout_def
    by (simp add: getyear_pad getrange_pad getrange_pad [where s = "[]", simplified] getnum_pad
        getfrac_def nat_less_iff)
qed

text \<open>Every instant that the readers return lies in the years 0 to 9999.\<close>

lemma days_before_year_mono: "y \<le> z \<Longrightarrow> days_before_year y \<le> days_before_year z"
proof (induction z rule: int_ge_induct)
  case (step z)
  have "(z - 1) div 4 \<le> z div 4" "(z - 1) div 400 \<le> z div 400" by (simp_all add: zdiv_mono1)
  moreover have "z div 100 \<le> (z - 1 + 100) div 100" by (rule zdiv_mono1) simp_all
  then have "z div 100 \<le> (z - 1) div 100 + 1" by simp
  ultimately have "days_before_year z \<le> days_before_year (z + 1)"
    by (simp add: days_before_year_def)
  with step.IH show ?case by simp
qed simp

lemma div_last: "0 \<le> x \<Longrightarrow> x \<le> k \<Longrightarrow> 0 < k \<Longrightarrow> (k * q + x) div k = q + (if x = k then 1 else 0)"
  for k x q :: int
  by simp

lemma days_before_year_Suc:
  "days_before_year (y + 1) = days_before_year y + (if is_leap y then 366 else 365)"
proof -
  define a b c e where "a = (y - 1) div 400" "b = (y - 1) mod 400 div 100" "c = (y - 1) mod 100 div 4"
    "e = (y - 1) mod 4"
  have "(y - 1) mod 400 mod 100 = (y - 1) mod 100" "(y - 1) mod 100 mod 4 = (y - 1) mod 4"
    by (simp_all add: mod_mod_cancel)
  then have y: "y = 400 * a + 100 * b + 4 * c + e + 1"
    using div_mult_mod_eq [of "y - 1" 400] div_mult_mod_eq [of "(y - 1) mod 400" 100]
      div_mult_mod_eq [of "(y - 1) mod 100" 4] unfolding a_b_c_e_def by linarith
  have r: "0 \<le> b" "b \<le> 3" "0 \<le> c" "c \<le> 24" "0 \<le> e" "e \<le> 3" by (auto simp: a_b_c_e_def)
  have "y = 4 * (100 * a + 25 * b + c) + (e + 1)" "y = 100 * (4 * a + b) + (4 * c + e + 1)"
    "y = 400 * a + (100 * b + 4 * c + e + 1)" unfolding y by simp_all
  then have "y div 4 = 100 * a + 25 * b + c + (if e = 3 then 1 else 0)"
    "y div 100 = 4 * a + b + (if 4 * c + e = 99 then 1 else 0)"
    "y div 400 = a + (if 100 * b + 4 * c + e = 399 then 1 else 0)"
    using div_last [of "e + 1" 4] div_last [of "4 * c + e + 1" 100]
      div_last [of "100 * b + 4 * c + e + 1" 400] r by auto
  moreover have "4 * c + e = 99 \<longleftrightarrow> e = 3 \<and> c = 24" "100 * b + 4 * c + e = 399 \<longleftrightarrow> e = 3 \<and> c = 24 \<and> b = 3"
    using r by (intro iffI conjI; linarith)+
  moreover have "days_before_year (y + 1) = 365 * y + y div 4 - y div 100 + y div 400"
    by (simp add: days_before_year_def)
  ultimately show ?thesis using cycles [OF r y] y by auto
qed

lemma civil_year:
  assumes "civil_of_days n = (y, m, d)" "days_before_year lo \<le> n + 719162"
    "n + 719162 < days_before_year hi"
  shows "lo \<le> y" "y < hi"
proof -
  obtain r where yr: "year_of_days (n + 719162) = (y, r)"
    using assms(1) by (auto simp: civil_of_days_def Let_def split: prod.splits)
  note Y = year_of_days_inverse [OF yr]
  have "days_before_year lo < days_before_year (y + 1)" "days_before_year y < days_before_year hi"
    using Y assms(2,3) by (auto simp: days_before_year_Suc)
  then show "lo \<le> y" "y < hi"
    using days_before_year_mono [of "y + 1" lo] days_before_year_mono [of hi y] by linarith+
qed

lemma mk_time_year:
  assumes "0 \<le> y" "y \<le> 9999" "civil_ok y mo d" "0 \<le> h" "h \<le> 23" "0 \<le> mi" "mi \<le> 59" "0 \<le> s"
    "s \<le> 59" "0 \<le> ns" "ns < sec_ns"
  shows "fst (civil_of_time (mk_time y mo d h mi s ns)) \<in> {0..9999}"
proof -
  let ?t = "mk_time y mo d h mi s ns" and ?n = "days_of_civil y mo d"
  let ?q = "?n * 86400 + (h * 3600 + mi * 60 + s)"
  have "?t div sec_ns = (ns + ?q * sec_ns) div sec_ns" by (simp add: mk_time_def add_ac)
  also have "\<dots> = ?q" using assms(10,11) by (subst div_mult_self1) (simp_all add: sec_ns_def)
  finally have q: "?t div sec_ns = ?q" .
  have "?q div 86400 = ?n" using assms by simp
  then obtain y' mo' d' where c: "civil_of_days ?n = (y', mo', d')"
    "fst (civil_of_time ?t) = y'"
    by (cases "civil_of_days ?n") (simp add: civil_of_time_def Let_def q)
  have pre: "0 \<le> sum_list (take k (month_days l)) \<and>
      (k < 12 \<longrightarrow> sum_list (take k (month_days l)) + month_days l ! k
        \<le> (if l then 366 else 365))" for k l
  proof (cases "k < 12")
    case True
    then have "k \<in> {0, 1, 2, 3, 4, 5, 6, 7, 8, 9, 10, 11}"
      by (simp only: insert_iff empty_iff simp_thms) arith
    then show ?thesis by (auto simp: month_days_def)
  next
    case False
    then show ?thesis by (simp add: month_days_def)
  qed
  have "nat (mo - 1) < 12" using assms(3) unfolding civil_ok_def by linarith
  then have "days_before_year y \<le> ?n + 719162" "?n + 719162 < days_before_year (y + 1)"
    using pre [of "nat (mo - 1)" "is_leap y"] assms(3)
    by (auto simp: days_of_civil_def civil_ok_def days_in_def days_before_year_Suc)
  then have "days_before_year 0 \<le> ?n + 719162" "?n + 719162 < days_before_year 10000"
    using days_before_year_mono [of 0 y] days_before_year_mono [of "y + 1" 10000] assms(1,2)
    by linarith+
  from civil_year [OF c(1) this] c(2) show ?thesis by simp
qed

lemma getyear_range: "getyear s = Some (y, t) \<Longrightarrow> 0 \<le> y \<and> y \<le> 9999"
proof -
  assume "getyear s = Some (y, t)"
  then obtain n where "digits_val 0 (take 4 s) = Some n" "y = int n" "length (take 4 s) = 4"
    by (auto simp: getyear_def split: if_splits option.splits)
  with digits_val_bound [of 0 "take 4 s" n] show ?thesis by simp
qed

lemma getrange_SomeD: "getrange f lo hi s = Some (n, t) \<Longrightarrow> lo \<le> n \<and> n \<le> hi"
  by (auto simp: getrange_def split: option.splits if_splits)

lemma parse_frac_range: "parse_frac s = Some v \<Longrightarrow> 0 \<le> v \<and> v < sec_ns"
proof -
  assume "parse_frac s = Some v"
  then obtain neg t n where p: "parse_sign s = (neg, t)" "digits_val 0 t = Some n"
    and w: "0 \<le> (if neg then - int n else int n)" "(if neg then - int n else int n) < sec_ns"
      "v = (if neg then - int n else int n) * 10 ^ (9 - length s)"
    by (auto simp: parse_frac_def Let_def split: prod.splits option.splits if_splits)
  have n: "(if neg then - int n else int n) = int n" using w(1) by (auto split: if_splits)
  have "length t \<le> length s" using p(1) by (auto simp: parse_sign_def split: list.splits if_splits)
  then have "n < 10 ^ length s"
    using digits_val_bound [OF p(2)] power_increasing [of "length t" "length s" "10::nat"]
    by (simp add: less_le_trans)
  then have "length s \<le> 9 \<Longrightarrow> n * 10 ^ (9 - length s) < 10 ^ length s * 10 ^ (9 - length s)" by simp
  then have "length s \<le> 9 \<Longrightarrow> n * 10 ^ (9 - length s) < 10 ^ 9" by (simp add: power_add [symmetric])
  then have "length s \<le> 9 \<Longrightarrow> int (n * 10 ^ (9 - length s)) < int (10 ^ 9)"
    by (simp only: of_nat_less_iff)
  then have "length s \<le> 9 \<Longrightarrow> int (n * 10 ^ (9 - length s)) < sec_ns" by (simp add: sec_ns_def)
  then show ?thesis using w n by (cases "length s \<le> 9") auto
qed

lemma parse_layout_year:
  assumes "parse_layout sep mid fr b = Some t"
  shows "fst (civil_of_time t) \<in> {0..9999}"
proof -
  obtain y mo d h mi s ns s0 s3 s4 where
    p: "getyear b = Some (y, s0)" "civil_ok y mo d" "0 \<le> h \<and> h \<le> 23" "0 \<le> mi \<and> mi \<le> 59"
      "0 \<le> s \<and> s \<le> 59" "getfrac fr s3 = Some (ns, s4)" "t = mk_time y mo d h mi s ns"
    using assms unfolding parse_layout_def
    by (clarsimp simp: bind_eq_Some_conv simp del: skip.simps split: if_splits prod.splits)
       (blast dest!: getrange_SomeD)
  have "0 \<le> ns \<and> ns < sec_ns"
    using p(6) parse_frac_range
    by (auto simp: getfrac_def Let_def split: option.splits list.splits if_splits)
       (simp_all add: sec_ns_def)
  with p show ?thesis using getyear_range mk_time_year by blast
qed

end
