(* ===== verification/Fix_Message.thy ===== *)
theory Fix_Message
  imports Go_Decimal Go_Time
begin

text \<open>
  FIX messages as the gateway reads and builds them, from
  \<^verbatim>\<open>vendor/github.com/quickfixgo/quickfix\<close> (\<^verbatim>\<open>field_map.go\<close>, \<^verbatim>\<open>fix_int.go\<close>, \<^verbatim>\<open>fix_boolean.go\<close>,
  \<^verbatim>\<open>repeating_group.go\<close>, \<^verbatim>\<open>errors.go\<close>, \<^verbatim>\<open>session_id.go\<close>).

  A \<^verbatim>\<open>FieldMap\<close> maps a tag to a slice of tag/value pairs. The head of the slice is the field itself.
  For a field of a received message the slice's capacity extends over the fields that follow it in
  the message, which is where \<^verbatim>\<open>RepeatingGroup.Read\<close> finds the members of a group; for a group that was
  set with \<^verbatim>\<open>SetGroup\<close> the tail is the content of the group. The model keeps head and tail in one list.
  A reject (\<^verbatim>\<open>MessageRejectError\<close>) is a record; reading a field gives a reject or a value.
\<close>

type_synonym tag = int
type_synonym tag_value = "tag \<times> string"
type_synonym FieldMap = "tag \<rightharpoonup> tag_value list"

section \<open>Rejects\<close>

record MessageRejectError =
  rj_text :: string
  rj_reason :: int
  rj_tag :: "tag option"
  rj_business :: bool

type_synonym 'a rej = "MessageRejectError + 'a"

definition NewMessageRejectError :: "string \<Rightarrow> int \<Rightarrow> tag option \<Rightarrow> MessageRejectError" where
  "NewMessageRejectError err reason t = \<lparr>rj_text = err, rj_reason = reason, rj_tag = t, rj_business = False\<rparr>"

definition NewBusinessMessageRejectError :: "string \<Rightarrow> int \<Rightarrow> tag option \<Rightarrow> MessageRejectError" where
  "NewBusinessMessageRejectError err reason t =
     \<lparr>rj_text = err, rj_reason = reason, rj_tag = t, rj_business = True\<rparr>"

definition IncorrectDataFormatForValue :: "tag \<Rightarrow> MessageRejectError" where
  "IncorrectDataFormatForValue t = NewMessageRejectError ''Incorrect data format for value'' 6 (Some t)"

definition ValueIsIncorrect :: "tag \<Rightarrow> MessageRejectError" where
  "ValueIsIncorrect t =
     NewMessageRejectError ''Value is incorrect (out of range) for this tag'' 5 (Some t)"

definition ConditionallyRequiredFieldMissing :: "tag \<Rightarrow> MessageRejectError" where
  "ConditionallyRequiredFieldMissing t =
     NewBusinessMessageRejectError
       (''Conditionally Required Field Missing ('' @ FormatInt t @ '')'') 5 (Some t)"

definition UnsupportedMessageType :: MessageRejectError where
  "UnsupportedMessageType = NewBusinessMessageRejectError ''Unsupported Message Type'' 3 None"

definition repeatingGroupFieldsOutOfOrder :: "tag \<Rightarrow> string \<Rightarrow> MessageRejectError" where
  "repeatingGroupFieldsOutOfOrder t reason =
     NewMessageRejectError
       (if reason \<noteq> '''' then ''Repeating group fields out of order ('' @ reason @ '')''
        else ''Repeating group fields out of order'') 15 (Some t)"

section \<open>Field values\<close>

fun parseUInt_loop :: "int \<Rightarrow> string \<Rightarrow> int option" where
  "parseUInt_loop n [] = Some n"
| "parseUInt_loop n (c # s) =
     (case char_digit c of
        None \<Rightarrow> None
      | Some d \<Rightarrow> parseUInt_loop (wrap64 (n * 10 + int d)) s)"

definition parseUInt :: "string \<Rightarrow> int option" where
  "parseUInt d = (if d = [] then None else parseUInt_loop 0 d)"

text \<open>\<^verbatim>\<open>atoi\<close> indexes the first byte and panics on an empty value.\<close>

definition atoi :: "string \<Rightarrow> int option go" where
  "atoi d =
     (case d of
        [] \<Rightarrow> Panic ''runtime error: index out of range''
      | c # t \<Rightarrow> if c = CHR ''-'' then Ret (map_option (\<lambda>n. wrap64 (- n)) (parseUInt t))
                 else Ret (parseUInt d))"

definition FIXBoolean_Read :: "string \<Rightarrow> bool option" where
  "FIXBoolean_Read b = (if b = ''Y'' then Some True else if b = ''N'' then Some False else None)"

definition FIXBoolean_Write :: "bool \<Rightarrow> string" where
  "FIXBoolean_Write b = (if b then ''Y'' else ''N'')"

lemma FIXBoolean_Read_Write: "FIXBoolean_Read (FIXBoolean_Write b) = Some b"
  by (simp add: FIXBoolean_Read_def FIXBoolean_Write_def)

definition FIXDecimal_Read :: "string \<Rightarrow> Decimal option" where
  "FIXDecimal_Read b = (case NewFromString b of Inl _ \<Rightarrow> None | Inr d \<Rightarrow> Some d)"

section \<open>Field maps\<close>

definition Has :: "FieldMap \<Rightarrow> tag \<Rightarrow> bool" where
  "Has m t = (m t \<noteq> None)"

definition GetBytes :: "FieldMap \<Rightarrow> tag \<Rightarrow> string rej" where
  "GetBytes m t =
     (case m t of None \<Rightarrow> Inl (ConditionallyRequiredFieldMissing t) | Some f \<Rightarrow> Inr (snd (hd f)))"

definition GetField :: "(string \<Rightarrow> 'a option) \<Rightarrow> FieldMap \<Rightarrow> tag \<Rightarrow> 'a rej" where
  "GetField rd m t =
     (case m t of
        None \<Rightarrow> Inl (ConditionallyRequiredFieldMissing t)
      | Some f \<Rightarrow> (case rd (snd (hd f)) of
                    None \<Rightarrow> Inl (IncorrectDataFormatForValue t) | Some v \<Rightarrow> Inr v))"

definition GetString :: "FieldMap \<Rightarrow> tag \<Rightarrow> string rej" where
  "GetString m t = GetField Some m t"

definition GetBool :: "FieldMap \<Rightarrow> tag \<Rightarrow> bool rej" where
  "GetBool m t = GetField FIXBoolean_Read m t"

definition GetDecimal :: "FieldMap \<Rightarrow> tag \<Rightarrow> Decimal rej" where
  "GetDecimal m t = GetField FIXDecimal_Read m t"

definition GetTime :: "FieldMap \<Rightarrow> tag \<Rightarrow> time rej" where
  "GetTime m t = GetField (\<lambda>b. map_option fst (FIXUTCTimestamp_Read b)) m t"

definition GetInt :: "FieldMap \<Rightarrow> tag \<Rightarrow> int rej go" where
  "GetInt m t =
     (case GetBytes m t of
        Inl e \<Rightarrow> Ret (Inl e)
      | Inr b \<Rightarrow> go_bind (atoi b)
          (\<lambda>r. Ret (case r of None \<Rightarrow> Inl (IncorrectDataFormatForValue t) | Some n \<Rightarrow> Inr n)))"

text \<open>\<^verbatim>\<open>Set\<close> overwrites the head of the slice that is already there, or makes a slice of one.\<close>

definition SetField :: "tag \<Rightarrow> string \<Rightarrow> FieldMap \<Rightarrow> FieldMap" where
  "SetField t v m =
     m(t \<mapsto> (case m t of Some (_ # rest) \<Rightarrow> (t, v) # rest | _ \<Rightarrow> [(t, v)]))"

section \<open>Repeating groups\<close>

text \<open>A group's entries, written in the order of the template.\<close>

definition group_Write :: "tag \<Rightarrow> tag list \<Rightarrow> FieldMap list \<Rightarrow> tag_value list" where
  "group_Write t template gs =
     (t, nat_str (length gs)) #
     concat (map (\<lambda>g. concat (map (\<lambda>tg. case g tg of None \<Rightarrow> [] | Some f \<Rightarrow> f) template)) gs)"

definition SetGroup :: "tag \<Rightarrow> tag list \<Rightarrow> FieldMap list \<Rightarrow> FieldMap \<Rightarrow> FieldMap" where
  "SetGroup t template gs m = m(t \<mapsto> group_Write t template gs)"

text \<open>The loop of \<^verbatim>\<open>RepeatingGroup.Read\<close> for a template of single fields: \<open>cur\<close> is the group that is being
  filled. A field before the first delimiter goes to a group that is not part of the result.\<close>

fun group_loop :: "tag list \<Rightarrow> FieldMap list \<Rightarrow> FieldMap option \<Rightarrow> tag_value list \<Rightarrow> FieldMap list" where
  "group_loop template gs cur [] = gs @ (case cur of None \<Rightarrow> [] | Some g \<Rightarrow> [g])"
| "group_loop template gs cur (tv # tvs) =
     (if fst tv \<in> set template then
        (if fst tv = hd template then
           group_loop template (gs @ (case cur of None \<Rightarrow> [] | Some g \<Rightarrow> [g]))
             (Some [fst tv \<mapsto> tv # tvs]) tvs
         else group_loop template gs (map_option (\<lambda>g. g(fst tv \<mapsto> tv # tvs)) cur) tvs)
      else gs @ (case cur of None \<Rightarrow> [] | Some g \<Rightarrow> [g]))"

definition group_Read :: "tag \<Rightarrow> tag list \<Rightarrow> tag_value list \<Rightarrow> FieldMap list rej go" where
  "group_Read t template f =
     go_bind (atoi (snd (hd f)))
       (\<lambda>r. Ret (case r of
           None \<Rightarrow> Inl (IncorrectDataFormatForValue t)
         | Some n \<Rightarrow>
             if n = 0 then Inr []
             else let gs = group_loop template [] None (tl f)
                  in if int (length gs) \<noteq> n
                     then Inl (repeatingGroupFieldsOutOfOrder t
                       (''group '' @ FormatInt t @ '': template is wrong or delimiter '' @
                        FormatInt (hd template) @ '' not found: expected '' @ FormatInt n @
                        '' groups, but found '' @ nat_str (length gs)))
                     else Inr gs))"

definition GetGroup :: "tag \<Rightarrow> tag list \<Rightarrow> FieldMap \<Rightarrow> FieldMap list rej go" where
  "GetGroup t template m =
     (case m t of
        None \<Rightarrow> Ret (Inl (ConditionallyRequiredFieldMissing t))
      | Some f \<Rightarrow> group_Read t template f)"

section \<open>Messages and sessions\<close>

record Message =
  m_Header :: FieldMap
  m_Body :: FieldMap

definition BeginStringFIX42 :: string where "BeginStringFIX42 = ''FIX.4.2''"
definition BeginStringFIX44 :: string where "BeginStringFIX44 = ''FIX.4.4''"
definition BeginStringFIXT11 :: string where "BeginStringFIXT11 = ''FIXT.1.1''"

text \<open>The generated constructors set the BeginString and the MsgType of the header.\<close>

definition new_msg :: "string \<Rightarrow> string \<Rightarrow> Message" where
  "new_msg beginString msgType =
     \<lparr>m_Header = SetField 35 msgType (SetField 8 beginString Map.empty), m_Body = Map.empty\<rparr>"

definition msg_set :: "tag \<Rightarrow> string \<Rightarrow> Message \<Rightarrow> Message" where
  "msg_set t v m = m\<lparr>m_Body := SetField t v (m_Body m)\<rparr>"

definition msg_set_group :: "tag \<Rightarrow> tag list \<Rightarrow> FieldMap list \<Rightarrow> Message \<Rightarrow> Message" where
  "msg_set_group t template gs m = m\<lparr>m_Body := SetGroup t template gs (m_Body m)\<rparr>"

definition MsgType :: "Message \<Rightarrow> string rej" where
  "MsgType m = GetString (m_Header m) 35"

definition IsMsgTypeOf :: "Message \<Rightarrow> string \<Rightarrow> bool" where
  "IsMsgTypeOf m t = (case MsgType m of Inr v \<Rightarrow> v = t | Inl _ \<Rightarrow> False)"

record SessionID =
  BeginString :: string
  TargetCompID :: string
  TargetSubID :: string
  TargetLocationID :: string
  SenderCompID :: string
  SenderSubID :: string
  SenderLocationID :: string
  Qualifier :: string

definition appendOptional :: "string \<Rightarrow> string \<Rightarrow> string" where
  "appendOptional delim v = (if v = [] then [] else delim @ v)"

definition SessionID_String :: "SessionID \<Rightarrow> string" where
  "SessionID_String s =
     BeginString s @ '':'' @ SenderCompID s @ appendOptional ''/'' (SenderSubID s) @
     appendOptional ''/'' (SenderLocationID s) @ ''->'' @ TargetCompID s @
     appendOptional ''/'' (TargetSubID s) @ appendOptional ''/'' (TargetLocationID s) @
     appendOptional '':'' (Qualifier s)"

section \<open>Lemmas\<close>

lemma GetString_SetField:
  "GetString (SetField t v m) t' = (if t' = t then Inr v else GetString m t')"
  by (auto simp: GetString_def GetField_def SetField_def split: option.splits list.splits)

text \<open>The fields of a message are a keyed store: a field that is set is read back, and the other
  fields stay.\<close>

definition str_field :: "FieldMap \<Rightarrow> tag \<Rightarrow> string option" where
  "str_field m t = (case GetString m t of Inl _ \<Rightarrow> None | Inr v \<Rightarrow> Some v)"

interpretation fields: keyed_store SetField str_field
  by unfold_locales (simp add: str_field_def GetString_SetField)

definition body_str :: "Message \<Rightarrow> tag \<Rightarrow> string option" where
  "body_str m t = str_field (m_Body m) t"

interpretation msg_fields: keyed_store msg_set body_str
  by unfold_locales (simp add: body_str_def msg_set_def fields.get_put)

lemma body_str_new [simp]: "body_str (new_msg b t) k = None"
  by (simp add: body_str_def str_field_def new_msg_def GetString_def GetField_def)

lemma GetString_cases: "GetString m t = (if Has m t then Inr (snd (hd (the (m t)))) else
    Inl (ConditionallyRequiredFieldMissing t))"
  by (auto simp: GetString_def GetField_def Has_def split: option.splits)

end
