(* ===== verification/Fix_Enums.thy ===== *)
theory Fix_Enums
  imports Fix_Message
begin

text \<open>
  The tags and enumeration values that the gateway uses, from
  \<^verbatim>\<open>vendor/github.com/quickfixgo/tag\<close> and \<^verbatim>\<open>vendor/github.com/quickfixgo/enum\<close>, under the names the
  source gives them.
\<close>

abbreviation (input) tag_Account :: tag where "tag_Account \<equiv> 1"
abbreviation (input) tag_AvgPx :: tag where "tag_AvgPx \<equiv> 6"
abbreviation (input) tag_ClOrdID :: tag where "tag_ClOrdID \<equiv> 11"
abbreviation (input) tag_Commission :: tag where "tag_Commission \<equiv> 12"
abbreviation (input) tag_CommType :: tag where "tag_CommType \<equiv> 13"
abbreviation (input) tag_CumQty :: tag where "tag_CumQty \<equiv> 14"
abbreviation (input) tag_Currency :: tag where "tag_Currency \<equiv> 15"
abbreviation (input) tag_ExecID :: tag where "tag_ExecID \<equiv> 17"
abbreviation (input) tag_ExecInst :: tag where "tag_ExecInst \<equiv> 18"
abbreviation (input) tag_ExecTransType :: tag where "tag_ExecTransType \<equiv> 20"
abbreviation (input) tag_HandlInst :: tag where "tag_HandlInst \<equiv> 21"
abbreviation (input) tag_IDSource :: tag where "tag_IDSource \<equiv> 22"
abbreviation (input) tag_LastPx :: tag where "tag_LastPx \<equiv> 31"
abbreviation (input) tag_LastShares :: tag where "tag_LastShares \<equiv> 32"
abbreviation (input) tag_OrderID :: tag where "tag_OrderID \<equiv> 37"
abbreviation (input) tag_OrderQty :: tag where "tag_OrderQty \<equiv> 38"
abbreviation (input) tag_OrdStatus :: tag where "tag_OrdStatus \<equiv> 39"
abbreviation (input) tag_OrdType :: tag where "tag_OrdType \<equiv> 40"
abbreviation (input) tag_OrigClOrdID :: tag where "tag_OrigClOrdID \<equiv> 41"
abbreviation (input) tag_Price :: tag where "tag_Price \<equiv> 44"
abbreviation (input) tag_SecurityID :: tag where "tag_SecurityID \<equiv> 48"
abbreviation (input) tag_Quantity :: tag where "tag_Quantity \<equiv> 53"
abbreviation (input) tag_Side :: tag where "tag_Side \<equiv> 54"
abbreviation (input) tag_Symbol :: tag where "tag_Symbol \<equiv> 55"
abbreviation (input) tag_Text :: tag where "tag_Text \<equiv> 58"
abbreviation (input) tag_TimeInForce :: tag where "tag_TimeInForce \<equiv> 59"
abbreviation (input) tag_TransactTime :: tag where "tag_TransactTime \<equiv> 60"
abbreviation (input) tag_StopPx :: tag where "tag_StopPx \<equiv> 99"
abbreviation (input) tag_CxlRejReason :: tag where "tag_CxlRejReason \<equiv> 102"
abbreviation (input) tag_ExpireTime :: tag where "tag_ExpireTime \<equiv> 126"
abbreviation (input) tag_NoRelatedSym :: tag where "tag_NoRelatedSym \<equiv> 146"
abbreviation (input) tag_ExecType :: tag where "tag_ExecType \<equiv> 150"
abbreviation (input) tag_LeavesQty :: tag where "tag_LeavesQty \<equiv> 151"
abbreviation (input) tag_PegDifference :: tag where "tag_PegDifference \<equiv> 211"
abbreviation (input) tag_MDReqID :: tag where "tag_MDReqID \<equiv> 262"
abbreviation (input) tag_SubscriptionRequestType :: tag where "tag_SubscriptionRequestType \<equiv> 263"
abbreviation (input) tag_MarketDepth :: tag where "tag_MarketDepth \<equiv> 264"
abbreviation (input) tag_AggregatedBook :: tag where "tag_AggregatedBook \<equiv> 266"
abbreviation (input) tag_NoMDEntries :: tag where "tag_NoMDEntries \<equiv> 268"
abbreviation (input) tag_MDEntryType :: tag where "tag_MDEntryType \<equiv> 269"
abbreviation (input) tag_MDEntryPx :: tag where "tag_MDEntryPx \<equiv> 270"
abbreviation (input) tag_MDEntrySize :: tag where "tag_MDEntrySize \<equiv> 271"
abbreviation (input) tag_MDUpdateAction :: tag where "tag_MDUpdateAction \<equiv> 279"
abbreviation (input) tag_MDReqRejReason :: tag where "tag_MDReqRejReason \<equiv> 281"
abbreviation (input) tag_RefMsgType :: tag where "tag_RefMsgType \<equiv> 372"
abbreviation (input) tag_BusinessRejectReason :: tag where "tag_BusinessRejectReason \<equiv> 380"
abbreviation (input) tag_CxlRejResponseTo :: tag where "tag_CxlRejResponseTo \<equiv> 434"
abbreviation (input) tag_CashMargin :: tag where "tag_CashMargin \<equiv> 544"
abbreviation (input) tag_AccountType :: tag where "tag_AccountType \<equiv> 581"
abbreviation (input) tag_ClearingBusinessDate :: tag where "tag_ClearingBusinessDate \<equiv> 715"
abbreviation (input) tag_PosMaintRptID :: tag where "tag_PosMaintRptID \<equiv> 721"
abbreviation (input) tag_SettlPrice :: tag where "tag_SettlPrice \<equiv> 730"
abbreviation (input) tag_SettlPriceType :: tag where "tag_SettlPriceType \<equiv> 731"
abbreviation (input) tag_PriorSettlPrice :: tag where "tag_PriorSettlPrice \<equiv> 734"
abbreviation (input) tag_OpenInterest :: tag where "tag_OpenInterest \<equiv> 746"
abbreviation (input) tag_MarginExcess :: tag where "tag_MarginExcess \<equiv> 899"
abbreviation (input) tag_DisplayMethod :: tag where "tag_DisplayMethod \<equiv> 1084"
abbreviation (input) tag_ContingencyType :: tag where "tag_ContingencyType \<equiv> 1385"
abbreviation (input) tag_PricePrecision :: tag where "tag_PricePrecision \<equiv> 20003"
abbreviation (input) tag_MDRequestType :: tag where "tag_MDRequestType \<equiv> 20004"
abbreviation (input) tag_Leverage :: tag where "tag_Leverage \<equiv> 20005"
abbreviation (input) tag_MarginFundingType :: tag where "tag_MarginFundingType \<equiv> 20006"
abbreviation (input) tag_ProfitLoss :: tag where "tag_ProfitLoss \<equiv> 20007"
abbreviation (input) tag_ProfitLossPercentage :: tag where "tag_ProfitLossPercentage \<equiv> 20008"

abbreviation (input) "OrdStatus_NEW \<equiv> ''0''"
abbreviation (input) "OrdStatus_PARTIALLY_FILLED \<equiv> ''1''"
abbreviation (input) "OrdStatus_FILLED \<equiv> ''2''"
abbreviation (input) "OrdStatus_DONE_FOR_DAY \<equiv> ''3''"
abbreviation (input) "OrdStatus_CANCELED \<equiv> ''4''"
abbreviation (input) "OrdStatus_REPLACED \<equiv> ''5''"
abbreviation (input) "OrdStatus_PENDING_CANCEL \<equiv> ''6''"
abbreviation (input) "OrdStatus_STOPPED \<equiv> ''7''"
abbreviation (input) "OrdStatus_REJECTED \<equiv> ''8''"
abbreviation (input) "OrdStatus_SUSPENDED \<equiv> ''9''"
abbreviation (input) "OrdStatus_EXPIRED \<equiv> ''C''"

abbreviation (input) "ExecType_NEW \<equiv> ''0''"
abbreviation (input) "ExecType_PARTIAL_FILL \<equiv> ''1''"
abbreviation (input) "ExecType_FILL \<equiv> ''2''"
abbreviation (input) "ExecType_CANCELED \<equiv> ''4''"
abbreviation (input) "ExecType_PENDING_CANCEL \<equiv> ''6''"
abbreviation (input) "ExecType_REJECTED \<equiv> ''8''"
abbreviation (input) "ExecType_TRADE \<equiv> ''F''"
abbreviation (input) "ExecType_ORDER_STATUS \<equiv> ''I''"

abbreviation (input) "HandlInst_MANUAL_ORDER_BEST_EXECUTION \<equiv> ''3''"

abbreviation (input) "Side_BUY \<equiv> ''1''"
abbreviation (input) "Side_SELL \<equiv> ''2''"
abbreviation (input) "Side_UNDISCLOSED \<equiv> ''7''"

abbreviation (input) "OrdType_MARKET \<equiv> ''1''"
abbreviation (input) "OrdType_LIMIT \<equiv> ''2''"
abbreviation (input) "OrdType_STOP \<equiv> ''3''"
abbreviation (input) "OrdType_STOP_LIMIT \<equiv> ''4''"

abbreviation (input) "TimeInForce_GOOD_TILL_CANCEL \<equiv> ''1''"
abbreviation (input) "TimeInForce_IMMEDIATE_OR_CANCEL \<equiv> ''3''"
abbreviation (input) "TimeInForce_FILL_OR_KILL \<equiv> ''4''"
abbreviation (input) "TimeInForce_GOOD_TILL_DATE \<equiv> ''6''"

abbreviation (input) "ExecInst_PARTICIPANT_DONT_INITIATE \<equiv> ''6''"
abbreviation (input) "ExecInst_ALL_OR_NONE \<equiv> ''G''"
abbreviation (input) "ExecInst_PRIMARY_PEG \<equiv> ''R''"

abbreviation (input) "CashMargin_MARGIN_OPEN \<equiv> ''2''"
abbreviation (input) "CashMargin_MARGIN_CLOSE \<equiv> ''3''"
abbreviation (input) "ContingencyType_ONE_CANCELS_THE_OTHER \<equiv> ''1''"
abbreviation (input) "DisplayMethod_UNDISCLOSED \<equiv> ''4''"
abbreviation (input) "MDUpdateAction_NEW \<equiv> ''0''"
abbreviation (input) "MDUpdateAction_DELETE \<equiv> ''2''"
abbreviation (input) "MDEntryType_BID \<equiv> ''0''"
abbreviation (input) "MDEntryType_OFFER \<equiv> ''1''"
abbreviation (input) "MDEntryType_TRADE \<equiv> ''2''"
abbreviation (input) "MDEntryType_TRADING_SESSION_HIGH_PRICE \<equiv> ''7''"
abbreviation (input) "MDEntryType_TRADING_SESSION_LOW_PRICE \<equiv> ''8''"
abbreviation (input) "MDEntryType_TRADE_VOLUME \<equiv> ''B''"
abbreviation (input) "CxlRejReason_UNKNOWN_ORDER \<equiv> ''1''"
abbreviation (input) "CxlRejReason_OTHER \<equiv> ''99''"
abbreviation (input) "CxlRejResponseTo_ORDER_CANCEL_REQUEST \<equiv> ''1''"
abbreviation (input) "CxlRejResponseTo_ORDER_CANCEL_REPLACE_REQUEST \<equiv> ''2''"
abbreviation (input) "ExecTransType_STATUS \<equiv> ''3''"
abbreviation (input) "CommType_ABSOLUTE \<equiv> ''3''"
abbreviation (input) "IDSource_EXCHANGE_SYMBOL \<equiv> ''8''"
abbreviation (input) "SettlPriceType_FINAL \<equiv> ''1''"
abbreviation (input) "BusinessRejectReason_OTHER \<equiv> ''0''"
abbreviation (input) "BusinessRejectReason_UNKNOWN_SECURITY \<equiv> ''2''"
abbreviation (input) "MDReqRejReason_UNKNOWN_SYMBOL \<equiv> ''0''"
abbreviation (input) "MDReqRejReason_DUPLICATE_MDREQID \<equiv> ''1''"
abbreviation (input) "MDReqRejReason_UNSUPPORTED_SUBSCRIPTIONREQUESTTYPE \<equiv> ''4''"
abbreviation (input) "SubscriptionRequestType_SNAPSHOT \<equiv> ''0''"
abbreviation (input) "SubscriptionRequestType_SNAPSHOT_PLUS_UPDATES \<equiv> ''1''"
abbreviation (input) "SubscriptionRequestType_DISABLE \<equiv> ''2''"

end
