(* ===== verification/Bfx_Types.thy ===== *)
theory Bfx_Types
  imports Go_Float64
begin

text \<open>
  The data of the exchange's API that the gateway handles, from
  \<^verbatim>\<open>vendor/github.com/bitfinexcom/bitfinex-api-go/v2/types.go\<close> and \<^verbatim>\<open>v2/websocket/events.go\<close>, and the
  constants the conversions compare with. \<open>int64\<close> fields are integers, \<^verbatim>\<open>OrderType\<close>, \<^verbatim>\<open>OrderStatus\<close> and
  the like are strings as in the source.
\<close>

record OrderNewRequest =
  on_GID :: int
  on_CID :: int
  on_Type :: string
  on_Symbol :: string
  on_Amount :: float64
  on_Price :: float64
  on_Leverage :: int
  on_PriceTrailing :: float64
  on_PriceAuxLimit :: float64
  on_PriceOcoStop :: float64
  on_Hidden :: bool
  on_PostOnly :: bool
  on_Close :: bool
  on_OcoOrder :: bool
  on_TimeInForce :: string

record OrderUpdateRequest =
  ou_ID :: int
  ou_GID :: int
  ou_Price :: float64
  ou_Amount :: float64
  ou_Leverage :: int
  ou_Delta :: float64
  ou_PriceTrailing :: float64
  ou_PriceAuxLimit :: float64
  ou_Hidden :: bool
  ou_PostOnly :: bool
  ou_TimeInForce :: string

record OrderCancelRequest =
  oc_ID :: int
  oc_CID :: int
  oc_CIDDate :: string

record Order =
  o_ID :: int
  o_GID :: int
  o_CID :: int
  o_Symbol :: string
  o_MTSCreated :: int
  o_MTSUpdated :: int
  o_Amount :: float64
  o_AmountOrig :: float64
  o_Type :: string
  o_TypePrev :: string
  o_MTSTif :: int
  o_Flags :: int
  o_Status :: string
  o_Price :: float64
  o_PriceAvg :: float64
  o_PriceTrailing :: float64
  o_PriceAuxLimit :: float64
  o_Notify :: bool
  o_Hidden :: bool
  o_PlacedID :: int

record Position =
  po_Id :: int
  po_Symbol :: string
  po_Status :: string
  po_Amount :: float64
  po_BasePrice :: float64
  po_MarginFunding :: float64
  po_MarginFundingType :: int
  po_ProfitLoss :: float64
  po_ProfitLossPercentage :: float64
  po_LiquidationPrice :: float64
  po_Leverage :: float64

text \<open>Order sides (\<^verbatim>\<open>Bid = 1\<close>, \<^verbatim>\<open>Ask = 2\<close>) and book actions (\<^verbatim>\<open>0\<close> update, \<^verbatim>\<open>1\<close> remove) are bytes.\<close>

record Trade =
  tr_Pair :: string
  tr_ID :: int
  tr_MTS :: int
  tr_Amount :: float64
  tr_Price :: float64
  tr_Side :: nat

record TradeExecutionUpdate =
  te_ID :: int
  te_Pair :: string
  te_MTS :: int
  te_OrderID :: int
  te_ExecAmount :: float64
  te_ExecPrice :: float64
  te_OrderType :: string
  te_OrderPrice :: float64
  te_Maker :: int
  te_Fee :: float64
  te_FeeCurrency :: string

record Wallet =
  wl_Type :: string
  wl_Currency :: string
  wl_Balance :: float64
  wl_UnsettledInterest :: float64
  wl_BalanceAvailable :: float64

record BalanceInfo =
  bi_TotalAUM :: float64
  bi_NetAUM :: float64

record BookUpdate =
  bu_ID :: int
  bu_Symbol :: string
  bu_Price :: float64
  bu_Count :: int
  bu_Amount :: float64
  bu_Side :: nat
  bu_Action :: nat

datatype notify_info = NOrderCancel Order | NOrderNew Order | NOther

record Notification =
  no_MTS :: int
  no_Type :: string
  no_MessageID :: int
  no_NotifyInfo :: notify_info
  no_Code :: int
  no_Status :: string
  no_Text :: string

record AuthEvent =
  ae_Event :: string
  ae_Status :: string
  ae_ChanID :: int
  ae_UserID :: int
  ae_SubID :: string
  ae_AuthID :: string
  ae_Message :: string

record ErrorEvent =
  ev_Code :: int
  ev_Message :: string
  ev_SubID :: string
  ev_Channel :: string
  ev_ChanID :: int
  ev_Symbol :: string
  ev_Precision :: string
  ev_Frequency :: string
  ev_Key :: string
  ev_Len :: string
  ev_Pair :: string

section \<open>Constants\<close>

abbreviation (input) "OrderTypeMarket \<equiv> ''MARKET''"
abbreviation (input) "OrderTypeExchangeMarket \<equiv> ''EXCHANGE MARKET''"
abbreviation (input) "OrderTypeLimit \<equiv> ''LIMIT''"
abbreviation (input) "OrderTypeExchangeLimit \<equiv> ''EXCHANGE LIMIT''"
abbreviation (input) "OrderTypeStop \<equiv> ''STOP''"
abbreviation (input) "OrderTypeExchangeStop \<equiv> ''EXCHANGE STOP''"
abbreviation (input) "OrderTypeTrailingStop \<equiv> ''TRAILING STOP''"
abbreviation (input) "OrderTypeExchangeTrailingStop \<equiv> ''EXCHANGE TRAILING STOP''"
abbreviation (input) "OrderTypeFOK \<equiv> ''FOK''"
abbreviation (input) "OrderTypeExchangeFOK \<equiv> ''EXCHANGE FOK''"
abbreviation (input) "OrderTypeStopLimit \<equiv> ''STOP LIMIT''"
abbreviation (input) "OrderTypeExchangeStopLimit \<equiv> ''EXCHANGE STOP LIMIT''"

abbreviation (input) "OrderStatusActive \<equiv> ''ACTIVE''"
abbreviation (input) "OrderStatusExecuted \<equiv> ''EXECUTED''"
abbreviation (input) "OrderStatusPartiallyFilled \<equiv> ''PARTIALLY FILLED''"
abbreviation (input) "OrderStatusCanceled \<equiv> ''CANCELED''"

definition OrderFlagHidden :: int where "OrderFlagHidden = 64"
definition OrderFlagClose :: int where "OrderFlagClose = 512"
definition OrderFlagPostOnly :: int where "OrderFlagPostOnly = 4096"
definition OrderFlagOCO :: int where "OrderFlagOCO = 16384"

section \<open>Book snapshots\<close>

text \<open>
  The snapshot of a book from the rows of numbers of the REST API. A row of the raw book has an identifier, a price and an amount, a row of
  the other books a price, a count and an amount. The numbers as JSON text are left out, and rows are lists of numbers, as the
  API documents them (\<^verbatim>\<open>BookService.All\<close> drops elements that are no numbers). \<open>gofmt\<close> is the text that \<^verbatim>\<open>fmt\<close> gives a row in
  the text of an error.
\<close>

definition IsRawBook :: "string \<Rightarrow> bool" where
  "IsRawBook precision \<longleftrightarrow> precision = ''R0''"

definition NewBookUpdateFromRaw :: "(float64 list \<Rightarrow> string) \<Rightarrow> string \<Rightarrow> string \<Rightarrow> float64 list \<Rightarrow> BookUpdate res" where
  "NewBookUpdateFromRaw gofmt symbol precision data =
     (if length data < 3 then
        Inl (''data slice too short for book update, expected 5 got '' @ nat_str (length data) @ '': '' @ gofmt data)
      else
        (let amt = data ! 2;
             (i, px, cnt, actionCtrl) =
               (if IsRawBook precision then (f64_to_int64 (data ! 0), data ! 1, 0, data ! 1)
                else (0, data ! 0, f64_to_int64 (data ! 1), f64_of_int (f64_to_int64 (data ! 1))));
             side = (if f64_lt f64_zero amt then 1 else 2);
             action = (if f64_le actionCtrl f64_zero then 1 else 0)
         in Inr \<lparr>bu_ID = i, bu_Symbol = symbol, bu_Price = math_Abs px, bu_Count = cnt, bu_Amount = math_Abs amt,
                 bu_Side = side, bu_Action = action\<rparr>))"

fun book_rows :: "(float64 list \<Rightarrow> string) \<Rightarrow> string \<Rightarrow> string \<Rightarrow> float64 list list \<Rightarrow> BookUpdate list res" where
  "book_rows gofmt symbol precision [] = Inr []"
| "book_rows gofmt symbol precision (f # raw) =
     (case NewBookUpdateFromRaw gofmt symbol precision f of
        Inl err \<Rightarrow> Inl err
      | Inr b \<Rightarrow> sbind (book_rows gofmt symbol precision raw) (\<lambda>bs. Inr (b # bs)))"

definition NewBookUpdateSnapshotFromRaw ::
  "(float64 list \<Rightarrow> string) \<Rightarrow> string \<Rightarrow> string \<Rightarrow> float64 list list \<Rightarrow> BookUpdate list res" where
  "NewBookUpdateSnapshotFromRaw gofmt symbol precision raw =
     (if raw = [] then Inl ''data slice too short for book snapshot: [][]float64{}''
      else book_rows gofmt symbol precision raw)"

lemma book_rows_length: "book_rows gofmt symbol precision raw = Inr bs \<Longrightarrow> length bs = length raw"
  by (induction raw arbitrary: bs) (auto split: sum.splits simp: sbind_eq_Inr)

lemma book_snapshot_not_empty: "NewBookUpdateSnapshotFromRaw gofmt symbol precision raw \<noteq> Inr []"
  using book_rows_length [of gofmt symbol precision raw "[]"] by (auto simp: NewBookUpdateSnapshotFromRaw_def)

end
