(* ===== verification/Convert_Fix.thy ===== *)
theory Convert_Fix
  imports Fix_Enums Bfx_Types
begin

text \<open>
  The conversions of single values from the exchange's form to FIX (\<^verbatim>\<open>convert/fix.go\<close>): order status,
  execution type, side, order type, time in force, execution instructions, display method, and the
  decimal fields. A conversion through \<^verbatim>\<open>decimal.NewFromFloat\<close> may panic, on infinities and NaN.
\<close>

unbundle bit_operations_syntax

definition FlagHidden :: int where "FlagHidden = 64"
definition FlagPostOnly :: int where "FlagPostOnly = 4096"

definition OrdStatusToFIX :: "string \<Rightarrow> string" where
  "OrdStatusToFIX status =
     (if contains status OrderStatusExecuted then OrdStatus_FILLED
      else if contains status OrderStatusPartiallyFilled then OrdStatus_PARTIALLY_FILLED
      else if contains status OrderStatusCanceled then OrdStatus_CANCELED
      else OrdStatus_NEW)"

definition ExecTypeToFIX :: "string \<Rightarrow> string" where
  "ExecTypeToFIX status =
     (if contains status OrderStatusActive then ExecType_NEW
      else if contains status OrderStatusCanceled then ExecType_CANCELED
      else if contains status OrderStatusPartiallyFilled then ExecType_TRADE
      else if contains status OrderStatusExecuted then ExecType_TRADE
      else ExecType_ORDER_STATUS)"

definition SideToFIX :: "float64 \<Rightarrow> string" where
  "SideToFIX amount =
     (if f64_lt f64_zero amount then Side_BUY
      else if f64_lt amount f64_zero then Side_SELL
      else Side_UNDISCLOSED)"

text \<open>A decimal field is its tag and its text with a fixed number of places.\<close>

definition dec_field :: "tag \<Rightarrow> int \<Rightarrow> float64 \<Rightarrow> tag_value go" where
  "dec_field t places x = go_bind (NewFromFloat x) (\<lambda>d. Ret (t, StringFixed d places))"

definition LeavesQtyToFIX :: "float64 \<Rightarrow> tag_value go" where
  "LeavesQtyToFIX amount = dec_field tag_LeavesQty 4 amount"

definition LastSharesToFIX :: "float64 \<Rightarrow> tag_value go" where
  "LastSharesToFIX qty = dec_field tag_LastShares 4 qty"

definition CumQtyToFIX :: "float64 \<Rightarrow> tag_value go" where
  "CumQtyToFIX cumQty = dec_field tag_CumQty 2 cumQty"

definition AvgPxToFIX :: "float64 \<Rightarrow> tag_value go" where
  "AvgPxToFIX priceAvg = dec_field tag_AvgPx 2 priceAvg"

definition OrdTypeToFIX :: "string \<Rightarrow> string \<times> bool" where
  "OrdTypeToFIX bfxOrdType =
     (let isMargin = contains bfxOrdType ''MARGIN'';
          t = replace1 bfxOrdType ''MARGIN'' ''EXCHANGE''
      in (if t = OrderTypeExchangeLimit \<or> t = OrderTypeLimit then OrdType_LIMIT
          else if t = OrderTypeExchangeMarket \<or> t = OrderTypeMarket then OrdType_MARKET
          else if t = OrderTypeStop \<or> t = OrderTypeTrailingStop \<or> t = OrderTypeExchangeTrailingStop \<or>
                  t = OrderTypeExchangeStop then OrdType_STOP
          else if t = OrderTypeStopLimit then OrdType_STOP_LIMIT
          else if t = OrderTypeFOK \<or> t = OrderTypeExchangeFOK then OrdType_LIMIT
          else OrdType_MARKET,
          isMargin))"

definition BookActionToFIX :: "nat \<Rightarrow> string" where
  "BookActionToFIX action =
     (if action = 0 then MDUpdateAction_NEW
      else if action = 1 then MDUpdateAction_DELETE
      else MDUpdateAction_NEW)"

definition MTSToTime :: "int \<Rightarrow> time \<times> bool" where
  "MTSToTime mts = (if mts > 0 then (Unix0 (wrap64 (mts * 1000000)), True) else (time_zero, False))"

definition TimeInForceToFIX :: "string \<Rightarrow> int \<Rightarrow> string \<times> time" where
  "TimeInForceToFIX ordtype mtstif =
     (let (tif, ok) = MTSToTime mtstif
      in if ok then (TimeInForce_GOOD_TILL_DATE, tif)
         else if ordtype = OrderTypeFOK \<or> ordtype = OrderTypeExchangeFOK
         then (TimeInForce_FILL_OR_KILL, tif)
         else (TimeInForce_GOOD_TILL_CANCEL, tif))"

definition ExecInstToFIX :: "string \<Rightarrow> int \<Rightarrow> string \<times> bool" where
  "ExecInstToFIX ordtype flags =
     (let execInst = (if ordtype = OrderTypeTrailingStop \<or> ordtype = OrderTypeExchangeTrailingStop
                      then ExecInst_PRIMARY_PEG else '''');
          execInst = (if flags AND OrderFlagPostOnly \<noteq> 0
                      then execInst @ ExecInst_PARTICIPANT_DONT_INITIATE else execInst)
      in (execInst, execInst \<noteq> ''''))"

definition DisplayMethodToFIX :: "int \<Rightarrow> string \<times> bool" where
  "DisplayMethodToFIX flags =
     (if flags AND OrderFlagHidden \<noteq> 0 then (DisplayMethod_UNDISCLOSED, True) else ('''', False))"

end
