(* ===== verification/Symbology.thy ===== *)
theory Symbology
  imports Gw_Prelude
begin

text \<open>
  Symbol translation (\<^verbatim>\<open>service/symbol\<close>): the interface \<^verbatim>\<open>Symbology\<close> is the record \<open>symbology\<close> of its two
  methods; its implementations are the passthrough symbology and the symbology read from a file.
  \<open>parse\<close> reads one line of the file, \<open>NewFileSymbology\<close> all of them. \<^verbatim>\<open>ToBitfinex\<close> ranges over the map
  of a counterparty, in an order that Go does not fix: the file symbology takes the order as a
  function \<open>ord\<close> of the counterparty.

  The locale \<open>symbol_roundtrip\<close> is what the gateway relies on: a symbol that was translated for a
  counterparty translates back. It holds for the passthrough symbology and for every file whose
  mapping is injective for each counterparty.
\<close>

record symbology =
  ToBitfinex :: "string \<Rightarrow> string \<Rightarrow> string res"
  FromBitfinex :: "string \<Rightarrow> string \<Rightarrow> string res"

section \<open>Passthrough\<close>

definition PassthroughSymbology :: symbology where
  "PassthroughSymbology =
     \<lparr>ToBitfinex = (\<lambda>symbol counterparty. Inr symbol), FromBitfinex = (\<lambda>symbol counterparty. Inr symbol)\<rparr>"

section \<open>The symbology file\<close>

record symbolset =
  symbols :: "string \<rightharpoonup> string"
  passthrough :: bool

definition newSymbolset :: symbolset where
  "newSymbolset = \<lparr>symbols = Map.empty, passthrough = False\<rparr>"

definition symbolset_set :: "string \<Rightarrow> string \<Rightarrow> symbolset \<Rightarrow> symbolset" where
  "symbolset_set k v s = s\<lparr>symbols := (symbols s)(k \<mapsto> v)\<rparr>"

definition symbolset_get :: "symbolset \<Rightarrow> string \<Rightarrow> string option" where
  "symbolset_get s k = symbols s k"

record FileSymbology =
  counterparty :: string
  counterparties :: "string \<rightharpoonup> symbolset"

text \<open>A line that starts with \<^verbatim>\<open>[\<close> and ends with \<^verbatim>\<open>]\<close> has at least two bytes, so the slice
  \<^verbatim>\<open>line[1 : len(line)-1]\<close> is in range.\<close>

definition parse :: "string \<Rightarrow> FileSymbology \<Rightarrow> FileSymbology" where
  "parse line f =
     (let f = (if prefix ''['' line \<and> suffix '']'' line
               then f\<lparr>counterparty := butlast (tl line)\<rparr> else f);
          s = split_on CHR ''='' line
      in if length s < 2 then f
         else let syms = (case counterparties f (counterparty f) of
                            None \<Rightarrow> newSymbolset | Some x \<Rightarrow> x);
                  syms' = (if to_lower (s ! 0) = ''passthrough'' \<and> to_lower (s ! 1) = ''true''
                           then syms\<lparr>passthrough := True\<rparr>
                           else symbolset_set (s ! 0) (s ! 1) syms)
              in f\<lparr>counterparties := (counterparties f)(counterparty f \<mapsto> syms')\<rparr>)"

definition NewFileSymbology :: "string list \<Rightarrow> FileSymbology" where
  "NewFileSymbology ls =
     fold parse ls \<lparr>counterparty = '''', counterparties = Map.empty\<rparr>"

definition file_ToBitfinex ::
  "(string \<Rightarrow> string list) \<Rightarrow> FileSymbology \<Rightarrow> string \<Rightarrow> string \<Rightarrow> string res" where
  "file_ToBitfinex ord f symbol cp =
     (case counterparties f cp of
        None \<Rightarrow> Inl (''could not find counterparty: '' @ cp)
      | Some symset \<Rightarrow>
          if passthrough symset then Inr symbol
          else (case range_find (\<lambda>_ c. c = symbol) (ord cp) (symbols symset) of
                  Some (bfx, _) \<Rightarrow> Inr bfx
                | None \<Rightarrow> Inl (''could not find Bitfinex symbol mapping '' @ quote symbol @
                               '' for counterparty '' @ quote cp)))"

definition file_FromBitfinex :: "FileSymbology \<Rightarrow> string \<Rightarrow> string \<Rightarrow> string res" where
  "file_FromBitfinex f symbol cp =
     (case counterparties f cp of
        None \<Rightarrow> Inl (''could not find counterparty: '' @ cp)
      | Some symset \<Rightarrow>
          if passthrough symset then Inr symbol
          else (case symbolset_get symset symbol of
                  None \<Rightarrow> Inl (''could not find symbol '' @ quote symbol @
                              '' for counterparty '' @ quote cp)
                | Some x \<Rightarrow> Inr x))"

definition file_symbology :: "(string \<Rightarrow> string list) \<Rightarrow> FileSymbology \<Rightarrow> symbology" where
  "file_symbology ord f = \<lparr>ToBitfinex = file_ToBitfinex ord f, FromBitfinex = file_FromBitfinex f\<rparr>"

section \<open>The contract\<close>

locale symbol_roundtrip =
  fixes sy :: symbology
  assumes from_to: "FromBitfinex sy s cp = Inr t \<Longrightarrow> ToBitfinex sy t cp = Inr s"
    and to_from: "ToBitfinex sy t cp = Inr s \<Longrightarrow> FromBitfinex sy s cp = Inr t"
begin

lemma from_iff_to: "FromBitfinex sy s cp = Inr t \<longleftrightarrow> ToBitfinex sy t cp = Inr s"
  using from_to to_from by blast

lemma from_inj: "FromBitfinex sy s cp = Inr t \<Longrightarrow> FromBitfinex sy s' cp = Inr t \<Longrightarrow> s = s'"
  using from_to [of s cp t] from_to [of s' cp t] by simp

end

interpretation passthrough_rt: symbol_roundtrip PassthroughSymbology
  by unfold_locales (simp_all add: PassthroughSymbology_def)

text \<open>A file is injective when no counterparty gives one name to two symbols, and visited in an
  admissible order.\<close>

definition file_injective :: "FileSymbology \<Rightarrow> bool" where
  "file_injective f \<longleftrightarrow> (\<forall>cp s. counterparties f cp = Some s \<longrightarrow> inj_on (symbols s) (dom (symbols s)))"

definition file_ord :: "(string \<Rightarrow> string list) \<Rightarrow> FileSymbology \<Rightarrow> bool" where
  "file_ord ord f \<longleftrightarrow> (\<forall>cp s. counterparties f cp = Some s \<longrightarrow> key_order (ord cp) (symbols s))"

lemma file_roundtrip_intro:
  assumes "file_injective f" "file_ord ord f"
  shows "symbol_roundtrip (file_symbology ord f)"
proof
  fix s t cp
  assume "FromBitfinex (file_symbology ord f) s cp = Inr t"
  then obtain ss where ss: "counterparties f cp = Some ss"
    and c: "passthrough ss \<and> s = t \<or> \<not> passthrough ss \<and> symbols ss s = Some t"
    by (auto simp: file_symbology_def file_FromBitfinex_def symbolset_get_def
        split: option.splits if_splits)
  show "ToBitfinex (file_symbology ord f) t cp = Inr s"
  proof (cases "passthrough ss")
    case True
    with ss c show ?thesis by (simp add: file_symbology_def file_ToBitfinex_def)
  next
    case False
    have "inj_on (symbols ss) (dom (symbols ss))" "set (ord cp) = dom (symbols ss)"
      using assms ss by (auto simp: file_injective_def file_ord_def key_order_def)
    then have "range_find (\<lambda>_ c. c = t) (ord cp) (symbols ss) = Some (s, t)"
      using False c by (intro range_find_unique) (auto, metis domI inj_onD)
    with ss False show ?thesis by (simp add: file_symbology_def file_ToBitfinex_def)
  qed
next
  fix s t cp
  assume "ToBitfinex (file_symbology ord f) t cp = Inr s"
  then show "FromBitfinex (file_symbology ord f) s cp = Inr t"
    by (auto simp: file_symbology_def file_ToBitfinex_def file_FromBitfinex_def symbolset_get_def
        split: option.splits if_splits dest!: range_find_SomeD)
qed

section \<open>Reading a file\<close>

definition map_line :: "string \<times> string \<Rightarrow> string" where
  "map_line kv = fst kv @ ''='' @ snd kv"

definition print_section :: "string \<Rightarrow> (string \<times> string) list \<Rightarrow> string list" where
  "print_section cp kvs = (''['' @ cp @ '']'') # map map_line kvs"

text \<open>An entry that a mapping line can carry: no \<^verbatim>\<open>=\<close>, not mistaken for a section header or for
  the passthrough switch.\<close>

definition entry_ok :: "string \<times> string \<Rightarrow> bool" where
  "entry_ok kv \<longleftrightarrow> CHR ''='' \<notin> set (fst kv) \<and> CHR ''='' \<notin> set (snd kv) \<and>
     \<not> (prefix ''['' (fst kv) \<and> suffix '']'' (snd kv)) \<and>
     \<not> (to_lower (fst kv) = ''passthrough'' \<and> to_lower (snd kv) = ''true'')"

definition section_of :: "FileSymbology \<Rightarrow> string \<Rightarrow> symbolset" where
  "section_of f cp = (case counterparties f cp of None \<Rightarrow> newSymbolset | Some x \<Rightarrow> x)"

lemma parse_header:
  assumes "CHR ''='' \<notin> set cp"
  shows "parse (''['' @ cp @ '']'') f = f\<lparr>counterparty := cp\<rparr>"
  using assms by (simp add: parse_def suffix_def)

lemma parse_entry:
  assumes "entry_ok kv"
  shows "parse (map_line kv) f =
    f\<lparr>counterparties := (counterparties f)(counterparty f \<mapsto>
        symbolset_set (fst kv) (snd kv) (section_of f (counterparty f)))\<rparr>"
proof -
  have "split_on CHR ''='' (map_line kv) = [fst kv, snd kv]"
    using assms by (simp add: map_line_def entry_ok_def)
  moreover have "\<not> (prefix ''['' (map_line kv) \<and> suffix '']'' (map_line kv))"
  proof
    assume "prefix ''['' (map_line kv) \<and> suffix '']'' (map_line kv)"
    then have "prefix ''['' (fst kv)" "suffix '']'' (snd kv)"
      by (cases "fst kv"; cases "snd kv" rule: rev_cases; auto simp: map_line_def suffix_def)+
    with assms show False by (simp add: entry_ok_def)
  qed
  ultimately show ?thesis using assms
    by (auto simp: parse_def Let_def section_of_def entry_ok_def)
qed

lemma parse_entries:
  assumes "list_all entry_ok kvs" "counterparty f = cp" "kvs \<noteq> []"
  shows "fold parse (map map_line kvs) f =
    f\<lparr>counterparties := (counterparties f)(cp \<mapsto>
        (section_of f cp)\<lparr>symbols := symbols (section_of f cp) ++ map_of (rev kvs)\<rparr>)\<rparr>"
  using assms
proof (induction kvs arbitrary: f)
  case (Cons kv kvs)
  let ?s = "symbolset_set (fst kv) (snd kv) (section_of f cp)"
  let ?f = "f\<lparr>counterparties := (counterparties f)(cp \<mapsto> ?s)\<rparr>"
  have step: "parse (map_line kv) f = ?f" using Cons.prems parse_entry [of kv f] by simp
  have sec: "section_of ?f cp = ?s" by (simp add: section_of_def)
  have add: "symbols ?s ++ map_of (rev kvs) = symbols (section_of f cp) ++ map_of (rev (kv # kvs))"
    by (cases kv) (simp add: symbolset_set_def)
  have upd: "?s\<lparr>symbols := m\<rparr> = (section_of f cp)\<lparr>symbols := m\<rparr>" for m
    by (simp add: symbolset_set_def)
  show ?case
  proof (cases "kvs = []")
    case True
    have "?s\<lparr>symbols := symbols ?s ++ map_of (rev kvs)\<rparr> = ?s" using True by simp
    then have eq: "(section_of f cp)\<lparr>symbols := symbols (section_of f cp) ++ map_of (rev (kv # kvs))\<rparr> = ?s"
      by (simp only: add upd)
    show ?thesis unfolding eq using step True by (simp add: fun_upd_def)
  next
    case False
    then show ?thesis using Cons.IH [of ?f] Cons.prems step sec add upd by (simp cong: if_cong)
  qed
qed simp

section \<open>Properties\<close>

text \<open>
  C23: a file symbology that maps no two symbols of a counterparty to the same name translates
  symbols back and forth without loss, for every order in which the maps are visited: a symbol is
  translated from Bitfinex to a name exactly when the name is translated to that symbol.
\<close>

theorem file_symbology_roundtrip:
  assumes "file_injective f" "file_ord ord f"
  shows "file_FromBitfinex f s cp = Inr t \<longleftrightarrow> file_ToBitfinex ord f t cp = Inr s"
  using symbol_roundtrip.from_iff_to [OF file_roundtrip_intro [OF assms]]
  by (simp add: file_symbology_def)

text \<open>The symbol master that comes with the gateway
  (\<^verbatim>\<open>integration_test/example_symbol_master.txt\<close>).\<close>

definition example_lines :: "string list" where
  "example_lines =
     [''[CounterpartyA]'', ''tBTCUSD=XBT'', ''tETHUSD=XTH'', '''',
      ''[CounterpartyB]'', ''tBTCUSD=BTC'', ''tETHUSD=ETH'', '''',
      ''[CounterpartyC]'', ''passthrough=true'', '''',
      ''[EXORG_MD]'', ''tBTCUSD=XBT'']"

definition example_file :: FileSymbology where
  "example_file = NewFileSymbology example_lines"

definition example_ord :: "string \<Rightarrow> string list" where
  "example_ord cp =
     (if cp = ''CounterpartyA'' \<or> cp = ''CounterpartyB'' then [''tETHUSD'', ''tBTCUSD'']
      else if cp = ''EXORG_MD'' then [''tBTCUSD''] else [])"

lemma example_file_eq:
  "counterparties example_file =
     [''CounterpartyA'' \<mapsto> \<lparr>symbols = [''tBTCUSD'' \<mapsto> ''XBT'', ''tETHUSD'' \<mapsto> ''XTH''], passthrough = False\<rparr>,
      ''CounterpartyB'' \<mapsto> \<lparr>symbols = [''tBTCUSD'' \<mapsto> ''BTC'', ''tETHUSD'' \<mapsto> ''ETH''], passthrough = False\<rparr>,
      ''CounterpartyC'' \<mapsto> \<lparr>symbols = Map.empty, passthrough = True\<rparr>,
      ''EXORG_MD'' \<mapsto> \<lparr>symbols = [''tBTCUSD'' \<mapsto> ''XBT''], passthrough = False\<rparr>]"
  by (simp add: example_file_def example_lines_def NewFileSymbology_def parse_def suffix_def
      newSymbolset_def symbolset_set_def to_lower_def to_lower_char_def)

lemma example_injective: "file_injective example_file"
  by (auto simp: file_injective_def example_file_eq inj_on_def split: if_splits)

lemma example_ordered: "file_ord example_ord example_file"
  by (auto simp: file_ord_def example_file_eq example_ord_def key_order_def split: if_splits)

interpretation example_rt: symbol_roundtrip "file_symbology example_ord example_file"
  by (rule file_roundtrip_intro [OF example_injective example_ordered])

theorem file_symbology_roundtrip_witness:
  "file_FromBitfinex example_file ''tETHUSD'' ''CounterpartyA'' = Inr ''XTH'' \<and>
   file_ToBitfinex example_ord example_file ''XTH'' ''CounterpartyA'' = Inr ''tETHUSD''"
proof -
  have "file_FromBitfinex example_file ''tETHUSD'' ''CounterpartyA'' = Inr ''XTH''"
    by (simp add: file_FromBitfinex_def example_file_eq symbolset_get_def)
  then show ?thesis
    using file_symbology_roundtrip [OF example_injective example_ordered] by blast
qed

text \<open>
  C27: reading a section of a symbology file back: after the lines \<^verbatim>\<open>[cp]\<close> and \<^verbatim>\<open>symbol=name\<close> have been
  parsed, a listed symbol translates to the name on its last line, a symbol that is not listed
  translates as before, and no other counterparty is touched, provided the section does not
  already switch passthrough on.
\<close>

theorem parse_section:
  assumes "CHR ''='' \<notin> set cp" "list_all entry_ok kvs" "kvs \<noteq> []"
    and "\<not> passthrough (section_of f cp)" "f' = fold parse (print_section cp kvs) f"
  shows "(\<forall>s t. map_of (rev kvs) s = Some t \<longrightarrow> file_FromBitfinex f' s cp = Inr t) \<and>
    (\<forall>s. s \<notin> fst ` set kvs \<longrightarrow> symbols (section_of f' cp) s = symbols (section_of f cp) s) \<and>
    (\<forall>cp'. cp' \<noteq> cp \<longrightarrow> counterparties f' cp' = counterparties f cp')"
proof -
  let ?s = "section_of f cp"
  have "f' = fold parse (map map_line kvs) (f\<lparr>counterparty := cp\<rparr>)"
    using assms(1,5) parse_header [of cp f] by (simp add: print_section_def)
  moreover have "section_of (f\<lparr>counterparty := cp\<rparr>) cp = ?s" by (simp add: section_of_def)
  ultimately have f': "counterparties f' =
      (counterparties f)(cp \<mapsto> ?s\<lparr>symbols := symbols ?s ++ map_of (rev kvs)\<rparr>)"
    using parse_entries [OF assms(2) _ assms(3), of "f\<lparr>counterparty := cp\<rparr>" cp] by simp
  have "map_of (rev kvs) s = None" if "s \<notin> fst ` set kvs" for s
    using that by (simp add: map_of_eq_None_iff)
  then show ?thesis using assms(4)
    by (auto simp: f' file_FromBitfinex_def symbolset_get_def section_of_def map_add_def
        split: option.splits)
qed

theorem parse_section_witness:
  "file_FromBitfinex (fold parse (print_section ''CP'' [(''tBTCUSD'', ''XBT'')])
     (NewFileSymbology [])) ''tBTCUSD'' ''CP'' = Inr ''XBT''"
proof -
  have "list_all entry_ok [(''tBTCUSD'', ''XBT'')]"
    by (simp add: entry_ok_def to_lower_def to_lower_char_def)
  moreover have "\<not> passthrough (section_of (NewFileSymbology []) ''CP'')"
    by (simp add: section_of_def NewFileSymbology_def newSymbolset_def)
  ultimately show ?thesis
    using parse_section [of "''CP''" "[(''tBTCUSD'', ''XBT'')]" "NewFileSymbology []"] by simp
qed

end
