(* ===== verification/Convert_Order.thy ===== *)
theory Convert_Order
  imports Convert_Fix Symbology
begin

text \<open>
  From FIX to the exchange (\<^verbatim>\<open>convert/websocket_order.go\<close>): what a NewOrderSingle or a cancel/replace
  request says about the order's type, time in force, prices, amount and flags, and the whole order
  request. A function that returns a \<^verbatim>\<open>MessageRejectError\<close> is a value of type \<open>'a rej\<close>.
\<close>

text \<open>The source ignores the reject of \<^verbatim>\<open>msg.Get\<close> here and reads the field's zero value.\<close>

definition GetOrEmpty :: "FieldMap \<Rightarrow> tag \<Rightarrow> string" where
  "GetOrEmpty m t = (case GetString m t of Inl _ \<Rightarrow> '''' | Inr v \<Rightarrow> v)"

definition OrderNewTypeFromFIX :: "FieldMap \<Rightarrow> string rej" where
  "OrderNewTypeFromFIX msg =
     (let ot = GetOrEmpty msg tag_OrdType; tif = GetOrEmpty msg tag_TimeInForce;
          ei = GetOrEmpty msg tag_ExecInst; cm = GetOrEmpty msg tag_CashMargin
      in if ei = ExecInst_ALL_OR_NONE then Inl (ValueIsIncorrect tag_ExecInst)
         else let ordType =
                (if tif = TimeInForce_FILL_OR_KILL \<or> tif = TimeInForce_IMMEDIATE_OR_CANCEL
                 then OrderTypeExchangeFOK
                 else if ot = OrdType_MARKET then OrderTypeExchangeMarket
                 else if ot = OrdType_LIMIT then OrderTypeExchangeLimit
                 else if ot = OrdType_STOP then
                   (if Has msg tag_ExecInst \<and> contains ei ExecInst_PRIMARY_PEG
                    then OrderTypeExchangeTrailingStop else OrderTypeExchangeStop)
                 else if ot = OrdType_STOP_LIMIT then OrderTypeExchangeStopLimit
                 else '''')
              in Inr (if Has msg tag_CashMargin \<and> cm = CashMargin_MARGIN_OPEN
                      then replace1 ordType ''EXCHANGE'' ''MARGIN'' else ordType))"

definition GetTimeInForceFromFIX :: "FieldMap \<Rightarrow> (string \<times> string) rej" where
  "GetTimeInForceFromFIX msg =
     (let tif = TimeInForce_GOOD_TILL_CANCEL
      in if Has msg tag_TimeInForce then
           sbind (GetString msg tag_TimeInForce) (\<lambda>timeInForce.
             if timeInForce = TimeInForce_GOOD_TILL_DATE then
               sbind (GetTime msg tag_ExpireTime) (\<lambda>expirationDate.
                 Inr (tif, FormatDateTime expirationDate))
             else Inr (tif, ''''))
         else Inr (tif, ''''))"

definition GetAmountFromQtyAndSide :: "string \<Rightarrow> Decimal \<Rightarrow> float64" where
  "GetAmountFromQtyAndSide side qty =
     (let amount = dec_Float64 qty in if side = Side_SELL then f64_neg amount else amount)"

definition GetFlagsFromFIX :: "FieldMap \<Rightarrow> bool \<times> bool \<times> bool" where
  "GetFlagsFromFIX msg =
     (let hidden = (case GetString msg tag_DisplayMethod of
                      Inr d \<Rightarrow> d = DisplayMethod_UNDISCLOSED | Inl _ \<Rightarrow> False);
          postOnly = (case GetString msg tag_ExecInst of
                        Inr ei \<Rightarrow> contains ei ExecInst_PARTICIPANT_DONT_INITIATE | Inl _ \<Rightarrow> False);
          oco = (if Has msg tag_ContingencyType then
                   (case GetString msg tag_ContingencyType of
                      Inr ct \<Rightarrow> ct = ContingencyType_ONE_CANCELS_THE_OTHER | Inl _ \<Rightarrow> False)
                 else False)
      in (hidden, postOnly, oco))"

definition GetPx :: "FieldMap \<Rightarrow> tag \<Rightarrow> float64 rej" where
  "GetPx msg t = sbind (GetDecimal msg t) (\<lambda>d. Inr (dec_Float64 d))"

definition GetPricesFromOrdType ::
  "FieldMap \<Rightarrow> (string \<times> float64 \<times> float64 \<times> float64 \<times> float64) rej" where
  "GetPricesFromOrdType msg =
     sbind (GetString msg tag_OrdType) (\<lambda>t.
       if t = OrdType_LIMIT then
         sbind (GetPx msg tag_Price) (\<lambda>px.
           if Has msg tag_ContingencyType then
             sbind (GetString msg tag_ContingencyType) (\<lambda>ct.
               if ct = ContingencyType_ONE_CANCELS_THE_OTHER then
                 sbind (GetPx msg tag_StopPx) (\<lambda>ocopx. Inr (t, px, f64_zero, f64_zero, ocopx))
               else Inr (t, px, f64_zero, f64_zero, f64_zero))
           else Inr (t, px, f64_zero, f64_zero, f64_zero))
       else if t = OrdType_STOP then
         sbind (GetPx msg tag_StopPx) (\<lambda>px.
           if Has msg tag_ExecInst then
             sbind (GetString msg tag_ExecInst) (\<lambda>ei.
               if contains ei ExecInst_PRIMARY_PEG then
                 sbind (GetPx msg tag_PegDifference) (\<lambda>trailpx.
                   Inr (t, px, f64_zero, trailpx, f64_zero))
               else Inr (t, px, f64_zero, f64_zero, f64_zero))
           else Inr (t, px, f64_zero, f64_zero, f64_zero))
       else if t = OrdType_STOP_LIMIT then
         sbind (GetPx msg tag_Price) (\<lambda>px.
           sbind (GetPx msg tag_StopPx) (\<lambda>auxpx. Inr (t, px, auxpx, f64_zero, f64_zero)))
       else Inr (t, f64_zero, f64_zero, f64_zero, f64_zero))"

text \<open>A symbol that the symbology does not know is passed on as it is.\<close>

definition to_bitfinex_or_same :: "symbology \<Rightarrow> string \<Rightarrow> string \<Rightarrow> string" where
  "to_bitfinex_or_same sy symbol cp =
     (case ToBitfinex sy symbol cp of Inr translated \<Rightarrow> translated | Inl _ \<Rightarrow> symbol)"

definition OrderNewFromFIXNewOrderSingle ::
  "FieldMap \<Rightarrow> symbology \<Rightarrow> string \<Rightarrow> OrderNewRequest rej" where
  "OrderNewFromFIXNewOrderSingle msg sy cp =
     sbind (GetString msg tag_ClOrdID) (\<lambda>clordid.
     sbind (OrderNewTypeFromFIX msg) (\<lambda>ty.
     sbind (GetString msg tag_Symbol) (\<lambda>fixsym.
     sbind (GetPricesFromOrdType msg) (\<lambda>(_, px, aux, trail, oco).
     sbind (GetString msg tag_Side) (\<lambda>side.
     sbind (GetDecimal msg tag_OrderQty) (\<lambda>qty.
       (let (hidden, postOnly, ocoOrder) = GetFlagsFromFIX msg
        in Inr \<lparr>on_GID = 0,
                on_CID = (case ParseInt clordid of Inr i \<Rightarrow> i | Inl _ \<Rightarrow> 0),
                on_Type = ty,
                on_Symbol = to_bitfinex_or_same sy fixsym cp,
                on_Amount = GetAmountFromQtyAndSide side qty,
                on_Price = px,
                on_Leverage = 0,
                on_PriceTrailing = trail,
                on_PriceAuxLimit = aux,
                on_PriceOcoStop = oco,
                on_Hidden = hidden,
                on_PostOnly = postOnly,
                on_Close = False,
                on_OcoOrder = ocoOrder,
                on_TimeInForce = ''''\<rparr>)))))))"

section \<open>Lemmas\<close>

lemma to_margin:
  "replace1 ''EXCHANGE MARKET'' ''EXCHANGE'' ''MARGIN'' = ''MARGIN MARKET''"
  "replace1 ''EXCHANGE LIMIT'' ''EXCHANGE'' ''MARGIN'' = ''MARGIN LIMIT''"
  "replace1 ''EXCHANGE STOP'' ''EXCHANGE'' ''MARGIN'' = ''MARGIN STOP''"
  "replace1 ''EXCHANGE TRAILING STOP'' ''EXCHANGE'' ''MARGIN'' = ''MARGIN TRAILING STOP''"
  "replace1 ''EXCHANGE STOP LIMIT'' ''EXCHANGE'' ''MARGIN'' = ''MARGIN STOP LIMIT''"
  "replace1 ''EXCHANGE FOK'' ''EXCHANGE'' ''MARGIN'' = ''MARGIN FOK''"
  by simp_all

lemma to_fix_type:
  "OrdTypeToFIX ''EXCHANGE MARKET'' = (OrdType_MARKET, False)"
  "OrdTypeToFIX ''MARGIN MARKET'' = (OrdType_MARKET, True)"
  "OrdTypeToFIX ''EXCHANGE LIMIT'' = (OrdType_LIMIT, False)"
  "OrdTypeToFIX ''MARGIN LIMIT'' = (OrdType_LIMIT, True)"
  "OrdTypeToFIX ''EXCHANGE STOP'' = (OrdType_STOP, False)"
  "OrdTypeToFIX ''MARGIN STOP'' = (OrdType_STOP, True)"
  "OrdTypeToFIX ''EXCHANGE TRAILING STOP'' = (OrdType_STOP, False)"
  "OrdTypeToFIX ''MARGIN TRAILING STOP'' = (OrdType_STOP, True)"
  "OrdTypeToFIX ''EXCHANGE STOP LIMIT'' = (OrdType_MARKET, False)"
  "OrdTypeToFIX ''MARGIN STOP LIMIT'' = (OrdType_MARKET, True)"
  "OrdTypeToFIX ''EXCHANGE FOK'' = (OrdType_LIMIT, False)"
  "OrdTypeToFIX ''MARGIN FOK'' = (OrdType_LIMIT, True)"
  by (simp_all add: OrdTypeToFIX_def)

text \<open>The order type before the margin prefix is applied.\<close>

definition base_type :: "FieldMap \<Rightarrow> string" where
  "base_type m =
     (let ot = GetOrEmpty m tag_OrdType; tif = GetOrEmpty m tag_TimeInForce
      in if tif = TimeInForce_FILL_OR_KILL \<or> tif = TimeInForce_IMMEDIATE_OR_CANCEL then OrderTypeExchangeFOK
         else if ot = OrdType_MARKET then OrderTypeExchangeMarket
         else if ot = OrdType_LIMIT then OrderTypeExchangeLimit
         else if ot = OrdType_STOP then
           (if Has m tag_ExecInst \<and> contains (GetOrEmpty m tag_ExecInst) ExecInst_PRIMARY_PEG
            then OrderTypeExchangeTrailingStop else OrderTypeExchangeStop)
         else if ot = OrdType_STOP_LIMIT then OrderTypeExchangeStopLimit
         else '''')"

definition margin_open :: "FieldMap \<Rightarrow> bool" where
  "margin_open m \<longleftrightarrow> Has m tag_CashMargin \<and> GetOrEmpty m tag_CashMargin = CashMargin_MARGIN_OPEN"

lemma OrderNewType_Inr:
  "OrderNewTypeFromFIX m = Inr ty \<Longrightarrow>
   ty = (if margin_open m then replace1 (base_type m) ''EXCHANGE'' ''MARGIN'' else base_type m)"
  unfolding OrderNewTypeFromFIX_def base_type_def margin_open_def Let_def
  by (simp only: sum.inject sum.distinct split: if_split_asm)

lemma base_type_cases:
  assumes "GetOrEmpty m tag_TimeInForce \<notin> {TimeInForce_FILL_OR_KILL, TimeInForce_IMMEDIATE_OR_CANCEL}"
  shows "GetOrEmpty m tag_OrdType = OrdType_MARKET \<Longrightarrow> base_type m = OrderTypeExchangeMarket"
    "GetOrEmpty m tag_OrdType = OrdType_LIMIT \<Longrightarrow> base_type m = OrderTypeExchangeLimit"
    "GetOrEmpty m tag_OrdType = OrdType_STOP \<Longrightarrow>
       base_type m = OrderTypeExchangeStop \<or> base_type m = OrderTypeExchangeTrailingStop"
    "GetOrEmpty m tag_OrdType = OrdType_STOP_LIMIT \<Longrightarrow> base_type m = OrderTypeExchangeStopLimit"
  using assms by (simp_all add: base_type_def)

lemma GetString_Inr: "GetString m t = Inr v \<longleftrightarrow> Has m t \<and> GetOrEmpty m t = v"
  by (auto simp: GetOrEmpty_def GetString_cases)

lemma GetString_Inl: "GetString m t = Inl e \<longleftrightarrow> \<not> Has m t \<and> e = ConditionallyRequiredFieldMissing t"
  by (auto simp: GetString_cases)

text \<open>A decimal field that is there and can be read.\<close>

definition dec_ok :: "FieldMap \<Rightarrow> tag \<Rightarrow> bool" where
  "dec_ok m t \<longleftrightarrow> (\<exists>d. GetDecimal m t = Inr d)"

lemma GetPx_Inr: "(\<exists>x. GetPx m t = Inr x) \<longleftrightarrow> dec_ok m t"
  by (auto simp: GetPx_def dec_ok_def go_simps)

lemma GetDecimal_Inl:
  "GetDecimal m t = Inl e \<Longrightarrow>
   (\<not> Has m t \<and> e = ConditionallyRequiredFieldMissing t) \<or> (Has m t \<and> e = IncorrectDataFormatForValue t)"
  by (auto simp: GetDecimal_def GetField_def Has_def split: option.splits)

lemma GetPx_Inl: "GetPx m t = Inl e \<Longrightarrow> GetDecimal m t = Inl e"
  by (auto simp: GetPx_def go_simps)

text \<open>The prices a message must carry for its order type.\<close>

definition prices_ok :: "FieldMap \<Rightarrow> bool" where
  "prices_ok m \<longleftrightarrow> Has m tag_OrdType \<and>
     (let t = GetOrEmpty m tag_OrdType
      in (t = OrdType_LIMIT \<longrightarrow> dec_ok m tag_Price \<and>
            (GetOrEmpty m tag_ContingencyType = ContingencyType_ONE_CANCELS_THE_OTHER \<longrightarrow> dec_ok m tag_StopPx)) \<and>
         (t = OrdType_STOP \<longrightarrow> dec_ok m tag_StopPx \<and>
            (contains (GetOrEmpty m tag_ExecInst) ExecInst_PRIMARY_PEG \<longrightarrow> dec_ok m tag_PegDifference)) \<and>
         (t = OrdType_STOP_LIMIT \<longrightarrow> dec_ok m tag_Price \<and> dec_ok m tag_StopPx))"

lemma GetOrEmpty_absent: "\<not> Has m t \<Longrightarrow> GetOrEmpty m t = ''''"
  by (simp add: GetOrEmpty_def GetString_cases)

lemma isl_reads:
  "isl (GetString m t) \<longleftrightarrow> \<not> Has m t" "isl (GetDecimal m t) \<longleftrightarrow> \<not> dec_ok m t"
  "isl (GetPx m t) \<longleftrightarrow> \<not> dec_ok m t" "Has m t \<Longrightarrow> projr (GetString m t) = GetOrEmpty m t"
  by (auto simp: GetString_cases GetOrEmpty_def dec_ok_def ex_Inr GetPx_def isl_sbind)

lemma GetPrices_Inr: "\<not> isl (GetPricesFromOrdType m) \<longleftrightarrow> prices_ok m"
proof (cases "Has m tag_OrdType")
  case True
  consider "GetOrEmpty m tag_OrdType = OrdType_LIMIT" | "GetOrEmpty m tag_OrdType = OrdType_STOP"
    | "GetOrEmpty m tag_OrdType = OrdType_STOP_LIMIT"
    | "GetOrEmpty m tag_OrdType \<notin> {OrdType_LIMIT, OrdType_STOP, OrdType_STOP_LIMIT}" by blast
  then show ?thesis
    by cases (simp_all add: True GetPricesFromOrdType_def prices_ok_def isl_sbind isl_reads
        GetOrEmpty_absent cong: conj_cong)
qed (simp add: GetPricesFromOrdType_def prices_ok_def isl_sbind isl_reads)

lemma NewOrder_Inr_iff:
  "\<not> isl (OrderNewFromFIXNewOrderSingle m sy cp) \<longleftrightarrow>
   Has m tag_ClOrdID \<and> \<not> isl (OrderNewTypeFromFIX m) \<and> Has m tag_Symbol \<and>
   \<not> isl (GetPricesFromOrdType m) \<and> Has m tag_Side \<and> dec_ok m tag_OrderQty"
  by (auto simp: OrderNewFromFIXNewOrderSingle_def isl_sbind isl_reads case_prod_beta Let_def)

section \<open>Properties\<close>

text \<open>
  C19: a NewOrderSingle becomes an order request exactly when it carries a ClOrdID, a Symbol, a Side,
  a readable OrderQty, an OrdType with the readable prices that type needs (a price for a limit,
  also a stop price for a one-cancels-the-other pair; a stop price for a stop, also a peg difference
  when it is a trailing stop; both for a stop limit), and is not all-or-none. The fields that the README
  lists for a trailing stop (an order type of stop limit, a pegged ExecInst and the peg) are not enough: a stop limit order
  needs its two prices, and its peg is not read.
\<close>

theorem new_order_accepted_iff:
  "(\<exists>r. OrderNewFromFIXNewOrderSingle m sy cp = Inr r) =
   (Has m tag_ClOrdID \<and> Has m tag_Symbol \<and> Has m tag_Side \<and> dec_ok m tag_OrderQty \<and> prices_ok m \<and>
    GetOrEmpty m tag_ExecInst \<noteq> ExecInst_ALL_OR_NONE)"
proof -
  have "isl (OrderNewTypeFromFIX m) \<longleftrightarrow> GetOrEmpty m tag_ExecInst = ExecInst_ALL_OR_NONE"
    by (simp add: OrderNewTypeFromFIX_def Let_def)
  then show ?thesis unfolding ex_Inr NewOrder_Inr_iff GetPrices_Inr by blast
qed

text \<open>
  C20: every reject of a NewOrderSingle names the field it is about: it is the reject for a missing
  field and that field is missing, the one for a malformed number and that field is there, or the
  one for all-or-none.
\<close>

theorem new_order_reject_reason:
  assumes "OrderNewFromFIXNewOrderSingle m sy cp = Inl e"
  shows "(\<exists>t \<in> {tag_ClOrdID, tag_Symbol, tag_OrdType, tag_Side, tag_OrderQty, tag_Price, tag_StopPx,
            tag_PegDifference}. \<not> Has m t \<and> e = ConditionallyRequiredFieldMissing t) \<or>
    (\<exists>t \<in> {tag_OrderQty, tag_Price, tag_StopPx, tag_PegDifference}.
       Has m t \<and> e = IncorrectDataFormatForValue t) \<or>
    (GetOrEmpty m tag_ExecInst = ExecInst_ALL_OR_NONE \<and> e = ValueIsIncorrect tag_ExecInst)"
proof -
  define M where "M t \<longleftrightarrow> \<not> Has m t \<and> e = ConditionallyRequiredFieldMissing t" for t
  define F where "F t \<longleftrightarrow> Has m t \<and> e = IncorrectDataFormatForValue t" for t
  define A where "A \<longleftrightarrow> GetOrEmpty m tag_ExecInst = ExecInst_ALL_OR_NONE \<and> e = ValueIsIncorrect tag_ExecInst"
  have str: "GetString m t = Inl e \<Longrightarrow> M t" and dec: "GetDecimal m t = Inl e \<Longrightarrow> M t \<or> F t"
    and px: "GetPx m t = Inl e \<Longrightarrow> M t \<or> F t" for t
    using GetDecimal_Inl [of m t e] GetPx_Inl [of m t e] by (auto simp: GetString_Inl M_def F_def)
  have ty: "OrderNewTypeFromFIX m = Inl e \<Longrightarrow> A"
    unfolding OrderNewTypeFromFIX_def A_def Let_def
    by (simp only: sum.inject sum.distinct split: if_split_asm)
  have prices: "M tag_OrdType \<or> M tag_Price \<or> F tag_Price \<or> M tag_StopPx \<or> F tag_StopPx \<or>
      M tag_PegDifference \<or> F tag_PegDifference" if "GetPricesFromOrdType m = Inl e"
    using that unfolding GetPricesFromOrdType_def
    by (auto simp: go_simps GetString_Inl split: if_splits dest!: px) (simp add: M_def)
  have "GetString m tag_ClOrdID = Inl e \<or> OrderNewTypeFromFIX m = Inl e \<or> GetString m tag_Symbol = Inl e \<or>
      GetPricesFromOrdType m = Inl e \<or> GetString m tag_Side = Inl e \<or> GetDecimal m tag_OrderQty = Inl e"
    using assms unfolding OrderNewFromFIXNewOrderSingle_def
    by (cases "GetFlagsFromFIX m") (auto simp: go_simps)
  then have "M tag_ClOrdID \<or> A \<or> M tag_Symbol \<or> M tag_Side \<or> M tag_OrderQty \<or> F tag_OrderQty \<or>
      M tag_OrdType \<or> M tag_Price \<or> F tag_Price \<or> M tag_StopPx \<or> F tag_StopPx \<or>
      M tag_PegDifference \<or> F tag_PegDifference"
    using str dec ty prices by blast
  then show ?thesis unfolding M_def F_def A_def by blast
qed

theorem new_order_reject_reason_witness:
  "OrderNewFromFIXNewOrderSingle Map.empty PassthroughSymbology '''' =
     Inl (ConditionallyRequiredFieldMissing tag_ClOrdID) \<and>
   \<not> Has (Map.empty :: FieldMap) tag_ClOrdID"
proof -
  let ?e = "ConditionallyRequiredFieldMissing tag_ClOrdID"
  have "OrderNewFromFIXNewOrderSingle Map.empty PassthroughSymbology '''' = Inl ?e"
    by (simp add: OrderNewFromFIXNewOrderSingle_def GetString_def GetField_def)
  from new_order_reject_reason [OF this] this show ?thesis
    by (auto simp: ConditionallyRequiredFieldMissing_def IncorrectDataFormatForValue_def
        ValueIsIncorrect_def NewBusinessMessageRejectError_def NewMessageRejectError_def Has_def)
qed

text \<open>
  The order type survives the way to the exchange and back: for market, limit and stop orders
  (trailing or not) that are not fill-or-kill, converting the type the gateway submits back to FIX
  gives the OrdType of the request, and the margin flag of the request.
\<close>

theorem ord_type_roundtrip:
  assumes "OrderNewTypeFromFIX m = Inr ty"
    and "GetOrEmpty m tag_OrdType \<in> {OrdType_MARKET, OrdType_LIMIT, OrdType_STOP}"
    and "GetOrEmpty m tag_TimeInForce \<notin> {TimeInForce_FILL_OR_KILL, TimeInForce_IMMEDIATE_OR_CANCEL}"
  shows "OrdTypeToFIX ty = (GetOrEmpty m tag_OrdType,
    Has m tag_CashMargin \<and> GetOrEmpty m tag_CashMargin = CashMargin_MARGIN_OPEN)"
proof -
  note ty = OrderNewType_Inr [OF assms(1)] and base = base_type_cases [OF assms(3)]
  from assms(2) consider "GetOrEmpty m tag_OrdType = OrdType_MARKET" | "GetOrEmpty m tag_OrdType = OrdType_LIMIT"
    | "GetOrEmpty m tag_OrdType = OrdType_STOP" by blast
  then have "OrdTypeToFIX ty = (GetOrEmpty m tag_OrdType, margin_open m)"
  proof cases
    case 1
    then show ?thesis using ty base(1) by (cases "margin_open m") (simp_all only: to_margin to_fix_type if_True if_False)
  next
    case 2
    then show ?thesis using ty base(2) by (cases "margin_open m") (simp_all only: to_margin to_fix_type if_True if_False)
  next
    case 3
    from base(3) [OF 3] 3 show ?thesis using ty
      by (elim disjE; cases "margin_open m") (simp_all only: to_margin to_fix_type if_True if_False)
  qed
  then show ?thesis by (simp only: margin_open_def)
qed

definition limit_order :: FieldMap where
  "limit_order = SetField tag_OrdType OrdType_LIMIT (SetField tag_CashMargin CashMargin_MARGIN_OPEN Map.empty)"

lemma limit_order_fields:
  "GetOrEmpty limit_order tag_OrdType = OrdType_LIMIT" "GetOrEmpty limit_order tag_TimeInForce = ''''"
  "GetOrEmpty limit_order tag_CashMargin = CashMargin_MARGIN_OPEN"
  "GetOrEmpty limit_order tag_ExecInst = ''''" "Has limit_order tag_CashMargin"
  by (simp_all add: limit_order_def GetOrEmpty_def GetString_def GetField_def SetField_def Has_def)

theorem ord_type_roundtrip_witness: "OrdTypeToFIX ''MARGIN LIMIT'' = (OrdType_LIMIT, True)"
proof -
  have "OrderNewTypeFromFIX limit_order = Inr ''MARGIN LIMIT''"
    by (simp add: OrderNewTypeFromFIX_def limit_order_fields)
  from ord_type_roundtrip [OF this] show ?thesis by (simp add: limit_order_fields)
qed

text \<open>
  C24: a stop limit order does not survive: the type the gateway submits for it (\<^verbatim>\<open>EXCHANGE STOP LIMIT\<close>
  or \<^verbatim>\<open>MARGIN STOP LIMIT\<close>) is converted back to FIX as a market order, so the execution reports of
  a stop limit order say OrdType market.
\<close>

theorem stop_limit_reported_as_market:
  assumes "OrderNewTypeFromFIX m = Inr ty" "GetOrEmpty m tag_OrdType = OrdType_STOP_LIMIT"
    and "GetOrEmpty m tag_TimeInForce \<notin> {TimeInForce_FILL_OR_KILL, TimeInForce_IMMEDIATE_OR_CANCEL}"
  shows "fst (OrdTypeToFIX ty) = OrdType_MARKET"
  using OrderNewType_Inr [OF assms(1)] base_type_cases(4) [OF assms(3,2)]
  by (cases "margin_open m") (simp_all only: to_margin to_fix_type fst_conv if_True if_False)

theorem stop_limit_reported_as_market_witness:
  "fst (OrdTypeToFIX ''EXCHANGE STOP LIMIT'') = OrdType_MARKET"
proof -
  let ?m = "SetField tag_OrdType OrdType_STOP_LIMIT Map.empty"
  have f: "GetOrEmpty ?m t = (if t = tag_OrdType then OrdType_STOP_LIMIT else '''')"
    "Has ?m t = (t = tag_OrdType)" for t
    by (simp_all add: GetOrEmpty_def GetString_def GetField_def SetField_def Has_def)
  have "OrderNewTypeFromFIX ?m = Inr ''EXCHANGE STOP LIMIT''"
    by (simp add: OrderNewTypeFromFIX_def f)
  from stop_limit_reported_as_market [OF this] show ?thesis by (simp add: f)
qed

text \<open>
  A fill-or-kill or immediate-or-cancel request is submitted as fill-or-kill, whatever its
  OrdType; the type converts back to a limit order, and the time in force converts back to
  fill-or-kill exactly when the order is not on margin (a \<^verbatim>\<open>MARGIN FOK\<close> order is reported as
  good-till-cancel).
\<close>

theorem fill_or_kill_roundtrip:
  assumes "OrderNewTypeFromFIX m = Inr ty"
    and "GetOrEmpty m tag_TimeInForce \<in> {TimeInForce_FILL_OR_KILL, TimeInForce_IMMEDIATE_OR_CANCEL}"
  defines "margin \<equiv> Has m tag_CashMargin \<and> GetOrEmpty m tag_CashMargin = CashMargin_MARGIN_OPEN"
  shows "OrdTypeToFIX ty = (OrdType_LIMIT, margin) \<and>
    fst (TimeInForceToFIX ty 0) =
      (if margin then TimeInForce_GOOD_TILL_CANCEL else TimeInForce_FILL_OR_KILL)"
proof -
  have "base_type m = OrderTypeExchangeFOK" using assms(2) by (auto simp: base_type_def)
  then have "ty = (if margin then ''MARGIN FOK'' else ''EXCHANGE FOK'')"
    using OrderNewType_Inr [OF assms(1)] by (simp only: to_margin margin_open_def margin_def)
  then show ?thesis by (cases margin) (simp_all add: to_fix_type TimeInForceToFIX_def MTSToTime_def)
qed

theorem fill_or_kill_roundtrip_witness:
  "OrdTypeToFIX ''EXCHANGE FOK'' = (OrdType_LIMIT, False) \<and>
   fst (TimeInForceToFIX ''EXCHANGE FOK'' 0) = TimeInForce_FILL_OR_KILL"
proof -
  let ?m = "SetField tag_TimeInForce TimeInForce_IMMEDIATE_OR_CANCEL Map.empty"
  have f: "GetOrEmpty ?m t = (if t = tag_TimeInForce then TimeInForce_IMMEDIATE_OR_CANCEL else '''')"
    "Has ?m t = (t = tag_TimeInForce)" for t
    by (simp_all add: GetOrEmpty_def GetString_def GetField_def SetField_def Has_def)
  have "OrderNewTypeFromFIX ?m = Inr ''EXCHANGE FOK''"
    by (simp add: OrderNewTypeFromFIX_def f)
  from fill_or_kill_roundtrip [OF this] show ?thesis by (simp add: f)
qed

text \<open>The sign of an amount.\<close>

lemma f64_lt_neg: "f64_lt (f64_neg x) f64_zero \<longleftrightarrow> f64_lt f64_zero x"
  "f64_lt f64_zero (f64_neg x) \<longleftrightarrow> f64_lt x f64_zero"
  by (cases x; simp add: f64_zero_def smant_def)+

lemma dec_Float64_frac:
  assumes "0 \<le> dec_value q"
  obtains n d where "dec_Float64 q = round_frac False n d" "0 < d" "qfrac n d = dec_rat q"
proof (cases "dec_exp q \<le> 0")
  case True
  then have "dec_Float64 q = round_frac False (nat (dec_value q)) (10 ^ nat (- dec_exp q))"
    using assms by (simp add: dec_Float64_def)
  moreover have "(10::rat) powi (- dec_exp q) = 10 ^ nat (- dec_exp q)"
    using True by (simp add: power_int_def)
  then have "(10::rat) powi dec_exp q = inverse (10 ^ nat (- dec_exp q))"
    using power_int_minus [of "10::rat" "- dec_exp q"] by simp
  then have "qfrac (nat (dec_value q)) (10 ^ nat (- dec_exp q)) = dec_rat q"
    using assms by (simp add: qfrac_def dec_rat_def divide_inverse)
  ultimately show thesis by (intro that) simp_all
next
  case False
  then have "dec_Float64 q = round_frac False (nat (dec_value q) * 10 ^ nat (dec_exp q)) 1"
    using assms by (simp add: dec_Float64_def)
  moreover have "qfrac (nat (dec_value q) * 10 ^ nat (dec_exp q)) 1 = dec_rat q"
    using assms False by (simp add: qfrac_def dec_rat_def power_int_def)
  ultimately show thesis by (intro that) simp_all
qed

lemma dec_Float64_pos:
  assumes "2 powi min_exp \<le> dec_rat q"
  shows "f64_lt f64_zero (dec_Float64 q)"
proof -
  let ?least = "Fin False 1 min_exp"
  have "0 < dec_rat q" using assms by (rule less_le_trans [rotated]) simp
  moreover have "0 < (10::rat) powi dec_exp q" by simp
  ultimately have pos: "0 < dec_value q" by (auto simp: dec_rat_def zero_less_mult_iff)
  obtain n d where nd: "dec_Float64 q = round_frac False n d" "0 < d" "qfrac n d = dec_rat q"
    by (rule dec_Float64_frac [OF less_imp_le [OF pos]])
  have "n \<noteq> 0" using nd(3) \<open>0 < dec_rat q\<close> by (cases "n = 0") (simp_all add: qfrac_def)
  moreover have "f64_ok ?least" by (simp add: min_exp_def max_exp_def)
  moreover have "f64_rat ?least \<le> qfrac n d" using assms nd(3) by (simp add: smant_def)
  ultimately have "f64_le ?least (round_frac False n d)" using round_frac_ge nd(2) by simp
  moreover have "f64_lt f64_zero ?least" by (simp add: f64_zero_def smant_def)
  ultimately show ?thesis unfolding nd(1)
    by (blast intro: f64_lt_le_trans)
qed

text \<open>
  C21: the side of an order survives the conversion to a signed amount and back: for buys and sells
  of a quantity that is at least the smallest positive float64, the sign of the amount the gateway
  submits gives back the side of the request.
\<close>

theorem side_roundtrip:
  assumes "side \<in> {Side_BUY, Side_SELL}" "2 powi min_exp \<le> dec_rat qty"
  shows "SideToFIX (GetAmountFromQtyAndSide side qty) = side"
proof -
  note pos = dec_Float64_pos [OF assms(2)]
  then have "\<not> f64_lt (dec_Float64 qty) f64_zero" by (cases "dec_Float64 qty") (auto simp: f64_zero_def)
  with pos assms(1) show ?thesis by (auto simp: SideToFIX_def GetAmountFromQtyAndSide_def f64_lt_neg)
qed

theorem side_roundtrip_witness:
  "SideToFIX (GetAmountFromQtyAndSide Side_SELL (mk_dec 5 (-1))) = Side_SELL"
proof -
  have "(2::rat) powi min_exp \<le> 2 powi (- 1)" by (intro power_int_increasing) (simp_all add: min_exp_def)
  also have "\<dots> = dec_rat (mk_dec 5 (-1))" by (simp add: dec_rat_def mk_dec_def power_int_def)
  finally show ?thesis by (intro side_roundtrip) simp_all
qed

text \<open>
  A side other than sell is traded as a buy: for every other Side value (sell short, for
  instance) the amount is that of a buy.
\<close>

theorem unknown_side_is_buy:
  assumes "side \<noteq> Side_SELL"
  shows "GetAmountFromQtyAndSide side qty = GetAmountFromQtyAndSide Side_BUY qty"
  using assms by (simp add: GetAmountFromQtyAndSide_def)

theorem unknown_side_is_buy_witness:
  "GetAmountFromQtyAndSide ''5'' (mk_dec 1 0) = GetAmountFromQtyAndSide Side_BUY (mk_dec 1 0)"
  by (rule unknown_side_is_buy) simp

text \<open>
  \<^verbatim>\<open>GetTimeInForceFromFIX\<close> gives good-till-cancel for every message it does not reject, whatever
  the TimeInForce of the message; the expiry text is empty unless the message is good-till-date, and
  then it is the text of the ExpireTime.
\<close>

theorem time_in_force_always_gtc:
  assumes "GetTimeInForceFromFIX m = Inr (tif, tifmts)"
  shows "tif = TimeInForce_GOOD_TILL_CANCEL \<and>
    (if Has m tag_TimeInForce \<and> GetOrEmpty m tag_TimeInForce = TimeInForce_GOOD_TILL_DATE
     then \<exists>t. GetTime m tag_ExpireTime = Inr t \<and> tifmts = FormatDateTime t else tifmts = '''')"
  using assms unfolding GetTimeInForceFromFIX_def Let_def
  by (auto simp: go_simps GetString_Inr split: if_splits)

theorem time_in_force_always_gtc_witness:
  "\<exists>tifmts. GetTimeInForceFromFIX (SetField tag_TimeInForce TimeInForce_FILL_OR_KILL Map.empty) =
     Inr (TimeInForce_GOOD_TILL_CANCEL, tifmts)"
proof -
  let ?m = "SetField tag_TimeInForce TimeInForce_FILL_OR_KILL Map.empty"
  obtain tif tifmts where r: "GetTimeInForceFromFIX ?m = Inr (tif, tifmts)"
    by (simp add: GetTimeInForceFromFIX_def Has_def SetField_def GetString_def GetField_def)
  with time_in_force_always_gtc [OF r] show ?thesis by blast
qed

text \<open>
  A ClOrdID that is an integer in canonical form becomes the CID of the order request, and
  printing that CID, as the execution reports do, gives back the ClOrdID; every other ClOrdID
  that does not parse is sent as CID 0.
\<close>

theorem clordid_roundtrip:
  assumes "OrderNewFromFIXNewOrderSingle m sy cp = Inr r"
  shows "(\<forall>i. int64_ok i \<and> GetOrEmpty m tag_ClOrdID = FormatInt i \<longrightarrow>
      on_CID r = i \<and> FormatInt (on_CID r) = GetOrEmpty m tag_ClOrdID) \<and>
    (isl (ParseInt (GetOrEmpty m tag_ClOrdID)) \<longrightarrow> on_CID r = 0)"
proof -
  have "on_CID r = (case ParseInt (GetOrEmpty m tag_ClOrdID) of Inr i \<Rightarrow> i | Inl _ \<Rightarrow> 0)"
    using assms unfolding OrderNewFromFIXNewOrderSingle_def
    by (cases "GetFlagsFromFIX m") (auto simp: go_simps GetString_Inr)
  then show ?thesis by (auto simp: ParseInt_FormatInt split: sum.splits)
qed

definition market_order :: FieldMap where
  "market_order = SetField tag_ClOrdID ''42'' (SetField tag_OrdType OrdType_MARKET
     (SetField tag_Symbol ''tBTCUSD'' (SetField tag_Side Side_BUY (SetField tag_OrderQty ''1'' Map.empty))))"

lemma market_order_get:
  "GetOrEmpty market_order tag_ClOrdID = ''42''" "GetOrEmpty market_order tag_OrdType = OrdType_MARKET"
  "GetOrEmpty market_order tag_ExecInst = ''''" "Has market_order tag_ClOrdID" "Has market_order tag_Symbol"
  "Has market_order tag_Side" "Has market_order tag_OrdType" "\<not> Has market_order tag_TimeInForce"
  by (simp_all add: market_order_def GetOrEmpty_def GetString_def GetField_def SetField_def Has_def)

lemma market_order_qty: "GetDecimal market_order tag_OrderQty = Inr (mk_dec 1 0)"
proof -
  have "NewFromString ''1'' = Inr (mk_dec 1 0)"
    using NewFromString_FormatInt [of 1] by (simp add: evals)
  then show ?thesis
    by (simp add: market_order_def GetDecimal_def GetField_def SetField_def FIXDecimal_Read_def)
qed

lemma market_order_accepted: "\<exists>r. OrderNewFromFIXNewOrderSingle market_order PassthroughSymbology cp = Inr r"
  unfolding ex_Inr NewOrder_Inr_iff GetPrices_Inr
  by (simp add: market_order_get prices_ok_def dec_ok_def market_order_qty OrderNewTypeFromFIX_def Let_def)

theorem clordid_roundtrip_witness:
  "\<exists>r. OrderNewFromFIXNewOrderSingle market_order PassthroughSymbology '''' = Inr r \<and> on_CID r = 42 \<and>
     FormatInt (on_CID r) = ''42''"
proof -
  obtain r where r: "OrderNewFromFIXNewOrderSingle market_order PassthroughSymbology '''' = Inr r"
    using market_order_accepted by blast
  have "GetOrEmpty market_order tag_ClOrdID = FormatInt 42" "int64_ok 42"
    by (simp_all add: market_order_get evals)
  with clordid_roundtrip [OF r] r show ?thesis by (auto simp: market_order_get)
qed

end
