(* ===== verification/Convert_Msg.thy ===== *)
theory Convert_Msg
  imports Convert_Order
begin

text \<open>
  The FIX messages the gateway sends (\<^verbatim>\<open>convert/fix_msg.go\<close>): market data snapshots and increments,
  execution reports, cancel rejects and position reports. A builder panics when the session's
  BeginString is not one of the three supported ones, or when a float is not a number; a builder that
  can return \<^verbatim>\<open>nil\<close> returns an option. The random identifiers (\<^verbatim>\<open>uuid.NewV4\<close>) and the current date
  are arguments.
\<close>

unbundle bit_operations_syntax

definition OrderNotFoundText :: string where "OrderNotFoundText = ''Order not found.''"
definition UnsupportedBeginStringText :: string where
  "UnsupportedBeginStringText = ''Unsupported BeginString''"

definition set_all :: "tag_value list \<Rightarrow> Message \<Rightarrow> Message" where
  "set_all fs m = fold (\<lambda>(t, v). msg_set t v) fs m"

definition set_if :: "bool \<Rightarrow> tag \<Rightarrow> string \<Rightarrow> Message \<Rightarrow> Message" where
  "set_if b t v m = (if b then msg_set t v m else m)"

text \<open>The message of type \<open>ty\<close> for a BeginString.\<close>

definition version_msg :: "string \<Rightarrow> string \<Rightarrow> Message go" where
  "version_msg beginString ty =
     (if beginString = BeginStringFIX42 \<or> beginString = BeginStringFIX44 \<or> beginString = BeginStringFIXT11
      then Ret (new_msg beginString ty) else Panic UnsupportedBeginStringText)"

definition from_bitfinex_or_same :: "symbology \<Rightarrow> string \<Rightarrow> string \<Rightarrow> string" where
  "from_bitfinex_or_same sy symbol cp =
     (case FromBitfinex sy symbol cp of Inr s \<Rightarrow> s | Inl _ \<Rightarrow> symbol)"

section \<open>Market data\<close>

definition mdsfr_template :: "tag list" where
  "mdsfr_template = [269, 270, 15, 271, 272, 273, 274, 275, 336, 276, 277, 282, 283, 284, 286, 59, 432,
     126, 110, 18, 287, 37, 299, 288, 289, 346, 290, 58, 354, 355]"

definition mdir_template :: "tag list" where
  "mdir_template = [279, 285, 269, 278, 280, 55, 65, 48, 22, 167, 200, 205, 201, 202, 206, 231, 223, 207,
     106, 348, 349, 107, 350, 351, 291, 292, 270, 15, 271, 272, 273, 274, 275, 336, 276, 277, 282, 283,
     284, 286, 59, 432, 126, 110, 18, 287, 37, 299, 288, 289, 346, 290, 387, 58, 354, 355]"

definition set_fields :: "tag_value list \<Rightarrow> FieldMap \<Rightarrow> FieldMap" where
  "set_fields fs m = fold (\<lambda>(t, v). SetField t v) fs m"

definition mdsfr_header :: "string \<Rightarrow> string \<Rightarrow> Message \<Rightarrow> Message" where
  "mdsfr_header mdReqID symb m =
     set_all [(tag_Symbol, symb), (tag_MDReqID, mdReqID), (tag_Symbol, symb), (tag_SecurityID, symb),
       (tag_IDSource, IDSource_EXCHANGE_SYMBOL)] m"

definition trade_entry :: "Trade \<Rightarrow> FieldMap go" where
  "trade_entry t =
     go_bind (dec_field tag_MDEntryPx 4 (tr_Price t)) (\<lambda>px.
     go_bind (dec_field tag_MDEntrySize 4 (f64_abs (tr_Amount t))) (\<lambda>size.
       Ret (set_fields [(tag_MDEntryType, MDEntryType_TRADE), px, size] Map.empty)))"

definition FIXMarketDataFullRefreshFromTradeSnapshot ::
  "string \<Rightarrow> string \<Rightarrow> Trade list \<Rightarrow> symbology \<Rightarrow> string \<Rightarrow> Message option go" where
  "FIXMarketDataFullRefreshFromTradeSnapshot beginString mdReqID snapshot sy cp =
     (case snapshot of
        [] \<Rightarrow> Ret None
      | first # _ \<Rightarrow>
          (let symb = from_bitfinex_or_same sy (tr_Pair first) cp
           in go_bind (version_msg beginString ''W'') (\<lambda>m.
              go_bind (go_map trade_entry snapshot) (\<lambda>gs.
                Ret (Some (msg_set_group tag_NoMDEntries mdsfr_template gs (mdsfr_header mdReqID symb m)))))))"

definition book_entry_type :: "nat \<Rightarrow> string" where
  "book_entry_type side =
     (if side = 1 then MDEntryType_BID else if side = 2 then MDEntryType_OFFER else '''')"

definition book_entry :: "BookUpdate \<Rightarrow> FieldMap go" where
  "book_entry u =
     go_bind (dec_field tag_MDEntryPx 4 (bu_Price u)) (\<lambda>px.
     go_bind (dec_field tag_MDEntrySize 4 (f64_abs (bu_Amount u))) (\<lambda>size.
       Ret (set_fields [(tag_MDEntryType, book_entry_type (bu_Side u)), px, size] Map.empty)))"

definition FIXMarketDataFullRefreshFromBookSnapshot ::
  "string \<Rightarrow> string \<Rightarrow> BookUpdate list \<Rightarrow> symbology \<Rightarrow> string \<Rightarrow> Message option go" where
  "FIXMarketDataFullRefreshFromBookSnapshot beginString mdReqID snapshot sy cp =
     (case snapshot of
        [] \<Rightarrow> Ret None
      | first # _ \<Rightarrow>
          (let symb = from_bitfinex_or_same sy (bu_Symbol first) cp
           in go_bind (version_msg beginString ''W'') (\<lambda>m.
              go_bind (go_map book_entry snapshot) (\<lambda>gs.
                Ret (Some (msg_set_group tag_NoMDEntries mdsfr_template gs (mdsfr_header mdReqID symb m)))))))"

definition FIXMarketDataIncrementalRefreshFromTrade ::
  "string \<Rightarrow> string \<Rightarrow> Trade \<Rightarrow> symbology \<Rightarrow> string \<Rightarrow> Message go" where
  "FIXMarketDataIncrementalRefreshFromTrade beginString mdReqID trade sy cp =
     (let symbol = from_bitfinex_or_same sy (tr_Pair trade) cp
      in go_bind (version_msg beginString ''X'') (\<lambda>m.
         go_bind (dec_field tag_MDEntryPx 4 (tr_Price trade)) (\<lambda>px.
         go_bind (dec_field tag_MDEntrySize 4 (f64_abs (tr_Amount trade))) (\<lambda>size.
           Ret (msg_set_group tag_NoMDEntries mdir_template
             [set_fields [(tag_MDEntryType, MDEntryType_TRADE), (tag_MDUpdateAction, MDUpdateAction_NEW), px,
                (tag_SecurityID, symbol), (tag_IDSource, IDSource_EXCHANGE_SYMBOL), size,
                (tag_Symbol, symbol)] Map.empty]
             (msg_set tag_MDReqID mdReqID m))))))"

definition FIXMarketDataIncrementalRefreshFromBookUpdate ::
  "string \<Rightarrow> string \<Rightarrow> BookUpdate \<Rightarrow> symbology \<Rightarrow> string \<Rightarrow> Message go" where
  "FIXMarketDataIncrementalRefreshFromBookUpdate beginString mdReqID u sy cp =
     (let symbol = from_bitfinex_or_same sy (bu_Symbol u) cp; action = BookActionToFIX (bu_Action u)
      in go_bind (version_msg beginString ''X'') (\<lambda>m.
         go_bind (dec_field tag_MDEntryPx 4 (bu_Price u)) (\<lambda>px.
         go_bind (if action \<noteq> MDUpdateAction_DELETE
                  then go_bind (dec_field tag_MDEntrySize 4 (f64_abs (bu_Amount u))) (\<lambda>size. Ret [size])
                  else Ret []) (\<lambda>size.
           Ret (msg_set_group tag_NoMDEntries mdir_template
             [set_fields ([(tag_MDEntryType, book_entry_type (bu_Side u)), (tag_MDUpdateAction, action), px,
                (tag_SecurityID, symbol), (tag_IDSource, IDSource_EXCHANGE_SYMBOL)] @ size @
                [(tag_Symbol, symbol)]) Map.empty]
             (msg_set tag_MDReqID mdReqID m))))))"

section \<open>Execution reports\<close>

definition terminal_status :: "string \<Rightarrow> bool" where
  "terminal_status s \<longleftrightarrow> s \<in> {OrdStatus_CANCELED, OrdStatus_DONE_FOR_DAY, OrdStatus_EXPIRED,
     OrdStatus_REPLACED, OrdStatus_STOPPED, OrdStatus_SUSPENDED}"

definition er_base ::
  "string \<Rightarrow> string \<Rightarrow> string \<Rightarrow> string \<Rightarrow> string \<Rightarrow> string \<Rightarrow> string \<Rightarrow> Decimal \<Rightarrow> Decimal \<Rightarrow> float64 \<Rightarrow> Message go" where
  "er_base uuid beginString orderID execType ordStatus symb side remaining cumAmt avgPx =
     (let common = [(tag_OrderID, orderID), (tag_ExecID, uuid), (tag_ExecType, execType),
            (tag_OrdStatus, ordStatus), (tag_Side, side), (tag_LeavesQty, StringFixed remaining 4),
            (tag_CumQty, StringFixed cumAmt 4), (tag_Symbol, symb)]
      in go_bind (version_msg beginString ''8'') (\<lambda>m.
         go_bind (AvgPxToFIX avgPx) (\<lambda>avg.
           Ret (set_all (common @ [avg] @
             (if beginString = BeginStringFIX42 then [(tag_ExecTransType, ExecTransType_STATUS)] else [])) m))))"

text \<open>A field that is set to a decimal when a condition holds.\<close>

definition set_dec_if :: "bool \<Rightarrow> tag \<Rightarrow> int \<Rightarrow> float64 \<Rightarrow> Message \<Rightarrow> Message go" where
  "set_dec_if b t places x m =
     (if b then go_bind (dec_field t places x) (\<lambda>(t, v). Ret (msg_set t v m)) else Ret m)"

definition FIXExecutionReport ::
  "string \<Rightarrow> string \<Rightarrow> string \<Rightarrow> string \<Rightarrow> string \<Rightarrow> string \<Rightarrow> string \<Rightarrow> string \<Rightarrow>
   float64 \<Rightarrow> float64 \<Rightarrow> float64 \<Rightarrow> float64 \<Rightarrow> float64 \<Rightarrow> float64 \<Rightarrow> float64 \<Rightarrow>
   string \<Rightarrow> string \<Rightarrow> bool \<Rightarrow> string \<Rightarrow> time \<Rightarrow> string \<Rightarrow> symbology \<Rightarrow> string \<Rightarrow> int \<Rightarrow> Message go" where
  "FIXExecutionReport uuid beginString symbol clOrdID orderID account execType side
     origQty thisQty cumQty px stop trail avgPx ordStatus ordType isMargin tif expTime text sy cp flags =
     go_bind (NewFromFloat origQty) (\<lambda>amt.
     go_bind (NewFromFloat cumQty) (\<lambda>cumAmt.
     go_bind (NewFromFloat thisQty) (\<lambda>lastShares.
     (let remaining = (if terminal_status ordStatus then dec_zero else dec_sub amt cumAmt);
          symb = from_bitfinex_or_same sy symbol cp
      in go_bind (er_base uuid beginString orderID execType ordStatus symb side remaining cumAmt avgPx) (\<lambda>e.
         (let e = msg_set tag_Account account e;
              e = set_if (dec_cmp lastShares dec_zero \<noteq> 0) tag_LastShares (StringFixed lastShares 4) e;
              e = msg_set tag_OrderQty (StringFixed amt 4) e;
              e = set_if (text \<noteq> '''') tag_Text text e;
              e = set_if isMargin tag_CashMargin CashMargin_MARGIN_CLOSE e;
              e = msg_set tag_OrdType ordType e;
              e = msg_set tag_ClOrdID clOrdID e
          in go_bind (set_dec_if (\<not> f64_eq px f64_zero \<and> (ordType = OrdType_LIMIT \<or> ordType = OrdType_STOP_LIMIT))
                        tag_Price 4 px e) (\<lambda>e.
             go_bind (set_dec_if (\<not> f64_eq stop f64_zero \<and> (ordType = OrdType_STOP \<or> ordType = OrdType_STOP_LIMIT))
                        tag_StopPx 4 stop e) (\<lambda>e.
             go_bind (set_dec_if (\<not> f64_eq trail f64_zero) tag_PegDifference 4 trail e) (\<lambda>e.
             (let execInst = (if \<not> f64_eq trail f64_zero then ExecInst_PRIMARY_PEG else '''');
                  e = set_if (flags AND FlagHidden \<noteq> 0) tag_DisplayMethod DisplayMethod_UNDISCLOSED e;
                  execInst = (if flags AND FlagPostOnly \<noteq> 0
                              then execInst @ ExecInst_PARTICIPANT_DONT_INITIATE else execInst);
                  e = set_if (execInst \<noteq> '''') tag_ExecInst execInst e;
                  e = msg_set tag_TimeInForce tif e;
                  e = set_if (tif = TimeInForce_GOOD_TILL_DATE) tag_ExpireTime
                        (FIXUTCTimestamp_Write expTime Millis) e
              in Ret e))))))))))"

definition FIXExecutionReportFromOrder ::
  "string \<Rightarrow> string \<Rightarrow> Order \<Rightarrow> string \<Rightarrow> string \<Rightarrow> float64 \<Rightarrow> string \<Rightarrow> string \<Rightarrow> symbology \<Rightarrow> string \<Rightarrow> int \<Rightarrow>
   float64 \<Rightarrow> float64 \<Rightarrow> Message go" where
  "FIXExecutionReportFromOrder uuid beginString ord account execType cumQty ordStatus text sy cp flags stop peg =
     (let orderID = FormatInt (o_ID ord); fAmt = f64_abs (o_Amount ord);
          (ordtype, isMargin) = OrdTypeToFIX (o_Type ord);
          (tif, expTime) = TimeInForceToFIX (o_Type ord) (o_MTSTif ord)
      in go_bind (FIXExecutionReport uuid beginString (o_Symbol ord) (FormatInt (o_CID ord)) orderID account
                    execType (SideToFIX (o_Amount ord)) fAmt f64_zero cumQty (o_Price ord) stop peg
                    (o_PriceAvg ord) ordStatus ordtype isMargin tif expTime text sy cp flags) (\<lambda>e.
           Ret (msg_set tag_LastShares (StringFixed dec_zero 4) (set_if (text \<noteq> '''') tag_Text text e))))"

definition FIXExecutionReportFromTradeExecutionUpdate ::
  "string \<Rightarrow> string \<Rightarrow> TradeExecutionUpdate \<Rightarrow> string \<Rightarrow> string \<Rightarrow> float64 \<Rightarrow> float64 \<Rightarrow> float64 \<Rightarrow> float64 \<Rightarrow>
   float64 \<Rightarrow> float64 \<Rightarrow> symbology \<Rightarrow> string \<Rightarrow> int \<Rightarrow> int \<Rightarrow> Message go" where
  "FIXExecutionReportFromTradeExecutionUpdate uuid beginString t account clOrdID origQty totalFillQty origPx
     stopPx trailPx avgPx sy cp expTif flags =
     (let orderID = FormatInt (te_OrderID t);
          (execType, ordStatus) =
            (if f64_le origQty totalFillQty then (ExecType_FILL, OrdStatus_FILLED)
             else (ExecType_PARTIAL_FILL, OrdStatus_PARTIALLY_FILLED));
          execAmt = f64_abs (te_ExecAmount t);
          (tif, expTime) = TimeInForceToFIX (te_OrderType t) expTif;
          (ordType, isMargin) = OrdTypeToFIX (te_OrderType t)
      in go_bind (FIXExecutionReport uuid beginString (te_Pair t) clOrdID orderID account execType
                    (SideToFIX (te_ExecAmount t)) origQty execAmt totalFillQty origPx stopPx trailPx avgPx
                    ordStatus ordType isMargin tif expTime '''' sy cp flags) (\<lambda>er.
         go_bind (dec_field tag_Commission 4 (f64_abs (te_Fee t))) (\<lambda>fee.
         go_bind (dec_field tag_LastPx 4 (te_ExecPrice t)) (\<lambda>lastPx.
           Ret (set_all [fee, (tag_CommType, CommType_ABSOLUTE), lastPx] er)))))"

section \<open>Cancel rejects\<close>

definition rejectReasonFromText :: "string \<Rightarrow> string" where
  "rejectReasonFromText text =
     (if text = OrderNotFoundText then CxlRejReason_UNKNOWN_ORDER else CxlRejReason_OTHER)"

definition FIXOrderCancelReject ::
  "string \<Rightarrow> string \<Rightarrow> string \<Rightarrow> string \<Rightarrow> string \<Rightarrow> string \<Rightarrow> bool \<Rightarrow> Message go" where
  "FIXOrderCancelReject beginString account orderID origClOrdID cxlClOrdID text isCancelReplace =
     (let rejReason = rejectReasonFromText text;
          orderID = (if rejReason = CxlRejReason_UNKNOWN_ORDER then ''NONE'' else orderID)
      in go_bind (version_msg beginString ''9'') (\<lambda>m.
           Ret (set_all
             [(tag_OrderID, orderID), (tag_ClOrdID, cxlClOrdID), (tag_OrigClOrdID, origClOrdID),
              (tag_OrdStatus, OrdStatus_REJECTED),
              (tag_CxlRejResponseTo, CxlRejResponseTo_ORDER_CANCEL_REQUEST),
              (tag_CxlRejReason, rejReason), (tag_Account, account), (tag_Text, text),
              (tag_CxlRejResponseTo, if isCancelReplace then CxlRejResponseTo_ORDER_CANCEL_REPLACE_REQUEST
                                     else CxlRejResponseTo_ORDER_CANCEL_REQUEST)] m)))"

section \<open>Position reports\<close>

text \<open>The position report is a FIX 5.0 message whose BeginString is then set to the session's.\<close>

definition pr_base :: "string \<Rightarrow> string \<Rightarrow> string \<Rightarrow> string \<Rightarrow> string \<Rightarrow> Message" where
  "pr_base uuid today beginString account accountType =
     (let m = set_all [(tag_PosMaintRptID, uuid), (tag_ClearingBusinessDate, today), (tag_Account, account),
                (tag_AccountType, accountType)] (new_msg BeginStringFIXT11 ''AP'')
      in m\<lparr>m_Header := SetField 8 beginString (m_Header m)\<rparr>)"

definition FIXPositionReportFromWallet ::
  "string \<Rightarrow> string \<Rightarrow> string \<Rightarrow> Wallet \<Rightarrow> string \<Rightarrow> Message go" where
  "FIXPositionReportFromWallet uuid today beginString w account =
     (let e = msg_set tag_Currency (wl_Currency w) (pr_base uuid today beginString account (wl_Type w))
      in go_bind (dec_field tag_SettlPrice 4 (wl_BalanceAvailable w)) (\<lambda>settl.
         go_bind (dec_field tag_PriorSettlPrice 4 (wl_Balance w)) (\<lambda>prior.
         go_bind (dec_field tag_OpenInterest 4 (wl_UnsettledInterest w)) (\<lambda>interest.
           Ret (set_all [settl, (tag_SettlPriceType, SettlPriceType_FINAL), prior, interest] e)))))"

definition FIXPositionReportFromPosition ::
  "string \<Rightarrow> string \<Rightarrow> string \<Rightarrow> Position \<Rightarrow> string \<Rightarrow> symbology \<Rightarrow> string \<Rightarrow> Message go" where
  "FIXPositionReportFromPosition uuid today beginString p account sy cp =
     (let e = msg_set tag_Symbol (from_bitfinex_or_same sy (po_Symbol p) cp)
                (pr_base uuid today beginString account (po_Status p))
      in go_bind (dec_field tag_Quantity 4 (po_Amount p)) (\<lambda>qty.
         go_bind (dec_field tag_SettlPrice 4 (po_LiquidationPrice p)) (\<lambda>settl.
         go_bind (dec_field tag_PriorSettlPrice 4 (po_BasePrice p)) (\<lambda>prior.
         go_bind (dec_field tag_Leverage 4 (po_Leverage p)) (\<lambda>lev.
         go_bind (dec_field tag_MarginExcess 4 (po_MarginFunding p)) (\<lambda>excess.
         go_bind (dec_field tag_ProfitLoss 4 (po_ProfitLoss p)) (\<lambda>pl.
         go_bind (dec_field tag_ProfitLossPercentage 4 (po_ProfitLossPercentage p)) (\<lambda>plp.
           Ret (set_all [qty, settl, (tag_SettlPriceType, SettlPriceType_FINAL), prior, lev, excess,
             (tag_MarginFundingType, FormatInt (po_MarginFundingType p)), pl, plp] e)))))))))"

section \<open>Ticker\<close>

definition at_index :: "float64 list \<Rightarrow> nat \<Rightarrow> float64 go" where
  "at_index data i = (if i < length data then Ret (data ! i) else Panic ''runtime error: index out of range'')"

definition ticker_field :: "float64 list \<Rightarrow> nat \<Rightarrow> tag \<Rightarrow> int \<Rightarrow> tag_value go" where
  "ticker_field data i t places = go_bind (at_index data i) (dec_field t places)"

definition FIX42NoMDEntriesRepeatingGroupFromTradeTicker :: "float64 list \<Rightarrow> FieldMap list go" where
  "FIX42NoMDEntriesRepeatingGroupFromTradeTicker data =
     go_map (\<lambda>(ty, fs).
       go_bind (go_map (\<lambda>(i, t, places). ticker_field data i t places) fs) (\<lambda>vs.
         Ret (set_fields ((tag_MDEntryType, ty) # vs) Map.empty)))
       [(MDEntryType_BID, [(0, tag_MDEntryPx, 2), (1, tag_MDEntrySize, 3)]),
        (MDEntryType_OFFER, [(2, tag_MDEntryPx, 2), (3, tag_MDEntrySize, 3)]),
        (MDEntryType_TRADE, [(6, tag_MDEntryPx, 2)]),
        (MDEntryType_TRADE_VOLUME, [(7, tag_MDEntrySize, 8)]),
        (MDEntryType_TRADING_SESSION_HIGH_PRICE, [(8, tag_MDEntrySize, 2)]),
        (MDEntryType_TRADING_SESSION_LOW_PRICE, [(9, tag_MDEntrySize, 2)])]"

section \<open>Lemmas\<close>

lemma body_str_set [simp]: "body_str (msg_set t v m) k = (if k = t then Some v else body_str m k)"
  by (rule msg_fields.get_put)

lemma body_str_set_if [simp]: "body_str (set_if b t v m) k = (if b \<and> k = t then Some v else body_str m k)"
  by (simp add: set_if_def)

lemma body_str_set_all: "body_str (set_all fs m) = body_str m ++ map_of (rev fs)"
  unfolding set_all_def by (rule msg_fields.get_puts)

definition supported :: "string \<Rightarrow> bool" where
  "supported bs \<longleftrightarrow> bs \<in> {BeginStringFIX42, BeginStringFIX44, BeginStringFIXT11}"

lemma version_msg_cases:
  "version_msg bs ty = (if supported bs then Ret (new_msg bs ty) else Panic UnsupportedBeginStringText)"
  by (simp add: version_msg_def supported_def)

lemma NewFromFloat_Ret_iff: "(\<exists>d. NewFromFloat x = Ret d) \<longleftrightarrow> f64_finite x"
  by (cases x) (auto simp: Let_def split: prod.splits)

lemma ex_bind_Ret: "(\<exists>y. go_bind m f = Ret y) \<longleftrightarrow> (\<exists>x. m = Ret x \<and> (\<exists>y. f x = Ret y))"
  by (cases m) auto

lemma go_bind_total: "(\<And>x. \<exists>y. f x = Ret y) \<Longrightarrow> (\<exists>y. go_bind m f = Ret y) \<longleftrightarrow> (\<exists>x. m = Ret x)"
  by (cases m) auto

lemma dec_field_Ret_iff: "(\<exists>f. dec_field t p x = Ret f) \<longleftrightarrow> f64_finite x"
  unfolding dec_field_def NewFromFloat_Ret_iff [symmetric] by (rule go_bind_total) blast

lemma dec_field_tag: "dec_field t p x = Ret f \<Longrightarrow> \<exists>d. NewFromFloat x = Ret d \<and> f = (t, StringFixed d p)"
  by (auto simp: dec_field_def go_simps)

lemmas dec_field_pair_iff = dec_field_Ret_iff [unfolded split_paired_Ex]

lemma body_str_set_dec_if:
  "set_dec_if b t places x m = Ret m' \<Longrightarrow> \<forall>k. k \<noteq> t \<longrightarrow> body_str m' k = body_str m k"
  by (auto simp: set_dec_if_def go_simps split: if_splits prod.splits dest!: dec_field_tag)

lemma set_dec_if_Ret_iff: "(\<exists>m'. set_dec_if b t p x m = Ret m') \<longleftrightarrow> (b \<longrightarrow> f64_finite x)"
proof (cases b)
  case True
  have "(\<exists>m'. set_dec_if b t p x m = Ret m') \<longleftrightarrow> (\<exists>f. dec_field t p x = Ret f)"
    unfolding set_dec_if_def using True by (simp add: go_bind_total case_prod_beta)
  then show ?thesis using True by (simp add: dec_field_pair_iff)
qed (simp add: set_dec_if_def)

lemma er_base_Ret:
  "er_base uuid bs orderID execType ordStatus symb side remaining cumAmt avgPx = Ret e \<Longrightarrow>
   body_str e tag_LeavesQty = Some (StringFixed remaining 4) \<and> body_str e tag_CumQty = Some (StringFixed cumAmt 4) \<and>
   body_str e tag_OrdStatus = Some ordStatus \<and> body_str e tag_ExecType = Some execType \<and>
   body_str e tag_OrderID = Some orderID \<and> body_str e tag_Side = Some side \<and> body_str e tag_Symbol = Some symb"
  by (auto simp: er_base_def Let_def go_simps version_msg_cases AvgPxToFIX_def body_str_set_all
      dest!: dec_field_tag split: if_splits)

lemma er_base_Ret_iff:
  "(\<exists>e. er_base uuid bs orderID execType ordStatus symb side remaining cumAmt avgPx = Ret e) \<longleftrightarrow>
   supported bs \<and> f64_finite avgPx"
  by (simp add: er_base_def Let_def ex_bind_Ret version_msg_cases AvgPxToFIX_def dec_field_pair_iff)

lemma exec_report_Ret:
  assumes "FIXExecutionReport uuid bs symbol clOrdID orderID account execType side origQty thisQty cumQty px
    stop trail avgPx ordStatus ordType isMargin tif expTime text sy cp flags = Ret e"
  obtains amt cum where "NewFromFloat origQty = Ret amt" "NewFromFloat cumQty = Ret cum"
    "body_str e tag_LeavesQty = Some (StringFixed (if terminal_status ordStatus then dec_zero else dec_sub amt cum) 4)"
    "body_str e tag_CumQty = Some (StringFixed cum 4)" "body_str e tag_OrderQty = Some (StringFixed amt 4)"
    "body_str e tag_OrdStatus = Some ordStatus" "body_str e tag_ExecType = Some execType"
    "body_str e tag_OrderID = Some orderID" "body_str e tag_ClOrdID = Some clOrdID" "body_str e tag_Side = Some side"
    "body_str e tag_Symbol = Some (from_bitfinex_or_same sy symbol cp)" "body_str e tag_OrdType = Some ordType"
    "body_str e tag_TimeInForce = Some tif"
    "tif = TimeInForce_GOOD_TILL_DATE \<Longrightarrow> body_str e tag_ExpireTime = Some (FIXUTCTimestamp_Write expTime Millis)"
  using assms unfolding FIXExecutionReport_def Let_def go_bind_eq_Ret
  apply (elim exE conjE)
  apply (drule body_str_set_dec_if)+
  apply (drule er_base_Ret)
  apply (rule that, assumption, assumption)
  apply (auto simp del: split_paired_All)
  done

lemma exec_report_Ret_iff:
  "(\<exists>e. FIXExecutionReport uuid bs symbol clOrdID orderID account execType side origQty thisQty cumQty px
      stop trail avgPx ordStatus ordType isMargin tif expTime text sy cp flags = Ret e) =
   (supported bs \<and> f64_finite origQty \<and> f64_finite cumQty \<and> f64_finite thisQty \<and> f64_finite avgPx \<and>
    (ordType \<in> {OrdType_LIMIT, OrdType_STOP_LIMIT} \<longrightarrow> f64_finite px) \<and>
    (ordType \<in> {OrdType_STOP, OrdType_STOP_LIMIT} \<longrightarrow> f64_finite stop) \<and> f64_finite trail)"
proof -
  have zero: "f64_eq x f64_zero \<Longrightarrow> f64_finite x" for x
    by (cases x) (simp_all add: f64_zero_def)
  show ?thesis
    unfolding FIXExecutionReport_def Let_def
    by (simp add: ex_bind_Ret er_base_Ret_iff set_dec_if_Ret_iff NewFromFloat_Ret_iff) (use zero in blast)
qed

lemma exec_report_amounts:
  assumes "FIXExecutionReport uuid bs symbol clOrdID orderID account execType side origQty thisQty cumQty px
    stop trail avgPx ordStatus ordType isMargin tif expTime text sy cp flags = Ret e"
  shows "\<exists>amt cum leaves. NewFromFloat origQty = Ret amt \<and> NewFromFloat cumQty = Ret cum \<and>
    dec_rat leaves = (if terminal_status ordStatus then 0 else dec_rat amt - dec_rat cum) \<and>
    body_str e tag_OrderQty = Some (StringFixed amt 4) \<and> body_str e tag_CumQty = Some (StringFixed cum 4) \<and>
    body_str e tag_LeavesQty = Some (StringFixed leaves 4)"
proof -
  from assms obtain amt cum where parts: "NewFromFloat origQty = Ret amt" "NewFromFloat cumQty = Ret cum"
    "body_str e tag_LeavesQty = Some (StringFixed (if terminal_status ordStatus then dec_zero else dec_sub amt cum) 4)"
    "body_str e tag_CumQty = Some (StringFixed cum 4)" "body_str e tag_OrderQty = Some (StringFixed amt 4)"
    by (rule exec_report_Ret)
  have "dec_rat dec_zero = 0" by (simp add: dec_rat_def dec_zero_def mk_dec_def)
  then show ?thesis
    using parts dec_rat_sub [of amt cum]
    by (intro exI [of _ amt] exI [of _ cum] exI [of _ "if terminal_status ordStatus then dec_zero else dec_sub amt cum"])
      simp
qed

section \<open>Properties\<close>

text \<open>
  The builder of execution reports panics in no other case than these: the session's BeginString is
  not supported, or a number that the report prints is infinite or not a number (the quantities and the
  average price always, the price of a limit order, the stop price of a stop order, the trailing
  distance).
\<close>

theorem exec_report_returns_iff:
  "(\<exists>e. FIXExecutionReport uuid bs symbol clOrdID orderID account execType side origQty thisQty cumQty px
      stop trail avgPx ordStatus ordType isMargin tif expTime text sy cp flags = Ret e) =
   (supported bs \<and> f64_finite origQty \<and> f64_finite cumQty \<and> f64_finite thisQty \<and> f64_finite avgPx \<and>
    (ordType \<in> {OrdType_LIMIT, OrdType_STOP_LIMIT} \<longrightarrow> f64_finite px) \<and>
    (ordType \<in> {OrdType_STOP, OrdType_STOP_LIMIT} \<longrightarrow> f64_finite stop) \<and> f64_finite trail)"
  by (rule exec_report_Ret_iff)

text \<open>
  C16: what an execution report says about quantities. OrderQty and CumQty are the two floats as
  decimals, printed with four places. LeavesQty is printed from zero when the status is CANCELED, DONE FOR DAY,
  EXPIRED, REPLACED, STOPPED or SUSPENDED, and from exactly their difference for every other status. REJECTED
  is one of the others.
\<close>

theorem exec_report_quantities:
  assumes "FIXExecutionReport uuid bs symbol clOrdID orderID account execType side origQty thisQty cumQty px
    stop trail avgPx ordStatus ordType isMargin tif expTime text sy cp flags = Ret e"
  shows "\<exists>amt cum leaves. NewFromFloat origQty = Ret amt \<and> NewFromFloat cumQty = Ret cum \<and>
    dec_rat leaves = (if ordStatus \<in> {OrdStatus_CANCELED, OrdStatus_DONE_FOR_DAY, OrdStatus_EXPIRED,
      OrdStatus_REPLACED, OrdStatus_STOPPED, OrdStatus_SUSPENDED}
      then 0 else dec_rat amt - dec_rat cum) \<and>
    body_str e tag_OrderQty = Some (StringFixed amt 4) \<and> body_str e tag_CumQty = Some (StringFixed cum 4) \<and>
    body_str e tag_LeavesQty = Some (StringFixed leaves 4)"
  using exec_report_amounts [OF assms, unfolded terminal_status_def] by blast

text \<open>A report of a partial fill of 1 out of 3.\<close>

definition sample_report :: "Message go" where
  "sample_report = FIXExecutionReport ''u'' BeginStringFIX42 ''tBTCUSD'' ''1'' ''2'' ''acc'' ExecType_PARTIAL_FILL
     Side_BUY f64_three f64_one f64_one f64_zero f64_zero f64_zero f64_zero OrdStatus_PARTIALLY_FILLED OrdType_MARKET
     False TimeInForce_GOOD_TILL_CANCEL 0 '''' PassthroughSymbology ''cp'' 0"

lemma sample_report_returns: "\<exists>e. sample_report = Ret e"
  unfolding sample_report_def exec_report_Ret_iff
  by (simp add: supported_def f64_three_def f64_one_def f64_zero_def)

theorem exec_report_quantities_witness:
  "\<exists>e amt cum leaves. sample_report = Ret e \<and> NewFromFloat f64_three = Ret amt \<and> NewFromFloat f64_one = Ret cum \<and>
     dec_rat leaves = dec_rat amt - dec_rat cum \<and> body_str e tag_LeavesQty = Some (StringFixed leaves 4)"
proof -
  obtain e where e: "sample_report = Ret e" using sample_report_returns by blast
  from exec_report_quantities [OF e [unfolded sample_report_def]] e show ?thesis by auto
qed

text \<open>
  C17: a client that reads the three printed quantities of a report. When the status is CANCELED, DONE FOR DAY,
  EXPIRED, REPLACED, STOPPED or SUSPENDED, it finds LeavesQty within half a unit of the fourth place of zero,
  whatever the other two say. For every other status it finds LeavesQty within one and a half
  units of the fourth place of OrderQty minus CumQty.
\<close>

theorem exec_report_balance:
  assumes "FIXExecutionReport uuid bs symbol clOrdID orderID account execType side origQty thisQty cumQty px
    stop trail avgPx ordStatus ordType isMargin tif expTime text sy cp flags = Ret e"
  shows "\<exists>oq cq lq ol cl ll. body_str e tag_OrderQty = Some oq \<and> body_str e tag_CumQty = Some cq \<and>
    body_str e tag_LeavesQty = Some lq \<and> NewFromString oq = Inr ol \<and> NewFromString cq = Inr cl \<and>
    NewFromString lq = Inr ll \<and>
    (if ordStatus \<in> {OrdStatus_CANCELED, OrdStatus_DONE_FOR_DAY, OrdStatus_EXPIRED,
      OrdStatus_REPLACED, OrdStatus_STOPPED, OrdStatus_SUSPENDED}
     then \<bar>dec_rat ll\<bar> \<le> 1 / 20000
     else \<bar>dec_rat ll - (dec_rat ol - dec_rat cl)\<bar> \<le> 3 / 20000)"
proof -
  obtain amt cum leaves where p:
    "dec_rat leaves = (if terminal_status ordStatus then 0 else dec_rat amt - dec_rat cum)"
    "body_str e tag_OrderQty = Some (StringFixed amt 4)" "body_str e tag_CumQty = Some (StringFixed cum 4)"
    "body_str e tag_LeavesQty = Some (StringFixed leaves 4)"
    using exec_report_amounts [OF assms] by blast
  have read: "\<exists>x. NewFromString (StringFixed d 4) = Inr x \<and> \<bar>dec_rat x - dec_rat d\<bar> \<le> 1 / 20000" for d
    using read_StringFixed [of 4 d] by (simp add: int32_ok_def power_int_minus)
  obtain ol cl ll where r: "NewFromString (StringFixed amt 4) = Inr ol" "\<bar>dec_rat ol - dec_rat amt\<bar> \<le> 1 / 20000"
      "NewFromString (StringFixed cum 4) = Inr cl" "\<bar>dec_rat cl - dec_rat cum\<bar> \<le> 1 / 20000"
      "NewFromString (StringFixed leaves 4) = Inr ll" "\<bar>dec_rat ll - dec_rat leaves\<bar> \<le> 1 / 20000"
    using read [of amt] read [of cum] read [of leaves] by blast
  have "if terminal_status ordStatus then \<bar>dec_rat ll\<bar> \<le> 1 / 20000
     else \<bar>dec_rat ll - (dec_rat ol - dec_rat cl)\<bar> \<le> 3 / 20000"
    using p(1) r(2,4,6) unfolding abs_le_iff by (cases "terminal_status ordStatus") simp_all
  with p r show ?thesis unfolding terminal_status_def by blast
qed

theorem exec_report_balance_witness:
  "\<exists>e oq cq lq ol cl ll. sample_report = Ret e \<and> body_str e tag_OrderQty = Some oq \<and> body_str e tag_CumQty = Some cq \<and>
     body_str e tag_LeavesQty = Some lq \<and> NewFromString oq = Inr ol \<and> NewFromString cq = Inr cl \<and>
     NewFromString lq = Inr ll \<and> \<bar>dec_rat ll - (dec_rat ol - dec_rat cl)\<bar> \<le> 3 / 20000"
proof -
  obtain e where e: "sample_report = Ret e" using sample_report_returns by blast
  from exec_report_balance [OF e [unfolded sample_report_def]] e show ?thesis by auto
qed

section \<open>Reports of trades, cancel rejects and market data\<close>

text \<open>
  The report of an execution says FILLED, with execution type FILL, when the total of the fills has
  reached the order's quantity, else PARTIALLY FILLED with execution type PARTIAL FILL. It is about the
  order and the side of the execution, CumQty is the total, and it carries the price of the execution.
\<close>

theorem trade_report_status:
  assumes "FIXExecutionReportFromTradeExecutionUpdate uuid bs t account clOrdID origQty totalFillQty origPx
    stopPx trailPx avgPx sy cp expTif flags = Ret e"
  shows "body_str e tag_OrdStatus =
      Some (if f64_le origQty totalFillQty then OrdStatus_FILLED else OrdStatus_PARTIALLY_FILLED) \<and>
    body_str e tag_ExecType = Some (if f64_le origQty totalFillQty then ExecType_FILL else ExecType_PARTIAL_FILL) \<and>
    body_str e tag_OrderID = Some (FormatInt (te_OrderID t)) \<and> body_str e tag_ClOrdID = Some clOrdID \<and>
    body_str e tag_Side = Some (SideToFIX (te_ExecAmount t)) \<and>
    (\<exists>cum px. NewFromFloat totalFillQty = Ret cum \<and> body_str e tag_CumQty = Some (StringFixed cum 4) \<and>
      NewFromFloat (te_ExecPrice t) = Ret px \<and> body_str e tag_LastPx = Some (StringFixed px 4))"
proof -
  define status where "status = (if f64_le origQty totalFillQty then (ExecType_FILL, OrdStatus_FILLED)
    else (ExecType_PARTIAL_FILL, OrdStatus_PARTIALLY_FILLED))"
  obtain er fee lastPx tif expTime ordType isMargin where
    rep: "FIXExecutionReport uuid bs (te_Pair t) clOrdID (FormatInt (te_OrderID t)) account (fst status)
      (SideToFIX (te_ExecAmount t)) origQty (f64_abs (te_ExecAmount t)) totalFillQty origPx stopPx trailPx avgPx
      (snd status) ordType isMargin tif expTime '''' sy cp flags = Ret er"
    and fee: "dec_field tag_Commission 4 (f64_abs (te_Fee t)) = Ret fee"
    and px: "dec_field tag_LastPx 4 (te_ExecPrice t) = Ret lastPx"
    and e: "e = set_all [fee, (tag_CommType, CommType_ABSOLUTE), lastPx] er"
    using assms unfolding FIXExecutionReportFromTradeExecutionUpdate_def status_def
    by (auto simp: Let_def go_simps split: prod.splits if_splits)
  obtain fd where fd: "fee = (tag_Commission, StringFixed fd 4)" using dec_field_tag [OF fee] by blast
  obtain pd where pd: "NewFromFloat (te_ExecPrice t) = Ret pd" "lastPx = (tag_LastPx, StringFixed pd 4)"
    using dec_field_tag [OF px] by blast
  from rep show ?thesis
  proof (rule exec_report_Ret)
    fix amt cum
    assume "NewFromFloat totalFillQty = Ret cum" "body_str er tag_CumQty = Some (StringFixed cum 4)"
      "body_str er tag_OrdStatus = Some (snd status)" "body_str er tag_ExecType = Some (fst status)"
      "body_str er tag_OrderID = Some (FormatInt (te_OrderID t))" "body_str er tag_ClOrdID = Some clOrdID"
      "body_str er tag_Side = Some (SideToFIX (te_ExecAmount t))"
    then show ?thesis using pd by (simp add: e fd body_str_set_all status_def)
  qed
qed

lemma trade_report_Ret_iff:
  "(\<exists>e. FIXExecutionReportFromTradeExecutionUpdate uuid bs t account clOrdID origQty totalFillQty origPx
      stopPx trailPx avgPx sy cp expTif flags = Ret e) =
   (supported bs \<and> f64_finite origQty \<and> f64_finite totalFillQty \<and> f64_finite (f64_abs (te_ExecAmount t)) \<and>
    f64_finite avgPx \<and>
    (fst (OrdTypeToFIX (te_OrderType t)) \<in> {OrdType_LIMIT, OrdType_STOP_LIMIT} \<longrightarrow> f64_finite origPx) \<and>
    (fst (OrdTypeToFIX (te_OrderType t)) \<in> {OrdType_STOP, OrdType_STOP_LIMIT} \<longrightarrow> f64_finite stopPx) \<and>
    f64_finite trailPx \<and> f64_finite (f64_abs (te_Fee t)) \<and> f64_finite (te_ExecPrice t))"
  unfolding FIXExecutionReportFromTradeExecutionUpdate_def Let_def case_prod_beta ex_bind_Ret
  by (simp add: exec_report_Ret_iff dec_field_pair_iff conj_ac)

definition sample_trade :: TradeExecutionUpdate where
  "sample_trade = \<lparr>te_ID = 7, te_Pair = ''tBTCUSD'', te_MTS = 0, te_OrderID = 42, te_ExecAmount = f64_one,
     te_ExecPrice = f64_three, te_OrderType = ''EXCHANGE LIMIT'', te_OrderPrice = f64_three, te_Maker = 1,
     te_Fee = f64_zero, te_FeeCurrency = ''USD''\<rparr>"

lemmas f64_samples = f64_one_def f64_three_def f64_zero_def f64_abs_def

theorem trade_report_status_witness:
  "\<exists>e. FIXExecutionReportFromTradeExecutionUpdate ''u'' BeginStringFIX44 sample_trade ''acc'' ''1'' f64_three f64_one
      f64_three f64_zero f64_zero f64_three PassthroughSymbology ''cp'' 0 0 = Ret e \<and>
    body_str e tag_OrdStatus = Some OrdStatus_PARTIALLY_FILLED"
proof -
  have "\<exists>e. FIXExecutionReportFromTradeExecutionUpdate ''u'' BeginStringFIX44 sample_trade ''acc'' ''1'' f64_three f64_one
      f64_three f64_zero f64_zero f64_three PassthroughSymbology ''cp'' 0 0 = Ret e"
    unfolding trade_report_Ret_iff by (simp add: supported_def sample_trade_def f64_samples)
  then obtain e where e: "FIXExecutionReportFromTradeExecutionUpdate ''u'' BeginStringFIX44 sample_trade ''acc'' ''1''
      f64_three f64_one f64_three f64_zero f64_zero f64_three PassthroughSymbology ''cp'' 0 0 = Ret e" by blast
  have "\<not> f64_le f64_three f64_one" by (simp add: f64_le_def f64_samples smant_def)
  with trade_report_status [OF e] e show ?thesis by simp
qed

text \<open>
  A cancel reject names the account, the two client order IDs and the reason. For an order that was not
  found, the reason is UNKNOWN ORDER and the OrderID is NONE; for every other text, the reason is OTHER
  and the OrderID is the given one. It answers a cancel/replace request exactly when told so. It can be
  built for every supported BeginString.
\<close>

theorem cancel_reject_fields:
  assumes "supported bs"
  shows "\<exists>m. FIXOrderCancelReject bs account orderID origClOrdID cxlClOrdID text isCancelReplace = Ret m \<and>
    body_str m tag_ClOrdID = Some cxlClOrdID \<and> body_str m tag_OrigClOrdID = Some origClOrdID \<and>
    body_str m tag_Account = Some account \<and> body_str m tag_Text = Some text \<and>
    body_str m tag_OrdStatus = Some OrdStatus_REJECTED \<and>
    body_str m tag_CxlRejReason =
      Some (if text = OrderNotFoundText then CxlRejReason_UNKNOWN_ORDER else CxlRejReason_OTHER) \<and>
    body_str m tag_OrderID = Some (if text = OrderNotFoundText then ''NONE'' else orderID) \<and>
    body_str m tag_CxlRejResponseTo = Some (if isCancelReplace then CxlRejResponseTo_ORDER_CANCEL_REPLACE_REQUEST
      else CxlRejResponseTo_ORDER_CANCEL_REQUEST)"
  using assms
  by (simp add: FIXOrderCancelReject_def Let_def version_msg_cases body_str_set_all rejectReasonFromText_def)

theorem cancel_reject_fields_witness:
  "\<exists>m. FIXOrderCancelReject BeginStringFIXT11 ''acc'' ''5'' ''1'' ''2'' OrderNotFoundText True = Ret m \<and>
     body_str m tag_OrderID = Some ''NONE''"
  using cancel_reject_fields [of BeginStringFIXT11 "''acc''" "''5''" "''1''" "''2''" OrderNotFoundText True]
  by (auto simp: supported_def)

lemma go_map_Ret: "(\<exists>ys. go_map f xs = Ret ys) \<longleftrightarrow> (\<forall>x \<in> set xs. \<exists>y. f x = Ret y)"
  by (induction xs) (auto simp: go_bind_eq_Ret)

lemma book_entry_Ret: "(\<exists>g. book_entry u = Ret g) \<longleftrightarrow> f64_finite (bu_Price u) \<and> f64_finite (f64_abs (bu_Amount u))"
  by (simp add: book_entry_def ex_bind_Ret dec_field_pair_iff)

text \<open>
  A book snapshot becomes no message exactly when it is empty. Otherwise, when its prices and amounts
  are finite, it becomes a message that carries the request's MDReqID and the translated symbol, and a
  group of as many entries as the snapshot has.
\<close>

theorem book_snapshot_message:
  assumes "supported bs" "\<forall>u \<in> set snapshot. f64_finite (bu_Price u) \<and> f64_finite (f64_abs (bu_Amount u))"
  shows "if snapshot = []
    then FIXMarketDataFullRefreshFromBookSnapshot bs mdReqID snapshot sy cp = Ret None
    else \<exists>m. FIXMarketDataFullRefreshFromBookSnapshot bs mdReqID snapshot sy cp = Ret (Some m) \<and>
      body_str m tag_MDReqID = Some mdReqID \<and>
      body_str m tag_Symbol = Some (from_bitfinex_or_same sy (bu_Symbol (hd snapshot)) cp) \<and>
      body_str m tag_NoMDEntries = Some (nat_str (length snapshot))"
proof (cases snapshot)
  case (Cons u us)
  have "\<exists>gs. go_map book_entry snapshot = Ret gs" using assms(2) by (simp add: go_map_Ret book_entry_Ret)
  then obtain gs where gs: "go_map book_entry snapshot = Ret gs" "length gs = length snapshot"
    using go_map_Ret_length by blast
  have other: "k \<noteq> t \<Longrightarrow> body_str (msg_set_group t template gs m) k = body_str m k" for k t template m
    by (simp add: body_str_def str_field_def GetString_def GetField_def msg_set_group_def SetGroup_def)
  have same: "body_str (msg_set_group t template gs m) t = Some (nat_str (length gs))" for t template m
    by (simp add: body_str_def str_field_def GetString_def GetField_def msg_set_group_def SetGroup_def group_Write_def)
  show ?thesis
    using gs Cons assms(1)
    by (simp add: FIXMarketDataFullRefreshFromBookSnapshot_def version_msg_cases other same mdsfr_header_def
        body_str_set_all Let_def)
qed (simp add: FIXMarketDataFullRefreshFromBookSnapshot_def)

definition sample_book :: "BookUpdate list" where
  "sample_book = [\<lparr>bu_ID = 1, bu_Symbol = ''tBTCUSD'', bu_Price = f64_three, bu_Count = 1, bu_Amount = f64_one,
     bu_Side = 1, bu_Action = 0\<rparr>]"

theorem book_snapshot_message_witness:
  "\<exists>m. FIXMarketDataFullRefreshFromBookSnapshot BeginStringFIX42 ''r1'' sample_book PassthroughSymbology ''cp'' =
     Ret (Some m) \<and> body_str m tag_NoMDEntries = Some (nat_str 1)"
proof -
  have book: "sample_book \<noteq> []" "length sample_book = 1"
    "\<forall>u \<in> set sample_book. f64_finite (bu_Price u) \<and> f64_finite (f64_abs (bu_Amount u))"
    by (simp_all add: sample_book_def f64_samples)
  show ?thesis
    using book_snapshot_message [OF _ book(3), of BeginStringFIX42 "''r1''" PassthroughSymbology "''cp''"] book(1,2)
    by (auto simp: supported_def)
qed

section \<open>Reports of orders\<close>

lemma f64_finite_abs [simp]: "f64_finite (f64_abs x) = f64_finite x"
  by (cases x) (auto simp: f64_abs_def)

lemma order_report_Ret_iff:
  "(\<exists>e. FIXExecutionReportFromOrder uuid bs ord account execType cumQty ordStatus text sy cp flags stop peg = Ret e) =
   (supported bs \<and> f64_finite (o_Amount ord) \<and> f64_finite cumQty \<and> f64_finite (o_PriceAvg ord) \<and>
    (fst (OrdTypeToFIX (o_Type ord)) \<in> {OrdType_LIMIT, OrdType_STOP_LIMIT} \<longrightarrow> f64_finite (o_Price ord)) \<and>
    (fst (OrdTypeToFIX (o_Type ord)) \<in> {OrdType_STOP, OrdType_STOP_LIMIT} \<longrightarrow> f64_finite stop) \<and> f64_finite peg)"
  unfolding FIXExecutionReportFromOrder_def Let_def case_prod_beta ex_bind_Ret
  by (simp add: exec_report_Ret_iff f64_zero_def)

lemma order_report_Ret:
  assumes "FIXExecutionReportFromOrder uuid bs ord account execType cumQty ordStatus text sy cp flags stop peg = Ret e"
  shows "body_str e tag_OrdStatus = Some ordStatus" "body_str e tag_ExecType = Some execType"
    "body_str e tag_OrderID = Some (FormatInt (o_ID ord))" "body_str e tag_ClOrdID = Some (FormatInt (o_CID ord))"
    "body_str e tag_Side = Some (SideToFIX (o_Amount ord))" "text \<noteq> '''' \<Longrightarrow> body_str e tag_Text = Some text"
    "body_str e tag_OrdType = Some (fst (OrdTypeToFIX (o_Type ord)))"
    "body_str e tag_TimeInForce = Some (fst (TimeInForceToFIX (o_Type ord) (o_MTSTif ord)))"
    "\<exists>cum. NewFromFloat cumQty = Ret cum \<and> body_str e tag_CumQty = Some (StringFixed cum 4)"
proof -
  obtain e0 where rep: "FIXExecutionReport uuid bs (o_Symbol ord) (FormatInt (o_CID ord)) (FormatInt (o_ID ord)) account
      execType (SideToFIX (o_Amount ord)) (f64_abs (o_Amount ord)) f64_zero cumQty (o_Price ord) stop peg
      (o_PriceAvg ord) ordStatus (fst (OrdTypeToFIX (o_Type ord))) (snd (OrdTypeToFIX (o_Type ord)))
      (fst (TimeInForceToFIX (o_Type ord) (o_MTSTif ord))) (snd (TimeInForceToFIX (o_Type ord) (o_MTSTif ord)))
      text sy cp flags = Ret e0"
    and e: "e = msg_set tag_LastShares (StringFixed dec_zero 4) (set_if (text \<noteq> '''') tag_Text text e0)"
    using assms by (auto simp: FIXExecutionReportFromOrder_def Let_def case_prod_beta go_simps)
  show "body_str e tag_OrdStatus = Some ordStatus" "body_str e tag_ExecType = Some execType"
    "body_str e tag_OrderID = Some (FormatInt (o_ID ord))" "body_str e tag_ClOrdID = Some (FormatInt (o_CID ord))"
    "body_str e tag_Side = Some (SideToFIX (o_Amount ord))"
    "body_str e tag_OrdType = Some (fst (OrdTypeToFIX (o_Type ord)))"
    "body_str e tag_TimeInForce = Some (fst (TimeInForceToFIX (o_Type ord) (o_MTSTif ord)))"
    using exec_report_Ret [OF rep] by (simp_all add: e)
  show "\<exists>cum. NewFromFloat cumQty = Ret cum \<and> body_str e tag_CumQty = Some (StringFixed cum 4)"
    using exec_report_amounts [OF rep] by (auto simp: e)
  show "text \<noteq> '''' \<Longrightarrow> body_str e tag_Text = Some text" by (simp add: e)
qed

end
