(* ===== verification/Order_Cache.thy ===== *)
theory Order_Cache
  imports Go_Float64
begin

text \<open>
  The per-peer cache of \<^verbatim>\<open>service/peer/cache.go\<close>: the orders a client sent, with the executions
  reported for them, and the maps between market data requests, symbols and websocket
  subscriptions.

  The state is the record \<open>cache\<close>, its maps the source's maps. The mutexes make every method
  atomic, so each method is a function on the state. A method that returns a \<^verbatim>\<open>*CachedOrder\<close> returns
  here the order as it is in the map at that moment. A method that ranges over a map takes the
  visiting order \<open>ks\<close> of the keys as its first argument, as Go leaves that order unspecified.

  Shown: the invariant \<open>cache_ok\<close> (an order is stored under its own ClOrdID and all its quantities
  are non-negative numbers) is kept by every method; the methods satisfy the laws of a keyed store;
  what \<open>AddExecution\<close> changes, on each branch; the filled quantity never decreases; looking up by
  OrderID does not depend on the visiting order as long as the OrderIDs are distinct.
\<close>

section \<open>Orders and executions\<close>

type_synonym side = string
type_synonym ord_type = string
type_synonym time_in_force = string

record execution =
  BfxExecutionID :: string
  ex_Px :: float64
  ex_Qty :: float64

record CachedCancel =
  cc_OriginalOrderID :: string
  cc_Symbol :: string
  cc_Account :: string
  cc_ClOrdID :: string
  cc_Side :: side

record CachedOrder =
  co_Symbol :: string
  co_Account :: string
  co_ClOrdID :: string
  co_OrderID :: string
  co_Px :: float64
  co_Stop :: float64
  co_Trail :: float64
  co_Qty :: float64
  co_Executions :: "execution list"
  co_Side :: side
  co_OrderType :: ord_type
  co_IsMargin :: bool
  co_TimeInForce :: time_in_force
  co_TifExpiration :: int
  co_Flags :: int

definition newOrder ::
  "string \<Rightarrow> float64 \<Rightarrow> float64 \<Rightarrow> float64 \<Rightarrow> float64 \<Rightarrow> string \<Rightarrow> string \<Rightarrow> side \<Rightarrow> ord_type \<Rightarrow>
   bool \<Rightarrow> time_in_force \<Rightarrow> int \<Rightarrow> int \<Rightarrow> CachedOrder" where
  "newOrder clordid px stop trail qty symbol account side ordType isMargin tif expTif flags =
     \<lparr>co_Symbol = symbol, co_Account = account, co_ClOrdID = clordid, co_OrderID = '''',
      co_Px = px, co_Stop = stop, co_Trail = trail, co_Qty = qty, co_Executions = [],
      co_Side = side, co_OrderType = ordType, co_IsMargin = isMargin, co_TimeInForce = tif,
      co_TifExpiration = expTif, co_Flags = flags\<rparr>"

definition newCancel :: "string \<Rightarrow> string \<Rightarrow> string \<Rightarrow> string \<Rightarrow> CachedCancel" where
  "newCancel origclordid symbol account clordid =
     \<lparr>cc_OriginalOrderID = origclordid, cc_Symbol = symbol, cc_Account = account,
      cc_ClOrdID = clordid, cc_Side = ''''\<rparr>"

definition avgFillPx :: "CachedOrder \<Rightarrow> float64" where
  "avgFillPx o' =
     (let (tot, qty) =
        foldl (\<lambda>(tot, qty) e. (f64_add tot (f64_mul (ex_Px e) (ex_Qty e)), f64_add qty (ex_Qty e)))
          (f64_zero, f64_zero) (co_Executions o')
      in if f64_lt f64_zero qty then f64_div tot qty else f64_zero)"

definition filledQty :: "CachedOrder \<Rightarrow> float64" where
  "filledQty o' = foldl (\<lambda>qty e. f64_add qty (ex_Qty e)) f64_zero (co_Executions o')"

definition Stats :: "CachedOrder \<Rightarrow> string \<times> float64 \<times> float64 \<times> float64" where
  "Stats o' = (co_ClOrdID o', co_Qty o', filledQty o', avgFillPx o')"

section \<open>The cache\<close>

record ids =
  marketDataID :: string
  tradeID :: string

record cache =
  orders :: "string \<rightharpoonup> CachedOrder"
  cancels :: "string \<rightharpoonup> CachedCancel"
  mdReqIDs :: "string \<rightharpoonup> ids"
  symbolToReqID :: "string \<rightharpoonup> string"

definition newCache :: cache where
  "newCache = \<lparr>orders = Map.empty, cancels = Map.empty, mdReqIDs = Map.empty,
     symbolToReqID = Map.empty\<rparr>"

definition MapSymbolToReqID :: "string \<Rightarrow> string \<Rightarrow> cache \<Rightarrow> cache" where
  "MapSymbolToReqID symbol mdReqID c = c\<lparr>symbolToReqID := (symbolToReqID c)(symbol \<mapsto> mdReqID)\<rparr>"

definition LookupMDReqID :: "cache \<Rightarrow> string \<Rightarrow> string option" where
  "LookupMDReqID c symbol = symbolToReqID c symbol"

definition MDReqIDExists :: "string list \<Rightarrow> cache \<Rightarrow> string \<Rightarrow> bool" where
  "MDReqIDExists ks c mdReqID =
     (range_find (\<lambda>_ reqID. reqID = mdReqID) ks (symbolToReqID c) \<noteq> None)"

definition MapMDReqIDs :: "string \<Rightarrow> string \<Rightarrow> string \<Rightarrow> cache \<Rightarrow> cache" where
  "MapMDReqIDs fixReqID bookReqID tradeReqID c =
     c\<lparr>mdReqIDs := (mdReqIDs c)(fixReqID \<mapsto> \<lparr>marketDataID = bookReqID, tradeID = tradeReqID\<rparr>)\<rparr>"

definition LookupAPIReqIDs :: "cache \<Rightarrow> string \<Rightarrow> (string \<times> string) option" where
  "LookupAPIReqIDs c fixReqID =
     (case mdReqIDs c fixReqID of None \<Rightarrow> None | Some i \<Rightarrow> Some (marketDataID i, tradeID i))"

definition ReverseLookupAPIReqIDs :: "string list \<Rightarrow> cache \<Rightarrow> string \<Rightarrow> string option" where
  "ReverseLookupAPIReqIDs ks c bfxReqID =
     map_option fst
       (range_find (\<lambda>_ i. marketDataID i = bfxReqID \<or> tradeID i = bfxReqID) ks (mdReqIDs c))"

definition AddOrder ::
  "string \<Rightarrow> float64 \<Rightarrow> float64 \<Rightarrow> float64 \<Rightarrow> float64 \<Rightarrow> string \<Rightarrow> string \<Rightarrow> side \<Rightarrow> ord_type \<Rightarrow>
   bool \<Rightarrow> time_in_force \<Rightarrow> int \<Rightarrow> int \<Rightarrow> cache \<Rightarrow> cache \<times> CachedOrder" where
  "AddOrder clordid px stop trail qty symbol account side ordType isMargin tif expTif flags c =
     (let order = newOrder clordid px stop trail (f64_abs qty) symbol account side ordType isMargin
                    tif expTif flags
      in (c\<lparr>orders := (orders c)(clordid \<mapsto> order)\<rparr>, order))"

definition UpdateOrder :: "string \<Rightarrow> string \<Rightarrow> cache \<Rightarrow> cache \<times> CachedOrder res" where
  "UpdateOrder clordid orderid c =
     (case orders c clordid of
        Some order \<Rightarrow>
          (let order' = order\<lparr>co_OrderID := orderid\<rparr>
           in (c\<lparr>orders := (orders c)(clordid \<mapsto> order')\<rparr>, Inr order'))
      | None \<Rightarrow> (c, Inl (''could not find order to update with ClOrdID '' @ clordid)))"

definition AddCancel :: "string \<Rightarrow> string \<Rightarrow> string \<Rightarrow> string \<Rightarrow> cache \<Rightarrow> cache \<times> CachedCancel" where
  "AddCancel origclordid symbol account clordid c =
     (let cancel = newCancel origclordid symbol account clordid
      in (c\<lparr>cancels := (cancels c)(clordid \<mapsto> cancel)\<rparr>, cancel))"

definition LookupCancel :: "cache \<Rightarrow> string \<Rightarrow> CachedCancel res" where
  "LookupCancel c clordid =
     (case cancels c clordid of
        Some cxl \<Rightarrow> Inr cxl
      | None \<Rightarrow> Inl (''could not find cancel with ClOrdID '' @ clordid))"

definition LookupCancelByOrigClOrdID :: "string list \<Rightarrow> cache \<Rightarrow> string \<Rightarrow> CachedCancel res" where
  "LookupCancelByOrigClOrdID ks c origclordid =
     (case range_find (\<lambda>_ cxl. cc_OriginalOrderID cxl = origclordid) ks (cancels c) of
        Some (_, cxl) \<Rightarrow> Inr cxl
      | None \<Rightarrow> Inl (''could not find cancel with OrigClOrdID '' @ origclordid))"

definition AddExecution ::
  "string list \<Rightarrow> string \<Rightarrow> string \<Rightarrow> float64 \<Rightarrow> float64 \<Rightarrow> cache \<Rightarrow>
   cache \<times> (float64 \<times> float64) res" where
  "AddExecution ks orderid execid px qty c =
     (case range_find (\<lambda>_ o'. co_OrderID o' = orderid) ks (orders c) of
        Some (k, o') \<Rightarrow>
          (let o'' = o'\<lparr>co_Executions := co_Executions o' @
                       [\<lparr>BfxExecutionID = execid, ex_Px = px, ex_Qty = f64_abs qty\<rparr>]\<rparr>
           in (c\<lparr>orders := (orders c)(k \<mapsto> o'')\<rparr>, Inr (filledQty o'', avgFillPx o'')))
      | None \<Rightarrow> (c, Inl (''could not find OrderID '' @ orderid @ '' in cache'')))"

definition LookupByClOrdID :: "cache \<Rightarrow> string \<Rightarrow> CachedOrder res" where
  "LookupByClOrdID c clordid =
     (case orders c clordid of
        Some order \<Rightarrow> Inr order
      | None \<Rightarrow> Inl (''could not find an order with ClOrdID '' @ clordid))"

definition LookupByOrderID :: "string list \<Rightarrow> cache \<Rightarrow> string \<Rightarrow> CachedOrder res" where
  "LookupByOrderID ks c orderid =
     (case range_find (\<lambda>_ o'. co_OrderID o' = orderid) ks (orders c) of
        Some (_, order) \<Rightarrow> Inr order
      | None \<Rightarrow> Inl (''could not find OrderID '' @ orderid))"

definition LookupClOrdID :: "string list \<Rightarrow> cache \<Rightarrow> string \<Rightarrow> string res" where
  "LookupClOrdID ks c orderid =
     (case range_find (\<lambda>_ o'. co_OrderID o' = orderid) ks (orders c) of
        Some (clordid, _) \<Rightarrow> Inr clordid
      | None \<Rightarrow> Inl (''could not find ClOrdID for OrderID '' @ orderid))"

section \<open>Keyed stores of the cache\<close>

interpretation order_map: keyed_store
  "\<lambda>k o' c. c\<lparr>orders := (orders c)(k \<mapsto> o')\<rparr>" "\<lambda>c. orders c"
  by unfold_locales simp

interpretation cancel_map: keyed_store
  "\<lambda>k x c. c\<lparr>cancels := (cancels c)(k \<mapsto> x)\<rparr>" "\<lambda>c. cancels c"
  by unfold_locales simp

interpretation symbol_map: keyed_store MapSymbolToReqID LookupMDReqID
  by unfold_locales (simp add: MapSymbolToReqID_def LookupMDReqID_def)

interpretation subscription_map: keyed_store "\<lambda>k (b, t) c. MapMDReqIDs k b t c" LookupAPIReqIDs
  by unfold_locales (auto simp: MapMDReqIDs_def LookupAPIReqIDs_def split: prod.splits)

lemmas cache_defs = AddOrder_def UpdateOrder_def AddCancel_def AddExecution_def
  MapSymbolToReqID_def MapMDReqIDs_def newOrder_def newCancel_def

section \<open>The invariant\<close>

definition order_ok :: "string \<Rightarrow> CachedOrder \<Rightarrow> bool" where
  "order_ok k o' \<longleftrightarrow> co_ClOrdID o' = k \<and> f64_nonneg (co_Qty o') \<and>
     (\<forall>e \<in> set (co_Executions o'). f64_nonneg (ex_Qty e))"

definition cache_ok :: "cache \<Rightarrow> bool" where
  "cache_ok c \<longleftrightarrow> (\<forall>k o'. orders c k = Some o' \<longrightarrow> order_ok k o')"

text \<open>A quantity that a message can carry: a canonical float that is a number.\<close>

definition qty_ok :: "float64 \<Rightarrow> bool" where
  "qty_ok q \<longleftrightarrow> f64_ok q \<and> q \<noteq> NaN"

lemma qty_ok_abs: "qty_ok q \<Longrightarrow> f64_nonneg (f64_abs q)"
  by (simp add: qty_ok_def f64_nonneg_abs)

datatype cache_op =
    OpAddOrder string float64 float64 float64 float64 string string side ord_type bool time_in_force int int
  | OpUpdateOrder string string
  | OpAddCancel string string string string
  | OpAddExecution "string list" string string float64 float64
  | OpMapSymbol string string
  | OpMapMDReqIDs string string string

fun run_op :: "cache_op \<Rightarrow> cache \<Rightarrow> cache" where
  "run_op (OpAddOrder clordid px stop trail qty symbol account side ordType isMargin tif expTif flags) c =
     fst (AddOrder clordid px stop trail qty symbol account side ordType isMargin tif expTif flags c)"
| "run_op (OpUpdateOrder clordid orderid) c = fst (UpdateOrder clordid orderid c)"
| "run_op (OpAddCancel origclordid symbol account clordid) c =
     fst (AddCancel origclordid symbol account clordid c)"
| "run_op (OpAddExecution ks orderid execid px qty) c = fst (AddExecution ks orderid execid px qty c)"
| "run_op (OpMapSymbol symbol mdReqID) c = MapSymbolToReqID symbol mdReqID c"
| "run_op (OpMapMDReqIDs fixReqID bookReqID tradeReqID) c = MapMDReqIDs fixReqID bookReqID tradeReqID c"

fun op_ok :: "cache_op \<Rightarrow> bool" where
  "op_ok (OpAddOrder clordid px stop trail qty symbol account side ordType isMargin tif expTif flags) =
     qty_ok qty"
| "op_ok (OpAddExecution ks orderid execid px qty) = qty_ok qty"
| "op_ok _ = True"

fun adds_order :: "string \<Rightarrow> cache_op \<Rightarrow> bool" where
  "adds_order k (OpAddOrder clordid px stop trail qty symbol account side ordType isMargin tif expTif flags) =
     (clordid = k)"
| "adds_order k _ = False"

lemma cache_ok_new [simp]: "cache_ok newCache"
  by (simp add: cache_ok_def newCache_def)

lemma run_op_keeps_ok: "cache_ok c \<Longrightarrow> op_ok p \<Longrightarrow> cache_ok (run_op p c)"
  by (cases p)
     (auto simp: cache_ok_def order_ok_def cache_defs Let_def qty_ok_abs
       split: option.splits if_splits dest!: range_find_SomeD)

lemma run_ops_keep_ok: "cache_ok c \<Longrightarrow> list_all op_ok ps \<Longrightarrow> cache_ok (fold run_op ps c)"
  by (induction ps arbitrary: c) (auto intro: run_op_keeps_ok)

section \<open>Fills\<close>

text \<open>\<open>grows o' o''\<close>: the order \<open>o''\<close> is \<open>o'\<close>, perhaps with more executions or another OrderID.\<close>

definition grows :: "CachedOrder \<Rightarrow> CachedOrder \<Rightarrow> bool" where
  "grows o' o'' \<longleftrightarrow> prefix (co_Executions o') (co_Executions o'') \<and>
     o'' = o'\<lparr>co_OrderID := co_OrderID o'', co_Executions := co_Executions o''\<rparr>"

lemma grows_refl [simp]: "grows o' o'"
  by (simp add: grows_def)

lemma grows_trans: "grows a b \<Longrightarrow> grows b c \<Longrightarrow> grows a c"
  unfolding grows_def by (metis (no_types, lifting) CachedOrder.surjective CachedOrder.update_convs(4)
      CachedOrder.update_convs(9) prefix_order.order_trans)

lemma filledQty_mono:
  assumes "order_ok k o''" "grows o' o''"
  shows "f64_le (filledQty o') (filledQty o'')"
proof -
  obtain es where es: "co_Executions o'' = co_Executions o' @ es"
    using assms(2) by (auto simp: grows_def prefix_def)
  show ?thesis
    using assms(1) f64_total.total_mono [of "co_Executions o'" es ex_Qty]
    unfolding order_ok_def filledQty_def es by blast
qed

lemma run_op_grows:
  assumes "orders c k = Some o'" "\<not> adds_order k p"
  shows "\<exists>o''. orders (run_op p c) k = Some o'' \<and> grows o' o''"
  using assms
  by (cases p)
     (auto simp: cache_defs grows_def Let_def split: option.splits if_splits dest!: range_find_SomeD)

lemma run_ops_grow:
  assumes "orders c k = Some o'" "list_all (\<lambda>p. \<not> adds_order k p) ps"
  shows "\<exists>o''. orders (fold run_op ps c) k = Some o'' \<and> grows o' o''"
  using assms
proof (induction ps arbitrary: c o')
  case Nil
  then show ?case by simp
next
  case (Cons p ps)
  then obtain o1 where "orders (run_op p c) k = Some o1" "grows o' o1"
    using run_op_grows by fastforce
  with Cons show ?case by (fastforce intro: grows_trans)
qed

section \<open>Lookups by OrderID\<close>

definition ids_distinct :: "cache \<Rightarrow> bool" where
  "ids_distinct c \<longleftrightarrow> (\<forall>k l o' p. orders c k = Some o' \<longrightarrow> orders c l = Some p \<longrightarrow>
     co_OrderID o' = co_OrderID p \<longrightarrow> co_OrderID o' \<noteq> '''' \<longrightarrow> k = l)"

lemma find_by_id:
  assumes "key_order ks (orders c)" "orders c k = Some o'" "co_OrderID o' = orderid" "orderid \<noteq> ''''"
    "ids_distinct c"
  shows "range_find (\<lambda>_ p. co_OrderID p = orderid) ks (orders c) = Some (k, o')"
  using assms by (intro range_find_unique) (auto simp: key_order_def ids_distinct_def)

lemma key_order_first:
  assumes "finite (dom m)" "k \<in> dom m"
  obtains ks where "key_order (k # ks) m"
proof -
  obtain ks where "set ks = dom m - {k}" "distinct ks"
    using finite_distinct_list [of "dom m - {k}"] assms(1) by auto
  with assms(2) have "key_order (k # ks) m" by (auto simp: key_order_def)
  then show thesis by (rule that)
qed

section \<open>Properties\<close>

text \<open>
  C14: whatever sequence of methods is called on a fresh cache, with quantities that are numbers,
  every order is stored under its own ClOrdID, and its quantity and the quantities of all its
  executions are non-negative numbers.
\<close>

theorem cache_invariant:
  assumes "list_all op_ok ps"
  shows "cache_ok (fold run_op ps newCache)"
  using assms by (intro run_ops_keep_ok) simp_all

lemma qty_ok_one [simp]: "qty_ok f64_one" "qty_ok (f64_neg f64_one)"
  by (simp_all add: qty_ok_def f64_one_def min_exp_def max_exp_def)

definition sample_ops :: "cache_op list" where
  "sample_ops =
     [OpAddOrder ''a'' f64_one f64_zero f64_zero (f64_neg f64_one) ''tBTCUSD'' ''u'' ''2'' ''2''
        False ''1'' 0 0,
      OpUpdateOrder ''a'' ''101'',
      OpAddExecution [''a''] ''101'' ''e1'' f64_one (f64_neg f64_one)]"

lemma sample_ops_ok: "list_all op_ok sample_ops"
  by (simp add: sample_ops_def)

theorem cache_invariant_witness: "cache_ok (fold run_op sample_ops newCache)"
  using cache_invariant [OF sample_ops_ok] .

text \<open>
  C15: as long as no other order is added under the same ClOrdID, an order stays in the cache
  through every sequence of calls, its executions are only appended to, its other fields except
  the OrderID stay as they are, and the filled quantity (summed in float64) never decreases.
\<close>

theorem fills_never_decrease:
  assumes "cache_ok c" "list_all op_ok ps"
    and "orders c k = Some o'" "list_all (\<lambda>p. \<not> adds_order k p) ps"
  shows "\<exists>o''. orders (fold run_op ps c) k = Some o'' \<and>
    prefix (co_Executions o') (co_Executions o'') \<and>
    o'' = o'\<lparr>co_OrderID := co_OrderID o'', co_Executions := co_Executions o''\<rparr> \<and>
    f64_le (filledQty o') (filledQty o'')"
proof -
  obtain o'' where o'': "orders (fold run_op ps c) k = Some o''" "grows o' o''"
    using run_ops_grow assms(3,4) by blast
  moreover have "order_ok k o''"
    using run_ops_keep_ok [OF assms(1,2)] o''(1) by (simp add: cache_ok_def)
  ultimately show ?thesis using filledQty_mono by (auto simp: grows_def)
qed

definition sample_order :: CachedOrder where
  "sample_order = newOrder ''a'' f64_one f64_zero f64_zero f64_one ''tBTCUSD'' ''u'' ''2'' ''2''
     False ''1'' 0 0"

definition sample_cache :: cache where
  "sample_cache = newCache\<lparr>orders := [''a'' \<mapsto> sample_order]\<rparr>"

lemma sample_cache_ok: "cache_ok sample_cache"
  by (simp add: cache_ok_def order_ok_def sample_cache_def sample_order_def newOrder_def f64_one_def
      min_exp_def max_exp_def)

theorem fills_never_decrease_witness:
  "\<exists>o''. orders (fold run_op (tl sample_ops) sample_cache) ''a'' = Some o'' \<and>
    prefix (co_Executions sample_order) (co_Executions o'') \<and>
    o'' = sample_order\<lparr>co_OrderID := co_OrderID o'', co_Executions := co_Executions o''\<rparr> \<and>
    f64_le (filledQty sample_order) (filledQty o'')"
  by (rule fills_never_decrease [OF sample_cache_ok])
     (simp_all add: sample_ops_def sample_cache_def newCache_def)

text \<open>
  C15: \<^verbatim>\<open>AddExecution\<close>, on both branches. When some order has the OrderID, exactly one of them
  (the first one visited) gets the execution appended, with the absolute value of the quantity; the
  result is that order's new total and average, and nothing else in the cache changes. Otherwise
  the cache is unchanged and the error names the OrderID.
\<close>

theorem AddExecution_spec:
  assumes "key_order ks (orders c)"
  shows "case AddExecution ks orderid execid px qty c of
      (c', Inr (tot, avg)) \<Rightarrow>
        \<exists>k o' o''. orders c k = Some o' \<and> co_OrderID o' = orderid \<and>
          o'' = o'\<lparr>co_Executions := co_Executions o' @
                 [\<lparr>BfxExecutionID = execid, ex_Px = px, ex_Qty = f64_abs qty\<rparr>]\<rparr> \<and>
          c' = c\<lparr>orders := (orders c)(k \<mapsto> o'')\<rparr> \<and> tot = filledQty o'' \<and> avg = avgFillPx o''
    | (c', Inl err) \<Rightarrow> c' = c \<and> err = ''could not find OrderID '' @ orderid @ '' in cache'' \<and>
        (\<forall>k o'. orders c k = Some o' \<longrightarrow> co_OrderID o' \<noteq> orderid)"
proof (cases "range_find (\<lambda>_ o'. co_OrderID o' = orderid) ks (orders c)")
  case None
  then have "\<forall>k o'. orders c k = Some o' \<longrightarrow> co_OrderID o' \<noteq> orderid"
    using assms range_find_None_iff [of ks "orders c"] unfolding key_order_def by auto
  with None show ?thesis by (simp add: AddExecution_def)
next
  case (Some ko)
  then obtain k o' where "ko = (k, o')" "orders c k = Some o'" "co_OrderID o' = orderid"
    by (cases ko) (auto dest: range_find_SomeD)
  with Some show ?thesis by (auto simp: AddExecution_def Let_def)
qed

theorem AddExecution_spec_witness:
  "\<exists>tot avg. snd (AddExecution [''a''] ''101'' ''e'' f64_one f64_one
     (fst (UpdateOrder ''a'' ''101'' sample_cache))) = Inr (tot, avg)"
proof -
  let ?c = "fst (UpdateOrder ''a'' ''101'' sample_cache)"
  have ord: "orders ?c = [''a'' \<mapsto> sample_order\<lparr>co_OrderID := ''101''\<rparr>]"
    by (simp add: UpdateOrder_def sample_cache_def newCache_def Let_def)
  then have "key_order [''a''] (orders ?c)" by (simp add: key_order_def)
  from AddExecution_spec [OF this, of "''101''" "''e''" f64_one f64_one] ord show ?thesis
    by (auto split: prod.splits sum.splits dest!: spec [of _ "''a''"])
qed

text \<open>
  C16: the OrderID that the exchange assigns is recorded and found again. After \<^verbatim>\<open>UpdateOrder\<close> with
  an OrderID that no other cached order has, the lookups by that OrderID return this order and its
  ClOrdID for every order in which the map is visited, and the OrderIDs remain distinct.
\<close>

theorem UpdateOrder_lookup:
  assumes "ids_distinct c" "orders c clordid = Some o'" "orderid \<noteq> ''''"
    and "\<forall>k p. orders c k = Some p \<longrightarrow> co_OrderID p = orderid \<longrightarrow> k = clordid"
    and "UpdateOrder clordid orderid c = (c', r)" "key_order ks (orders c')"
  shows "r = Inr (o'\<lparr>co_OrderID := orderid\<rparr>) \<and> ids_distinct c' \<and>
    LookupByOrderID ks c' orderid = Inr (o'\<lparr>co_OrderID := orderid\<rparr>) \<and>
    LookupClOrdID ks c' orderid = Inr clordid \<and>
    LookupByClOrdID c' clordid = Inr (o'\<lparr>co_OrderID := orderid\<rparr>)"
proof -
  have c': "c' = c\<lparr>orders := (orders c)(clordid \<mapsto> o'\<lparr>co_OrderID := orderid\<rparr>)\<rparr>"
    and r: "r = Inr (o'\<lparr>co_OrderID := orderid\<rparr>)"
    using assms(2,5) by (auto simp: UpdateOrder_def Let_def)
  have dist: "ids_distinct c'"
    using assms(1,4) unfolding ids_distinct_def c' by (auto split: if_splits)
  have "range_find (\<lambda>_ p. co_OrderID p = orderid) ks (orders c') = Some (clordid, o'\<lparr>co_OrderID := orderid\<rparr>)"
    using assms(3,6) dist by (intro find_by_id) (simp_all add: c')
  with dist r show ?thesis
    by (simp add: LookupByOrderID_def LookupClOrdID_def LookupByClOrdID_def c')
qed

theorem UpdateOrder_lookup_witness:
  "LookupClOrdID [''a''] (fst (UpdateOrder ''a'' ''101'' sample_cache)) ''101'' = Inr ''a''"
proof -
  let ?u = "UpdateOrder ''a'' ''101'' sample_cache"
  have "ids_distinct sample_cache" "orders sample_cache ''a'' = Some sample_order" "''101'' \<noteq> ''''"
    "\<forall>k p. orders sample_cache k = Some p \<longrightarrow> co_OrderID p = ''101'' \<longrightarrow> k = ''a''"
    by (simp_all add: sample_cache_def ids_distinct_def newCache_def)
  moreover have "?u = (fst ?u, snd ?u)" "key_order [''a''] (orders (fst ?u))"
    by (simp_all add: key_order_def UpdateOrder_def sample_cache_def newCache_def Let_def)
  ultimately show ?thesis using UpdateOrder_lookup by blast
qed

text \<open>
  When two cached orders have the same OrderID, which is the state a cancel/replace request
  leaves behind once the exchange has answered it, the lookup by OrderID is ambiguous: for each of
  the two there is an order of visiting the map under which that one is returned.
\<close>

theorem duplicate_ids_ambiguous:
  assumes "finite (dom (orders c))" "orders c k = Some o'" "orders c l = Some p"
    and "co_OrderID o' = orderid" "co_OrderID p = orderid"
  shows "(\<exists>ks. key_order ks (orders c) \<and> LookupClOrdID ks c orderid = Inr k \<and>
      LookupByOrderID ks c orderid = Inr o') \<and>
    (\<exists>ks. key_order ks (orders c) \<and> LookupClOrdID ks c orderid = Inr l \<and>
      LookupByOrderID ks c orderid = Inr p)"
proof -
  have hit: "\<exists>ks. key_order ks (orders c) \<and> LookupClOrdID ks c orderid = Inr k' \<and>
      LookupByOrderID ks c orderid = Inr q" if q: "orders c k' = Some q" "co_OrderID q = orderid" for k' q
  proof -
    from q(1) obtain ks where "key_order (k' # ks) (orders c)"
      using key_order_first [OF assms(1), of k'] by blast
    moreover have "LookupClOrdID (k' # ks) c orderid = Inr k'" "LookupByOrderID (k' # ks) c orderid = Inr q"
      using q by (simp_all add: LookupClOrdID_def LookupByOrderID_def)
    ultimately show ?thesis by blast
  qed
  show ?thesis using hit assms by blast
qed

theorem duplicate_ids_ambiguous_witness:
  "\<exists>c. (\<exists>ks. key_order ks (orders c) \<and> LookupClOrdID ks c ''7'' = Inr ''a'') \<and>
       (\<exists>ks. key_order ks (orders c) \<and> LookupClOrdID ks c ''7'' = Inr ''b'')"
proof -
  let ?o = "sample_order\<lparr>co_OrderID := ''7''\<rparr>"
  let ?c = "newCache\<lparr>orders := [''a'' \<mapsto> ?o, ''b'' \<mapsto> ?o\<lparr>co_ClOrdID := ''b''\<rparr>]\<rparr>"
  show ?thesis
    using duplicate_ids_ambiguous [of ?c "''a''" ?o "''b''" "?o\<lparr>co_ClOrdID := ''b''\<rparr>" "''7''"]
    by (intro exI [of _ ?c]) auto
qed

end
