(* ===== verification/Gw_World.thy ===== *)
theory Gw_World
  imports Convert_Msg Order_Cache "HOL-Library.Char_ord" "HOL-Library.List_Lexorder"
begin

text \<open>
  The state that the handlers share, and what lies outside the gateway.

  A \<open>Peer\<close> (\<^verbatim>\<open>service/peer/peer.go\<close>) is one FIX session with its websocket and REST clients and its
  cache. The state \<open>gw\<close> of a service holds the peers under the text of their session ID
  (\<^verbatim>\<open>service/service.go\<close>), the type of the last message, and the sequence \<open>trace\<close> of all calls that
  left the gateway. A handler is a function on this state; what it returns is the new state and its
  result, or a panic.

  The FIX engine's session layer, the websocket client and the REST client answer such calls. Their
  answers are parameters, the fields of the record \<open>env\<close>: each may depend on everything that was
  called before. The answer to a new order may depend on the whole state, since other goroutines see the caches while the call runs. Nothing is assumed about them in the definitions. \<open>env_applver\<close> is the default
  application version that a FIXT session negotiated. \<open>env_ord\<close> is the order in which a
  \<^verbatim>\<open>range\<close> over a map visits its keys; the first argument tells the loops of one handler apart.
\<close>

section \<open>Calls that leave the gateway\<close>

datatype ext =
    ESend SessionID Message
  | ESubmitOrder string OrderNewRequest
  | ESubmitUpdateOrder string OrderUpdateRequest
  | EWsSendCancel string OrderCancelRequest
  | ESubscribeBook string string string string int
  | ESubscribeTrades string string
  | EUnsubscribe string string
  | ELookupSubscription string string
  | EBookAll string string string int
  | EGetByOrderId string int
  | EOrderTrades string string int
  | ECredentials string string string bool
  | EConnect string
  | EWsClose string

section \<open>Peers\<close>

record Peer =
  p_started :: bool
  p_closed :: bool
  p_bfxUserID :: string
  p_sessionID :: SessionID
  p_cache :: cache

datatype ServiceType = MarketDataService | OrderRoutingService

record gw =
  gw_peers :: "string \<rightharpoonup> Peer"
  gw_lastMsgType :: string
  gw_trace :: "ext list"

section \<open>The environment\<close>

record env =
  env_Send :: "ext list \<Rightarrow> SessionID \<Rightarrow> Message \<Rightarrow> string option"
  env_SubmitOrder :: "gw \<Rightarrow> OrderNewRequest \<Rightarrow> string option"
  env_SubmitUpdateOrder :: "ext list \<Rightarrow> OrderUpdateRequest \<Rightarrow> string option"
  env_WsSendCancel :: "ext list \<Rightarrow> OrderCancelRequest \<Rightarrow> string option"
  env_SubscribeBook :: "ext list \<Rightarrow> string \<Rightarrow> string \<Rightarrow> string \<Rightarrow> int \<Rightarrow> string res"
  env_SubscribeTrades :: "ext list \<Rightarrow> string \<Rightarrow> string res"
  env_Unsubscribe :: "ext list \<Rightarrow> string \<Rightarrow> string option"
  env_LookupSubscription :: "ext list \<Rightarrow> string \<Rightarrow> bool"
  env_BookRows :: "ext list \<Rightarrow> string \<Rightarrow> string \<Rightarrow> int \<Rightarrow> float64 list list res"
  env_gofmt :: "float64 list \<Rightarrow> string"
  env_GetByOrderId :: "ext list \<Rightarrow> int \<Rightarrow> Order res"
  env_OrderTrades :: "ext list \<Rightarrow> string \<Rightarrow> int \<Rightarrow> TradeExecutionUpdate list option res"
  env_Connect :: "ext list \<Rightarrow> string option"
  env_uuid :: "ext list \<Rightarrow> string"
  env_today :: "ext list \<Rightarrow> string"
  env_applver :: "SessionID \<Rightarrow> string"
  env_ord :: "nat \<Rightarrow> ext list \<Rightarrow> string set \<Rightarrow> string list"

text \<open>What Go guarantees of a \<^verbatim>\<open>range\<close> over a map that does not change meanwhile: every key is visited
  once.\<close>

definition env_ok :: "env \<Rightarrow> bool" where
  "env_ok E \<longleftrightarrow> (\<forall>n tr S. finite S \<longrightarrow> distinct (env_ord E n tr S) \<and> set (env_ord E n tr S) = S)"

text \<open>At this point of the trace the websocket client answers a request with \<open>r\<close>, whatever the caches hold.\<close>

definition answers_submit :: "env \<Rightarrow> ext list \<Rightarrow> OrderNewRequest \<Rightarrow> string option \<Rightarrow> bool" where
  "answers_submit E tr req r \<longleftrightarrow> (\<forall>w. gw_trace w = tr \<longrightarrow> env_SubmitOrder E w req = r)"

text \<open>\<^verbatim>\<open>BookService.All\<close> of the REST client: \<open>env_BookRows\<close> is the answer of the API, rows of numbers, as the API documents them, or an error.\<close>

definition BookService_All :: "env \<Rightarrow> ext list \<Rightarrow> string \<Rightarrow> string \<Rightarrow> int \<Rightarrow> BookUpdate list res" where
  "BookService_All E tr symbol precision priceLevels =
     sbind (env_BookRows E tr symbol precision priceLevels) (\<lambda>raw.
       NewBookUpdateSnapshotFromRaw (env_gofmt E) symbol precision raw)"

lemma BookService_All_not_empty: "BookService_All E tr symbol precision n \<noteq> Inr []"
  by (simp add: BookService_All_def sbind_eq_Inr book_snapshot_not_empty)

section \<open>New peers\<close>

definition Peer_New :: "SessionID \<Rightarrow> Peer" where
  "Peer_New fixSessionID =
     \<lparr>p_started = False, p_closed = False, p_bfxUserID = '''', p_sessionID = fixSessionID, p_cache = newCache\<rparr>"

definition FindPeer :: "gw \<Rightarrow> string \<Rightarrow> Peer option" where
  "FindPeer w pid = gw_peers w pid"

definition AddPeer :: "SessionID \<Rightarrow> gw \<Rightarrow> gw" where
  "AddPeer sID w = w\<lparr>gw_peers := (gw_peers w)(SessionID_String sID \<mapsto> Peer_New sID)\<rparr>"

text \<open>A started peer closes its websocket, and waits until the goroutine that reads it has ended. Then
  the channel \<^verbatim>\<open>disconnect\<close> is closed (\<open>p_closed\<close>), which panics when it is closed already. This is the
  effect of a call that returns; the wait is in \<open>FIX_Down\<close> and \<open>close_all\<close> of \<^verbatim>\<open>Gw_Service\<close>, and the theory \<^verbatim>\<open>Peer_Lifecycle\<close> is about the goroutines.\<close>

definition Peer_Close :: "string \<Rightarrow> Peer \<Rightarrow> gw \<Rightarrow> (gw \<times> Peer) go" where
  "Peer_Close pid p w =
     (let w = (if p_started p then w\<lparr>gw_trace := gw_trace w @ [EWsClose pid]\<rparr> else w)
      in if p_closed p then Panic ''close of closed channel'' else Ret (w, p\<lparr>p_closed := True\<rparr>))"

definition RemovePeer :: "string \<Rightarrow> gw \<Rightarrow> (gw \<times> bool) go" where
  "RemovePeer pid w =
     (case gw_peers w pid of
        Some p \<Rightarrow> go_bind (Peer_Close pid p w)
                    (\<lambda>(w, _). Ret (w\<lparr>gw_peers := (gw_peers w)(pid := None)\<rparr>, True))
      | None \<Rightarrow> Ret (w, False))"

definition set_peer :: "string \<Rightarrow> Peer \<Rightarrow> gw \<Rightarrow> gw" where
  "set_peer pid p w = w\<lparr>gw_peers := (gw_peers w)(pid \<mapsto> p)\<rparr>"

text \<open>A change of the cache of a peer.\<close>

definition set_cache :: "string \<Rightarrow> Peer \<Rightarrow> cache \<Rightarrow> gw \<Rightarrow> gw" where
  "set_cache pid p c w = set_peer pid (p\<lparr>p_cache := c\<rparr>) w"

definition Logon :: "env \<Rightarrow> string \<Rightarrow> string \<Rightarrow> string \<Rightarrow> string \<Rightarrow> bool \<Rightarrow> Peer \<Rightarrow> gw \<Rightarrow> gw \<times> string option" where
  "Logon E pid apiKey apiSecret bfxUserID cancelOnDisconnect p w =
     (let w = w\<lparr>gw_trace := gw_trace w @ [ECredentials pid apiKey apiSecret cancelOnDisconnect]\<rparr>;
          p = p\<lparr>p_bfxUserID := bfxUserID\<rparr>;
          r = env_Connect E (gw_trace w);
          w = w\<lparr>gw_trace := gw_trace w @ [EConnect pid]\<rparr>
      in case r of
           Some err \<Rightarrow> (set_peer pid p w, Some err)
         | None \<Rightarrow> (set_peer pid (p\<lparr>p_started := True\<rparr>) w, None))"

section \<open>Calls\<close>

text \<open>\<^verbatim>\<open>quickfix.SendToTarget\<close>.\<close>

definition SendToTarget :: "env \<Rightarrow> Message \<Rightarrow> SessionID \<Rightarrow> gw \<Rightarrow> gw \<times> string option" where
  "SendToTarget E m sID w =
     (w\<lparr>gw_trace := gw_trace w @ [ESend sID m]\<rparr>, env_Send E (gw_trace w) sID m)"

definition log_call :: "ext \<Rightarrow> gw \<Rightarrow> gw" where
  "log_call e w = w\<lparr>gw_trace := gw_trace w @ [e]\<rparr>"

section \<open>Lemmas\<close>

interpretation peer_map: keyed_store set_peer FindPeer
  by unfold_locales (simp add: set_peer_def FindPeer_def)

lemma AddPeer_set_peer: "AddPeer sID w = set_peer (SessionID_String sID) (Peer_New sID) w"
  by (simp add: AddPeer_def set_peer_def)

definition sent :: "gw \<Rightarrow> (SessionID \<times> Message) list" where
  "sent w = concat (map (\<lambda>e. case e of ESend s m \<Rightarrow> [(s, m)] | _ \<Rightarrow> []) (gw_trace w))"

lemma sent_SendToTarget [simp]: "sent (fst (SendToTarget E m s w)) = sent w @ [(s, m)]"
  by (simp add: sent_def SendToTarget_def)

lemma gw_peers_SendToTarget [simp]: "gw_peers (fst (SendToTarget E m s w)) = gw_peers w"
  by (simp add: SendToTarget_def)

lemma gw_peers_log_call [simp]: "gw_peers (log_call e w) = gw_peers w"
  by (simp add: log_call_def)

lemma env_ok_key_order: "env_ok E \<Longrightarrow> finite (dom m) \<Longrightarrow> key_order (env_ord E n tr (dom m)) m"
  by (simp add: env_ok_def key_order_def)

text \<open>The invariant of a service: a peer is stored under the text of its session ID, its channels are open,
  its cache satisfies the invariant of the cache and is finite. Moreover every market data request with
  subscriptions is the request of some symbol, and the map of cancels is empty.\<close>

definition cache_fin :: "cache \<Rightarrow> bool" where
  "cache_fin c \<longleftrightarrow> cache_ok c \<and> finite (dom (orders c)) \<and> finite (dom (symbolToReqID c)) \<and>
     finite (dom (mdReqIDs c)) \<and> dom (mdReqIDs c) \<subseteq> ran (symbolToReqID c) \<and> cancels c = Map.empty"

definition peer_ok :: "string \<Rightarrow> Peer \<Rightarrow> bool" where
  "peer_ok pid p \<longleftrightarrow> cache_fin (p_cache p) \<and> \<not> p_closed p \<and> SessionID_String (p_sessionID p) = pid"

definition gw_ok :: "gw \<Rightarrow> bool" where
  "gw_ok w \<longleftrightarrow> (\<forall>pid p. gw_peers w pid = Some p \<longrightarrow> peer_ok pid p)"

lemma gw_ok_set_peer: "gw_ok w \<Longrightarrow> peer_ok pid p \<Longrightarrow> gw_ok (set_peer pid p w)"
  by (simp add: gw_ok_def set_peer_def)

lemma gw_ok_FindPeer: "gw_ok w \<Longrightarrow> FindPeer w pid = Some p \<Longrightarrow> peer_ok pid p"
  by (simp add: gw_ok_def FindPeer_def)

lemma peer_ok_cache: "peer_ok pid p \<Longrightarrow> cache_fin c \<Longrightarrow> peer_ok pid (p\<lparr>p_cache := c\<rparr>)"
  by (simp add: peer_ok_def)

lemma gw_ok_SendToTarget: "gw_ok w \<Longrightarrow> gw_ok (fst (SendToTarget E m s w))"
  by (simp add: gw_ok_def)

lemma gw_ok_log_call: "gw_ok w \<Longrightarrow> gw_ok (log_call e w)"
  by (simp add: gw_ok_def)

section \<open>An environment and a state for examples\<close>

text \<open>Everything succeeds, maps are ranged over in the order of their keys.\<close>

definition calm_env :: env where
  "calm_env =
     \<lparr>env_Send = (\<lambda>tr s m. None), env_SubmitOrder = (\<lambda>w r. None), env_SubmitUpdateOrder = (\<lambda>tr r. None),
      env_WsSendCancel = (\<lambda>tr r. None), env_SubscribeBook = (\<lambda>tr sym prec freq n. Inr (''book:'' @ sym)),
      env_SubscribeTrades = (\<lambda>tr sym. Inr (''trades:'' @ sym)), env_Unsubscribe = (\<lambda>tr i. None),
      env_LookupSubscription = (\<lambda>tr i. True), env_BookRows = (\<lambda>tr sym prec n. Inr []),
      env_gofmt = (\<lambda>row. ''''),
      env_GetByOrderId = (\<lambda>tr i. Inl ''not found''), env_OrderTrades = (\<lambda>tr sym i. Inr None),
      env_Connect = (\<lambda>tr. None), env_uuid = (\<lambda>tr. nat_str (length tr)), env_today = (\<lambda>tr. ''20240101''),
      env_applver = (\<lambda>s. ''7''), env_ord = (\<lambda>n tr S. sorted_list_of_set S)\<rparr>"

lemma env_ok_calm: "env_ok calm_env"
  by (simp add: env_ok_def calm_env_def)

definition sample_sID :: SessionID where
  "sample_sID = \<lparr>BeginString = BeginStringFIX42, TargetCompID = ''EXORG'', TargetSubID = '''', TargetLocationID = '''',
     SenderCompID = ''BFXFIX'', SenderSubID = '''', SenderLocationID = '''', Qualifier = ''''\<rparr>"

definition sample_gw :: gw where
  "sample_gw = \<lparr>gw_peers = [SessionID_String sample_sID \<mapsto> (Peer_New sample_sID)\<lparr>p_started := True, p_bfxUserID := ''u1''\<rparr>],
     gw_lastMsgType = '''', gw_trace = []\<rparr>"

lemma sample_gw_peer:
  "FindPeer sample_gw (SessionID_String sample_sID) = Some ((Peer_New sample_sID)\<lparr>p_started := True, p_bfxUserID := ''u1''\<rparr>)"
  by (simp add: sample_gw_def FindPeer_def)

lemma gw_ok_sample: "gw_ok sample_gw"
  by (simp add: sample_gw_def gw_ok_def peer_ok_def Peer_New_def cache_fin_def newCache_def cache_ok_def)

end
