(* ===== verification/Fix_Handlers.thy ===== *)
theory Fix_Handlers
  imports Gw_World
begin

text \<open>
  The handlers for messages that arrive over FIX (\<^verbatim>\<open>service/fix/fix_msg.go\<close>): new order, cancel/replace,
  cancel, status request and market data request. Each takes the environment, the symbology, the
  message's fields, the session and the state, and returns the new state and the reject that goes
  back to the FIX engine (\<open>None\<close> for nil), or panics.
\<close>

unbundle bit_operations_syntax

type_synonym hres = "(gw \<times> MessageRejectError option) go"

definition rejectReasonOther :: int where "rejectReasonOther = 0"

definition genFlags :: "bool \<Rightarrow> bool \<Rightarrow> int" where
  "genFlags hidden postOnly =
     (let flags = 0;
          flags = (if postOnly then flags OR OrderFlagPostOnly else flags);
          flags = (if hidden then flags OR OrderFlagHidden else flags)
      in flags)"

definition genMTSTif :: "string \<Rightarrow> int go" where
  "genMTSTif timeInForce =
     (if timeInForce \<noteq> '''' then
        (case ParseDateTime timeInForce of
           None \<Rightarrow> Panic (''parsing time '' @ quote timeInForce)
         | Some tif \<Rightarrow> Ret (quo (UnixNano tif) 1000000))
      else Ret 0)"

definition order_zero :: Order where
  "order_zero =
     \<lparr>o_ID = 0, o_GID = 0, o_CID = 0, o_Symbol = '''', o_MTSCreated = 0, o_MTSUpdated = 0,
      o_Amount = f64_zero, o_AmountOrig = f64_zero, o_Type = '''', o_TypePrev = '''', o_MTSTif = 0,
      o_Flags = 0, o_Status = '''', o_Price = f64_zero, o_PriceAvg = f64_zero,
      o_PriceTrailing = f64_zero, o_PriceAuxLimit = f64_zero, o_Notify = False, o_Hidden = False,
      o_PlacedID = 0\<rparr>"

definition requestToOrder :: "OrderNewRequest \<Rightarrow> Order go" where
  "requestToOrder r =
     go_bind (genMTSTif (on_TimeInForce r)) (\<lambda>mts.
       Ret (order_zero\<lparr>o_GID := on_GID r, o_CID := on_CID r, o_Type := on_Type r, o_Symbol := on_Symbol r,
         o_Amount := on_Amount r, o_Price := on_Price r, o_PriceTrailing := on_PriceTrailing r,
         o_PriceAuxLimit := on_PriceAuxLimit r, o_Hidden := on_Hidden r,
         o_Flags := genFlags (on_Hidden r) (on_PostOnly r), o_MTSTif := mts\<rparr>))"

definition updateToOrder :: "OrderUpdateRequest \<Rightarrow> int \<Rightarrow> string \<Rightarrow> string \<Rightarrow> Order go" where
  "updateToOrder r cid typ symbol =
     go_bind (genMTSTif (ou_TimeInForce r)) (\<lambda>mts.
       Ret (order_zero\<lparr>o_GID := ou_GID r, o_CID := cid, o_Type := typ, o_Symbol := symbol,
         o_Amount := ou_Amount r, o_Price := ou_Price r, o_PriceTrailing := ou_PriceTrailing r,
         o_PriceAuxLimit := ou_PriceAuxLimit r, o_Hidden := ou_Hidden r,
         o_Flags := genFlags (ou_Hidden r) (ou_PostOnly r), o_MTSTif := mts\<rparr>))"

definition reject :: "string \<Rightarrow> MessageRejectError" where
  "reject err = NewMessageRejectError err rejectReasonOther None"

definition rejectError :: "string \<Rightarrow> MessageRejectError" where
  "rejectError msg = NewBusinessMessageRejectError msg rejectReasonOther None"

definition no_peer_reject :: MessageRejectError where
  "no_peer_reject =
     NewMessageRejectError ''could not find established peer for session ID'' rejectReasonOther None"

definition sendToTarget :: "env \<Rightarrow> Message \<Rightarrow> SessionID \<Rightarrow> gw \<Rightarrow> gw \<times> MessageRejectError option" where
  "sendToTarget E m sID w = (let (w', r) = SendToTarget E m sID w in (w', map_option reject r))"

text \<open>Sending a message whose construction may panic.\<close>

definition send_built :: "env \<Rightarrow> Message go \<Rightarrow> SessionID \<Rightarrow> gw \<Rightarrow> hres" where
  "send_built E gm sID w = go_bind gm (\<lambda>m. Ret (sendToTarget E m sID w))"

definition logout :: "env \<Rightarrow> string \<Rightarrow> SessionID \<Rightarrow> gw \<Rightarrow> gw \<times> string option" where
  "logout E message sID w =
     (case version_msg (BeginString sID) ''5'' of
        Panic _ \<Rightarrow> (w, Some UnsupportedBeginStringText)
      | Ret m \<Rightarrow> SendToTarget E (msg_set tag_Text message m) sID w)"

section \<open>New orders\<close>

definition read_leverage :: "FieldMap \<Rightarrow> int rej go" where
  "read_leverage msg = (if Has msg tag_Leverage then GetInt msg tag_Leverage else Ret (Inr 0))"

definition submit_new ::
  "env \<Rightarrow> symbology \<Rightarrow> SessionID \<Rightarrow> Peer \<Rightarrow> OrderNewRequest \<Rightarrow> string \<Rightarrow> string \<Rightarrow> string \<Rightarrow> string \<Rightarrow> gw \<Rightarrow> hres" where
  "submit_new E sy sID p bo ordtype clordid side tif w =
     go_bind (requestToOrder bo) (\<lambda>ord.
       (let pid = SessionID_String sID;
            (c, _) = AddOrder clordid (on_Price bo) (on_PriceAuxLimit bo) (on_PriceTrailing bo) (on_Amount bo)
                       (on_Symbol bo) (p_bfxUserID p) side ordtype (contains (on_Type bo) ''MARGIN'') tif
                       (o_MTSTif ord) (o_Flags ord) (p_cache p);
            w = set_cache pid p c w;
            e = env_SubmitOrder E w bo;
            w = log_call (ESubmitOrder pid bo) w
        in case e of
             None \<Rightarrow> Ret (w, None)
           | Some err \<Rightarrow>
               send_built E (FIXExecutionReportFromOrder (env_uuid E (gw_trace w)) (BeginString sID) ord
                 (p_bfxUserID p) ExecType_REJECTED f64_zero OrdStatus_REJECTED err sy (TargetCompID sID)
                 (o_Flags ord) (on_PriceAuxLimit bo) (on_PriceTrailing bo)) sID w))"

definition OnFIXNewOrderSingle :: "env \<Rightarrow> symbology \<Rightarrow> FieldMap \<Rightarrow> SessionID \<Rightarrow> gw \<Rightarrow> hres" where
  "OnFIXNewOrderSingle E sy msg sID w =
     (case FindPeer w (SessionID_String sID) of
        None \<Rightarrow> Ret (w, Some no_peer_reject)
      | Some p \<Rightarrow>
          (case OrderNewFromFIXNewOrderSingle msg sy (TargetCompID sID) of
             Inl e \<Rightarrow> Ret (w, Some e)
           | Inr bo \<Rightarrow>
               go_bind (read_leverage msg) (\<lambda>rlev.
                 case sbind rlev (\<lambda>lev.
                   sbind (GetString msg tag_OrdType) (\<lambda>ordtype.
                   sbind (GetString msg tag_ClOrdID) (\<lambda>clordid.
                   sbind (GetString msg tag_Side) (\<lambda>side.
                   sbind (GetTimeInForceFromFIX msg) (\<lambda>(tif, tifmts).
                     Inr (lev, ordtype, clordid, side, tif, tifmts)))))) of
                   Inl e \<Rightarrow> Ret (w, Some e)
                 | Inr (lev, ordtype, clordid, side, tif, tifmts) \<Rightarrow>
                     submit_new E sy sID p (bo\<lparr>on_Leverage := lev, on_TimeInForce := tifmts\<rparr>)
                       ordtype clordid side tif w)))"

section \<open>Cancel/replace\<close>

definition not_found_reject :: "env \<Rightarrow> SessionID \<Rightarrow> Peer \<Rightarrow> string \<Rightarrow> string \<Rightarrow> string \<Rightarrow> bool \<Rightarrow> gw \<Rightarrow> hres" where
  "not_found_reject E sID p oid ocid cid isReplace w =
     send_built E (FIXOrderCancelReject (BeginString sID) (p_bfxUserID p) oid ocid cid OrderNotFoundText
       isReplace) sID w"

text \<open>The order that a cancel/replace request is about: by the OrderID of the message when it has
  one, else by its OrigClOrdID. All three identifiers have to be integers, and the cached order has to
  have that OrderID. \<open>Inl oid\<close> stands for a cancel reject with that OrderID.\<close>

definition replace_target ::
  "FieldMap \<Rightarrow> cache \<Rightarrow> string \<Rightarrow> string \<Rightarrow> string + (string \<times> int \<times> int \<times> CachedOrder)" where
  "replace_target msg c ocid cid =
     (let byId = Has msg tag_OrderID;
          found = LookupByClOrdID c ocid
      in if \<not> byId \<and> isl found then Inl ''''
         else let oid = (if byId then GetOrEmpty msg tag_OrderID else co_OrderID (projr found))
              in case ParseInt cid of
                   Inl _ \<Rightarrow> Inl oid
                 | Inr cidi \<Rightarrow>
                     (case ParseInt oid of
                        Inl _ \<Rightarrow> Inl oid
                      | Inr oidi \<Rightarrow>
                          (case ParseInt ocid of
                             Inl _ \<Rightarrow> Inl oid
                           | Inr _ \<Rightarrow>
                               if byId \<and> (isl found \<or> co_OrderID (projr found) \<noteq> oid) then Inl oid
                               else Inr (oid, cidi, oidi, projr found))))"

definition submit_update ::
  "env \<Rightarrow> symbology \<Rightarrow> SessionID \<Rightarrow> Peer \<Rightarrow> OrderUpdateRequest \<Rightarrow> CachedOrder \<Rightarrow> string \<Rightarrow> string \<Rightarrow> int \<Rightarrow> string \<Rightarrow>
   string \<Rightarrow> string \<Rightarrow> gw \<Rightarrow> hres" where
  "submit_update E sy sID p ou cached oid cid cidi t tif typ w =
     go_bind (updateToOrder ou cidi typ (co_Symbol cached)) (\<lambda>ord.
     go_bind (genMTSTif (ou_TimeInForce ou)) (\<lambda>mts.
       (let pid = SessionID_String sID;
            (c, _) = AddOrder cid (ou_Price ou) (ou_PriceAuxLimit ou) (ou_PriceTrailing ou) (ou_Amount ou)
                       (co_Symbol cached) (p_bfxUserID p) (co_Side cached) t (co_IsMargin cached) tif mts
                       (genFlags (ou_Hidden ou) (ou_PostOnly ou)) (p_cache p);
            (c, r) = UpdateOrder cid oid c
        in case r of
             Inl er \<Rightarrow> Panic er
           | Inr _ \<Rightarrow>
               (let w = set_cache pid p c w;
                    e = env_SubmitUpdateOrder E (gw_trace w) ou;
                    w = log_call (ESubmitUpdateOrder pid ou) w
                in case e of
                     None \<Rightarrow> Ret (w, None)
                   | Some err \<Rightarrow>
                       send_built E (FIXExecutionReportFromOrder (env_uuid E (gw_trace w)) (BeginString sID)
                         ord (p_bfxUserID p) ExecType_REJECTED f64_zero OrdStatus_REJECTED err sy
                         (TargetCompID sID) (o_Flags ord) (ou_PriceAuxLimit ou) (ou_PriceTrailing ou)) sID w))))"

definition OnFIXOrderCancelReplaceRequest :: "env \<Rightarrow> symbology \<Rightarrow> FieldMap \<Rightarrow> SessionID \<Rightarrow> gw \<Rightarrow> hres" where
  "OnFIXOrderCancelReplaceRequest E sy msg sID w =
     (case sbind (GetString msg tag_OrigClOrdID) (\<lambda>ocid.
           sbind (GetString msg tag_ClOrdID) (\<lambda>cid. Inr (ocid, cid))) of
        Inl e \<Rightarrow> Ret (w, Some e)
      | Inr (ocid, cid) \<Rightarrow>
          (case FindPeer w (SessionID_String sID) of
             None \<Rightarrow> Ret (w, Some no_peer_reject)
           | Some p \<Rightarrow>
               (case replace_target msg (p_cache p) ocid cid of
                  Inl oid \<Rightarrow> not_found_reject E sID p oid ocid cid True w
                | Inr (oid, cidi, oidi, cached) \<Rightarrow>
                    (case sbind (GetDecimal msg tag_OrderQty) (\<lambda>qty.
                          sbind (GetPricesFromOrdType msg) (\<lambda>(t, px, aux, trail, _).
                          sbind (GetTimeInForceFromFIX msg) (\<lambda>(tif, tifmts).
                            Inr (qty, t, px, aux, trail, tif, tifmts)))) of
                       Inl e \<Rightarrow> Ret (w, Some e)
                     | Inr (qty, t, px, aux, trail, tif, tifmts) \<Rightarrow>
                         go_bind (read_leverage msg) (\<lambda>rlev.
                           case sbind rlev (\<lambda>lev. sbind (OrderNewTypeFromFIX msg) (\<lambda>typ. Inr (lev, typ))) of
                             Inl e \<Rightarrow> Ret (w, Some e)
                           | Inr (lev, typ) \<Rightarrow>
                               (let (hidden, postOnly, _) = GetFlagsFromFIX msg;
                                    ou = \<lparr>ou_ID = oidi, ou_GID = 0, ou_Price = px,
                                          ou_Amount = GetAmountFromQtyAndSide (co_Side cached) qty,
                                          ou_Leverage = lev, ou_Delta = f64_zero,
                                          ou_PriceTrailing = trail, ou_PriceAuxLimit = aux,
                                          ou_Hidden = hidden, ou_PostOnly = postOnly,
                                          ou_TimeInForce = tifmts\<rparr>
                                in submit_update E sy sID p ou cached oid cid cidi t tif typ w))))))"

section \<open>Cancel\<close>

definition OnFIXOrderCancelRequest :: "env \<Rightarrow> FieldMap \<Rightarrow> SessionID \<Rightarrow> gw \<Rightarrow> hres" where
  "OnFIXOrderCancelRequest E msg sID w =
     (case sbind (GetString msg tag_OrigClOrdID) (\<lambda>ocid.
           sbind (GetString msg tag_ClOrdID) (\<lambda>cid.
           sbind (GetTime msg tag_TransactTime) (\<lambda>txnT. Inr (ocid, cid, txnT)))) of
        Inl e \<Rightarrow> Ret (w, Some e)
      | Inr (ocid, cid, txnT) \<Rightarrow>
          (case FindPeer w (SessionID_String sID) of
             None \<Rightarrow> Ret (w, Some no_peer_reject)
           | Some p \<Rightarrow>
               (let target =
                  (if Has msg tag_OrderID then
                     (let oid = GetOrEmpty msg tag_OrderID
                      in case ParseInt oid of
                           Inl _ \<Rightarrow> Inl oid
                         | Inr idi \<Rightarrow> Inr (oid, \<lparr>oc_ID = idi, oc_CID = 0, oc_CIDDate = ''''\<rparr>))
                   else
                     (case ParseInt ocid of
                        Inl _ \<Rightarrow> Inl ''''
                      | Inr ocidi \<Rightarrow>
                          Inr (case LookupByClOrdID (p_cache p) ocid of
                                 Inr cached \<Rightarrow> co_OrderID cached | Inl _ \<Rightarrow> '''',
                               \<lparr>oc_ID = 0, oc_CID = ocidi, oc_CIDDate = FormatDate txnT\<rparr>)))
                in case target of
                     Inl oid \<Rightarrow> not_found_reject E sID p oid ocid cid False w
                   | Inr (oid, oc) \<Rightarrow>
                       (let e = env_WsSendCancel E (gw_trace w) oc;
                            w = log_call (EWsSendCancel (SessionID_String sID) oc) w
                        in case e of
                             None \<Rightarrow> Ret (w, None)
                           | Some err \<Rightarrow>
                               send_built E (FIXOrderCancelReject (BeginString sID) (p_bfxUserID p) oid
                                 ocid cid err False) sID w))))"

section \<open>Order status\<close>

definition OnFIXOrderStatusRequest :: "env \<Rightarrow> symbology \<Rightarrow> FieldMap \<Rightarrow> SessionID \<Rightarrow> gw \<Rightarrow> hres" where
  "OnFIXOrderStatusRequest E sy msg sID w =
     (case GetString msg tag_OrderID of
        Inl e \<Rightarrow> Ret (w, Some e)
      | Inr oid \<Rightarrow>
          (case ParseInt oid of
             Inl nerr \<Rightarrow> Ret (w, Some (reject nerr))
           | Inr oidi \<Rightarrow>
               (let pid = SessionID_String sID
                in case FindPeer w pid of
                     None \<Rightarrow> Ret (w, Some (reject (''could not find route for FIX session '' @ pid)))
                   | Some p \<Rightarrow>
                       (let r = env_GetByOrderId E (gw_trace w) oidi;
                            w = log_call (EGetByOrderId pid oidi) w
                        in case r of
                             Inl nerr \<Rightarrow> Ret (w, Some (reject nerr))
                           | Inr order \<Rightarrow>
                               (let orderID = FormatInt (o_ID order); clOrdID = FormatInt (o_CID order);
                                    (tif, _) = TimeInForceToFIX (o_Type order) (o_MTSTif order);
                                    ks = env_ord E 0 (gw_trace w) (dom (orders (p_cache p)));
                                    (c, cached) =
                                      (case LookupByOrderID ks (p_cache p) orderID of
                                         Inr cached \<Rightarrow> (p_cache p, cached)
                                       | Inl _ \<Rightarrow>
                                           (let (ot, isMargin) = OrdTypeToFIX (o_Type order)
                                            in AddOrder clOrdID (o_Price order) (o_PriceAuxLimit order)
                                                 (o_PriceTrailing order) (o_Amount order) (o_Symbol order)
                                                 (p_bfxUserID p) (SideToFIX (o_Amount order)) ot isMargin tif
                                                 (o_MTSTif order) (o_Flags order) (p_cache p)));
                                    w = set_cache pid p c w
                                in send_built E (FIXExecutionReportFromOrder (env_uuid E (gw_trace w))
                                     (BeginString sID) order (p_bfxUserID p) ExecType_ORDER_STATUS
                                     (filledQty cached) (OrdStatusToFIX (o_Status order)) '''' sy
                                     (TargetCompID sID) (co_Flags cached) (co_Stop cached) (co_Trail cached))
                                     sID w)))))"

section \<open>Market data\<close>

definition validatePrecision :: "string \<Rightarrow> string \<times> bool" where
  "validatePrecision prec =
     (if prec = ''P0'' then (''P0'', True)
      else if prec = ''P1'' then (''P1'', True)
      else if prec = ''P2'' then (''P2'', True)
      else if prec = ''P3'' then (''P3'', True)
      else if prec = ''R0'' then (''R0'', True)
      else (''P0'', False))"

definition buildMarketDataRequestReject :: "string \<Rightarrow> string \<Rightarrow> string \<Rightarrow> string \<Rightarrow> Message go" where
  "buildMarketDataRequestReject beginString mdReqID text rejReason =
     go_bind (version_msg beginString ''Y'') (\<lambda>m.
       Ret (set_all [(tag_MDReqID, mdReqID), (tag_Text, text), (tag_MDReqRejReason, rejReason)] m))"

definition norelatedsym_template :: "tag list" where
  "norelatedsym_template = [55, 65, 48, 22, 167, 200, 205, 201, 202, 206, 231, 223, 207, 106, 348, 349, 107,
     350, 351, 336]"

text \<open>What the body of the loop over the symbols does: go on with the next symbol, or return.\<close>

datatype md_next = Next gw Peer | Return gw "MessageRejectError option"

definition md_send :: "env \<Rightarrow> Message go \<Rightarrow> SessionID \<Rightarrow> gw \<Rightarrow> md_next go" where
  "md_send E gm sID w = go_bind (send_built E gm sID w) (\<lambda>(w, r). Ret (Return w r))"

definition md_send_continue :: "env \<Rightarrow> Message go \<Rightarrow> SessionID \<Rightarrow> Peer \<Rightarrow> gw \<Rightarrow> md_next go" where
  "md_send_continue E gm sID p w =
     go_bind (send_built E gm sID w) (\<lambda>(w, r). Ret (case r of None \<Rightarrow> Next w p | Some e \<Rightarrow> Return w (Some e)))"

record md_request =
  md_ReqID :: string
  md_SubType :: string
  md_Depth :: int
  md_Precision :: string
  md_Override :: bool

definition md_subscribe :: "env \<Rightarrow> FieldMap \<Rightarrow> SessionID \<Rightarrow> md_request \<Rightarrow> string \<Rightarrow> Peer \<Rightarrow> gw \<Rightarrow> md_next go" where
  "md_subscribe E msg sID r symbol p w =
     (let pid = SessionID_String sID;
          p = p\<lparr>p_cache := MapSymbolToReqID symbol (md_ReqID r) (p_cache p)\<rparr>;
          w = set_peer pid p w;
          prec = (if md_Override r then md_Precision r
                  else if GetBool msg tag_AggregatedBook = Inr False then ''R0'' else ''P0'');
          rb = env_SubscribeBook E (gw_trace w) symbol prec ''F0'' (md_Depth r);
          w = log_call (ESubscribeBook pid symbol prec ''F0'' (md_Depth r)) w
      in case rb of
           Inl err \<Rightarrow>
             md_send E (buildMarketDataRequestReject (BeginString sID) (md_ReqID r) err
               MDReqRejReason_UNKNOWN_SYMBOL) sID w
         | Inr bookReqID \<Rightarrow>
             (let rt = env_SubscribeTrades E (gw_trace w) symbol;
                  w = log_call (ESubscribeTrades pid symbol) w
              in case rt of
                   Inl err \<Rightarrow>
                     (let ru = env_Unsubscribe E (gw_trace w) bookReqID;
                          w = log_call (EUnsubscribe pid bookReqID) w;
                          text = (case ru of None \<Rightarrow> err
                                  | Some eu \<Rightarrow> err @ '' occurred, and also unable to subscribe due to '' @ eu)
                      in md_send E (buildMarketDataRequestReject (BeginString sID) (md_ReqID r) text
                           MDReqRejReason_UNKNOWN_SYMBOL) sID w)
                 | Inr tradeReqID \<Rightarrow>
                     (let p = p\<lparr>p_cache := MapMDReqIDs (md_ReqID r) bookReqID tradeReqID (p_cache p)\<rparr>
                      in Ret (Next (set_peer pid p w) p))))"

definition md_snapshot :: "env \<Rightarrow> symbology \<Rightarrow> SessionID \<Rightarrow> md_request \<Rightarrow> string \<Rightarrow> Peer \<Rightarrow> gw \<Rightarrow> md_next go" where
  "md_snapshot E sy sID r symbol p w =
     (let pid = SessionID_String sID;
          p = p\<lparr>p_cache := MapSymbolToReqID symbol (md_ReqID r) (p_cache p)\<rparr>;
          w = set_peer pid p w;
          rb = BookService_All E (gw_trace w) symbol (md_Precision r) (md_Depth r);
          w = log_call (EBookAll pid symbol (md_Precision r) (md_Depth r)) w
      in case rb of
           Inl err \<Rightarrow>
             md_send E (buildMarketDataRequestReject (BeginString sID) (md_ReqID r) err
               MDReqRejReason_UNKNOWN_SYMBOL) sID w
         | Inr snapshot \<Rightarrow>
             md_send_continue E
               (go_bind (FIXMarketDataFullRefreshFromBookSnapshot (BeginString sID) (md_ReqID r) snapshot sy
                  (TargetCompID sID))
                (\<lambda>om. case om of
                    None \<Rightarrow> Panic ''runtime error: invalid memory address or nil pointer dereference''
                  | Some m \<Rightarrow> Ret m)) sID p w)"

definition show_err :: "string option \<Rightarrow> string" where
  "show_err e = (case e of None \<Rightarrow> ''<nil>'' | Some s \<Rightarrow> s)"

definition md_unsubscribe :: "env \<Rightarrow> SessionID \<Rightarrow> md_request \<Rightarrow> Peer \<Rightarrow> gw \<Rightarrow> md_next go" where
  "md_unsubscribe E sID r p w =
     (let pid = SessionID_String sID
      in case LookupAPIReqIDs (p_cache p) (md_ReqID r) of
           Some (bookReqID, tradeReqID) \<Rightarrow>
             (let eb = env_Unsubscribe E (gw_trace w) bookReqID;
                  w = log_call (EUnsubscribe pid bookReqID) w;
                  et = env_Unsubscribe E (gw_trace w) tradeReqID;
                  w = log_call (EUnsubscribe pid tradeReqID) w
              in if eb \<noteq> None \<or> et \<noteq> None
                 then Ret (Return w (Some (reject (''Unsubscribe book / trade errors: '' @ show_err eb @ '' / '' @ show_err et))))
                 else Ret (Return w None))
         | None \<Rightarrow>
             md_send_continue E (buildMarketDataRequestReject (BeginString sID) (md_ReqID r)
               (''could not find subscription for MDReqID: '' @ md_ReqID r) MDReqRejReason_UNKNOWN_SYMBOL) sID p w)"

definition md_symbol ::
  "env \<Rightarrow> symbology \<Rightarrow> FieldMap \<Rightarrow> SessionID \<Rightarrow> md_request \<Rightarrow> FieldMap \<Rightarrow> Peer \<Rightarrow> gw \<Rightarrow> md_next go" where
  "md_symbol E sy msg sID r g p w =
     (case GetString g tag_Symbol of
        Inl e \<Rightarrow> Ret (Return w (Some e))
      | Inr fixSymbol \<Rightarrow>
          (let symbol = to_bitfinex_or_same sy fixSymbol (TargetCompID sID);
               c = p_cache p;
               ks = env_ord E 0 (gw_trace w) (dom (symbolToReqID c))
           in if MDReqIDExists ks c (md_ReqID r) then
                md_send E (buildMarketDataRequestReject (BeginString sID) (md_ReqID r)
                  (''duplicate MDReqID by session: '' @ md_ReqID r) MDReqRejReason_DUPLICATE_MDREQID) sID w
              else if LookupMDReqID c symbol \<noteq> None then
                md_send E (buildMarketDataRequestReject (BeginString sID) (md_ReqID r)
                  (''duplicate symbol subscription for '' @ quote symbol @
                   '', one subscription per symbol allowed'') MDReqRejReason_DUPLICATE_MDREQID) sID w
              else if md_SubType r = SubscriptionRequestType_SNAPSHOT then md_snapshot E sy sID r symbol p w
              else if md_SubType r = SubscriptionRequestType_SNAPSHOT_PLUS_UPDATES
                then md_subscribe E msg sID r symbol p w
              else if md_SubType r = SubscriptionRequestType_DISABLE then md_unsubscribe E sID r p w
              else md_send_continue E (buildMarketDataRequestReject (BeginString sID) (md_ReqID r)
                (''subscription type not supported: '' @ md_SubType r)
                MDReqRejReason_UNSUPPORTED_SUBSCRIPTIONREQUESTTYPE) sID p w))"

fun md_loop :: "env \<Rightarrow> symbology \<Rightarrow> FieldMap \<Rightarrow> SessionID \<Rightarrow> md_request \<Rightarrow> FieldMap list \<Rightarrow> Peer \<Rightarrow> gw \<Rightarrow> hres" where
  "md_loop E sy msg sID r [] p w = Ret (w, None)"
| "md_loop E sy msg sID r (g # gs) p w =
     go_bind (md_symbol E sy msg sID r g p w) (\<lambda>nxt.
       case nxt of
         Next w' p' \<Rightarrow> md_loop E sy msg sID r gs p' w'
       | Return w' e \<Rightarrow> Ret (w', e))"

definition read_md_request :: "FieldMap \<Rightarrow> md_request rej go" where
  "read_md_request msg =
     (case sbind (GetString msg tag_MDReqID) (\<lambda>mdReqID.
           sbind (GetString msg tag_SubscriptionRequestType) (\<lambda>subType. Inr (mdReqID, subType))) of
        Inl e \<Rightarrow> Ret (Inl e)
      | Inr (mdReqID, subType) \<Rightarrow>
          go_bind (GetInt msg tag_MarketDepth) (\<lambda>rd.
            Ret (sbind rd (\<lambda>depth.
              if depth < 0
              then Inl (rejectError (''invalid market depth for market data request: '' @ FormatInt depth))
              else
                (let depth = (if depth = 0 then 100 else depth)
                 in case GetString msg tag_PricePrecision of
                      Inl _ \<Rightarrow> Inr \<lparr>md_ReqID = mdReqID, md_SubType = subType, md_Depth = depth,
                                  md_Precision = ''P0'', md_Override = False\<rparr>
                    | Inr fixPrecision \<Rightarrow>
                        (let (precision, ok) = validatePrecision fixPrecision
                         in if ok then Inr \<lparr>md_ReqID = mdReqID, md_SubType = subType, md_Depth = depth,
                                         md_Precision = precision, md_Override = True\<rparr>
                            else Inl (rejectError
                              (''invalid precision for market data request: '' @ fixPrecision))))))))"

definition OnFIXMarketDataRequest :: "env \<Rightarrow> symbology \<Rightarrow> FieldMap \<Rightarrow> SessionID \<Rightarrow> gw \<Rightarrow> hres" where
  "OnFIXMarketDataRequest E sy msg sID w =
     (case FindPeer w (SessionID_String sID) of
        None \<Rightarrow> Ret (w, Some no_peer_reject)
      | Some p \<Rightarrow>
          go_bind (GetGroup tag_NoRelatedSym norelatedsym_template msg) (\<lambda>rg.
            case rg of
              Inl e \<Rightarrow> Ret (w, Some e)
            | Inr relSym \<Rightarrow>
                if relSym = [] then Ret (w, Some (NewMessageRejectError ''no symbol provided'' rejectReasonOther None))
                else
                  go_bind (read_md_request msg) (\<lambda>rr.
                    case rr of
                      Inl e \<Rightarrow> Ret (w, Some e)
                    | Inr r \<Rightarrow> md_loop E sy msg sID r relSym p w)))"

end
