(* ===== verification/Order_Flow.thy ===== *)
theory Order_Flow
  imports Fix_Handlers
begin

text \<open>
  Properties of the handlers of orders that arrive over FIX (the definitions are in \<^verbatim>\<open>Fix_Handlers\<close>): the
  expiry of an order through all its forms, what an accepted new order does to the cache and to the
  exchange and in which order, what a refused one answers, and cancel/replace and cancel requests.
\<close>

section \<open>Expiry\<close>

lemma wrap64_id: "int64_ok i \<Longrightarrow> wrap64 i = i"
  unfolding wrap64_def int64_ok_def max_int64_def min_int64_def
  by (simp add: sint_sbintrunc' signed_take_bit_int_eq_self)

lemma FIXUTCTimestamp_year: "FIXUTCTimestamp_Read b = Some (t, p) \<Longrightarrow> fst (civil_of_time t) \<in> {0..9999}"
  by (auto simp: FIXUTCTimestamp_Read_def dest!: parse_layout_year split: if_splits)

lemma GetTime_Inr: "GetTime m tg = Inr t \<Longrightarrow> \<exists>b p. FIXUTCTimestamp_Read b = Some (t, p)"
  by (auto simp: GetTime_def GetField_def split: option.splits) blast

lemma quo_exact: "0 < b \<Longrightarrow> quo (a * b * c) b = a * c" for a b c :: int
proof -
  assume b: "0 < b"
  have "\<bar>a * b * c\<bar> div \<bar>b\<bar> = \<bar>a * c\<bar>" using b by (simp add: abs_mult)
  moreover have "sgn (a * b * c) * sgn b = sgn (a * c)" using b by (simp add: sgn_mult)
  ultimately show ?thesis by (simp only: quo_def sgn_mult_abs)
qed

lemma genMTSTif_FormatDateTime:
  assumes "fst (civil_of_time t) \<in> {0..9999}"
  shows "\<exists>mts. genMTSTif (FormatDateTime t) = Ret mts \<and>
    (int64_ok (t div sec_ns * sec_ns) \<longrightarrow> mts = t div sec_ns * 1000)"
proof -
  have ne: "FormatDateTime t \<noteq> ''''" by (simp add: FormatDateTime_def split: prod.splits)
  have "quo (t div sec_ns * sec_ns) 1000000 = t div sec_ns * 1000"
    using quo_exact [of 1000000 "t div sec_ns" 1000] by (simp add: sec_ns_def mult.commute)
  then show ?thesis
    using ne by (simp add: genMTSTif_def ParseDateTime_FormatDateTime [OF assms] UnixNano_def wrap64_id)
qed

lemma GetTimeInForce_expiry:
  assumes "GetTimeInForceFromFIX msg = Inr (tif, s)"
  shows "(GetOrEmpty msg tag_TimeInForce = TimeInForce_GOOD_TILL_DATE \<and>
      (\<exists>t. GetTime msg tag_ExpireTime = Inr t \<and> s = FormatDateTime t)) \<or>
    (GetOrEmpty msg tag_TimeInForce \<noteq> TimeInForce_GOOD_TILL_DATE \<and> s = '''')"
proof (cases "Has msg tag_TimeInForce")
  case True
  then have get: "GetString msg tag_TimeInForce = Inr (GetOrEmpty msg tag_TimeInForce)" by (simp add: GetString_Inr)
  show ?thesis
    using assms True unfolding GetTimeInForceFromFIX_def Let_def
    by (auto simp: get go_simps split: if_splits)
next
  case False
  then show ?thesis
    using assms by (simp add: GetTimeInForceFromFIX_def GetOrEmpty_absent)
qed

lemma expiry_mts:
  assumes "GetTimeInForceFromFIX msg = Inr (tif, s)"
  shows "\<exists>mts. genMTSTif s = Ret mts"
  using GetTimeInForce_expiry [OF assms] genMTSTif_FormatDateTime FIXUTCTimestamp_year GetTime_Inr
  by (metis genMTSTif_def)

text \<open>
  C22: the expiry of a good-till-date order. Whatever ExpireTime a FIX message carries, the text that is
  sent to the exchange can be parsed again, so the handler does not panic on it; the time stored in the
  cache is the ExpireTime in milliseconds, cut to whole seconds; and a report that is made from it later
  says good-till-date with that time. A message with another time in force stores no expiry.
  The time has to be after 1970 and within the range of 64-bit nanoseconds (until 2262).
\<close>

theorem expiry_roundtrip:
  assumes "GetTimeInForceFromFIX msg = Inr (tif, s)"
  shows "\<exists>mts. genMTSTif s = Ret mts \<and>
    (if GetOrEmpty msg tag_TimeInForce = TimeInForce_GOOD_TILL_DATE
     then \<exists>t. GetTime msg tag_ExpireTime = Inr t \<and>
       (sec_ns \<le> t \<and> int64_ok t \<longrightarrow> mts = t div sec_ns * 1000 \<and>
         TimeInForceToFIX ty mts = (TimeInForce_GOOD_TILL_DATE, t div sec_ns * sec_ns))
     else mts = 0)"
proof (cases "GetOrEmpty msg tag_TimeInForce = TimeInForce_GOOD_TILL_DATE")
  case True
  then obtain t where t: "GetTime msg tag_ExpireTime = Inr t" "s = FormatDateTime t"
    using GetTimeInForce_expiry [OF assms] by blast
  then have year: "fst (civil_of_time t) \<in> {0..9999}" using FIXUTCTimestamp_year GetTime_Inr by blast
  from genMTSTif_FormatDateTime [OF year] obtain mts where mts: "genMTSTif s = Ret mts"
      "int64_ok (t div sec_ns * sec_ns) \<longrightarrow> mts = t div sec_ns * 1000" using t by blast
  have "mts = t div sec_ns * 1000 \<and> TimeInForceToFIX ty mts = (TimeInForce_GOOD_TILL_DATE, t div sec_ns * sec_ns)"
    if "sec_ns \<le> t" "int64_ok t"
  proof -
    have ok: "int64_ok (t div sec_ns * sec_ns)" "0 < t div sec_ns"
      using that div_mult_mod_eq [of t sec_ns] pos_mod_sign [of sec_ns t] pos_imp_zdiv_pos_iff [of sec_ns t]
      by (simp_all add: int64_ok_def max_int64_def min_int64_def sec_ns_def)
    then have "mts = t div sec_ns * 1000" using mts(2) by blast
    moreover have "wrap64 (t div sec_ns * 1000 * 1000000) = t div sec_ns * sec_ns"
      using wrap64_id [OF ok(1)] by (simp add: sec_ns_def mult.commute)
    ultimately show ?thesis
      using ok by (simp add: TimeInForceToFIX_def MTSToTime_def Unix0_def)
  qed
  with True t mts show ?thesis by auto
next
  case False
  then show ?thesis using GetTimeInForce_expiry [OF assms] by (auto simp: genMTSTif_def)
qed

text \<open>A good-till-date order that expires on 2 January 2030.\<close>

definition gtd_order :: FieldMap where
  "gtd_order = [tag_TimeInForce \<mapsto> [(tag_TimeInForce, TimeInForce_GOOD_TILL_DATE)],
     tag_ExpireTime \<mapsto> [(tag_ExpireTime, ''20300102-10:20:30.500'')]]"

lemma gtd_order_time: "GetTime gtd_order tag_ExpireTime = Inr 1893579630500000000"
  by (simp add: gtd_order_def GetTime_def GetField_def) code_simp

theorem expiry_roundtrip_witness:
  "\<exists>s. GetTimeInForceFromFIX gtd_order = Inr (TimeInForce_GOOD_TILL_CANCEL, s) \<and> genMTSTif s = Ret 1893579630000"
proof -
  have get: "GetString gtd_order tag_TimeInForce = Inr TimeInForce_GOOD_TILL_DATE" "Has gtd_order tag_TimeInForce"
    by (simp_all add: gtd_order_def GetString_def GetField_def Has_def)
  have "GetTimeInForceFromFIX gtd_order = Inr (TimeInForce_GOOD_TILL_CANCEL, FormatDateTime 1893579630500000000)"
    by (simp add: GetTimeInForceFromFIX_def get gtd_order_time)
  moreover from expiry_roundtrip [OF this]
  have "genMTSTif (FormatDateTime 1893579630500000000) = Ret 1893579630000"
    using get by (auto simp: GetOrEmpty_def gtd_order_time sec_ns_def int64_ok_def max_int64_def min_int64_def)
  ultimately show ?thesis by blast
qed

section \<open>New orders\<close>

text \<open>The order of the cache and of reports for a request that expires at \<open>mts\<close>.\<close>

definition request_order :: "OrderNewRequest \<Rightarrow> int \<Rightarrow> Order" where
  "request_order r mts = order_zero\<lparr>o_GID := on_GID r, o_CID := on_CID r, o_Type := on_Type r,
    o_Symbol := on_Symbol r, o_Amount := on_Amount r, o_Price := on_Price r, o_PriceTrailing := on_PriceTrailing r,
    o_PriceAuxLimit := on_PriceAuxLimit r, o_Hidden := on_Hidden r,
    o_Flags := genFlags (on_Hidden r) (on_PostOnly r), o_MTSTif := mts\<rparr>"

lemma requestToOrder_Ret: "genMTSTif (on_TimeInForce r) = Ret mts \<Longrightarrow> requestToOrder r = Ret (request_order r mts)"
  by (simp add: requestToOrder_def request_order_def)

text \<open>The request that an accepted NewOrderSingle becomes, with leverage and expiry filled in.\<close>

definition full_request :: "OrderNewRequest \<Rightarrow> int \<Rightarrow> string \<Rightarrow> OrderNewRequest" where
  "full_request bo lev expiry = bo\<lparr>on_Leverage := lev, on_TimeInForce := expiry\<rparr>"

text \<open>The order that the cache keeps for it.\<close>

definition cached_new ::
  "OrderNewRequest \<Rightarrow> Peer \<Rightarrow> string \<Rightarrow> string \<Rightarrow> string \<Rightarrow> string \<Rightarrow> int \<Rightarrow> CachedOrder" where
  "cached_new bo p clordid side ordtype tif mts =
     newOrder clordid (on_Price bo) (on_PriceAuxLimit bo) (on_PriceTrailing bo) (f64_abs (on_Amount bo))
       (on_Symbol bo) (p_bfxUserID p) side ordtype (contains (on_Type bo) ''MARGIN'') tif mts
       (genFlags (on_Hidden bo) (on_PostOnly bo))"

lemma OnFIXNewOrderSingle_step:
  assumes peer: "FindPeer w (SessionID_String sID) = Some p"
    and conv: "OrderNewFromFIXNewOrderSingle msg sy (TargetCompID sID) = Inr bo"
    and lev: "read_leverage msg = Ret (Inr lev)"
    and tif: "GetTimeInForceFromFIX msg = Inr (tif, expiry)"
  obtains mts where "genMTSTif expiry = Ret mts"
    and "OnFIXNewOrderSingle E sy msg sID w =
      submit_new E sy sID p (full_request bo lev expiry) (GetOrEmpty msg tag_OrdType) (GetOrEmpty msg tag_ClOrdID)
        (GetOrEmpty msg tag_Side) tif w"
    and "requestToOrder (full_request bo lev expiry) = Ret (request_order bo mts)"
proof -
  obtain mts where mts: "genMTSTif expiry = Ret mts" using expiry_mts [OF tif] by blast
  have "\<not> isl (OrderNewFromFIXNewOrderSingle msg sy (TargetCompID sID))" using conv by simp
  then have "Has msg tag_ClOrdID" "Has msg tag_Side" "Has msg tag_OrdType"
    unfolding NewOrder_Inr_iff GetPrices_Inr prices_ok_def by blast+
  then have get: "GetString msg tag_OrdType = Inr (GetOrEmpty msg tag_OrdType)"
      "GetString msg tag_ClOrdID = Inr (GetOrEmpty msg tag_ClOrdID)"
      "GetString msg tag_Side = Inr (GetOrEmpty msg tag_Side)"
    by (simp_all add: GetString_Inr)
  have "OnFIXNewOrderSingle E sy msg sID w =
      submit_new E sy sID p (full_request bo lev expiry) (GetOrEmpty msg tag_OrdType) (GetOrEmpty msg tag_ClOrdID)
        (GetOrEmpty msg tag_Side) tif w"
    by (simp add: OnFIXNewOrderSingle_def peer conv lev tif get full_request_def)
  then show thesis using mts requestToOrder_Ret [of "full_request bo lev expiry" mts]
    by (intro that [of mts]) (simp_all add: full_request_def request_order_def)
qed

text \<open>The state with the new order in the cache of its peer.\<close>

definition with_new_order ::
  "SessionID \<Rightarrow> Peer \<Rightarrow> OrderNewRequest \<Rightarrow> string \<Rightarrow> string \<Rightarrow> string \<Rightarrow> string \<Rightarrow> int \<Rightarrow> gw \<Rightarrow> gw" where
  "with_new_order sID p bo clordid side ordtype tif mts w =
     (let c = p_cache p
      in set_cache (SessionID_String sID) p
           (c\<lparr>orders := (orders c)(clordid \<mapsto> cached_new bo p clordid side ordtype tif mts)\<rparr>) w)"

text \<open>
  C6: a NewOrderSingle that the exchange takes. When the session has a peer, the message converts, and its
  leverage and time in force can be read, the websocket client is asked in a state in which the cache of that peer holds the order already,
  under its ClOrdID, with no OrderID and no executions yet; up to there nothing was called, and the other orders of the peer and the other
  peers are unchanged. When the client accepts the request there, the handler returns without a reject, in that state; the request is
  the only call that leaves the gateway, and nothing is sent to the FIX client.
\<close>

theorem new_order_accepted:
  assumes "FindPeer w (SessionID_String sID) = Some p"
    and "OrderNewFromFIXNewOrderSingle msg sy (TargetCompID sID) = Inr bo"
    and "read_leverage msg = Ret (Inr lev)"
    and "GetTimeInForceFromFIX msg = Inr (tif, expiry)"
  shows "\<exists>mts. genMTSTif expiry = Ret mts \<and>
    (let clordid = GetOrEmpty msg tag_ClOrdID; req = full_request bo lev expiry;
         order = cached_new bo p clordid (GetOrEmpty msg tag_Side) (GetOrEmpty msg tag_OrdType) tif mts;
         w1 = with_new_order sID p bo clordid (GetOrEmpty msg tag_Side) (GetOrEmpty msg tag_OrdType) tif mts w
     in gw_trace w1 = gw_trace w \<and>
        (\<exists>p1. FindPeer w1 (SessionID_String sID) = Some p1 \<and> orders (p_cache p1) = (orders (p_cache p))(clordid \<mapsto> order)) \<and>
        co_ClOrdID order = clordid \<and> co_OrderID order = '''' \<and> co_Executions order = [] \<and>
        (\<forall>pid. pid \<noteq> SessionID_String sID \<longrightarrow> FindPeer w1 pid = FindPeer w pid) \<and>
        (env_SubmitOrder E w1 req = None \<longrightarrow>
           OnFIXNewOrderSingle E sy msg sID w = Ret (log_call (ESubmitOrder (SessionID_String sID) req) w1, None)))"
  using assms
proof (rule OnFIXNewOrderSingle_step [where E = E])
  fix mts
  assume h: "genMTSTif expiry = Ret mts"
    "OnFIXNewOrderSingle E sy msg sID w = submit_new E sy sID p (full_request bo lev expiry)
       (GetOrEmpty msg tag_OrdType) (GetOrEmpty msg tag_ClOrdID) (GetOrEmpty msg tag_Side) tif w"
    "requestToOrder (full_request bo lev expiry) = Ret (request_order bo mts)"
  have "submit_new E sy sID p (full_request bo lev expiry) (GetOrEmpty msg tag_OrdType) (GetOrEmpty msg tag_ClOrdID)
      (GetOrEmpty msg tag_Side) tif w =
    Ret (log_call (ESubmitOrder (SessionID_String sID) (full_request bo lev expiry)) w1, None)"
    if "env_SubmitOrder E w1 (full_request bo lev expiry) = None"
      "w1 = with_new_order sID p bo (GetOrEmpty msg tag_ClOrdID) (GetOrEmpty msg tag_Side) (GetOrEmpty msg tag_OrdType) tif mts w" for w1
    unfolding submit_new_def h(3) using that
    by (simp add: AddOrder_def Let_def full_request_def cached_new_def request_order_def with_new_order_def)
  then show ?thesis
    using h(1) unfolding h(2)
    by (auto simp: Let_def with_new_order_def set_cache_def set_peer_def FindPeer_def cached_new_def newOrder_def)
qed

lemma market_order_reads:
  "read_leverage market_order = Ret (Inr 0)"
  "GetTimeInForceFromFIX market_order = Inr (TimeInForce_GOOD_TILL_CANCEL, '''')"
proof -
  have "\<not> Has market_order tag_Leverage" by (simp add: market_order_def SetField_def Has_def)
  then show "read_leverage market_order = Ret (Inr 0)" by (simp add: read_leverage_def)
qed (simp add: GetTimeInForceFromFIX_def market_order_get)

text \<open>A websocket client that takes an order only when it finds it in the cache.\<close>

definition looking_env :: env where
  "looking_env = calm_env\<lparr>env_SubmitOrder := (\<lambda>w r. case FindPeer w (SessionID_String sample_sID) of
     Some p \<Rightarrow> (if orders (p_cache p) ''42'' = None then Some ''unknown order'' else None) | None \<Rightarrow> Some ''no peer'')\<rparr>"

theorem new_order_accepted_witness:
  "\<exists>w' p' o'. OnFIXNewOrderSingle looking_env PassthroughSymbology market_order sample_sID sample_gw = Ret (w', None) \<and>
     FindPeer w' (SessionID_String sample_sID) = Some p' \<and> orders (p_cache p') ''42'' = Some o' \<and>
     co_OrderID o' = ''''"
proof -
  obtain bo where bo: "OrderNewFromFIXNewOrderSingle market_order PassthroughSymbology (TargetCompID sample_sID) = Inr bo"
    using market_order_accepted by blast
  have "env_SubmitOrder looking_env w req = None" if "FindPeer w (SessionID_String sample_sID) = Some p" "orders (p_cache p) = m(''42'' \<mapsto> x)" for w req p m x
    using that by (simp add: looking_env_def)
  with new_order_accepted [OF sample_gw_peer bo market_order_reads, of looking_env]
  show ?thesis by (fastforce simp: Let_def market_order_get log_call_def FindPeer_def)
qed

lemma OrdTypeToFIX_new:
  assumes "OrderNewTypeFromFIX msg = Inr ty"
  shows "fst (OrdTypeToFIX ty) \<noteq> OrdType_STOP_LIMIT"
proof -
  have "base_type msg \<in> {OrderTypeExchangeMarket, OrderTypeExchangeLimit, OrderTypeExchangeStop,
      OrderTypeExchangeTrailingStop, OrderTypeExchangeStopLimit, OrderTypeExchangeFOK, ''''}"
    by (simp add: base_type_def Let_def)
  moreover have "ty = (if margin_open msg then replace1 (base_type msg) ''EXCHANGE'' ''MARGIN'' else base_type msg)"
    using OrderNewType_Inr [OF assms] .
  moreover have "fst (OrdTypeToFIX '''') = OrdType_MARKET" by (simp add: OrdTypeToFIX_def)
  ultimately show ?thesis by (elim insertE; cases "margin_open msg"; simp add: to_margin to_fix_type)
qed

text \<open>The report for a request that the websocket client refuses.\<close>

definition refusal :: "env \<Rightarrow> symbology \<Rightarrow> SessionID \<Rightarrow> Peer \<Rightarrow> OrderNewRequest \<Rightarrow> int \<Rightarrow> string \<Rightarrow> gw \<Rightarrow> Message go" where
  "refusal E sy sID p bo mts err w =
     FIXExecutionReportFromOrder (env_uuid E (gw_trace w)) (BeginString sID) (request_order bo mts)
       (p_bfxUserID p) ExecType_REJECTED f64_zero OrdStatus_REJECTED err sy (TargetCompID sID)
       (genFlags (on_Hidden bo) (on_PostOnly bo)) (on_PriceAuxLimit bo) (on_PriceTrailing bo)"

text \<open>The state after the request has been cached and submitted.\<close>

definition after_submit ::
  "SessionID \<Rightarrow> Peer \<Rightarrow> OrderNewRequest \<Rightarrow> OrderNewRequest \<Rightarrow> string \<Rightarrow> string \<Rightarrow> string \<Rightarrow> string \<Rightarrow> int \<Rightarrow> gw \<Rightarrow> gw" where
  "after_submit sID p bo req clordid side ordtype tif mts w =
     log_call (ESubmitOrder (SessionID_String sID) req) (with_new_order sID p bo clordid side ordtype tif mts w)"

lemma OnFIXNewOrderSingle_refused:
  assumes "FindPeer w (SessionID_String sID) = Some p"
    and "OrderNewFromFIXNewOrderSingle msg sy (TargetCompID sID) = Inr bo"
    and "read_leverage msg = Ret (Inr lev)"
    and "GetTimeInForceFromFIX msg = Inr (tif, expiry)"
    and "answers_submit E (gw_trace w) (full_request bo lev expiry) (Some err)"
  obtains mts w1 where
    "gw_trace w1 = gw_trace w @ [ESubmitOrder (SessionID_String sID) (full_request bo lev expiry)]"
    "OnFIXNewOrderSingle E sy msg sID w = send_built E (refusal E sy sID p bo mts err w1) sID w1"
  using assms(1-4)
proof (rule OnFIXNewOrderSingle_step [where E = E])
  fix mts
  assume h: "OnFIXNewOrderSingle E sy msg sID w = submit_new E sy sID p (full_request bo lev expiry)
       (GetOrEmpty msg tag_OrdType) (GetOrEmpty msg tag_ClOrdID) (GetOrEmpty msg tag_Side) tif w"
    "requestToOrder (full_request bo lev expiry) = Ret (request_order bo mts)"
  let ?w1 = "after_submit sID p bo (full_request bo lev expiry) (GetOrEmpty msg tag_ClOrdID) (GetOrEmpty msg tag_Side)
    (GetOrEmpty msg tag_OrdType) tif mts w"
  show thesis
  proof (rule that [of ?w1 mts])
    show "OnFIXNewOrderSingle E sy msg sID w = send_built E (refusal E sy sID p bo mts err ?w1) sID ?w1"
      unfolding h(1) submit_new_def h(2) using assms(5) [unfolded answers_submit_def, rule_format]
      by (simp add: AddOrder_def Let_def after_submit_def with_new_order_def refusal_def request_order_def full_request_def cached_new_def
          set_cache_def set_peer_def log_call_def)
  qed (simp add: after_submit_def with_new_order_def log_call_def set_cache_def set_peer_def Let_def)
qed

lemma refusal_Ret_iff:
  "(\<exists>er. refusal E sy sID p bo mts err w = Ret er) =
   (supported (BeginString sID) \<and> f64_finite (on_Amount bo) \<and>
    (fst (OrdTypeToFIX (on_Type bo)) \<in> {OrdType_LIMIT, OrdType_STOP_LIMIT} \<longrightarrow> f64_finite (on_Price bo)) \<and>
    (fst (OrdTypeToFIX (on_Type bo)) \<in> {OrdType_STOP, OrdType_STOP_LIMIT} \<longrightarrow> f64_finite (on_PriceAuxLimit bo)) \<and>
    f64_finite (on_PriceTrailing bo))"
  unfolding refusal_def order_report_Ret_iff by (simp add: request_order_def order_zero_def f64_zero_def)

text \<open>The numbers of an order request that its reject would print.\<close>

definition printable :: "OrderNewRequest \<Rightarrow> bool" where
  "printable bo \<longleftrightarrow> f64_finite (on_Amount bo) \<and> f64_finite (on_Price bo) \<and> f64_finite (on_PriceAuxLimit bo) \<and>
     f64_finite (on_PriceTrailing bo)"

text \<open>
  C7: a NewOrderSingle that the exchange refuses. When the websocket client returns an error for the
  converted request and its numbers are finite, the handler sends exactly one message, after the request,
  to the session: an execution report with order status and execution type REJECTED, the client's
  ClOrdID number and the text of the error.
\<close>

theorem new_order_refused:
  assumes "FindPeer w (SessionID_String sID) = Some p"
    and "OrderNewFromFIXNewOrderSingle msg sy (TargetCompID sID) = Inr bo"
    and "read_leverage msg = Ret (Inr lev)"
    and "GetTimeInForceFromFIX msg = Inr (tif, expiry)"
    and "answers_submit E (gw_trace w) (full_request bo lev expiry) (Some err)" "err \<noteq> ''''"
    and "supported (BeginString sID)" "printable bo"
  shows "\<exists>w' r er. OnFIXNewOrderSingle E sy msg sID w = Ret (w', r) \<and>
    gw_trace w' = gw_trace w @ [ESubmitOrder (SessionID_String sID) (full_request bo lev expiry), ESend sID er] \<and>
    body_str er tag_OrdStatus = Some OrdStatus_REJECTED \<and> body_str er tag_ExecType = Some ExecType_REJECTED \<and>
    body_str er tag_ClOrdID = Some (FormatInt (on_CID bo)) \<and> body_str er tag_Text = Some err"
  using assms(1-5)
proof (rule OnFIXNewOrderSingle_refused)
  fix mts w1
  assume w1: "gw_trace w1 = gw_trace w @ [ESubmitOrder (SessionID_String sID) (full_request bo lev expiry)]"
    "OnFIXNewOrderSingle E sy msg sID w = send_built E (refusal E sy sID p bo mts err w1) sID w1"
  obtain er where er: "refusal E sy sID p bo mts err w1 = Ret er"
    using refusal_Ret_iff [of E sy sID p bo mts err w1] assms(7,8) by (auto simp: printable_def)
  note f = order_report_Ret [OF er [unfolded refusal_def]]
  show ?thesis
    unfolding w1(2) er send_built_def
    using w1(1) f(1,2,4) f(6) [OF assms(6)] by (simp add: sendToTarget_def SendToTarget_def request_order_def)
qed

definition refusing_env :: env where
  "refusing_env = calm_env\<lparr>env_SubmitOrder := (\<lambda>w r. Some ''not connected'')\<rparr>"

lemma dec_Float64_one: "f64_finite (dec_Float64 (mk_dec 1 0))"
  using round_frac_finite [of 1 False] by (simp add: dec_Float64_def mk_dec_def)

text \<open>A market order and the same with another quantity.\<close>

definition order_of_qty :: "string \<Rightarrow> FieldMap" where
  "order_of_qty q = SetField tag_OrderQty q market_order"

lemma order_of_qty_reads:
  "GetOrEmpty (order_of_qty q) tag_ClOrdID = ''42''" "GetOrEmpty (order_of_qty q) tag_OrdType = OrdType_MARKET"
  "GetOrEmpty (order_of_qty q) tag_Side = Side_BUY"
  "read_leverage (order_of_qty q) = Ret (Inr 0)"
  "GetTimeInForceFromFIX (order_of_qty q) = Inr (TimeInForce_GOOD_TILL_CANCEL, '''')"
  by (simp_all add: order_of_qty_def market_order_def GetOrEmpty_def GetString_def GetField_def SetField_def Has_def
      read_leverage_def GetTimeInForceFromFIX_def)

lemma order_of_qty_request:
  assumes "NewFromString q = Inr d"
  obtains bo where "OrderNewFromFIXNewOrderSingle (order_of_qty q) PassthroughSymbology cp = Inr bo"
    "on_Amount bo = dec_Float64 d" "on_Price bo = f64_zero" "on_PriceAuxLimit bo = f64_zero"
    "on_PriceTrailing bo = f64_zero" "on_CID bo = 42"
proof -
  have get: "GetString (order_of_qty q) tag_ClOrdID = Inr ''42''" "GetString (order_of_qty q) tag_OrdType = Inr OrdType_MARKET"
    "GetString (order_of_qty q) tag_Side = Inr Side_BUY" "GetString (order_of_qty q) tag_Symbol = Inr ''tBTCUSD''"
    "GetDecimal (order_of_qty q) tag_OrderQty = Inr d" "GetOrEmpty (order_of_qty q) tag_ExecInst = ''''"
    using assms
    by (simp_all add: order_of_qty_def market_order_def GetOrEmpty_def GetString_def GetDecimal_def FIXDecimal_Read_def
        GetField_def SetField_def)
  obtain ty where ty: "OrderNewTypeFromFIX (order_of_qty q) = Inr ty"
    using get(6) by (auto simp: OrderNewTypeFromFIX_def Let_def)
  have "GetPricesFromOrdType (order_of_qty q) = Inr (OrdType_MARKET, f64_zero, f64_zero, f64_zero, f64_zero)"
    by (simp add: GetPricesFromOrdType_def get)
  moreover have "ParseInt ''42'' = Inr 42" by (simp add: evals)
  ultimately show thesis
    by (intro that, simp add: OrderNewFromFIXNewOrderSingle_def get ty case_prod_beta Let_def
        GetAmountFromQtyAndSide_def, simp_all)
qed

lemma read_one: "NewFromString ''1'' = Inr (mk_dec 1 0)"
  using NewFromString_FormatInt [of 1] by (simp add: evals)

theorem new_order_refused_witness:
  "\<exists>w' r er. OnFIXNewOrderSingle refusing_env PassthroughSymbology (order_of_qty ''1'') sample_sID sample_gw = Ret (w', r) \<and>
     sent w' = [(sample_sID, er)] \<and> body_str er tag_OrdStatus = Some OrdStatus_REJECTED \<and>
     body_str er tag_Text = Some ''not connected''"
proof -
  obtain bo where bo: "OrderNewFromFIXNewOrderSingle (order_of_qty ''1'') PassthroughSymbology (TargetCompID sample_sID) = Inr bo"
    "on_Amount bo = dec_Float64 (mk_dec 1 0)" "on_Price bo = f64_zero" "on_PriceAuxLimit bo = f64_zero"
    "on_PriceTrailing bo = f64_zero"
    using order_of_qty_request [OF read_one] by metis
  have env: "answers_submit refusing_env (gw_trace sample_gw) (full_request bo 0 '''') (Some ''not connected'')"
    by (simp add: refusing_env_def answers_submit_def)
  have "printable bo" using bo by (simp add: printable_def dec_Float64_one f64_zero_def)
  moreover have "supported (BeginString sample_sID)" by (simp add: supported_def sample_sID_def)
  ultimately show ?thesis
    using new_order_refused [OF sample_gw_peer bo(1) order_of_qty_reads(4,5) env]
    by (auto simp: sent_def sample_gw_def)
qed

text \<open>
  C34: a quantity that is too large for a float stops the process. When the amount of an order request is
  infinite and the websocket client returns an error for it, the handler panics instead of rejecting
  the order.
\<close>

theorem infinite_quantity_panics:
  assumes "FindPeer w (SessionID_String sID) = Some p"
    and "OrderNewFromFIXNewOrderSingle msg sy (TargetCompID sID) = Inr bo"
    and "read_leverage msg = Ret (Inr lev)"
    and "GetTimeInForceFromFIX msg = Inr (tif, expiry)"
    and "answers_submit E (gw_trace w) (full_request bo lev expiry) (Some err)"
    and "\<not> f64_finite (on_Amount bo)"
  shows "is_panic (OnFIXNewOrderSingle E sy msg sID w)"
  using assms(1-5)
proof (rule OnFIXNewOrderSingle_refused)
  fix mts w1
  assume w1: "OnFIXNewOrderSingle E sy msg sID w = send_built E (refusal E sy sID p bo mts err w1) sID w1"
  have "is_panic (refusal E sy sID p bo mts err w1)"
    using refusal_Ret_iff [of E sy sID p bo mts err w1] assms(6) not_is_panic by blast
  then show ?thesis
    unfolding w1 send_built_def by (cases "refusal E sy sID p bo mts err w1") simp_all
qed

lemma huge_quantity: "NewFromString ''1E400'' = Inr (mk_dec 1 400)" "dec_Float64 (mk_dec 1 400) = Inf False"
proof -
  show "NewFromString ''1E400'' = Inr (mk_dec 1 400)" by code_simp
  have "(2::nat) ^ 1024 \<le> 10 ^ 400" by simp
  then show "dec_Float64 (mk_dec 1 400) = Inf False"
    using round_frac_overflow [of "10 ^ 400" False] by (simp add: dec_Float64_def mk_dec_def)
qed

theorem infinite_quantity_panics_witness:
  "is_panic (OnFIXNewOrderSingle refusing_env PassthroughSymbology (order_of_qty ''1E400'') sample_sID sample_gw)"
proof -
  obtain bo where bo: "OrderNewFromFIXNewOrderSingle (order_of_qty ''1E400'') PassthroughSymbology (TargetCompID sample_sID) = Inr bo"
    "on_Amount bo = Inf False"
    using order_of_qty_request [OF huge_quantity(1)] huge_quantity(2) by metis
  have env: "answers_submit refusing_env (gw_trace sample_gw) (full_request bo 0 '''') (Some ''not connected'')"
    by (simp add: refusing_env_def answers_submit_def)
  show ?thesis using infinite_quantity_panics [OF sample_gw_peer bo(1) order_of_qty_reads(4,5) env] bo(2) by simp
qed

section \<open>Cancel/replace\<close>

lemma replace_target_Inr:
  assumes "replace_target msg c ocid cid = Inr (oid, cidi, oidi, cached)"
  shows "LookupByClOrdID c ocid = Inr cached" "co_OrderID cached = oid" "ParseInt cid = Inr cidi" "ParseInt oid = Inr oidi"
  using assms unfolding replace_target_def Let_def
  by (auto split: if_splits sum.splits)

lemma LookupByClOrdID_Inr: "LookupByClOrdID c k = Inr o' \<longleftrightarrow> orders c k = Some o'"
  by (auto simp: LookupByClOrdID_def split: option.splits)

text \<open>The update request for a cancel/replace request.\<close>

definition update_request ::
  "FieldMap \<Rightarrow> CachedOrder \<Rightarrow> int \<Rightarrow> Decimal \<Rightarrow> float64 \<Rightarrow> float64 \<Rightarrow> float64 \<Rightarrow> int \<Rightarrow> string \<Rightarrow> OrderUpdateRequest" where
  "update_request msg cached oidi qty px aux trail lev expiry =
     (let (hidden, postOnly, _) = GetFlagsFromFIX msg
      in \<lparr>ou_ID = oidi, ou_GID = 0, ou_Price = px, ou_Amount = GetAmountFromQtyAndSide (co_Side cached) qty,
          ou_Leverage = lev, ou_Delta = f64_zero, ou_PriceTrailing = trail, ou_PriceAuxLimit = aux,
          ou_Hidden = hidden, ou_PostOnly = postOnly, ou_TimeInForce = expiry\<rparr>)"

lemma update_request_expiry: "ou_TimeInForce (update_request msg cached oidi qty px aux trail lev expiry) = expiry"
  by (simp add: update_request_def split: prod.splits)

text \<open>The order that a cancel/replace request puts into the cache.\<close>

definition replacement :: "Peer \<Rightarrow> OrderUpdateRequest \<Rightarrow> CachedOrder \<Rightarrow> string \<Rightarrow> string \<Rightarrow> string \<Rightarrow> string \<Rightarrow> int \<Rightarrow> CachedOrder" where
  "replacement p ou cached oid cid t tif mts =
     \<lparr>co_Symbol = co_Symbol cached, co_Account = p_bfxUserID p, co_ClOrdID = cid, co_OrderID = oid,
      co_Px = ou_Price ou, co_Stop = ou_PriceAuxLimit ou, co_Trail = ou_PriceTrailing ou,
      co_Qty = f64_abs (ou_Amount ou), co_Executions = [], co_Side = co_Side cached, co_OrderType = t,
      co_IsMargin = co_IsMargin cached, co_TimeInForce = tif, co_TifExpiration = mts,
      co_Flags = genFlags (ou_Hidden ou) (ou_PostOnly ou)\<rparr>"

lemma replacement_fields [simp]:
  "co_OrderID (replacement p ou cached oid cid t tif mts) = oid"
  "co_Side (replacement p ou cached oid cid t tif mts) = co_Side cached"
  "co_Qty (replacement p ou cached oid cid t tif mts) = f64_abs (ou_Amount ou)"
  by (simp_all add: replacement_def)

lemma submit_update_accepted:
  assumes "genMTSTif (ou_TimeInForce ou) = Ret mts" "env_SubmitUpdateOrder E (gw_trace w) ou = None"
  shows "\<exists>w' p'. submit_update E sy sID p ou cached oid cid cidi t tif ty w = Ret (w', None) \<and>
    gw_trace w' = gw_trace w @ [ESubmitUpdateOrder (SessionID_String sID) ou] \<and>
    FindPeer w' (SessionID_String sID) = Some p' \<and>
    orders (p_cache p') = (orders (p_cache p))(cid \<mapsto> replacement p ou cached oid cid t tif mts)"
proof -
  obtain ord where ord: "updateToOrder ou cidi ty (co_Symbol cached) = Ret ord"
    using assms(1) by (simp add: updateToOrder_def)
  show ?thesis
    unfolding submit_update_def ord assms(1)
    using assms(2)
    by (simp add: AddOrder_def UpdateOrder_def newOrder_def replacement_def Let_def set_cache_def set_peer_def log_call_def FindPeer_def)
qed

text \<open>
  C8: a cancel/replace request that the exchange takes. When it refers to a cached order and its fields can
  be read, the handler sends one update request to the exchange, about the OrderID of the cached order,
  with the new quantity signed by the side of the original order, and nothing to the client. The cache
  then holds the new order under the new ClOrdID with the same OrderID. The original order stays in the
  cache with that OrderID too, so that two orders answer to it.
\<close>

theorem replace_accepted:
  assumes "GetString msg tag_OrigClOrdID = Inr ocid" "GetString msg tag_ClOrdID = Inr cid"
    and "FindPeer w (SessionID_String sID) = Some p"
    and "replace_target msg (p_cache p) ocid cid = Inr (oid, cidi, oidi, cached)"
    and "GetDecimal msg tag_OrderQty = Inr qty" "GetPricesFromOrdType msg = Inr (t, px, aux, trail, oco)"
    and "GetTimeInForceFromFIX msg = Inr (tif, expiry)" "read_leverage msg = Ret (Inr lev)"
    and "OrderNewTypeFromFIX msg = Inr ty"
    and "env_SubmitUpdateOrder E (gw_trace w) (update_request msg cached oidi qty px aux trail lev expiry) = None"
  shows "\<exists>w' p' o1. OnFIXOrderCancelReplaceRequest E sy msg sID w = Ret (w', None) \<and>
    gw_trace w' = gw_trace w @
      [ESubmitUpdateOrder (SessionID_String sID) (update_request msg cached oidi qty px aux trail lev expiry)] \<and>
    FindPeer w' (SessionID_String sID) = Some p' \<and> orders (p_cache p') cid = Some o1 \<and> co_OrderID o1 = oid \<and>
    co_Side o1 = co_Side cached \<and>
    (cid \<noteq> ocid \<longrightarrow> orders (p_cache p') ocid = Some cached \<and> co_OrderID cached = oid)"
proof -
  let ?ou = "update_request msg cached oidi qty px aux trail lev expiry"
  note target = replace_target_Inr [OF assms(4)]
  obtain mts where mts: "genMTSTif (ou_TimeInForce ?ou) = Ret mts"
    using expiry_mts [OF assms(7)] by (auto simp: update_request_expiry)
  have "OnFIXOrderCancelReplaceRequest E sy msg sID w = submit_update E sy sID p ?ou cached oid cid cidi t tif ty w"
    by (simp add: OnFIXOrderCancelReplaceRequest_def assms(1-9) update_request_def case_prod_beta Let_def)
  with submit_update_accepted [OF mts assms(10), of sy sID p cached oid cid cidi t tif ty] target(1,2)
  show ?thesis by (auto simp: LookupByClOrdID_Inr)
qed

text \<open>An order that the exchange has acknowledged, and a request to replace it.\<close>

definition acked_order :: CachedOrder where
  "acked_order = (newOrder ''42'' f64_zero f64_zero f64_zero f64_one ''tBTCUSD'' ''u1'' Side_SELL OrdType_MARKET
     False TimeInForce_GOOD_TILL_CANCEL 0 0)\<lparr>co_OrderID := ''7''\<rparr>"

definition acked_peer :: Peer where
  "acked_peer = (Peer_New sample_sID)\<lparr>p_started := True, p_cache := newCache\<lparr>orders := [''42'' \<mapsto> acked_order]\<rparr>\<rparr>"

definition acked_gw :: gw where
  "acked_gw = set_peer (SessionID_String sample_sID) acked_peer sample_gw"

definition replace_msg :: FieldMap where
  "replace_msg = SetField tag_OrigClOrdID ''42'' (SetField tag_ClOrdID ''43'' (order_of_qty ''1''))"

lemma acked_gw_peer: "FindPeer acked_gw (SessionID_String sample_sID) = Some acked_peer"
  by (simp add: acked_gw_def set_peer_def FindPeer_def)

lemma acked_peer_orders: "orders (p_cache acked_peer) = [''42'' \<mapsto> acked_order]" "co_OrderID acked_order = ''7''"
  by (simp_all add: acked_peer_def acked_order_def)

lemma replace_msg_get:
  "GetString replace_msg tag_OrigClOrdID = Inr ''42''" "GetString replace_msg tag_ClOrdID = Inr ''43''"
  "GetDecimal replace_msg tag_OrderQty = Inr (mk_dec 1 0)" "\<not> Has replace_msg tag_OrderID"
  "GetPricesFromOrdType replace_msg = Inr (OrdType_MARKET, f64_zero, f64_zero, f64_zero, f64_zero)"
  "GetTimeInForceFromFIX replace_msg = Inr (TimeInForce_GOOD_TILL_CANCEL, '''')"
  "read_leverage replace_msg = Ret (Inr 0)"
  using read_one
  by (simp_all add: replace_msg_def order_of_qty_def market_order_def GetOrEmpty_def GetString_def GetDecimal_def
      FIXDecimal_Read_def GetField_def SetField_def Has_def GetPricesFromOrdType_def GetTimeInForceFromFIX_def read_leverage_def)

lemma replace_msg_target:
  "replace_target replace_msg (p_cache acked_peer) ''42'' ''43'' = Inr (''7'', 43, 7, acked_order)"
proof -
  have "LookupByClOrdID (p_cache acked_peer) ''42'' = Inr acked_order"
    by (simp add: LookupByClOrdID_Inr acked_peer_orders)
  moreover have "ParseInt ''42'' = Inr 42" "ParseInt ''43'' = Inr 43" "ParseInt ''7'' = Inr 7" by (simp_all add: evals)
  ultimately show ?thesis by (simp add: replace_target_def replace_msg_get acked_peer_orders)
qed

theorem replace_accepted_witness:
  "\<exists>w' p' o1. OnFIXOrderCancelReplaceRequest calm_env PassthroughSymbology replace_msg sample_sID acked_gw = Ret (w', None) \<and>
    FindPeer w' (SessionID_String sample_sID) = Some p' \<and> orders (p_cache p') ''43'' = Some o1 \<and>
    co_OrderID o1 = ''7'' \<and> orders (p_cache p') ''42'' = Some acked_order \<and> co_OrderID acked_order = ''7''"
proof -
  obtain ty where ty: "OrderNewTypeFromFIX replace_msg = Inr ty"
    by (auto simp: OrderNewTypeFromFIX_def Let_def replace_msg_def order_of_qty_def market_order_def GetString_def
        GetField_def SetField_def GetOrEmpty_def)
  have "env_SubmitUpdateOrder calm_env (gw_trace acked_gw)
      (update_request replace_msg acked_order 7 (mk_dec 1 0) f64_zero f64_zero f64_zero 0 '''') = None"
    by (simp add: calm_env_def)
  note facts = replace_msg_get(1,2) acked_gw_peer replace_msg_target replace_msg_get(3,5,6,7) ty this
  have "''43'' \<noteq> ''42''" by simp
  then show ?thesis using replace_accepted [OF facts] by blast
qed

section \<open>Cancel\<close>

text \<open>What a cancel request asks the exchange to cancel: the order with the OrderID of the request when it
  has one, else the order with the number of its OrigClOrdID on the day of its TransactTime. The
  OrderID comes along for a reject. \<open>Inl\<close> stands for a request that names no number.\<close>

definition cancel_target :: "FieldMap \<Rightarrow> cache \<Rightarrow> string \<Rightarrow> time \<Rightarrow> string + (string \<times> OrderCancelRequest)" where
  "cancel_target msg c ocid txnT =
     (if Has msg tag_OrderID then
        (case ParseInt (GetOrEmpty msg tag_OrderID) of
           Inl _ \<Rightarrow> Inl (GetOrEmpty msg tag_OrderID)
         | Inr i \<Rightarrow> Inr (GetOrEmpty msg tag_OrderID, \<lparr>oc_ID = i, oc_CID = 0, oc_CIDDate = ''''\<rparr>))
      else
        (case ParseInt ocid of
           Inl _ \<Rightarrow> Inl ''''
         | Inr i \<Rightarrow> Inr (case orders c ocid of Some o' \<Rightarrow> co_OrderID o' | None \<Rightarrow> '''',
                       \<lparr>oc_ID = 0, oc_CID = i, oc_CIDDate = FormatDate txnT\<rparr>)))"

lemma OnFIXOrderCancelRequest_target:
  assumes "GetString msg tag_OrigClOrdID = Inr ocid" "GetString msg tag_ClOrdID = Inr cid"
    and "GetTime msg tag_TransactTime = Inr txnT" "FindPeer w (SessionID_String sID) = Some p"
  shows "OnFIXOrderCancelRequest E msg sID w =
    (case cancel_target msg (p_cache p) ocid txnT of
       Inl oid \<Rightarrow> not_found_reject E sID p oid ocid cid False w
     | Inr (oid, oc) \<Rightarrow>
         (let w' = log_call (EWsSendCancel (SessionID_String sID) oc) w
          in case env_WsSendCancel E (gw_trace w) oc of
               None \<Rightarrow> Ret (w', None)
             | Some err \<Rightarrow> send_built E (FIXOrderCancelReject (BeginString sID) (p_bfxUserID p) oid ocid cid err False) sID w'))"
  unfolding OnFIXOrderCancelRequest_def cancel_target_def Let_def
  by (simp add: assms LookupByClOrdID_def split: option.splits sum.splits)

text \<open>
  C9: a cancel request is passed on or refused, and never both. When the identifiers of the request can be
  read, the peers stay as they are, and in particular the cache keeps no trace of the cancel. A request that names
  no number sends the client one cancel reject and nothing to the exchange. Any other sends the exchange
  exactly one cancel, and then the client one cancel reject when the websocket client returned an error and nothing
  when it did not.
\<close>

theorem cancel_request_effect:
  assumes "GetString msg tag_OrigClOrdID = Inr ocid" "GetString msg tag_ClOrdID = Inr cid"
    and "GetTime msg tag_TransactTime = Inr txnT" "FindPeer w (SessionID_String sID) = Some p"
    and "supported (BeginString sID)"
  shows "\<exists>w' r tail. OnFIXOrderCancelRequest E msg sID w = Ret (w', r) \<and> gw_peers w' = gw_peers w \<and>
    gw_trace w' = gw_trace w @ tail \<and>
    (case cancel_target msg (p_cache p) ocid txnT of
       Inl oid \<Rightarrow> \<exists>rej. tail = [ESend sID rej] \<and> FIXOrderCancelReject (BeginString sID) (p_bfxUserID p) oid ocid cid OrderNotFoundText False = Ret rej
     | Inr (oid, oc) \<Rightarrow>
         (case env_WsSendCancel E (gw_trace w) oc of
            None \<Rightarrow> r = None \<and> tail = [EWsSendCancel (SessionID_String sID) oc]
          | Some err \<Rightarrow> \<exists>rej. tail = [EWsSendCancel (SessionID_String sID) oc, ESend sID rej] \<and>
              FIXOrderCancelReject (BeginString sID) (p_bfxUserID p) oid ocid cid err False = Ret rej))"
proof -
  obtain rej where rej [simp]: "FIXOrderCancelReject (BeginString sID) a oid ocid cid e False = Ret (rej a oid e)" for a oid e
    using assms(5) by (simp add: FIXOrderCancelReject_def version_msg_cases Let_def)
  show ?thesis
    unfolding OnFIXOrderCancelRequest_target [OF assms(1-4)]
    by (auto simp: not_found_reject_def send_built_def sendToTarget_def SendToTarget_def log_call_def Let_def
        split: sum.split) (auto simp: send_built_def sendToTarget_def SendToTarget_def split: option.split)
qed

definition cancel_msg :: FieldMap where
  "cancel_msg = SetField tag_TransactTime ''20240102-03:04:05'' replace_msg"

theorem cancel_request_effect_witness:
  "\<exists>w'. OnFIXOrderCancelRequest calm_env cancel_msg sample_sID acked_gw = Ret (w', None) \<and> gw_peers w' = gw_peers acked_gw \<and>
     gw_trace w' = [EWsSendCancel (SessionID_String sample_sID) \<lparr>oc_ID = 0, oc_CID = 42, oc_CIDDate = ''2024-01-02''\<rparr>]"
proof -
  have get: "GetString cancel_msg tag_OrigClOrdID = Inr ''42''" "GetString cancel_msg tag_ClOrdID = Inr ''43''"
    "GetString cancel_msg tag_TransactTime = Inr ''20240102-03:04:05''" "\<not> Has cancel_msg tag_OrderID"
    by (simp_all add: cancel_msg_def replace_msg_def order_of_qty_def market_order_def GetString_def GetField_def SetField_def Has_def)
  obtain t where t: "GetTime cancel_msg tag_TransactTime = Inr t" "FormatDate t = ''2024-01-02''"
  proof -
    have "map_option (\<lambda>x. FormatDate (fst x)) (FIXUTCTimestamp_Read ''20240102-03:04:05'') = Some ''2024-01-02''"
      by code_simp
    then show thesis using get(3) by (auto simp: GetTime_def GetString_def GetField_def split: option.splits if_splits intro: that)
  qed
  have "ParseInt ''42'' = Inr 42" by (simp add: evals)
  then have "cancel_target cancel_msg (p_cache acked_peer) ''42'' t = Inr (''7'', \<lparr>oc_ID = 0, oc_CID = 42, oc_CIDDate = ''2024-01-02''\<rparr>)"
    by (simp add: cancel_target_def get(4) t(2) acked_peer_orders)
  moreover have "supported (BeginString sample_sID)" by (simp add: supported_def sample_sID_def)
  ultimately show ?thesis
    using cancel_request_effect [OF get(1,2) t(1) acked_gw_peer, of calm_env]
    by (auto simp: calm_env_def acked_gw_def sample_gw_def set_peer_def)
qed

end
