(* ===== verification/Fix_App.thy ===== *)
theory Fix_App
  imports Fix_Handlers
begin

text \<open>
  The FIX application of a service (\<^verbatim>\<open>service/fix/fix.go\<close>): logon and logout, and the routing of
  application messages to the handlers, with the message router of
  \<^verbatim>\<open>vendor/github.com/quickfixgo/quickfix/message_router.go\<close>.

  The theorems show which messages reach which handler, that an order message never reaches the market
  data service and a market data message never the order routing service, and what a logon does.
\<close>

section \<open>Routes\<close>

datatype route = RNewOrderSingle | ROrderCancelReplaceRequest | ROrderCancelRequest | ROrderStatusRequest
  | RMarketDataRequest

type_synonym routes = "(string \<times> string) \<rightharpoonup> route"

definition AddRoute :: "string \<Rightarrow> string \<Rightarrow> route \<Rightarrow> routes \<Rightarrow> routes" where
  "AddRoute beginString msgType r rs = rs((beginString, msgType) \<mapsto> r)"

text \<open>The four routes of one version of the protocol; the generated packages of FIX 5.0 register under
  the application version \<^verbatim>\<open>7\<close>.\<close>

definition order_routes :: "string \<Rightarrow> routes \<Rightarrow> routes" where
  "order_routes v rs =
     AddRoute v ''H'' ROrderStatusRequest (AddRoute v ''F'' ROrderCancelRequest
       (AddRoute v ''G'' ROrderCancelReplaceRequest (AddRoute v ''D'' RNewOrderSingle rs)))"

definition FIX_routes :: "ServiceType \<Rightarrow> routes" where
  "FIX_routes serviceType =
     (if serviceType = OrderRoutingService
      then order_routes ''7'' (order_routes ''FIX.4.4'' (order_routes ''FIX.4.2'' Map.empty))
      else AddRoute ''7'' ''V'' RMarketDataRequest (AddRoute ''FIX.4.4'' ''V'' RMarketDataRequest
             (AddRoute ''FIX.4.2'' ''V'' RMarketDataRequest Map.empty)))"

definition run_route :: "route \<Rightarrow> env \<Rightarrow> symbology \<Rightarrow> Message \<Rightarrow> SessionID \<Rightarrow> gw \<Rightarrow> hres" where
  "run_route r E sy msg sID w =
     (case r of
        RNewOrderSingle \<Rightarrow> OnFIXNewOrderSingle E sy (m_Body msg) sID w
      | ROrderCancelReplaceRequest \<Rightarrow> OnFIXOrderCancelReplaceRequest E sy (m_Body msg) sID w
      | ROrderCancelRequest \<Rightarrow> OnFIXOrderCancelRequest E (m_Body msg) sID w
      | ROrderStatusRequest \<Rightarrow> OnFIXOrderStatusRequest E sy (m_Body msg) sID w
      | RMarketDataRequest \<Rightarrow> OnFIXMarketDataRequest E sy (m_Body msg) sID w)"

section \<open>The router\<close>

definition isAdminMessageType :: "string \<Rightarrow> bool" where
  "isAdminMessageType m \<longleftrightarrow> m \<in> {''0'', ''A'', ''1'', ''2'', ''3'', ''4'', ''5''}"

text \<open>The version under which a message is looked up.\<close>

definition fix_version :: "env \<Rightarrow> string \<Rightarrow> string \<Rightarrow> Message \<Rightarrow> SessionID \<Rightarrow> string" where
  "fix_version E beginString msgType msg sID =
     (if beginString = BeginStringFIXT11 \<and> \<not> isAdminMessageType msgType then
        (let applVerID = (case GetString (m_Header msg) 1128 of Inr v \<Rightarrow> v | Inl _ \<Rightarrow> env_applver E sID)
         in if applVerID = ''2'' then ''FIX.4.0''
            else if applVerID = ''3'' then ''FIX.4.1''
            else if applVerID = ''4'' then ''FIX.4.2''
            else if applVerID = ''5'' then ''FIX.4.3''
            else if applVerID = ''6'' then ''FIX.4.4''
            else applVerID)
      else beginString)"

definition tryRoute ::
  "routes \<Rightarrow> env \<Rightarrow> symbology \<Rightarrow> string \<Rightarrow> string \<Rightarrow> Message \<Rightarrow> SessionID \<Rightarrow> gw \<Rightarrow> hres" where
  "tryRoute rs E sy beginString msgType msg sID w =
     (case rs (fix_version E beginString msgType msg sID, msgType) of
        Some r \<Rightarrow> run_route r E sy msg sID w
      | None \<Rightarrow> if isAdminMessageType msgType \<or> msgType = ''j'' then Ret (w, None)
                else Ret (w, Some UnsupportedMessageType))"

definition Route :: "routes \<Rightarrow> env \<Rightarrow> symbology \<Rightarrow> Message \<Rightarrow> SessionID \<Rightarrow> gw \<Rightarrow> hres" where
  "Route rs E sy msg sID w =
     (case GetBytes (m_Header msg) 8 of
        Inl _ \<Rightarrow> Ret (w, None)
      | Inr beginString \<Rightarrow>
          (case GetBytes (m_Header msg) 35 of
             Inl e \<Rightarrow> Ret (w, Some e)
           | Inr msgType \<Rightarrow> tryRoute rs E sy beginString msgType msg sID w))"

section \<open>Callbacks\<close>

definition FromApp :: "ServiceType \<Rightarrow> env \<Rightarrow> symbology \<Rightarrow> Message \<Rightarrow> SessionID \<Rightarrow> gw \<Rightarrow> hres" where
  "FromApp serviceType E sy msg sID w =
     (let w = w\<lparr>gw_lastMsgType := GetOrEmpty (m_Header msg) 35\<rparr>
      in Route (FIX_routes serviceType) E sy msg sID w)"

definition LastMsgType :: "gw \<Rightarrow> string" where
  "LastMsgType w = gw_lastMsgType w"

definition OnLogout :: "SessionID \<Rightarrow> gw \<Rightarrow> gw go" where
  "OnLogout sID w = go_bind (RemovePeer (SessionID_String sID) w) (\<lambda>(w, _). Ret w)"

abbreviation (input) "tagBfxAPIKey \<equiv> 20000"
abbreviation (input) "tagBfxAPISecret \<equiv> 20001"
abbreviation (input) "tagBfxUserID \<equiv> 20002"
abbreviation (input) "tagCancelOnDisconnect \<equiv> 8013"

text \<open>A credential of the logon: an empty one ends the callback without an error.\<close>

definition logon_field :: "FieldMap \<Rightarrow> tag \<Rightarrow> MessageRejectError option + string" where
  "logon_field b t =
     (case GetString b t of Inl e \<Rightarrow> Inl (Some e) | Inr v \<Rightarrow> if v = '''' then Inl None else Inr v)"

definition FromAdmin :: "env \<Rightarrow> Message \<Rightarrow> SessionID \<Rightarrow> gw \<Rightarrow> gw \<times> MessageRejectError option" where
  "FromAdmin E msg sID w =
     (if IsMsgTypeOf msg ''A'' then
        (let w = AddPeer sID w; pid = SessionID_String sID; b = m_Body msg
         in case sbind (logon_field b tagBfxAPIKey) (\<lambda>apiKey.
                 sbind (logon_field b tagBfxAPISecret) (\<lambda>apiSecret.
                 sbind (logon_field b tagBfxUserID) (\<lambda>bfxUserID. Inr (apiKey, apiSecret, bfxUserID)))) of
              Inl e \<Rightarrow> (w, e)
            | Inr (apiKey, apiSecret, bfxUserID) \<Rightarrow>
                (case FindPeer w pid of
                   None \<Rightarrow> (w, None)
                 | Some p \<Rightarrow>
                     (let cod = (GetBool b tagCancelOnDisconnect = Inr True)
                      in case Logon E pid apiKey apiSecret bfxUserID cod p w of
                           (w, None) \<Rightarrow> (w, None)
                         | (w, Some err) \<Rightarrow>
                             (case logout E err sID w of
                                (w, None) \<Rightarrow> (w, None)
                              | (w, Some e) \<Rightarrow> (w, Some (reject e))))))
      else (w, None))"

text \<open>The goroutine that \<open>FromAdmin\<close> starts, when the peer reports the end of its websocket.\<close>

definition report_disconnect :: "env \<Rightarrow> SessionID \<Rightarrow> gw \<Rightarrow> gw go" where
  "report_disconnect E sID w =
     (case FindPeer w (SessionID_String sID) of
        None \<Rightarrow> Ret w
      | Some _ \<Rightarrow> (case logout E ''downstream disconnect'' sID w of
                    (w, None) \<Rightarrow> Ret w | (w, Some e) \<Rightarrow> Panic e))"

section \<open>Routing\<close>

definition routed_versions :: "string set" where
  "routed_versions = {''FIX.4.2'', ''FIX.4.4'', ''7''}"

text \<open>The routes of a service as a table.\<close>

definition route_table :: "ServiceType \<Rightarrow> string \<Rightarrow> route option" where
  "route_table st t =
     (case st of
        OrderRoutingService \<Rightarrow>
          [''D'' \<mapsto> RNewOrderSingle, ''G'' \<mapsto> ROrderCancelReplaceRequest, ''F'' \<mapsto> ROrderCancelRequest, ''H'' \<mapsto> ROrderStatusRequest] t
      | MarketDataService \<Rightarrow> [''V'' \<mapsto> RMarketDataRequest] t)"

lemma FIX_routes_table: "FIX_routes st (v, t) = (if v \<in> routed_versions then route_table st t else None)"
  by (cases st) (auto simp: FIX_routes_def order_routes_def AddRoute_def routed_versions_def route_table_def)

lemma route_version:
  "\<not> isAdminMessageType t \<Longrightarrow> fix_version E beginString t msg sID \<in> routed_versions \<longleftrightarrow>
     beginString \<in> {''FIX.4.2'', ''FIX.4.4'', ''7''} \<or>
     beginString = ''FIXT.1.1'' \<and> (case GetString (m_Header msg) 1128 of Inr v \<Rightarrow> v | Inl _ \<Rightarrow> env_applver E sID) \<in> {''4'', ''6'', ''7'', ''FIX.4.2'', ''FIX.4.4''}"
  by (auto simp: fix_version_def Let_def routed_versions_def BeginStringFIXT11_def)

lemma FromApp_route:
  assumes "GetBytes (m_Header msg) 8 = Inr beginString" "GetBytes (m_Header msg) 35 = Inr t"
  shows "FromApp st E sy msg sID w =
    (let w1 = w\<lparr>gw_lastMsgType := t\<rparr>
     in case (if fix_version E beginString t msg sID \<in> routed_versions then route_table st t else None) of
          Some r \<Rightarrow> run_route r E sy msg sID w1
        | None \<Rightarrow> Ret (w1, if isAdminMessageType t \<or> t = ''j'' then None else Some UnsupportedMessageType))"
proof -
  have "GetOrEmpty (m_Header msg) 35 = t"
    using assms(2) by (auto simp: GetOrEmpty_def GetString_def GetField_def GetBytes_def split: option.splits)
  then show ?thesis
    unfolding FromApp_def Route_def tryRoute_def Let_def assms
    by (simp add: FIX_routes_table split: option.split)
qed

text \<open>
  C11: an application message reaches the handler of its type, and only in the service for it. For a message
  whose version and type can be read, in a version that the gateway speaks: FIX 4.2, FIX 4.4, or FIXT 1.1 with the application version of one of these or of
  FIX 5.0, in the message or else as the session negotiated it. The order routing service hands the types D, G, F and H to the handlers of new orders,
  cancel/replace, cancel and status requests, and the
  market data service hands V to the handler of market data requests. Everything else changes nothing but the
  last message type: administrative messages and business rejects are dropped, other messages are
  answered with an unsupported message type reject.
\<close>

theorem routing_by_service:
  assumes "GetBytes (m_Header msg) 8 = Inr beginString" "GetBytes (m_Header msg) 35 = Inr t"
  shows "FromApp st E sy msg sID w =
    (let w1 = w\<lparr>gw_lastMsgType := t\<rparr>; b = m_Body msg;
         appl = (case GetString (m_Header msg) 1128 of Inr v \<Rightarrow> v | Inl _ \<Rightarrow> env_applver E sID);
         spoken = (beginString \<in> {''FIX.4.2'', ''FIX.4.4'', ''7''} \<or>
                   beginString = ''FIXT.1.1'' \<and> appl \<in> {''4'', ''6'', ''7'', ''FIX.4.2'', ''FIX.4.4''});
         orders = (spoken \<and> st = OrderRoutingService); data = (spoken \<and> st = MarketDataService)
     in if orders \<and> t = ''D'' then OnFIXNewOrderSingle E sy b sID w1
        else if orders \<and> t = ''G'' then OnFIXOrderCancelReplaceRequest E sy b sID w1
        else if orders \<and> t = ''F'' then OnFIXOrderCancelRequest E b sID w1
        else if orders \<and> t = ''H'' then OnFIXOrderStatusRequest E sy b sID w1
        else if data \<and> t = ''V'' then OnFIXMarketDataRequest E sy b sID w1
        else Ret (w1, if t \<in> {''0'', ''A'', ''1'', ''2'', ''3'', ''4'', ''5'', ''j''} then None else Some UnsupportedMessageType))"
proof (cases "t \<in> {''D'', ''G'', ''F'', ''H'', ''V''}")
  case True
  then have adm: "\<not> isAdminMessageType t" by (auto simp: isAdminMessageType_def)
  define spoken where "spoken = (fix_version E beginString t msg sID \<in> routed_versions)"
  show ?thesis
    unfolding FromApp_route [OF assms] Let_def route_version [OF adm, symmetric] spoken_def [symmetric]
    using True by (elim insertE emptyE; cases st; cases spoken; simp add: route_table_def run_route_def isAdminMessageType_def)
next
  case False
  then have "route_table st t = None" by (cases st) (auto simp: route_table_def)
  then show ?thesis
    using False unfolding FromApp_route [OF assms] Let_def by (simp add: isAdminMessageType_def)
qed

theorem routing_by_service_witness:
  "FromApp OrderRoutingService calm_env PassthroughSymbology (new_msg BeginStringFIX44 ''F'') sample_sID sample_gw =
     OnFIXOrderCancelRequest calm_env Map.empty sample_sID (sample_gw\<lparr>gw_lastMsgType := ''F''\<rparr>) \<and>
   FromApp MarketDataService calm_env PassthroughSymbology (new_msg BeginStringFIX44 ''F'') sample_sID sample_gw =
     Ret (sample_gw\<lparr>gw_lastMsgType := ''F''\<rparr>, Some UnsupportedMessageType)"
proof -
  have "GetBytes (m_Header (new_msg BeginStringFIX44 ''F'')) 8 = Inr BeginStringFIX44"
    "GetBytes (m_Header (new_msg BeginStringFIX44 ''F'')) 35 = Inr ''F''" "m_Body (new_msg BeginStringFIX44 ''F'') = Map.empty"
    by (simp_all add: new_msg_def GetBytes_def SetField_def)
  then show ?thesis
    using routing_by_service [of "new_msg BeginStringFIX44 ''F''" BeginStringFIX44 "''F''"] by (simp add: Let_def BeginStringFIX44_def)
qed

section \<open>Logon\<close>

lemma logon_field_Inr: "logon_field b t = Inr v \<longleftrightarrow> GetString b t = Inr v \<and> v \<noteq> ''''"
  by (auto simp: logon_field_def split: sum.splits)

lemma logout_supported:
  assumes "supported (BeginString sID)"
  shows "logout E text sID w = SendToTarget E (msg_set tag_Text text (new_msg (BeginString sID) ''5'')) sID w"
  using assms by (simp add: logout_def version_msg_cases)

lemma logon_effect:
  assumes "IsMsgTypeOf msg ''A''" "supported (BeginString sID)"
    and "GetString (m_Body msg) tagBfxAPIKey = Inr key" "key \<noteq> ''''"
    and "GetString (m_Body msg) tagBfxAPISecret = Inr sec" "sec \<noteq> ''''"
    and "GetString (m_Body msg) tagBfxUserID = Inr uid" "uid \<noteq> ''''"
  shows "let pid = SessionID_String sID;
      tr = gw_trace w @ [ECredentials pid key sec (GetBool (m_Body msg) tagCancelOnDisconnect = Inr True)];
      w' = fst (FromAdmin E msg sID w)
    in FindPeer w' pid = Some ((Peer_New sID)\<lparr>p_bfxUserID := uid, p_started := (env_Connect E tr = None)\<rparr>) \<and>
       (case env_Connect E tr of
          None \<Rightarrow> snd (FromAdmin E msg sID w) = None \<and> gw_trace w' = tr @ [EConnect pid]
        | Some err \<Rightarrow> \<exists>m. gw_trace w' = tr @ [EConnect pid, ESend sID m] \<and> MsgType m = Inr ''5'' \<and> body_str m tag_Text = Some err)"
proof -
  have m: "MsgType (msg_set tag_Text e (new_msg (BeginString sID) ''5'')) = Inr ''5''" for e
    by (simp add: MsgType_def msg_set_def new_msg_def GetString_def GetField_def SetField_def)
  have creds: "logon_field (m_Body msg) tagBfxAPIKey = Inr key" "logon_field (m_Body msg) tagBfxAPISecret = Inr sec"
    "logon_field (m_Body msg) tagBfxUserID = Inr uid"
    using assms by (simp_all add: logon_field_Inr)
  have find: "FindPeer (AddPeer sID w) (SessionID_String sID) = Some (Peer_New sID)" "gw_trace (AddPeer sID w) = gw_trace w"
    by (simp_all add: AddPeer_def FindPeer_def)
  show ?thesis
    unfolding Let_def FromAdmin_def creds sbind.simps find sum.case prod.case option.case
    using assms(1) find(2)
    by (auto simp: Logon_def Let_def logout_supported [OF assms(2)] SendToTarget_def set_peer_def FindPeer_def m body_str_set Peer_New_def
        split: option.split)
qed

text \<open>
  C12: a logon with credentials. A new peer takes the place of whatever peer the session had, gets the
  user's ID, and the credentials go to its clients before it connects. When the connection fails, the
  peer is not started, and a logout message with the text of the error is sent to the session.
\<close>

theorem logon_connects:
  assumes "IsMsgTypeOf msg ''A''" "supported (BeginString sID)"
    and "GetString (m_Body msg) tagBfxAPIKey = Inr key" "key \<noteq> ''''"
    and "GetString (m_Body msg) tagBfxAPISecret = Inr sec" "sec \<noteq> ''''"
    and "GetString (m_Body msg) tagBfxUserID = Inr uid" "uid \<noteq> ''''"
  shows "let pid = SessionID_String sID;
      tr = gw_trace w @ [ECredentials pid key sec (GetBool (m_Body msg) tagCancelOnDisconnect = Inr True)];
      w' = fst (FromAdmin E msg sID w)
    in FindPeer w' pid = Some ((Peer_New sID)\<lparr>p_bfxUserID := uid, p_started := (env_Connect E tr = None)\<rparr>) \<and>
       (case env_Connect E tr of
          None \<Rightarrow> snd (FromAdmin E msg sID w) = None \<and> gw_trace w' = tr @ [EConnect pid]
        | Some err \<Rightarrow> \<exists>m. gw_trace w' = tr @ [EConnect pid, ESend sID m] \<and> MsgType m = Inr ''5'' \<and> body_str m tag_Text = Some err)"
  by (rule logon_effect [OF assms])

definition logon_msg :: Message where
  "logon_msg = msg_set tagBfxUserID ''u1'' (msg_set tagBfxAPISecret ''s'' (msg_set tagBfxAPIKey ''k'' (new_msg BeginStringFIX42 ''A'')))"

lemma logon_msg_fields:
  "IsMsgTypeOf logon_msg ''A''" "GetString (m_Body logon_msg) tagBfxAPIKey = Inr ''k''"
  "GetString (m_Body logon_msg) tagBfxAPISecret = Inr ''s''" "GetString (m_Body logon_msg) tagBfxUserID = Inr ''u1''"
  by (simp_all add: logon_msg_def IsMsgTypeOf_def MsgType_def msg_set_def new_msg_def GetString_def GetField_def SetField_def)

lemma sample_supported: "supported (BeginString sample_sID)"
  by (simp add: supported_def sample_sID_def)

definition unreachable_env :: env where
  "unreachable_env = calm_env\<lparr>env_Connect := (\<lambda>tr. Some ''connection refused'')\<rparr>"

theorem logon_connects_witness:
  "\<exists>m. gw_trace (fst (FromAdmin unreachable_env logon_msg sample_sID sample_gw)) =
     [ECredentials (SessionID_String sample_sID) ''k'' ''s'' False, EConnect (SessionID_String sample_sID), ESend sample_sID m] \<and>
     body_str m tag_Text = Some ''connection refused''"
proof -
  have "GetBool (m_Body logon_msg) tagCancelOnDisconnect \<noteq> Inr True"
    by (simp add: logon_msg_def msg_set_def new_msg_def GetBool_def GetField_def SetField_def)
  then show ?thesis
    using logon_connects [OF logon_msg_fields(1) sample_supported logon_msg_fields(2) _ logon_msg_fields(3) _ logon_msg_fields(4),
        of sample_gw unreachable_env]
    by (auto simp: Let_def unreachable_env_def sample_gw_def)
qed

text \<open>
  A logon with an empty credential is not refused. When the API key is present and empty, the callback returns no
  error, so that the FIX engine completes the logon, but no client was called. The peer that the session
  had before is dropped from the map while it is not closed.
\<close>

theorem logon_without_credential:
  assumes "IsMsgTypeOf msg ''A''" "GetString (m_Body msg) tagBfxAPIKey = Inr ''''"
  shows "\<exists>w'. FromAdmin E msg sID w = (w', None) \<and> gw_trace w' = gw_trace w \<and>
    FindPeer w' (SessionID_String sID) = Some (Peer_New sID) \<and> \<not> p_started (Peer_New sID)"
  using assms by (simp add: FromAdmin_def logon_field_def AddPeer_def FindPeer_def Let_def Peer_New_def)

theorem logon_without_credential_witness:
  "\<exists>w' p. FromAdmin calm_env (msg_set tagBfxAPIKey '''' logon_msg) sample_sID sample_gw = (w', None) \<and>
     FindPeer sample_gw (SessionID_String sample_sID) = Some p \<and> p_started p \<and> gw_trace w' = []"
proof -
  have "IsMsgTypeOf (msg_set tagBfxAPIKey '''' logon_msg) ''A''"
    "GetString (m_Body (msg_set tagBfxAPIKey '''' logon_msg)) tagBfxAPIKey = Inr ''''"
    by (simp_all add: logon_msg_def IsMsgTypeOf_def MsgType_def msg_set_def new_msg_def GetString_def GetField_def SetField_def)
  from logon_without_credential [OF this, of calm_env sample_sID sample_gw]
  show ?thesis using sample_gw_peer by (auto simp: sample_gw_def)
qed

end
