(* ===== verification/Ws_Handlers.thy ===== *)
theory Ws_Handlers
  imports Gw_World
begin

text \<open>
  The handlers for what arrives from the exchange (\<^verbatim>\<open>service/websocket/fix_msg.go\<close>). Each returns the new
  state and the error that the service logs (\<open>None\<close> for nil), or panics. A handler for a session that
  has no peer does nothing.
\<close>

type_synonym wres = "(gw \<times> string option) go"

definition ws_send :: "env \<Rightarrow> Message go \<Rightarrow> SessionID \<Rightarrow> gw \<Rightarrow> wres" where
  "ws_send E gm sID w = go_bind gm (\<lambda>m. Ret (SendToTarget E m sID w))"

definition ws_send_option :: "env \<Rightarrow> Message option go \<Rightarrow> SessionID \<Rightarrow> gw \<Rightarrow> wres" where
  "ws_send_option E gm sID w =
     go_bind gm (\<lambda>om. case om of
       None \<Rightarrow> Panic ''runtime error: invalid memory address or nil pointer dereference''
     | Some m \<Rightarrow> Ret (SendToTarget E m sID w))"

definition with_peer :: "SessionID \<Rightarrow> gw \<Rightarrow> (Peer \<Rightarrow> wres) \<Rightarrow> wres" where
  "with_peer sID w f =
     (case FindPeer w (SessionID_String sID) of None \<Rightarrow> Ret (w, None) | Some p \<Rightarrow> f p)"

definition FIXHandleAuth :: "env \<Rightarrow> AuthEvent \<Rightarrow> SessionID \<Rightarrow> gw \<Rightarrow> wres" where
  "FIXHandleAuth E auth sID w =
     (if ae_Status auth = ''FAILED'' then
        (case version_msg (BeginString sID) ''5'' of
           Panic _ \<Rightarrow> Ret (w, Some UnsupportedBeginStringText)
         | Ret m \<Rightarrow> Ret (SendToTarget E (msg_set tag_Text (ae_Message auth) m) sID w))
      else Ret (w, None))"

section \<open>Market data\<close>

definition FIXTradeHandler :: "env \<Rightarrow> symbology \<Rightarrow> Trade \<Rightarrow> SessionID \<Rightarrow> gw \<Rightarrow> wres" where
  "FIXTradeHandler E sy t sID w =
     with_peer sID w (\<lambda>p.
       case LookupMDReqID (p_cache p) (tr_Pair t) of
         Some reqID \<Rightarrow>
           ws_send E (FIXMarketDataIncrementalRefreshFromTrade (BeginString sID) reqID t sy (TargetCompID sID)) sID w
       | None \<Rightarrow> Ret (w, None))"

definition FIXTradeSnapshotHandler :: "env \<Rightarrow> symbology \<Rightarrow> Trade list \<Rightarrow> SessionID \<Rightarrow> gw \<Rightarrow> wres" where
  "FIXTradeSnapshotHandler E sy s sID w =
     with_peer sID w (\<lambda>p.
       case s of
         [] \<Rightarrow> Ret (w, None)
       | t # _ \<Rightarrow>
           (case LookupMDReqID (p_cache p) (tr_Pair t) of
              Some reqID \<Rightarrow>
                ws_send_option E (FIXMarketDataFullRefreshFromTradeSnapshot (BeginString sID) reqID s sy
                  (TargetCompID sID)) sID w
            | None \<Rightarrow> Ret (w, None)))"

definition FIXBookSnapshot :: "env \<Rightarrow> symbology \<Rightarrow> BookUpdate list \<Rightarrow> SessionID \<Rightarrow> gw \<Rightarrow> wres" where
  "FIXBookSnapshot E sy s sID w =
     with_peer sID w (\<lambda>p.
       case s of
         [] \<Rightarrow> Ret (w, None)
       | u # _ \<Rightarrow>
           (case LookupMDReqID (p_cache p) (bu_Symbol u) of
              Some mdReqID \<Rightarrow>
                ws_send_option E (FIXMarketDataFullRefreshFromBookSnapshot (BeginString sID) mdReqID s sy
                  (TargetCompID sID)) sID w
            | None \<Rightarrow> Ret (w, None)))"

definition FIXBookUpdate :: "env \<Rightarrow> symbology \<Rightarrow> BookUpdate \<Rightarrow> SessionID \<Rightarrow> gw \<Rightarrow> wres" where
  "FIXBookUpdate E sy u sID w =
     with_peer sID w (\<lambda>p.
       case LookupMDReqID (p_cache p) (bu_Symbol u) of
         Some mdReqID \<Rightarrow>
           ws_send E (FIXMarketDataIncrementalRefreshFromBookUpdate (BeginString sID) mdReqID u sy
             (TargetCompID sID)) sID w
       | None \<Rightarrow> Ret (w, None))"

section \<open>Executions\<close>

text \<open>The order for an execution: from the cache, else fetched over REST and added to the cache under
  the OrderID that REST reports.\<close>

definition fetch_order ::
  "env \<Rightarrow> string \<Rightarrow> TradeExecutionUpdate \<Rightarrow> Peer \<Rightarrow> gw \<Rightarrow> gw \<times> (cache \<times> CachedOrder res) option" where
  "fetch_order E pid t p w =
     (let orderID = FormatInt (te_OrderID t);
          ks = env_ord E 0 (gw_trace w) (dom (orders (p_cache p)))
      in case LookupByOrderID ks (p_cache p) orderID of
           Inr cached \<Rightarrow> (w, Some (p_cache p, Inr cached))
         | Inl _ \<Rightarrow>
             (let r = env_GetByOrderId E (gw_trace w) (te_OrderID t);
                  w = log_call (EGetByOrderId pid (te_OrderID t)) w
              in case r of
                   Inl _ \<Rightarrow> (w, None)
                 | Inr os \<Rightarrow>
                     (let clOrdID = FormatInt (o_CID os);
                          (tif, _) = TimeInForceToFIX (o_Type os) (o_MTSTif os);
                          (ot, isMargin) = OrdTypeToFIX (o_Type os);
                          (c, _) = AddOrder clOrdID (o_Price os) (o_PriceAuxLimit os) (o_PriceTrailing os)
                                     (o_Amount os) (o_Symbol os) (p_bfxUserID p) (SideToFIX (te_ExecAmount t)) ot
                                     isMargin tif (o_MTSTif os) (o_Flags os) (p_cache p)
                      in (w, Some (UpdateOrder clOrdID (FormatInt (o_ID os)) c)))))"

definition FIXTradeExecutionUpdateHandler ::
  "env \<Rightarrow> symbology \<Rightarrow> TradeExecutionUpdate \<Rightarrow> SessionID \<Rightarrow> gw \<Rightarrow> wres" where
  "FIXTradeExecutionUpdateHandler E sy t sID w =
     with_peer sID w (\<lambda>p.
       (let pid = SessionID_String sID
        in case fetch_order E pid t p w of
             (w, None) \<Rightarrow> Ret (w, None)
           | (w, Some (c, rcached)) \<Rightarrow>
               (let ks = env_ord E 1 (gw_trace w) (dom (orders c));
                    (c, r) = AddExecution ks (FormatInt (te_OrderID t)) (FormatInt (te_ID t)) (te_ExecPrice t)
                               (te_ExecAmount t) c;
                    w = set_cache pid p c w
                in case r of
                     Inl err \<Rightarrow> Ret (w, Some err)
                   | Inr (totalFillQty, avgPx) \<Rightarrow>
                       (case rcached of
                          Inl _ \<Rightarrow> Panic ''runtime error: invalid memory address or nil pointer dereference''
                        | Inr cached \<Rightarrow>
                            ws_send E (FIXExecutionReportFromTradeExecutionUpdate (env_uuid E (gw_trace w))
                              (BeginString sID) t (p_bfxUserID p) (co_ClOrdID cached) (co_Qty cached) totalFillQty
                              (co_Px cached) (co_Stop cached) (co_Trail cached) avgPx sy (TargetCompID sID)
                              (co_TifExpiration cached) (co_Flags cached)) sID w))))"

section \<open>Notifications\<close>

definition notify_cancel :: "env \<Rightarrow> symbology \<Rightarrow> Notification \<Rightarrow> Order \<Rightarrow> SessionID \<Rightarrow> Peer \<Rightarrow> gw \<Rightarrow> wres" where
  "notify_cancel E sy d ord sID p w =
     (if no_Status d = ''ERROR'' then
        (let orderID = FormatInt (o_ID ord); origClOrdID = FormatInt (o_CID ord);
             ks = env_ord E 0 (gw_trace w) (dom (cancels (p_cache p)));
             cxlClOrdID = (case LookupCancelByOrigClOrdID ks (p_cache p) origClOrdID of
                             Inr cxl \<Rightarrow> cc_ClOrdID cxl | Inl _ \<Rightarrow> origClOrdID)
         in ws_send E (FIXOrderCancelReject (BeginString sID) (p_bfxUserID p) orderID origClOrdID cxlClOrdID
              (no_Text d) False) sID w)
      else if no_Status d = ''SUCCESS'' then
        (case LookupByClOrdID (p_cache p) (FormatInt (o_CID ord)) of
           Inl err \<Rightarrow> Ret (w, Some err)
         | Inr orig \<Rightarrow>
             (let (expTime, _) = MTSToTime (co_TifExpiration orig)
              in ws_send E
                   (go_bind (FIXExecutionReport (env_uuid E (gw_trace w)) (BeginString sID) (co_Symbol orig)
                      (co_ClOrdID orig) (co_OrderID orig) (co_Account orig) ExecType_PENDING_CANCEL (co_Side orig)
                      (co_Qty orig) f64_zero (filledQty orig) (co_Px orig) (co_Stop orig) (co_Trail orig)
                      (avgFillPx orig) OrdStatus_PENDING_CANCEL (co_OrderType orig) (co_IsMargin orig)
                      (co_TimeInForce orig) expTime (no_Text d) sy (TargetCompID sID) (co_Flags orig))
                    (\<lambda>er. set_dec_if (f64_lt f64_zero (co_Px orig)) tag_Price 4 (co_Px orig) er)) sID w))
      else Ret (w, None))"

text \<open>The cache after the acknowledgement of a new order: the order gets its OrderID; an order that is
  not cached was entered outside the session, and is added.\<close>

definition ack_order :: "Order \<Rightarrow> string \<Rightarrow> cache \<Rightarrow> cache" where
  "ack_order ord account c =
     (let orderID = FormatInt (o_ID ord); clOrdID = FormatInt (o_CID ord)
      in case UpdateOrder clOrdID orderID c of
           (c, Inr _) \<Rightarrow> c
         | (c, Inl _) \<Rightarrow>
             (let (tif, _) = TimeInForceToFIX (o_Type ord) (o_MTSTif ord);
                  (ot, isMargin) = OrdTypeToFIX (o_Type ord);
                  (c, cached) = AddOrder clOrdID (o_Price ord) (o_PriceAuxLimit ord) (o_PriceTrailing ord)
                                  (o_Amount ord) (o_Symbol ord) account (SideToFIX (o_Amount ord)) ot isMargin tif
                                  (o_MTSTif ord) (o_Flags ord) c
              in c\<lparr>orders := (orders c)(clOrdID \<mapsto> cached\<lparr>co_OrderID := orderID\<rparr>)\<rparr>))"

definition notify_new :: "env \<Rightarrow> symbology \<Rightarrow> Notification \<Rightarrow> Order \<Rightarrow> SessionID \<Rightarrow> Peer \<Rightarrow> gw \<Rightarrow> wres" where
  "notify_new E sy d ord sID p w =
     (let isError = (no_Status d = ''ERROR'');
          (ordStatus, execType, text) =
            (if isError then (OrdStatus_REJECTED, ExecType_REJECTED, no_Text d)
             else (OrdStatus_NEW, ExecType_NEW, ''''));
          c = (if isError then p_cache p else ack_order ord (p_bfxUserID p) (p_cache p));
          w = (if isError then w else set_cache (SessionID_String sID) p c w);
          orig = LookupByClOrdID c (FormatInt (o_CID ord));
          flags = (case orig of Inr x \<Rightarrow> co_Flags x | Inl _ \<Rightarrow> o_Flags ord);
          trailing = contains (o_Type ord) ''TRAILING'';
          peg = (if trailing then (case orig of Inr x \<Rightarrow> co_Trail x | Inl _ \<Rightarrow> f64_zero) else f64_zero);
          stop = (if trailing then o_Price ord else o_PriceAuxLimit ord)
      in ws_send E (FIXExecutionReportFromOrder (env_uuid E (gw_trace w)) (BeginString sID) ord (p_bfxUserID p)
           execType f64_zero ordStatus text sy (TargetCompID sID) flags stop peg) sID w)"

definition FIXNotificationHandler :: "env \<Rightarrow> symbology \<Rightarrow> Notification \<Rightarrow> SessionID \<Rightarrow> gw \<Rightarrow> wres" where
  "FIXNotificationHandler E sy d sID w =
     with_peer sID w (\<lambda>p.
       case no_NotifyInfo d of
         NOrderCancel ord \<Rightarrow> notify_cancel E sy d ord sID p w
       | NOrderNew ord \<Rightarrow> notify_new E sy d ord sID p w
       | NOther \<Rightarrow> Ret (w, None))"

section \<open>Order snapshots and updates\<close>

fun add_executions ::
  "env \<Rightarrow> ext list \<Rightarrow> nat \<Rightarrow> TradeExecutionUpdate list \<Rightarrow> cache \<Rightarrow> cache \<times> string option" where
  "add_executions E tr k [] c = (c, None)"
| "add_executions E tr k (tu # tus) c =
     (case AddExecution (env_ord E k tr (dom (orders c))) (FormatInt (te_OrderID tu)) (FormatInt (te_ID tu))
             (te_ExecPrice tu) (te_ExecAmount tu) c of
        (c, Inl err) \<Rightarrow> (c, Some err)
      | (c, Inr _) \<Rightarrow> add_executions E tr (Suc k) tus c)"

definition snapshot_report ::
  "env \<Rightarrow> symbology \<Rightarrow> Order \<Rightarrow> SessionID \<Rightarrow> string \<Rightarrow> CachedOrder \<Rightarrow> gw \<Rightarrow> Message go" where
  "snapshot_report E sy order sID account cached w =
     go_bind (FIXExecutionReportFromOrder (env_uuid E (gw_trace w)) (BeginString sID) order account ExecType_NEW
        (filledQty cached) OrdStatus_NEW (o_Status order) sy (TargetCompID sID) (o_Flags order)
        (o_PriceAuxLimit order) (o_PriceTrailing order)) (\<lambda>er.
     go_bind (dec_field tag_AvgPx 4 (avgFillPx cached)) (\<lambda>(t, v). Ret (msg_set t v er)))"

fun snapshot_loop :: "env \<Rightarrow> symbology \<Rightarrow> SessionID \<Rightarrow> Order list \<Rightarrow> Peer \<Rightarrow> gw \<Rightarrow> wres" where
  "snapshot_loop E sy sID [] p w = Ret (w, None)"
| "snapshot_loop E sy sID (order # os) p w =
     (let pid = SessionID_String sID; clOrdID = FormatInt (o_CID order);
          (tif, _) = TimeInForceToFIX (o_Type order) (o_MTSTif order);
          (ot, isMargin) = OrdTypeToFIX (o_Type order);
          (c, _) = AddOrder clOrdID (o_Price order) (o_PriceAuxLimit order) (o_PriceTrailing order)
                     (o_Amount order) (o_Symbol order) (p_bfxUserID p) (SideToFIX (o_Amount order)) ot isMargin tif
                     (o_MTSTif order) (o_Flags order) (p_cache p);
          p = p\<lparr>p_cache := c\<rparr>;
          w = set_peer pid p w;
          r = env_OrderTrades E (gw_trace w) (o_Symbol order) (o_ID order);
          w = log_call (EOrderTrades pid (o_Symbol order) (o_ID order)) w
      in case r of
           Inl _ \<Rightarrow> snapshot_loop E sy sID os p w
         | Inr ts \<Rightarrow>
             (let (c, err) = (case ts of None \<Rightarrow> (c, None) | Some tus \<Rightarrow> add_executions E (gw_trace w) 0 tus c)
              in case err of
                   Some e \<Rightarrow> Ret (set_cache pid p c w, Some e)
                 | None \<Rightarrow>
                     (case orders c clOrdID of
                        None \<Rightarrow> Ret (w, None)
                      | Some cached \<Rightarrow>
                          (let cached = cached\<lparr>co_OrderID := FormatInt (o_ID order)\<rparr>;
                               w = set_cache pid p (c\<lparr>orders := (orders c)(clOrdID \<mapsto> cached)\<rparr>) w
                           in ws_send E (snapshot_report E sy order sID (p_bfxUserID p) cached w) sID w))))"

definition FIXOrderSnapshotHandler :: "env \<Rightarrow> symbology \<Rightarrow> Order list \<Rightarrow> SessionID \<Rightarrow> gw \<Rightarrow> wres" where
  "FIXOrderSnapshotHandler E sy os sID w = with_peer sID w (\<lambda>p. snapshot_loop E sy sID os p w)"

definition FIXOrderNewHandler :: "Order \<Rightarrow> SessionID \<Rightarrow> gw \<Rightarrow> wres" where
  "FIXOrderNewHandler ord sID w = Ret (w, None)"

definition FIXOrderUpdateHandler :: "env \<Rightarrow> symbology \<Rightarrow> Order \<Rightarrow> SessionID \<Rightarrow> gw \<Rightarrow> wres" where
  "FIXOrderUpdateHandler E sy ord sID w =
     with_peer sID w (\<lambda>p.
       (let peg = o_PriceTrailing ord;
            peg = (if contains (o_Type ord) ''TRAILING'' \<and> f64_le peg f64_zero
                   then (case LookupByClOrdID (p_cache p) (FormatInt (o_CID ord)) of
                           Inr cached \<Rightarrow> co_Trail cached | Inl _ \<Rightarrow> peg)
                   else peg)
        in ws_send E (FIXExecutionReportFromOrder (env_uuid E (gw_trace w)) (BeginString sID) ord (p_bfxUserID p)
             (ExecTypeToFIX (o_Status ord)) f64_zero (OrdStatusToFIX (o_Status ord)) '''' sy (TargetCompID sID)
             (o_Flags ord) (o_PriceAuxLimit ord) peg) sID w))"

definition FIXOrderCancelHandler :: "env \<Rightarrow> symbology \<Rightarrow> Order \<Rightarrow> SessionID \<Rightarrow> gw \<Rightarrow> wres" where
  "FIXOrderCancelHandler E sy ord sID w =
     with_peer sID w (\<lambda>p.
       (let ks = env_ord E 0 (gw_trace w) (dom (orders (p_cache p)))
        in case LookupByOrderID ks (p_cache p) (FormatInt (o_ID ord)) of
             Inl err \<Rightarrow> Ret (w, Some err)
           | Inr cached \<Rightarrow>
               (let execType = ExecTypeToFIX (o_Status ord); ordStatus = OrdStatusToFIX (o_Status ord)
                in if ordStatus = OrdStatus_FILLED \<or> ordStatus = OrdStatus_PARTIALLY_FILLED then Ret (w, None)
                   else ws_send E (FIXExecutionReportFromOrder (env_uuid E (gw_trace w)) (BeginString sID) ord
                          (p_bfxUserID p) execType (filledQty cached) ordStatus (o_Status ord) sy
                          (TargetCompID sID) (co_Flags cached) f64_zero (co_Trail cached)) sID w)))"

section \<open>Wallets, positions and balances\<close>

text \<open>Sending one report per element, until one fails.\<close>

fun send_each :: "env \<Rightarrow> (gw \<Rightarrow> 'a \<Rightarrow> Message go) \<Rightarrow> SessionID \<Rightarrow> 'a list \<Rightarrow> gw \<Rightarrow> wres" where
  "send_each E build sID [] w = Ret (w, None)"
| "send_each E build sID (x # xs) w =
     go_bind (ws_send E (build w x) sID w) (\<lambda>(w, r).
       case r of Some err \<Rightarrow> Ret (w, Some err) | None \<Rightarrow> send_each E build sID xs w)"

definition FIXWalletSnapshotHandler :: "env \<Rightarrow> Wallet list \<Rightarrow> SessionID \<Rightarrow> gw \<Rightarrow> wres" where
  "FIXWalletSnapshotHandler E s sID w =
     with_peer sID w (\<lambda>p.
       send_each E (\<lambda>w wallet. FIXPositionReportFromWallet (env_uuid E (gw_trace w)) (env_today E (gw_trace w))
         (BeginString sID) wallet (p_bfxUserID p)) sID s w)"

definition FIXWalletUpdateHandler :: "env \<Rightarrow> Wallet \<Rightarrow> SessionID \<Rightarrow> gw \<Rightarrow> wres" where
  "FIXWalletUpdateHandler E u sID w = FIXWalletSnapshotHandler E [u] sID w"

definition FIXPositionSnapshotHandler :: "env \<Rightarrow> symbology \<Rightarrow> Position list \<Rightarrow> SessionID \<Rightarrow> gw \<Rightarrow> wres" where
  "FIXPositionSnapshotHandler E sy s sID w =
     with_peer sID w (\<lambda>p.
       send_each E (\<lambda>w position. FIXPositionReportFromPosition (env_uuid E (gw_trace w))
         (env_today E (gw_trace w)) (BeginString sID) position (p_bfxUserID p) sy (TargetCompID sID)) sID s w)"

definition FIXPositionUpdateHandler :: "env \<Rightarrow> symbology \<Rightarrow> Position \<Rightarrow> SessionID \<Rightarrow> gw \<Rightarrow> wres" where
  "FIXPositionUpdateHandler E sy u sID w = FIXPositionSnapshotHandler E sy [u] sID w"

definition FIXBalanceInfoHandler :: "env \<Rightarrow> BalanceInfo \<Rightarrow> SessionID \<Rightarrow> gw \<Rightarrow> wres" where
  "FIXBalanceInfoHandler E s sID w =
     FIXWalletUpdateHandler E
       \<lparr>wl_Type = ''balance'', wl_Currency = ''all'', wl_Balance = bi_TotalAUM s,
        wl_UnsettledInterest = f64_zero, wl_BalanceAvailable = bi_NetAUM s\<rparr> sID w"

definition FIXBalanceUpdateHandler :: "env \<Rightarrow> BalanceInfo \<Rightarrow> SessionID \<Rightarrow> gw \<Rightarrow> wres" where
  "FIXBalanceUpdateHandler E s sID w = FIXBalanceInfoHandler E s sID w"

end
