(* ===== verification/Gw_Service.thy ===== *)
theory Gw_Service
  imports Fix_App Ws_Handlers
begin

text \<open>
  A service (\<^verbatim>\<open>service/service.go\<close>): it joins a FIX endpoint and the websocket connections of its
  peers. \<open>listen\<close> takes the messages of the peers one at a time and hands each, by its type, to a handler
  of \<^verbatim>\<open>service/websocket\<close>; an order routing service handles orders, executions, wallets and positions, a
  market data service books and trades. Errors that a handler returns are only logged.
\<close>

section \<open>Messages of the exchange\<close>

text \<open>The types that the type switch of \<open>listen\<close> distinguishes. \<open>DNoOp\<close> stands for those it ignores
  (\<^verbatim>\<open>InfoEvent\<close>, \<^verbatim>\<open>FundingInfo\<close>, \<^verbatim>\<open>MarginInfoUpdate\<close>, \<^verbatim>\<open>MarginInfoBase\<close>, \<^verbatim>\<open>SubscribeEvent\<close>, \<^verbatim>\<open>TradeExecution\<close>,
  \<^verbatim>\<open>TradeSnapshot\<close>, errors and everything else).\<close>

datatype ws_data =
    DNotification Notification
  | DOrderNew Order
  | DOrderCancel Order
  | DOrderUpdate Order
  | DAuth AuthEvent
  | DWalletSnapshot "Wallet list"
  | DWalletUpdate Wallet
  | DBalanceInfo BalanceInfo
  | DBalanceUpdate BalanceInfo
  | DPositionSnapshot "Position list"
  | DPositionUpdate Position
  | DOrderSnapshot "Order list"
  | DBookUpdateSnapshot "BookUpdate list"
  | DBookUpdate BookUpdate
  | DTradeExecutionUpdate TradeExecutionUpdate
  | DTrade Trade
  | DError ErrorEvent
  | DNoOp

definition isMarketDataService :: "ServiceType \<Rightarrow> bool" where
  "isMarketDataService st \<longleftrightarrow> st = MarketDataService"

definition isOrderRoutingService :: "ServiceType \<Rightarrow> bool" where
  "isOrderRoutingService st \<longleftrightarrow> st = OrderRoutingService"

definition businessRejectReason :: "string \<Rightarrow> string" where
  "businessRejectReason err =
     (if err = ''symbol: invalid'' then BusinessRejectReason_UNKNOWN_SECURITY else BusinessRejectReason_OTHER)"

text \<open>The answer to an error event: a market data reject when the event is about a subscription that the
  client and the cache know, else a business reject. Both are FIX 4.2 messages.\<close>

definition subscription_of :: "env \<Rightarrow> ErrorEvent \<Rightarrow> SessionID \<Rightarrow> gw \<Rightarrow> gw \<times> string option" where
  "subscription_of E ev sID w =
     (if ev_SubID ev = '''' then (w, None)
      else case FindPeer w (SessionID_String sID) of
             None \<Rightarrow> (w, None)
           | Some p \<Rightarrow>
               (let known = env_LookupSubscription E (gw_trace w) (ev_SubID ev);
                    w = log_call (ELookupSubscription (SessionID_String sID) (ev_SubID ev)) w
                in if known
                   then (w, ReverseLookupAPIReqIDs (env_ord E 0 (gw_trace w) (dom (mdReqIDs (p_cache p))))
                              (p_cache p) (ev_SubID ev))
                   else (w, None)))"

definition handle_error_event :: "env \<Rightarrow> ErrorEvent \<Rightarrow> SessionID \<Rightarrow> gw \<Rightarrow> wres" where
  "handle_error_event E ev sID w =
     (case subscription_of E ev sID w of
        (w, Some fixReqID) \<Rightarrow>
          Ret (SendToTarget E (set_all [(tag_MDReqID, fixReqID), (tag_MDReqRejReason, MDReqRejReason_UNKNOWN_SYMBOL),
             (tag_Text, ev_Message ev), (tag_MDRequestType, ev_Channel ev)] (new_msg BeginStringFIX42 ''Y'')) sID w)
      | (w, None) \<Rightarrow>
          Ret (SendToTarget E (set_all [(tag_RefMsgType, LastMsgType w),
             (tag_BusinessRejectReason, businessRejectReason (ev_Message ev)), (tag_Text, ev_Message ev)]
             (new_msg BeginStringFIX42 ''j'')) sID w))"

text \<open>One turn of the loop of \<open>listen\<close>, for a message of the peer of session \<open>sID\<close>.\<close>

definition listen :: "ServiceType \<Rightarrow> env \<Rightarrow> symbology \<Rightarrow> ws_data \<Rightarrow> SessionID \<Rightarrow> gw \<Rightarrow> wres" where
  "listen st E sy d sID w =
     (let orders_only = (\<lambda>r. if isOrderRoutingService st then r else Ret (w, None));
          md_only = (\<lambda>r. if isMarketDataService st then r else Ret (w, None))
      in case d of
           DNotification n \<Rightarrow> orders_only (FIXNotificationHandler E sy n sID w)
         | DOrderNew ord \<Rightarrow> orders_only (FIXOrderNewHandler ord sID w)
         | DOrderCancel ord \<Rightarrow> orders_only (FIXOrderCancelHandler E sy ord sID w)
         | DOrderUpdate ord \<Rightarrow> orders_only (FIXOrderUpdateHandler E sy ord sID w)
         | DAuth a \<Rightarrow> FIXHandleAuth E a sID w
         | DWalletSnapshot s \<Rightarrow> orders_only (FIXWalletSnapshotHandler E s sID w)
         | DWalletUpdate u \<Rightarrow> orders_only (FIXWalletUpdateHandler E u sID w)
         | DBalanceInfo b \<Rightarrow> orders_only (FIXBalanceInfoHandler E b sID w)
         | DBalanceUpdate b \<Rightarrow> orders_only (FIXBalanceUpdateHandler E b sID w)
         | DPositionSnapshot s \<Rightarrow> orders_only (FIXPositionSnapshotHandler E sy s sID w)
         | DPositionUpdate u \<Rightarrow> orders_only (FIXPositionUpdateHandler E sy u sID w)
         | DOrderSnapshot os \<Rightarrow> orders_only (FIXOrderSnapshotHandler E sy os sID w)
         | DBookUpdateSnapshot s \<Rightarrow> md_only (FIXBookSnapshot E sy s sID w)
         | DBookUpdate u \<Rightarrow> md_only (FIXBookUpdate E sy u sID w)
         | DTradeExecutionUpdate t \<Rightarrow> orders_only (FIXTradeExecutionUpdateHandler E sy t sID w)
         | DTrade t \<Rightarrow> md_only (FIXTradeHandler E sy t sID w)
         | DError ev \<Rightarrow> handle_error_event E ev sID w
         | DNoOp \<Rightarrow> Ret (w, None))"

section \<open>Start and stop\<close>

text \<open>
  A stop may wait for ever: \<open>Peer_Close\<close> of a started peer waits until the goroutine of its listener has ended, and the deadlock of
  \<^verbatim>\<open>Peer_Lifecycle\<close> keeps it from that, since \<open>Stop\<close> and \<open>RemovePeer\<close> hold the mutex meanwhile. So \<open>None\<close> stands for a call that
  does not return; \<open>ends pid\<close> says whether the listener of a peer ends once its websocket is closed.
\<close>

definition waits_for :: "(string \<Rightarrow> bool) \<Rightarrow> string \<Rightarrow> gw \<Rightarrow> bool" where
  "waits_for ends pid w = (case gw_peers w pid of Some p \<Rightarrow> p_started p \<and> \<not> ends pid | None \<Rightarrow> False)"

text \<open>The acceptor of the FIX engine ends its sessions. Each session that is logged on calls \<open>OnLogout\<close>, in the order of the list.\<close>

fun FIX_Down :: "(string \<Rightarrow> bool) \<Rightarrow> SessionID list \<Rightarrow> gw \<Rightarrow> gw go option" where
  "FIX_Down ends [] w = Some (Ret w)"
| "FIX_Down ends (sID # logged) w =
     (if waits_for ends (SessionID_String sID) w then None
      else case OnLogout sID w of
             Panic e \<Rightarrow> Some (Panic e)
           | Ret w \<Rightarrow> FIX_Down ends logged w)"

text \<open>\<open>Stop\<close> then closes the peers that are left, in the order in which the map is ranged over; they stay in the map.\<close>

fun close_all :: "(string \<Rightarrow> bool) \<Rightarrow> string list \<Rightarrow> gw \<Rightarrow> gw go option" where
  "close_all ends [] w = Some (Ret w)"
| "close_all ends (pid # pids) w =
     (case gw_peers w pid of
        None \<Rightarrow> close_all ends pids w
      | Some p \<Rightarrow>
          (if waits_for ends pid w then None
           else case Peer_Close pid p w of
                  Panic e \<Rightarrow> Some (Panic e)
                | Ret (w, p) \<Rightarrow> close_all ends pids (set_peer pid p w)))"

definition Stop :: "env \<Rightarrow> (string \<Rightarrow> bool) \<Rightarrow> SessionID list \<Rightarrow> gw \<Rightarrow> gw go option" where
  "Stop E ends logged w =
     (case FIX_Down ends logged w of
        Some (Ret w) \<Rightarrow> close_all ends (env_ord E 0 (gw_trace w) (dom (gw_peers w))) w
      | r \<Rightarrow> r)"

definition service_New :: gw where
  "service_New = \<lparr>gw_peers = Map.empty, gw_lastMsgType = '''', gw_trace = []\<rparr>"

section \<open>Events\<close>

text \<open>What can happen to a service, one event at a time: a FIX administrative or application message, the
  end of a FIX session, a message of the exchange, and the end of a websocket.\<close>

datatype gw_event =
    FixAdmin Message SessionID
  | FixApp Message SessionID
  | FixLogout SessionID
  | FromExchange ws_data SessionID
  | WsDisconnect SessionID

definition handle_event :: "ServiceType \<Rightarrow> env \<Rightarrow> symbology \<Rightarrow> gw_event \<Rightarrow> gw \<Rightarrow> gw go" where
  "handle_event st E sy ev w =
     (case ev of
        FixAdmin m sID \<Rightarrow> Ret (fst (FromAdmin E m sID w))
      | FixApp m sID \<Rightarrow> go_bind (FromApp st E sy m sID w) (\<lambda>(w, _). Ret w)
      | FixLogout sID \<Rightarrow> OnLogout sID w
      | FromExchange d sID \<Rightarrow> go_bind (listen st E sy d sID w) (\<lambda>(w, _). Ret w)
      | WsDisconnect sID \<Rightarrow> report_disconnect E sID w)"

text \<open>The states that a service can reach without a panic.\<close>

inductive gw_reach :: "ServiceType \<Rightarrow> symbology \<Rightarrow> (env \<Rightarrow> bool) \<Rightarrow> (gw_event \<Rightarrow> bool) \<Rightarrow> gw \<Rightarrow> bool"
  for st sy env_good ev_good where
  start: "gw_reach st sy env_good ev_good service_New"
| step: "gw_reach st sy env_good ev_good w \<Longrightarrow> env_good E \<Longrightarrow> ev_good ev \<Longrightarrow>
     handle_event st E sy ev w = Ret w' \<Longrightarrow> gw_reach st sy env_good ev_good w'"

end
