(* ===== verification/Gw_Invariant.thy ===== *)
theory Gw_Invariant
  imports Gw_Service
begin

text \<open>
  What every handler of a service keeps: the invariant \<open>gw_ok\<close> of the state, the peers of other
  sessions, and the calls that were made before. \<open>keeps\<close> says this of one run of a handler; the locale
  \<open>session_handler\<close> is the contract, interpreted on each handler of \<^verbatim>\<open>service/fix\<close> and \<^verbatim>\<open>service/websocket\<close>.
  From it follow the invariant of all reachable states and the separation of sessions.

  The contract depends on what the exchange sends: \<open>env_good\<close> and \<open>data_good\<close> say that amounts are numbers, as
  the JSON text of the exchange cannot hold a NaN.
\<close>

section \<open>Numbers from the exchange\<close>

definition env_good :: "env \<Rightarrow> bool" where
  "env_good E \<longleftrightarrow> env_ok E \<and>
     (\<forall>tr i ord. env_GetByOrderId E tr i = Inr ord \<longrightarrow> qty_ok (o_Amount ord)) \<and>
     (\<forall>tr sym i tus. env_OrderTrades E tr sym i = Inr (Some tus) \<longrightarrow> (\<forall>tu \<in> set tus. qty_ok (te_ExecAmount tu)))"

definition data_good :: "ws_data \<Rightarrow> bool" where
  "data_good d =
     (case d of
        DNotification n \<Rightarrow> (case no_NotifyInfo n of NOrderNew ord \<Rightarrow> qty_ok (o_Amount ord) | _ \<Rightarrow> True)
      | DOrderSnapshot os \<Rightarrow> \<forall>ord \<in> set os. qty_ok (o_Amount ord)
      | DTradeExecutionUpdate t \<Rightarrow> qty_ok (te_ExecAmount t)
      | _ \<Rightarrow> True)"

section \<open>Steps of one session\<close>

text \<open>The session that a call is made for: a message is sent to it, or its clients are called.\<close>

fun call_session :: "ext \<Rightarrow> string" where
  "call_session (ESend sID _) = SessionID_String sID"
| "call_session (ESubmitOrder pid _) = pid"
| "call_session (ESubmitUpdateOrder pid _) = pid"
| "call_session (EWsSendCancel pid _) = pid"
| "call_session (ESubscribeBook pid _ _ _ _) = pid"
| "call_session (ESubscribeTrades pid _) = pid"
| "call_session (EUnsubscribe pid _) = pid"
| "call_session (ELookupSubscription pid _) = pid"
| "call_session (EBookAll pid _ _ _) = pid"
| "call_session (EGetByOrderId pid _) = pid"
| "call_session (EOrderTrades pid _ _) = pid"
| "call_session (ECredentials pid _ _ _) = pid"
| "call_session (EConnect pid) = pid"
| "call_session (EWsClose pid) = pid"

definition session_step :: "string \<Rightarrow> gw \<Rightarrow> gw \<Rightarrow> bool" where
  "session_step pid w w' \<longleftrightarrow> (\<forall>pid'. pid' \<noteq> pid \<longrightarrow> FindPeer w' pid' = FindPeer w pid') \<and>
     (\<exists>tail. gw_trace w' = gw_trace w @ tail \<and> (\<forall>e \<in> set tail. call_session e = pid)) \<and> gw_ok w'"

lemma session_step_refl: "gw_ok w \<Longrightarrow> session_step pid w w"
  by (simp add: session_step_def)

lemma session_step_trans: "session_step pid w w' \<Longrightarrow> session_step pid w' w'' \<Longrightarrow> session_step pid w w''"
  by (auto simp: session_step_def)

lemma session_step_ok: "session_step pid w w' \<Longrightarrow> gw_ok w'"
  by (simp add: session_step_def)

lemma session_step_SendToTarget:
  "session_step pid w w' \<Longrightarrow> SessionID_String sID = pid \<Longrightarrow> session_step pid w (fst (SendToTarget E m sID w'))"
  by (auto simp: session_step_def SendToTarget_def FindPeer_def gw_ok_def)

lemma session_step_log_call: "session_step pid w w' \<Longrightarrow> call_session e = pid \<Longrightarrow> session_step pid w (log_call e w')"
  by (auto simp: session_step_def log_call_def FindPeer_def gw_ok_def)

lemma session_step_set_peer:
  "session_step pid w w' \<Longrightarrow> peer_ok pid p \<Longrightarrow> session_step pid w (set_peer pid p w')"
  by (auto simp: session_step_def set_peer_def FindPeer_def gw_ok_def)

lemma session_step_set_cache:
  "session_step pid w w' \<Longrightarrow> peer_ok pid p \<Longrightarrow> cache_fin c \<Longrightarrow> session_step pid w (set_cache pid p c w')"
  unfolding set_cache_def by (intro session_step_set_peer peer_ok_cache)

lemmas session_step_intros = session_step_refl session_step_SendToTarget session_step_log_call
  session_step_set_peer session_step_set_cache

definition keeps :: "string \<Rightarrow> gw \<Rightarrow> (gw \<times> 'r) go \<Rightarrow> bool" where
  "keeps pid w g \<longleftrightarrow> (\<forall>w' r. g = Ret (w', r) \<longrightarrow> session_step pid w w')"

lemma keeps_Ret [simp]: "keeps pid w (Ret x) \<longleftrightarrow> session_step pid w (fst x)"
  by (cases x) (simp add: keeps_def)

lemma keeps_Panic [simp]: "keeps pid w (Panic m)"
  by (simp add: keeps_def)

lemma keeps_bind: "(\<And>x. m = Ret x \<Longrightarrow> keeps pid w (f x)) \<Longrightarrow> keeps pid w (go_bind m f)"
  by (cases m) simp_all

lemma keeps_then:
  assumes "keeps pid w g" "\<And>w' r. session_step pid w w' \<Longrightarrow> keeps pid w (f (w', r))"
  shows "keeps pid w (go_bind g f)"
  using assms by (cases g) auto

lemma keeps_send_built: "session_step pid w w' \<Longrightarrow> SessionID_String sID = pid \<Longrightarrow> keeps pid w (send_built E gm sID w')"
  unfolding send_built_def sendToTarget_def
  by (intro keeps_bind) (simp add: case_prod_beta session_step_SendToTarget)

lemma keeps_ws_send: "session_step pid w w' \<Longrightarrow> SessionID_String sID = pid \<Longrightarrow> keeps pid w (ws_send E gm sID w')"
  unfolding ws_send_def by (intro keeps_bind) (simp add: session_step_SendToTarget)

lemma keeps_ws_send_option: "session_step pid w w' \<Longrightarrow> SessionID_String sID = pid \<Longrightarrow> keeps pid w (ws_send_option E gm sID w')"
  unfolding ws_send_option_def
  by (intro keeps_bind) (simp add: session_step_SendToTarget split: option.split)

lemma keeps_with_peer:
  assumes "gw_ok w" "\<And>p. FindPeer w (SessionID_String sID) = Some p \<Longrightarrow> peer_ok (SessionID_String sID) p \<Longrightarrow>
    keeps (SessionID_String sID) w (f p)"
  shows "keeps (SessionID_String sID) w (with_peer sID w f)"
  using assms gw_ok_FindPeer by (auto simp: with_peer_def session_step_refl split: option.split)

lemmas keeps_intros = keeps_send_built keeps_ws_send keeps_ws_send_option

section \<open>The cache\<close>

lemma cache_fin_AddOrder:
  assumes "cache_fin c" "qty_ok q"
  shows "cache_fin (fst (AddOrder clordid px stop trail q symb acc sd ot m tif ex fl c))"
  using assms run_op_keeps_ok [of c "OpAddOrder clordid px stop trail q symb acc sd ot m tif ex fl"]
  by (simp add: cache_fin_def AddOrder_def Let_def)

lemma cache_fin_UpdateOrder: "cache_fin c \<Longrightarrow> cache_fin (fst (UpdateOrder k i c))"
  using run_op_keeps_ok [of c "OpUpdateOrder k i"]
  by (simp add: cache_fin_def UpdateOrder_def Let_def insert_absorb split: option.split)

lemma cache_fin_AddExecution: "cache_fin c \<Longrightarrow> qty_ok q \<Longrightarrow> cache_fin (fst (AddExecution ks i x px q c))"
  using run_op_keeps_ok [of c "OpAddExecution ks i x px q"]
  by (auto simp: cache_fin_def AddExecution_def Let_def split: option.split)

lemma cache_fin_MapSymbolToReqID: "cache_fin c \<Longrightarrow> LookupMDReqID c s = None \<Longrightarrow> cache_fin (MapSymbolToReqID s i c)"
  by (auto simp: cache_fin_def MapSymbolToReqID_def LookupMDReqID_def cache_ok_def)

lemma cache_fin_MapMDReqIDs: "cache_fin c \<Longrightarrow> symbolToReqID c s = Some i \<Longrightarrow> cache_fin (MapMDReqIDs i b t c)"
  by (auto simp: cache_fin_def MapMDReqIDs_def cache_ok_def ran_def)

lemmas cache_fin_ops = cache_fin_AddOrder cache_fin_UpdateOrder cache_fin_AddExecution
  cache_fin_MapSymbolToReqID cache_fin_MapMDReqIDs

lemma peer_ok_cache_fin: "peer_ok pid p \<Longrightarrow> cache_fin (p_cache p)"
  by (simp add: peer_ok_def)

lemma round_frac_number: "round_frac s n d \<noteq> NaN"
  by (simp add: round_frac_def pack_def Let_def split: prod.split)

lemma qty_ok_dec: "qty_ok (dec_Float64 d)"
  by (simp add: qty_ok_def dec_Float64_def round_frac_ok round_frac_number)

lemma qty_ok_neg: "qty_ok (f64_neg q) = qty_ok q"
  by (cases q) (simp_all add: qty_ok_def)

lemma qty_ok_amount: "qty_ok (GetAmountFromQtyAndSide sd d)"
  by (simp add: GetAmountFromQtyAndSide_def Let_def qty_ok_dec qty_ok_neg)

lemma new_request_amount: "OrderNewFromFIXNewOrderSingle msg sy cp = Inr bo \<Longrightarrow> qty_ok (on_Amount bo)"
  unfolding OrderNewFromFIXNewOrderSingle_def Let_def
  by (auto simp: sbind_eq_Inr case_prod_beta qty_ok_amount)

section \<open>The handlers of the FIX side\<close>

lemma keeps_submit_new:
  assumes "session_step (SessionID_String sID) w w" "peer_ok (SessionID_String sID) p" "qty_ok (on_Amount bo)"
  shows "keeps (SessionID_String sID) w (submit_new E sy sID p bo t k sd tif w)"
  unfolding submit_new_def
  using assms
  by (intro keeps_bind)
    (auto simp: Let_def case_prod_beta session_step_intros cache_fin_ops peer_ok_cache_fin keeps_send_built split: option.split)

lemma keeps_new_order:
  assumes "gw_ok w"
  shows "keeps (SessionID_String sID) w (OnFIXNewOrderSingle E sy msg sID w)"
  unfolding OnFIXNewOrderSingle_def
  using assms session_step_refl gw_ok_FindPeer [OF assms] new_request_amount
  by (auto intro!: keeps_bind keeps_submit_new split: option.split sum.split)

lemma keeps_submit_update:
  assumes "session_step (SessionID_String sID) w w" "peer_ok (SessionID_String sID) p" "qty_ok (ou_Amount ou)"
  shows "keeps (SessionID_String sID) w (submit_update E sy sID p ou cached oid cid cidi t tif ty w)"
  unfolding submit_update_def
  using assms
  by (intro keeps_bind)
    (auto simp: Let_def case_prod_beta session_step_intros cache_fin_ops peer_ok_cache_fin keeps_send_built
      split: option.split sum.split)

lemma keeps_replace:
  assumes "gw_ok w"
  shows "keeps (SessionID_String sID) w (OnFIXOrderCancelReplaceRequest E sy msg sID w)"
  unfolding OnFIXOrderCancelReplaceRequest_def not_found_reject_def
  using assms session_step_refl gw_ok_FindPeer [OF assms]
  by (auto intro!: keeps_bind keeps_submit_update keeps_send_built simp: qty_ok_amount Let_def case_prod_beta
      split: option.split sum.split)

lemma keeps_cancel:
  assumes "gw_ok w"
  shows "keeps (SessionID_String sID) w (OnFIXOrderCancelRequest E msg sID w)"
  unfolding OnFIXOrderCancelRequest_def not_found_reject_def Let_def
  using assms
  by (auto intro!: keeps_send_built session_step_intros split: option.split sum.split)

lemma keeps_status:
  assumes "env_good E" "gw_ok w"
  shows "keeps (SessionID_String sID) w (OnFIXOrderStatusRequest E sy msg sID w)"
proof -
  have amount: "env_GetByOrderId E tr i = Inr ord \<Longrightarrow> qty_ok (o_Amount ord)" for tr i ord
    using assms(1) by (simp add: env_good_def)
  show ?thesis
    unfolding OnFIXOrderStatusRequest_def Let_def case_prod_beta
    using assms(2) gw_ok_FindPeer [OF assms(2)]
    by (auto intro!: keeps_send_built session_step_set_cache session_step_intros cache_fin_AddOrder amount
        dest: peer_ok_cache_fin split: option.split sum.split)
qed

text \<open>A symbol of a market data request: the state that the loop goes on with has the peer of the session.\<close>

definition md_keeps :: "string \<Rightarrow> gw \<Rightarrow> md_next go \<Rightarrow> bool" where
  "md_keeps pid w g \<longleftrightarrow>
     (\<forall>w' p'. g = Ret (Next w' p') \<longrightarrow> session_step pid w w' \<and> peer_ok pid p') \<and>
     (\<forall>w' r. g = Ret (Return w' r) \<longrightarrow> session_step pid w w')"

lemma md_keeps_Ret [simp]:
  "md_keeps pid w (Ret (Next w' p')) \<longleftrightarrow> session_step pid w w' \<and> peer_ok pid p'"
  "md_keeps pid w (Ret (Return w' r)) \<longleftrightarrow> session_step pid w w'"
  by (simp_all add: md_keeps_def)

lemma md_keeps_send: "session_step pid w w' \<Longrightarrow> SessionID_String sID = pid \<Longrightarrow> md_keeps pid w (md_send E gm sID w')"
  using keeps_send_built [of pid w w' sID E gm]
  by (cases "send_built E gm sID w'") (auto simp: md_send_def md_keeps_def split: prod.split)

lemma md_keeps_send_continue:
  "session_step pid w w' \<Longrightarrow> SessionID_String sID = pid \<Longrightarrow> peer_ok pid p \<Longrightarrow> md_keeps pid w (md_send_continue E gm sID p w')"
  using keeps_send_built [of pid w w' sID E gm]
  by (cases "send_built E gm sID w'") (auto simp: md_send_continue_def md_keeps_def split: prod.split option.splits)

lemmas md_keeps_intros = md_keeps_send md_keeps_send_continue

lemma md_keeps_symbol:
  assumes "gw_ok w" "peer_ok (SessionID_String sID) p"
  shows "md_keeps (SessionID_String sID) w (md_symbol E sy msg sID r g p w)"
proof -
  have fresh: "peer_ok (SessionID_String sID) (p\<lparr>p_cache := MapSymbolToReqID s i (p_cache p)\<rparr>)"
    if "LookupMDReqID (p_cache p) s = None" for s i
    using assms(2) that by (auto intro: peer_ok_cache cache_fin_MapSymbolToReqID dest: peer_ok_cache_fin)
  have both: "peer_ok (SessionID_String sID) (p\<lparr>p_cache := MapMDReqIDs i b t (MapSymbolToReqID s i (p_cache p))\<rparr>)"
    if "LookupMDReqID (p_cache p) s = None" for s i b t
    using fresh [OF that] by (auto simp: peer_ok_def MapSymbolToReqID_def intro!: cache_fin_MapMDReqIDs)
  have "md_keeps (SessionID_String sID) w (md_snapshot E sy sID r s p w)" if "LookupMDReqID (p_cache p) s = None" for s
    unfolding md_snapshot_def Let_def using assms(1) fresh [OF that]
    by (auto intro!: md_keeps_intros session_step_intros split: sum.split)
  moreover have "md_keeps (SessionID_String sID) w (md_subscribe E msg sID r s p w)" if "LookupMDReqID (p_cache p) s = None" for s
    unfolding md_subscribe_def Let_def using assms(1) fresh [OF that] both [OF that]
    by (auto intro!: md_keeps_intros session_step_intros split: sum.split)
  moreover have "md_keeps (SessionID_String sID) w (md_unsubscribe E sID r p w)"
    unfolding md_unsubscribe_def Let_def using assms
    by (auto intro!: md_keeps_intros session_step_intros split: option.split)
  ultimately show ?thesis
    unfolding md_symbol_def Let_def using assms
    by (auto intro!: md_keeps_intros session_step_intros split: sum.split)
qed

lemma keeps_md_loop:
  assumes "session_step (SessionID_String sID) w0 w" "peer_ok (SessionID_String sID) p"
  shows "keeps (SessionID_String sID) w0 (md_loop E sy msg sID r gs p w)"
  using assms
proof (induction gs arbitrary: p w)
  case (Cons g gs)
  have k: "md_keeps (SessionID_String sID) w (md_symbol E sy msg sID r g p w)"
    using md_keeps_symbol session_step_ok Cons.prems by blast
  show ?case
    unfolding md_loop.simps
  proof (intro keeps_bind)
    fix x assume x: "md_symbol E sy msg sID r g p w = Ret x"
    show "keeps (SessionID_String sID) w0 (case x of Next w' p' \<Rightarrow> md_loop E sy msg sID r gs p' w' | Return w' e \<Rightarrow> Ret (w', e))"
      using k [unfolded x] Cons.IH session_step_trans [OF Cons.prems(1)] by (cases x) auto
  qed
qed simp

lemma keeps_market_data:
  assumes "gw_ok w"
  shows "keeps (SessionID_String sID) w (OnFIXMarketDataRequest E sy msg sID w)"
  unfolding OnFIXMarketDataRequest_def
  using assms gw_ok_FindPeer [OF assms]
  by (auto intro!: keeps_bind keeps_md_loop session_step_refl split: option.split sum.split)

section \<open>The handlers of the exchange side\<close>

lemma keeps_auth: "gw_ok w \<Longrightarrow> keeps (SessionID_String sID) w (FIXHandleAuth E a sID w)"
  unfolding FIXHandleAuth_def by (auto intro!: session_step_intros split: go.split)

lemma keeps_md_publish:
  assumes "gw_ok w"
  shows "keeps (SessionID_String sID) w (FIXTradeHandler E sy t sID w)"
    "keeps (SessionID_String sID) w (FIXTradeSnapshotHandler E sy ts sID w)"
    "keeps (SessionID_String sID) w (FIXBookSnapshot E sy us sID w)"
    "keeps (SessionID_String sID) w (FIXBookUpdate E sy u sID w)"
  unfolding FIXTradeHandler_def FIXTradeSnapshotHandler_def FIXBookSnapshot_def FIXBookUpdate_def
  using assms
  by (auto intro!: keeps_with_peer keeps_intros session_step_refl split: option.split list.split)

lemma fetch_order_keeps:
  assumes "env_good E" "gw_ok w" "peer_ok pid p" "fetch_order E pid t p w = (w', res)"
  shows "session_step pid w w'" "res = Some (c, rc) \<Longrightarrow> cache_fin c"
proof -
  have amount: "env_GetByOrderId E tr i = Inr ord \<Longrightarrow> qty_ok (o_Amount ord)" for tr i ord
    using assms(1) by (simp add: env_good_def)
  show "session_step pid w w'"
    using assms(2-4) unfolding fetch_order_def Let_def case_prod_beta
    by (auto intro!: session_step_intros split: sum.splits)
  show "cache_fin c" if "res = Some (c, rc)"
    using assms(3,4) that unfolding fetch_order_def Let_def case_prod_beta
    by (auto intro!: cache_fin_ops amount dest: peer_ok_cache_fin simp: prod_eq_iff split: sum.splits)
qed

lemma keeps_trade_execution:
  assumes "env_good E" "qty_ok (te_ExecAmount t)" "gw_ok w"
  shows "keeps (SessionID_String sID) w (FIXTradeExecutionUpdateHandler E sy t sID w)"
  unfolding FIXTradeExecutionUpdateHandler_def
proof (rule keeps_with_peer [OF assms(3)], goal_cases)
  case (1 p)
  obtain w' res where f: "fetch_order E (SessionID_String sID) t p w = (w', res)" by fastforce
  note k = fetch_order_keeps [OF assms(1,3) 1(2) f]
  show ?case
    unfolding Let_def f case_prod_beta
    using k 1(2) assms(2)
    by (auto intro!: keeps_ws_send session_step_set_cache cache_fin_AddExecution split: option.split sum.split)
qed

lemma cache_fin_set_OrderID:
  "cache_fin c \<Longrightarrow> orders c k = Some o' \<Longrightarrow> cache_fin (c\<lparr>orders := (orders c)(k \<mapsto> o'\<lparr>co_OrderID := i\<rparr>)\<rparr>)"
  using cache_fin_UpdateOrder [of c k i] by (simp add: UpdateOrder_def Let_def)

lemma cache_fin_ack_order:
  assumes "cache_fin c" "qty_ok (o_Amount ord)"
  shows "cache_fin (ack_order ord acc c)"
proof (cases "orders c (FormatInt (o_CID ord))")
  case None
  then show ?thesis
    using assms
    by (simp add: ack_order_def UpdateOrder_def AddOrder_def newOrder_def order_ok_def cache_fin_def cache_ok_def
        qty_ok_abs Let_def case_prod_beta)
next
  case (Some o')
  then show ?thesis
    using cache_fin_set_OrderID [OF assms(1) Some] by (simp add: ack_order_def UpdateOrder_def Let_def)
qed

lemma keeps_notification:
  assumes "\<And>ord. no_NotifyInfo d = NOrderNew ord \<Longrightarrow> qty_ok (o_Amount ord)" "gw_ok w"
  shows "keeps (SessionID_String sID) w (FIXNotificationHandler E sy d sID w)"
  unfolding FIXNotificationHandler_def
proof (rule keeps_with_peer [OF assms(2)], goal_cases)
  case (1 p)
  have "keeps (SessionID_String sID) w (notify_cancel E sy d ord sID p w)" for ord
    unfolding notify_cancel_def Let_def case_prod_beta using assms(2)
    by (auto intro!: keeps_intros session_step_refl split: sum.split)
  moreover have "keeps (SessionID_String sID) w (notify_new E sy d ord sID p w)" if "qty_ok (o_Amount ord)" for ord
    unfolding notify_new_def Let_def case_prod_beta using assms(2) 1(2) that
    by (auto intro!: keeps_intros session_step_refl session_step_set_cache cache_fin_ack_order dest: peer_ok_cache_fin)
  ultimately show ?case
    using assms session_step_refl by (auto split: notify_info.split)
qed

lemma add_executions_keep:
  "cache_fin c \<Longrightarrow> \<forall>tu \<in> set tus. qty_ok (te_ExecAmount tu) \<Longrightarrow> cache_fin (fst (add_executions E tr k tus c))"
proof (induction tus arbitrary: k c)
  case (Cons tu tus)
  then show ?case
    using cache_fin_AddExecution [OF Cons.prems(1)] by (auto split: prod.split sum.split) (metis fst_conv)+
qed simp

lemma keeps_snapshot_loop:
  assumes "env_good E" "\<forall>ord \<in> set os. qty_ok (o_Amount ord)"
    and "session_step (SessionID_String sID) w0 w" "peer_ok (SessionID_String sID) p"
  shows "keeps (SessionID_String sID) w0 (snapshot_loop E sy sID os p w)"
  using assms(2-4)
proof (induction os arbitrary: p w)
  case (Cons ord os)
  define k where "k = FormatInt (o_CID ord)"
  define c where "c = fst (AddOrder k (o_Price ord) (o_PriceAuxLimit ord) (o_PriceTrailing ord)
      (o_Amount ord) (o_Symbol ord) (p_bfxUserID p) (SideToFIX (o_Amount ord)) (fst (OrdTypeToFIX (o_Type ord)))
      (snd (OrdTypeToFIX (o_Type ord))) (fst (TimeInForceToFIX (o_Type ord) (o_MTSTif ord)))
      (o_MTSTif ord) (o_Flags ord) (p_cache p))"
  define p1 where "p1 = p\<lparr>p_cache := c\<rparr>"
  define w1 where "w1 = log_call (EOrderTrades (SessionID_String sID) (o_Symbol ord) (o_ID ord)) (set_peer (SessionID_String sID) p1 w)"
  have c: "cache_fin c" using Cons.prems unfolding c_def by (auto intro!: cache_fin_AddOrder dest: peer_ok_cache_fin)
  then have p1: "peer_ok (SessionID_String sID) p1" using Cons.prems(3) unfolding p1_def by (rule peer_ok_cache [rotated])
  then have w1: "session_step (SessionID_String sID) w0 w1" using Cons.prems(2) unfolding w1_def by (intro session_step_intros) simp_all
  have trades: "cache_fin (fst (add_executions E tr n tus c))" if "env_OrderTrades E tr0 s i = Inr (Some tus)" for tr0 s i tr n tus
    using assms(1) that by (intro add_executions_keep c) (auto simp: env_good_def)
  show ?case
    using Cons.IH [OF _ w1 p1] Cons.prems(1) w1 p1 c trades
    unfolding snapshot_loop.simps Let_def case_prod_beta
    unfolding k_def [symmetric] c_def [symmetric] p1_def [symmetric] w1_def [symmetric]
    by (auto intro!: keeps_ws_send session_step_set_cache cache_fin_set_OrderID split: sum.split option.split prod.splits)
qed simp

lemma keeps_order_publish:
  assumes "gw_ok w"
  shows "keeps (SessionID_String sID) w (FIXOrderUpdateHandler E sy ord sID w)"
    "keeps (SessionID_String sID) w (FIXOrderCancelHandler E sy ord sID w)"
  unfolding FIXOrderUpdateHandler_def FIXOrderCancelHandler_def Let_def
  using assms by (auto intro!: keeps_with_peer keeps_intros session_step_refl split: sum.split)

lemma keeps_send_each: "session_step pid w0 w \<Longrightarrow> SessionID_String sID = pid \<Longrightarrow> keeps pid w0 (send_each E build sID xs w)"
proof (induction xs arbitrary: w)
  case (Cons x xs)
  then show ?case
    unfolding send_each.simps by (intro keeps_then keeps_ws_send) (auto split: option.split)
qed simp

lemma keeps_positions:
  assumes "gw_ok w"
  shows "keeps (SessionID_String sID) w (FIXWalletSnapshotHandler E ws sID w)"
    "keeps (SessionID_String sID) w (FIXPositionSnapshotHandler E sy ps sID w)"
  unfolding FIXWalletSnapshotHandler_def FIXPositionSnapshotHandler_def
  using assms by (auto intro!: keeps_with_peer keeps_send_each session_step_refl)

section \<open>The contract\<close>

text \<open>An operation of a service for one session, with an input \<open>x\<close> that satisfies \<open>ok\<close>.\<close>

locale session_handler =
  fixes h :: "'x \<Rightarrow> env \<Rightarrow> SessionID \<Rightarrow> gw \<Rightarrow> (gw \<times> 'r) go" and ok :: "'x \<Rightarrow> bool"
  assumes keeps: "ok x \<Longrightarrow> env_good E \<Longrightarrow> gw_ok w \<Longrightarrow> keeps (SessionID_String sID) w (h x E sID w)"
begin

lemma step: "ok x \<Longrightarrow> env_good E \<Longrightarrow> gw_ok w \<Longrightarrow> h x E sID w = Ret (w', r) \<Longrightarrow> session_step (SessionID_String sID) w w'"
  using keeps [of x E w sID] by (simp add: keeps_def)

lemma invariant: "ok x \<Longrightarrow> env_good E \<Longrightarrow> gw_ok w \<Longrightarrow> h x E sID w = Ret (w', r) \<Longrightarrow> gw_ok w'"
  by (rule session_step_ok [OF step])

lemma others_unchanged:
  "ok x \<Longrightarrow> env_good E \<Longrightarrow> gw_ok w \<Longrightarrow> h x E sID w = Ret (w', r) \<Longrightarrow> pid \<noteq> SessionID_String sID \<Longrightarrow>
   FindPeer w' pid = FindPeer w pid"
  using step by (simp add: session_step_def)

lemma calls_own_session:
  assumes "ok x" "env_good E" "gw_ok w" "h x E sID w = Ret (w', r)"
  obtains tail where "gw_trace w' = gw_trace w @ tail" "\<forall>e \<in> set tail. call_session e = SessionID_String sID"
  using step [OF assms] that by (auto simp: session_step_def)

end

interpretation new_order: session_handler "\<lambda>msg E. OnFIXNewOrderSingle E sy msg" "\<lambda>_. True" for sy
  by unfold_locales (rule keeps_new_order)

interpretation replace: session_handler "\<lambda>msg E. OnFIXOrderCancelReplaceRequest E sy msg" "\<lambda>_. True" for sy
  by unfold_locales (rule keeps_replace)

interpretation cancel: session_handler "\<lambda>msg E. OnFIXOrderCancelRequest E msg" "\<lambda>_. True"
  by unfold_locales (rule keeps_cancel)

interpretation status: session_handler "\<lambda>msg E. OnFIXOrderStatusRequest E sy msg" "\<lambda>_. True" for sy
  by unfold_locales (rule keeps_status)

interpretation market_data: session_handler "\<lambda>msg E. OnFIXMarketDataRequest E sy msg" "\<lambda>_. True" for sy
  by unfold_locales (rule keeps_market_data)

lemma keeps_error_event:
  assumes "gw_ok w"
  shows "keeps (SessionID_String sID) w (handle_error_event E ev sID w)"
proof -
  obtain w' r where s: "subscription_of E ev sID w = (w', r)" by fastforce
  then have "session_step (SessionID_String sID) w w'"
    using assms unfolding subscription_of_def Let_def
    by (auto intro!: session_step_intros split: if_splits option.splits)
  then show ?thesis
    unfolding handle_error_event_def s by (auto intro!: session_step_SendToTarget split: option.split)
qed

lemma keeps_order_snapshot:
  assumes "env_good E" "\<forall>ord \<in> set os. qty_ok (o_Amount ord)" "gw_ok w"
  shows "keeps (SessionID_String sID) w (FIXOrderSnapshotHandler E sy os sID w)"
  unfolding FIXOrderSnapshotHandler_def
  using assms by (intro keeps_with_peer keeps_snapshot_loop) (auto intro: session_step_refl)

lemma keeps_listen:
  assumes "data_good d" "env_good E" "gw_ok w"
  shows "keeps (SessionID_String sID) w (listen st E sy d sID w)"
  using assms unfolding listen_def Let_def
  by (cases d)
    (auto simp: data_good_def FIXOrderNewHandler_def FIXWalletUpdateHandler_def FIXBalanceInfoHandler_def
      FIXBalanceUpdateHandler_def FIXPositionUpdateHandler_def
      intro!: keeps_notification keeps_trade_execution keeps_order_snapshot keeps_order_publish keeps_md_publish keeps_positions
        keeps_auth keeps_error_event session_step_refl split: notify_info.splits)

interpretation exchange: session_handler "\<lambda>d E. listen st E sy d" data_good for st sy
  by unfold_locales (rule keeps_listen)

lemma gw_ok_last_type [simp]: "gw_ok (w\<lparr>gw_lastMsgType := t\<rparr>) = gw_ok w"
  by (simp add: gw_ok_def)

lemma session_step_last_type: "session_step pid (w\<lparr>gw_lastMsgType := t\<rparr>) w' = session_step pid w w'"
  by (simp add: session_step_def FindPeer_def)

lemma keeps_FromApp:
  assumes "env_good E" "gw_ok w"
  shows "keeps (SessionID_String sID) w (FromApp st E sy m sID w)"
proof -
  let ?w = "w\<lparr>gw_lastMsgType := GetOrEmpty (m_Header m) 35\<rparr>"
  have ok: "gw_ok ?w" using assms(2) by simp
  have "keeps (SessionID_String sID) ?w (run_route r E sy m sID ?w)" for r
    unfolding run_route_def
    using keeps_new_order keeps_replace keeps_cancel keeps_status [OF assms(1)] keeps_market_data ok by (cases r) auto
  then have "keeps (SessionID_String sID) ?w (Route (FIX_routes st) E sy m sID ?w)"
    unfolding Route_def tryRoute_def using session_step_refl [OF ok] by (auto split: sum.split option.split)
  then show ?thesis
    unfolding FromApp_def Let_def keeps_def session_step_last_type .
qed

interpretation fix_app: session_handler "\<lambda>m E. FromApp st E sy m" "\<lambda>_. True" for st sy
  by unfold_locales (rule keeps_FromApp)

lemma session_step_call: "session_step pid w w' \<Longrightarrow> call_session e = pid \<Longrightarrow> session_step pid w (w'\<lparr>gw_trace := gw_trace w' @ [e]\<rparr>)"
  using session_step_log_call by (simp add: log_call_def)

lemma peer_ok_new: "peer_ok (SessionID_String sID) (Peer_New sID)"
  by (simp add: peer_ok_def Peer_New_def cache_fin_def newCache_def cache_ok_def)

lemma session_step_logout:
  "session_step pid w w' \<Longrightarrow> SessionID_String sID = pid \<Longrightarrow> session_step pid w (fst (logout E t sID w'))"
  by (auto simp: logout_def intro!: session_step_SendToTarget split: go.split)

lemma session_step_Logon:
  assumes "session_step pid w w'" "peer_ok pid p"
  shows "session_step pid w (fst (Logon E pid key sec uid cod p w'))"
proof -
  have "peer_ok pid (p\<lparr>p_bfxUserID := uid\<rparr>)" "peer_ok pid (p\<lparr>p_bfxUserID := uid, p_started := True\<rparr>)"
    using assms(2) by (simp_all add: peer_ok_def)
  then show ?thesis
    using session_step_call [OF session_step_call [OF assms(1), of "ECredentials pid key sec cod"], of "EConnect pid"]
    by (auto simp: Logon_def Let_def intro!: session_step_set_peer split: option.split)
qed

lemma session_step_FromAdmin:
  assumes "gw_ok w"
  shows "session_step (SessionID_String sID) w (fst (FromAdmin E m sID w))"
proof -
  have add: "session_step (SessionID_String sID) w (AddPeer sID w)" "FindPeer (AddPeer sID w) (SessionID_String sID) = Some (Peer_New sID)"
    unfolding AddPeer_set_peer using session_step_set_peer [OF session_step_refl [OF assms] peer_ok_new]
    by (simp_all add: set_peer_def FindPeer_def)
  have logon: "session_step (SessionID_String sID) w (fst (Logon E (SessionID_String sID) key sec uid cod (Peer_New sID) (AddPeer sID w)))"
    for key sec uid cod
    by (intro session_step_Logon add peer_ok_new)
  show ?thesis
    unfolding FromAdmin_def Let_def add(2)
    using add(1) logon session_step_logout session_step_refl [OF assms]
    by (auto split: sum.split option.split prod.split) (metis fst_conv)+
qed

interpretation admin: session_handler "\<lambda>m E sID w. Ret (FromAdmin E m sID w)" "\<lambda>_. True"
  by unfold_locales (simp add: session_step_FromAdmin)

lemma Peer_Close_trace: "Peer_Close pid p w = Ret (w1, p1) \<Longrightarrow>
  gw_peers w1 = gw_peers w \<and> (\<exists>tail. gw_trace w1 = gw_trace w @ tail \<and> (\<forall>e \<in> set tail. call_session e = pid))"
  by (auto simp: Peer_Close_def Let_def split: if_splits)

lemma RemovePeer_step:
  assumes "gw_ok w" "RemovePeer pid w = Ret (w', r)"
  shows "session_step pid w w'"
proof (cases "gw_peers w pid")
  case None
  then show ?thesis using assms session_step_refl by (simp add: RemovePeer_def)
next
  case (Some p)
  then obtain w1 p1 where c: "Peer_Close pid p w = Ret (w1, p1)" "w' = w1\<lparr>gw_peers := (gw_peers w1)(pid := None)\<rparr>"
    using assms(2) by (auto simp: RemovePeer_def go_bind_eq_Ret)
  then show ?thesis
    using Peer_Close_trace [OF c(1)] assms(1) by (auto simp: session_step_def FindPeer_def gw_ok_def)
qed

interpretation remove: session_handler "\<lambda>_ E sID. RemovePeer (SessionID_String sID)" "\<lambda>_. True"
  by unfold_locales (auto simp: keeps_def intro: RemovePeer_step)

lemma report_disconnect_step:
  assumes "gw_ok w" "report_disconnect E sID w = Ret w'"
  shows "session_step (SessionID_String sID) w w'"
  using assms session_step_logout [OF session_step_refl [OF assms(1)], of sID "SessionID_String sID" E "''downstream disconnect''"]
  by (auto simp: report_disconnect_def session_step_refl split: option.splits prod.splits)

section \<open>Events\<close>

fun event_session :: "gw_event \<Rightarrow> SessionID" where
  "event_session (FixAdmin _ sID) = sID"
| "event_session (FixApp _ sID) = sID"
| "event_session (FixLogout sID) = sID"
| "event_session (FromExchange _ sID) = sID"
| "event_session (WsDisconnect sID) = sID"

definition event_good :: "gw_event \<Rightarrow> bool" where
  "event_good ev = (case ev of FromExchange d _ \<Rightarrow> data_good d | _ \<Rightarrow> True)"

lemma handle_event_step:
  assumes "env_good E" "event_good ev" "gw_ok w" "handle_event st E sy ev w = Ret w'"
  shows "session_step (SessionID_String (event_session ev)) w w'"
proof (cases ev)
  case (FixAdmin m sID)
  then show ?thesis using admin.step [OF _ assms(1,3)] assms(4)
    by (cases "FromAdmin E m sID w") (auto simp: handle_event_def)
next
  case (FixApp m sID)
  then show ?thesis using fix_app.step [OF _ assms(1,3)] assms(4) by (auto simp: handle_event_def go_bind_eq_Ret)
next
  case (FixLogout sID)
  then show ?thesis using remove.step [OF _ assms(1,3)] assms(4) by (auto simp: handle_event_def OnLogout_def go_bind_eq_Ret)
next
  case (FromExchange d sID)
  then show ?thesis
    using exchange.step [OF _ assms(1,3)] assms(2,4) by (auto simp: handle_event_def event_good_def go_bind_eq_Ret)
next
  case (WsDisconnect sID)
  then show ?thesis using report_disconnect_step assms(3,4) by (simp add: handle_event_def)
qed

lemma gw_ok_service_New: "gw_ok service_New"
  by (simp add: gw_ok_def service_New_def)

lemma reach_ok: "gw_reach st sy env_good event_good w \<Longrightarrow> gw_ok w"
  by (induction rule: gw_reach.induct) (auto intro: gw_ok_service_New session_step_ok [OF handle_event_step])

section \<open>Reachable states\<close>

text \<open>
  C1: the invariant of a service. In every state that a service can reach from its start through FIX messages,
  exchange messages, logouts and disconnects, in any order, a peer is stored under the text of its own
  session ID and was not closed (its channel \<^verbatim>\<open>disconnect\<close> is open). Its cached orders are stored under their own ClOrdID with quantities
  and executions that are not negative, every market data request with subscriptions belongs to a symbol, and no
  cancel was ever recorded.
\<close>

theorem reachable_state_ok:
  assumes "gw_reach st sy env_good event_good w" "FindPeer w pid = Some p"
  shows "SessionID_String (p_sessionID p) = pid \<and> \<not> p_closed p \<and>
    (\<forall>k o'. orders (p_cache p) k = Some o' \<longrightarrow>
       co_ClOrdID o' = k \<and> f64_nonneg (co_Qty o') \<and> (\<forall>e \<in> set (co_Executions o'). f64_nonneg (ex_Qty e))) \<and>
    dom (mdReqIDs (p_cache p)) \<subseteq> ran (symbolToReqID (p_cache p)) \<and> cancels (p_cache p) = Map.empty"
  using gw_ok_FindPeer [OF reach_ok [OF assms(1)] assms(2)]
  by (simp add: peer_ok_def cache_fin_def cache_ok_def order_ok_def)

lemma env_good_calm: "env_good calm_env"
  using env_ok_calm by (simp add: env_good_def calm_env_def)

definition logged_on :: gw where
  "logged_on = fst (FromAdmin calm_env logon_msg sample_sID service_New)"

lemma reach_logged_on: "gw_reach st sy env_good event_good logged_on"
proof (rule gw_reach.step)
  show "gw_reach st sy env_good event_good service_New" by (rule gw_reach.start)
  show "env_good calm_env" by (rule env_good_calm)
  show "event_good (FixAdmin logon_msg sample_sID)" by (simp add: event_good_def)
  show "handle_event st calm_env sy (FixAdmin logon_msg sample_sID) service_New = Ret logged_on"
    by (simp add: handle_event_def logged_on_def)
qed

lemma logged_on_peer:
  "FindPeer logged_on (SessionID_String sample_sID) = Some ((Peer_New sample_sID)\<lparr>p_bfxUserID := ''u1'', p_started := True\<rparr>)"
  unfolding logged_on_def FromAdmin_def Let_def
  by (simp add: logon_msg_fields logon_field_def AddPeer_def FindPeer_def Logon_def set_peer_def calm_env_def)

theorem reachable_state_ok_witness:
  "\<exists>p. FindPeer logged_on (SessionID_String sample_sID) = Some p \<and> SessionID_String (p_sessionID p) = SessionID_String sample_sID \<and>
     \<not> p_closed p \<and> cancels (p_cache p) = Map.empty"
  using reachable_state_ok [OF reach_logged_on logged_on_peer] logged_on_peer by blast

text \<open>
  C2: sessions are separate. One event of a session leaves the peers of all other sessions as they are,
  caches included. Everything that leaves the gateway on the event goes to that session or to the
  clients of its peer: no other session is sent a message, and nothing is ordered, cancelled or subscribed for it.
\<close>

theorem sessions_separate:
  assumes "gw_reach st sy env_good event_good w" "env_good E" "event_good ev" "handle_event st E sy ev w = Ret w'"
  shows "(\<forall>pid. pid \<noteq> SessionID_String (event_session ev) \<longrightarrow> FindPeer w' pid = FindPeer w pid) \<and>
    (\<exists>tail. gw_trace w' = gw_trace w @ tail \<and> (\<forall>e \<in> set tail. call_session e = SessionID_String (event_session ev)))"
  using handle_event_step [OF assms(2,3) reach_ok [OF assms(1)] assms(4)] by (simp add: session_step_def)

definition other_sID :: SessionID where
  "other_sID = sample_sID\<lparr>TargetCompID := ''OTHER''\<rparr>"

lemma other_session: "SessionID_String other_sID \<noteq> SessionID_String sample_sID"
  by (simp add: other_sID_def sample_sID_def) code_simp

theorem sessions_separate_witness:
  "\<exists>w'. handle_event OrderRoutingService calm_env PassthroughSymbology (FixAdmin logon_msg other_sID) logged_on = Ret w' \<and>
     FindPeer w' (SessionID_String sample_sID) = FindPeer logged_on (SessionID_String sample_sID) \<and>
     FindPeer w' (SessionID_String other_sID) \<noteq> None"
proof -
  obtain w' where w': "handle_event OrderRoutingService calm_env PassthroughSymbology (FixAdmin logon_msg other_sID) logged_on = Ret w'"
    "FindPeer w' (SessionID_String other_sID) \<noteq> None"
    unfolding handle_event_def FromAdmin_def Let_def
    by (simp add: logon_msg_fields logon_field_def AddPeer_def FindPeer_def Logon_def set_peer_def calm_env_def)
  have "event_good (FixAdmin logon_msg other_sID)" by (simp add: event_good_def)
  from sessions_separate [OF reach_logged_on env_good_calm this w'(1)]
  show ?thesis using w' other_session by auto
qed

text \<open>
  C33: the cancel reject that follows an error notification cannot name the cancel request. In every reachable state
  the ClOrdID of the reject is the ClOrdID of the order, because no cancel request is ever put into the
  cache.
\<close>

theorem cancel_error_names_order:
  assumes "gw_reach st sy env_good event_good w" "FindPeer w (SessionID_String sID) = Some p"
    and "no_NotifyInfo d = NOrderCancel ord" "no_Status d = ''ERROR''" "supported (BeginString sID)"
  shows "\<exists>w' r m. FIXNotificationHandler E sy' d sID w = Ret (w', r) \<and> gw_trace w' = gw_trace w @ [ESend sID m] \<and>
    body_str m tag_ClOrdID = Some (FormatInt (o_CID ord)) \<and> body_str m tag_OrigClOrdID = Some (FormatInt (o_CID ord))"
proof -
  have empty: "cancels (p_cache p) = Map.empty"
    using gw_ok_FindPeer [OF reach_ok [OF assms(1)] assms(2)] by (simp add: peer_ok_def cache_fin_def)
  have none: "range_find P ks (Map.empty :: string \<rightharpoonup> CachedCancel) = None" for P ks
    by (induction ks) simp_all
  show ?thesis
    using assms(2-5)
    by (auto simp: FIXNotificationHandler_def with_peer_def notify_cancel_def Let_def LookupCancelByOrigClOrdID_def empty none
        FIXOrderCancelReject_def version_msg_cases ws_send_def SendToTarget_def body_str_set_all)
qed

definition failed_cancel :: Notification where
  "failed_cancel = \<lparr>no_MTS = 0, no_Type = ''oc-req'', no_MessageID = 0, no_NotifyInfo = NOrderCancel (order_zero\<lparr>o_CID := 42\<rparr>),
     no_Code = 0, no_Status = ''ERROR'', no_Text = ''failed''\<rparr>"

theorem cancel_error_names_order_witness:
  "\<exists>w' r m. FIXNotificationHandler calm_env PassthroughSymbology failed_cancel sample_sID logged_on = Ret (w', r) \<and>
     gw_trace w' = gw_trace logged_on @ [ESend sample_sID m] \<and> body_str m tag_ClOrdID = Some ''42''"
proof -
  have "no_NotifyInfo failed_cancel = NOrderCancel (order_zero\<lparr>o_CID := 42\<rparr>)" "no_Status failed_cancel = ''ERROR''"
    by (simp_all add: failed_cancel_def)
  note e = cancel_error_names_order [OF reach_logged_on logged_on_peer this sample_supported, of calm_env PassthroughSymbology]
  have "FormatInt 42 = ''42''" by (simp add: evals)
  with e show ?thesis by auto
qed

end
