(* ===== verification/Md_Flow.thy ===== *)
theory Md_Flow
  imports Gw_Invariant
begin

text \<open>
  Market data requests over their life: \<^verbatim>\<open>OnFIXMarketDataRequest\<close> of \<^verbatim>\<open>service/fix/fix_msg.go\<close> together with the
  cache and the handlers that publish books.

  The theorems show what an accepted subscription does and that later book updates carry its request
  ID; that a request ID in use is refused whatever is asked for, so that a request cannot end a
  subscription; that only the first symbol of a request can be subscribed; and that an empty book
  snapshot stops the process.
\<close>

section \<open>The loop over the symbols\<close>

lemma MDReqIDExists_iff: "set ks = dom (symbolToReqID c) \<Longrightarrow> MDReqIDExists ks c i \<longleftrightarrow> i \<in> ran (symbolToReqID c)"
  by (auto simp: MDReqIDExists_def range_find_None_iff ran_def)

lemma env_ord_symbols: "env_good E \<Longrightarrow> cache_fin c \<Longrightarrow> set (env_ord E n tr (dom (symbolToReqID c))) = dom (symbolToReqID c)"
  by (simp add: env_good_def env_ok_def cache_fin_def)

text \<open>The group of symbols and the other fields of a request can be read.\<close>

definition md_reads :: "FieldMap \<Rightarrow> FieldMap list \<Rightarrow> md_request \<Rightarrow> bool" where
  "md_reads msg gs r \<longleftrightarrow> GetGroup tag_NoRelatedSym norelatedsym_template msg = Ret (Inr gs) \<and> gs \<noteq> [] \<and>
     read_md_request msg = Ret (Inr r)"

lemma OnFIXMarketDataRequest_loop:
  "FindPeer w (SessionID_String sID) = Some p \<Longrightarrow> md_reads msg gs r \<Longrightarrow>
   OnFIXMarketDataRequest E sy msg sID w = md_loop E sy msg sID r gs p w"
  by (simp add: OnFIXMarketDataRequest_def md_reads_def)

definition md_reject :: "SessionID \<Rightarrow> string \<Rightarrow> string \<Rightarrow> string \<Rightarrow> Message" where
  "md_reject sID reqID text reason =
     set_all [(tag_MDReqID, reqID), (tag_Text, text), (tag_MDReqRejReason, reason)] (new_msg (BeginString sID) ''Y'')"

lemma md_reject_fields:
  "body_str (md_reject sID reqID text reason) tag_MDReqID = Some reqID"
  "body_str (md_reject sID reqID text reason) tag_Text = Some text"
  "body_str (md_reject sID reqID text reason) tag_MDReqRejReason = Some reason"
  by (simp_all add: md_reject_def body_str_set_all)

lemma build_md_reject:
  "supported (BeginString sID) \<Longrightarrow> buildMarketDataRequestReject (BeginString sID) i t reason = Ret (md_reject sID i t reason)"
  by (simp add: buildMarketDataRequestReject_def version_msg_cases md_reject_def)

lemma md_send_reject:
  "md_send E (Ret m) sID w = Ret (Return (log_call (ESend sID m) w) (map_option reject (env_Send E (gw_trace w) sID m)))"
  by (simp add: md_send_def send_built_def sendToTarget_def SendToTarget_def log_call_def)

lemma md_send_continue_Ret:
  "md_send_continue E (Ret m) sID p w =
     Ret (case env_Send E (gw_trace w) sID m of
            None \<Rightarrow> Next (log_call (ESend sID m) w) p
          | Some e \<Rightarrow> Return (log_call (ESend sID m) w) (Some (reject e)))"
  by (simp add: md_send_continue_def send_built_def sendToTarget_def SendToTarget_def log_call_def split: option.split)

definition duplicate_text :: "string \<Rightarrow> string" where
  "duplicate_text i = ''duplicate MDReqID by session: '' @ i"

lemma md_symbol_duplicate:
  assumes "env_good E" "cache_fin (p_cache p)" "md_ReqID r \<in> ran (symbolToReqID (p_cache p))"
    and "GetString g tag_Symbol = Inr s" "supported (BeginString sID)"
  shows "md_symbol E sy msg sID r g p w =
    md_send E (Ret (md_reject sID (md_ReqID r) (duplicate_text (md_ReqID r)) MDReqRejReason_DUPLICATE_MDREQID)) sID w"
  using assms(3-5) MDReqIDExists_iff [OF env_ord_symbols [OF assms(1,2)]]
  by (simp add: md_symbol_def build_md_reject duplicate_text_def Let_def)

section \<open>Refused requests\<close>

text \<open>
  A request ID that is in use is refused, whatever is requested. In a reachable state, when a symbol has a
  subscription under the MDReqID of the request, the handler sends one market data reject with reason
  duplicate MDReqID and does nothing else, also when the request is to end the subscription.
\<close>

theorem request_id_in_use_refused:
  assumes "gw_reach st sy0 env_good event_good w" "env_good E" "FindPeer w (SessionID_String sID) = Some p"
    and "md_reads msg (g # gs) r" "GetString g tag_Symbol = Inr s" "supported (BeginString sID)"
    and "md_ReqID r \<in> ran (symbolToReqID (p_cache p))"
  shows "\<exists>w' res m. OnFIXMarketDataRequest E sy msg sID w = Ret (w', res) \<and> gw_peers w' = gw_peers w \<and>
    gw_trace w' = gw_trace w @ [ESend sID m] \<and> body_str m tag_MDReqID = Some (md_ReqID r) \<and>
    body_str m tag_MDReqRejReason = Some MDReqRejReason_DUPLICATE_MDREQID"
proof -
  have "cache_fin (p_cache p)"
    using gw_ok_FindPeer [OF reach_ok [OF assms(1)] assms(3)] by (rule peer_ok_cache_fin)
  then show ?thesis
    by (simp add: OnFIXMarketDataRequest_loop [OF assms(3,4)] md_symbol_duplicate assms md_send_reject log_call_def md_reject_fields)
qed

section \<open>Ending a subscription\<close>

lemma md_symbol_disable:
  assumes "env_good E" "cache_fin (p_cache p)" "md_SubType r = SubscriptionRequestType_DISABLE" "supported (BeginString sID)"
    and "md_symbol E sy msg sID r g p w = Ret nxt"
  shows "\<exists>ms w' res. (nxt = Next w' p \<or> nxt = Return w' res) \<and> gw_peers w' = gw_peers w \<and>
    gw_trace w' = gw_trace w @ map (ESend sID) ms"
proof -
  have one: "\<exists>ms. gw_trace (log_call (ESend sID m) w) = gw_trace w @ map (ESend sID) ms" for m
    by (intro exI [of _ "[m]"]) (simp add: log_call_def)
  have zero: "\<exists>ms. gw_trace w = gw_trace w @ map (ESend sID) ms" by (intro exI [of _ "[]"]) simp
  have none: "LookupAPIReqIDs (p_cache p) i = None" if "i \<notin> ran (symbolToReqID (p_cache p))" for i
    using assms(2) that by (auto simp: cache_fin_def LookupAPIReqIDs_def split: option.split)
  show ?thesis
    using assms(5) assms(3) one zero
    unfolding md_symbol_def Let_def MDReqIDExists_iff [OF env_ord_symbols [OF assms(1,2)]] build_md_reject [OF assms(4)]
      md_send_reject md_send_continue_Ret md_unsubscribe_def
    by (auto simp: none split: sum.splits if_splits option.splits)
qed

lemma md_loop_disable:
  assumes "env_good E" "cache_fin (p_cache p)" "md_SubType r = SubscriptionRequestType_DISABLE" "supported (BeginString sID)"
    and "md_loop E sy msg sID r gs p w = Ret (w', res)"
  shows "gw_peers w' = gw_peers w \<and> (\<exists>ms. gw_trace w' = gw_trace w @ map (ESend sID) ms)"
  using assms(5)
proof (induction gs arbitrary: w)
  case Nil
  then show ?case by (auto intro: exI [of _ "[]"])
next
  case (Cons g gs)
  then obtain nxt where n: "md_symbol E sy msg sID r g p w = Ret nxt"
    "(case nxt of Next w1 p1 \<Rightarrow> md_loop E sy msg sID r gs p1 w1 | Return w1 e \<Rightarrow> Ret (w1, e)) = Ret (w', res)"
    by (auto simp: go_bind_eq_Ret)
  obtain ms w1 e where s: "nxt = Next w1 p \<or> nxt = Return w1 e" "gw_peers w1 = gw_peers w"
    "gw_trace w1 = gw_trace w @ map (ESend sID) ms"
    using md_symbol_disable [OF assms(1-4) n(1)] by blast
  show ?case
  proof (cases "nxt = Next w1 p")
    case True
    with n(2) have "md_loop E sy msg sID r gs p w1 = Ret (w', res)" by simp
    from Cons.IH [OF this] obtain ms' where "gw_peers w' = gw_peers w1" "gw_trace w' = gw_trace w1 @ map (ESend sID) ms'"
      by blast
    then show ?thesis using s by (auto intro!: exI [of _ "ms @ ms'"])
  next
    case False
    then show ?thesis using n(2) s by auto
  qed
qed

text \<open>
  C29: a client cannot end a subscription. In a reachable state a request to disable previous updates leaves all
  peers as they are and makes no other calls than sending messages to the session: the exchange is never asked to
  unsubscribe. The check for a duplicate MDReqID comes before the request type is looked at, and an
  MDReqID with subscriptions is always a duplicate.
\<close>

theorem unsubscribe_never_reaches_exchange:
  assumes "gw_reach st sy0 env_good event_good w" "env_good E" "FindPeer w (SessionID_String sID) = Some p"
    and "md_reads msg gs r" "md_SubType r = SubscriptionRequestType_DISABLE" "supported (BeginString sID)"
    and "OnFIXMarketDataRequest E sy msg sID w = Ret (w', res)"
  shows "gw_peers w' = gw_peers w \<and> (\<exists>ms. gw_trace w' = gw_trace w @ map (ESend sID) ms)"
proof -
  have "cache_fin (p_cache p)"
    using gw_ok_FindPeer [OF reach_ok [OF assms(1)] assms(3)] by (rule peer_ok_cache_fin)
  from md_loop_disable [OF assms(2) this assms(5,6)] show ?thesis
    using assms(7) by (simp add: OnFIXMarketDataRequest_loop [OF assms(3,4)])
qed

section \<open>Subscriptions\<close>

definition book_precision :: "FieldMap \<Rightarrow> md_request \<Rightarrow> string" where
  "book_precision msg r =
     (if md_Override r then md_Precision r else if GetBool msg tag_AggregatedBook = Inr False then ''R0'' else ''P0'')"

definition subscribed_cache :: "string \<Rightarrow> string \<Rightarrow> string \<Rightarrow> string \<Rightarrow> cache \<Rightarrow> cache" where
  "subscribed_cache symb i b t c = MapMDReqIDs i b t (MapSymbolToReqID symb i c)"

lemma subscribed_cache_maps:
  "symbolToReqID (subscribed_cache symb i b t c) = (symbolToReqID c)(symb \<mapsto> i)"
  "mdReqIDs (subscribed_cache symb i b t c) = (mdReqIDs c)(i \<mapsto> \<lparr>marketDataID = b, tradeID = t\<rparr>)"
  by (simp_all add: subscribed_cache_def MapMDReqIDs_def MapSymbolToReqID_def)

text \<open>The state after the two subscriptions for a symbol were made.\<close>

definition after_subscribe :: "FieldMap \<Rightarrow> SessionID \<Rightarrow> md_request \<Rightarrow> string \<Rightarrow> string \<Rightarrow> string \<Rightarrow> Peer \<Rightarrow> gw \<Rightarrow> gw" where
  "after_subscribe msg sID r symb b t p w =
     (let pid = SessionID_String sID
      in w\<lparr>gw_peers := (gw_peers w)(pid \<mapsto> p\<lparr>p_cache := subscribed_cache symb (md_ReqID r) b t (p_cache p)\<rparr>),
           gw_trace := gw_trace w @ [ESubscribeBook pid symb (book_precision msg r) ''F0'' (md_Depth r), ESubscribeTrades pid symb]\<rparr>)"

lemma after_subscribe_simps:
  "FindPeer (after_subscribe msg sID r symb b t p w) (SessionID_String sID) =
     Some (p\<lparr>p_cache := subscribed_cache symb (md_ReqID r) b t (p_cache p)\<rparr>)"
  "gw_trace (after_subscribe msg sID r symb b t p w) = gw_trace w @
     [ESubscribeBook (SessionID_String sID) symb (book_precision msg r) ''F0'' (md_Depth r), ESubscribeTrades (SessionID_String sID) symb]"
  by (simp_all add: after_subscribe_def FindPeer_def Let_def)

text \<open>The request for a symbol is new and the exchange takes both subscriptions.\<close>

definition subscribes :: "env \<Rightarrow> FieldMap \<Rightarrow> SessionID \<Rightarrow> md_request \<Rightarrow> string \<Rightarrow> string \<Rightarrow> string \<Rightarrow> Peer \<Rightarrow> gw \<Rightarrow> bool" where
  "subscribes E msg sID r symb b t p w \<longleftrightarrow>
     md_SubType r = SubscriptionRequestType_SNAPSHOT_PLUS_UPDATES \<and>
     md_ReqID r \<notin> ran (symbolToReqID (p_cache p)) \<and> symbolToReqID (p_cache p) symb = None \<and>
     env_SubscribeBook E (gw_trace w) symb (book_precision msg r) ''F0'' (md_Depth r) = Inr b \<and>
     env_SubscribeTrades E (gw_trace w @ [ESubscribeBook (SessionID_String sID) symb (book_precision msg r) ''F0'' (md_Depth r)]) symb = Inr t"

lemma md_symbol_subscribes:
  assumes "env_good E" "cache_fin (p_cache p)" "GetString g tag_Symbol = Inr s"
    and "subscribes E msg sID r (to_bitfinex_or_same sy s (TargetCompID sID)) b t p w"
  shows "md_symbol E sy msg sID r g p w =
    Ret (Next (after_subscribe msg sID r (to_bitfinex_or_same sy s (TargetCompID sID)) b t p w)
      (p\<lparr>p_cache := subscribed_cache (to_bitfinex_or_same sy s (TargetCompID sID)) (md_ReqID r) b t (p_cache p)\<rparr>))"
  using assms(3,4)
  unfolding md_symbol_def Let_def MDReqIDExists_iff [OF env_ord_symbols [OF assms(1,2)]]
  by (simp add: md_subscribe_def subscribes_def LookupMDReqID_def book_precision_def after_subscribe_def subscribed_cache_def
      set_peer_def log_call_def Let_def)

lemma cache_fin_subscribed: "cache_fin c \<Longrightarrow> symbolToReqID c symb = None \<Longrightarrow> cache_fin (subscribed_cache symb i b t c)"
  unfolding subscribed_cache_def
  by (intro cache_fin_MapMDReqIDs [of _ symb] cache_fin_MapSymbolToReqID) (simp_all add: LookupMDReqID_def MapSymbolToReqID_def)

lemma subscribe_one:
  assumes "env_good E" "cache_fin (p_cache p)" "FindPeer w (SessionID_String sID) = Some p" "md_reads msg [g] r"
    and "GetString g tag_Symbol = Inr s" "symb = to_bitfinex_or_same sy s (TargetCompID sID)" "subscribes E msg sID r symb b t p w"
  shows "OnFIXMarketDataRequest E sy msg sID w = Ret (after_subscribe msg sID r symb b t p w, None)"
  using md_symbol_subscribes [OF assms(1,2,5)] assms(6,7)
  by (simp add: OnFIXMarketDataRequest_loop [OF assms(3,4)])

text \<open>
  C10: a new subscription and what it leads to. When a request for one symbol has an MDReqID and a
  symbol that are not in use, the handler subscribes to the book and to the trades of the translated
  symbol and answers nothing. From then on the request's MDReqID leads to both subscriptions, and every
  book update for the symbol is published to the session as an incremental refresh that carries the
  MDReqID.
\<close>

theorem subscription_accepted:
  assumes "gw_reach st sy0 env_good event_good w" "env_good E" "FindPeer w (SessionID_String sID) = Some p"
    and "md_reads msg [g] r" "GetString g tag_Symbol = Inr s"
    and "symb = to_bitfinex_or_same sy s (TargetCompID sID)" "subscribes E msg sID r symb b t p w"
  shows "\<exists>w' p'. OnFIXMarketDataRequest E sy msg sID w = Ret (w', None) \<and> FindPeer w' (SessionID_String sID) = Some p' \<and>
    gw_trace w' = gw_trace w @
      [ESubscribeBook (SessionID_String sID) symb (book_precision msg r) ''F0'' (md_Depth r), ESubscribeTrades (SessionID_String sID) symb] \<and>
    LookupAPIReqIDs (p_cache p') (md_ReqID r) = Some (b, t) \<and>
    (\<forall>E' u. bu_Symbol u = symb \<longrightarrow> FIXBookUpdate E' sy u sID w' =
       ws_send E' (FIXMarketDataIncrementalRefreshFromBookUpdate (BeginString sID) (md_ReqID r) u sy (TargetCompID sID)) sID w')"
proof -
  have "cache_fin (p_cache p)"
    using gw_ok_FindPeer [OF reach_ok [OF assms(1)] assms(3)] by (rule peer_ok_cache_fin)
  from subscribe_one [OF assms(2) this assms(3-7)] show ?thesis
    by (simp add: after_subscribe_simps LookupAPIReqIDs_def LookupMDReqID_def subscribed_cache_maps FIXBookUpdate_def with_peer_def)
qed

text \<open>
  Only the first symbol of a request is subscribed. When a request names two or more symbols and the first is
  subscribed, the second is refused as a duplicate of the request's own MDReqID, and the later ones are not
  looked at.
\<close>

theorem second_symbol_refused:
  assumes "gw_reach st sy0 env_good event_good w" "env_good E" "FindPeer w (SessionID_String sID) = Some p"
    and "md_reads msg (g # g2 # gs) r" "GetString g tag_Symbol = Inr s" "GetString g2 tag_Symbol = Inr s2"
    and "symb = to_bitfinex_or_same sy s (TargetCompID sID)" "subscribes E msg sID r symb b t p w" "supported (BeginString sID)"
  shows "\<exists>w' res m. OnFIXMarketDataRequest E sy msg sID w = Ret (w', res) \<and>
    gw_trace w' = gw_trace w @
      [ESubscribeBook (SessionID_String sID) symb (book_precision msg r) ''F0'' (md_Depth r), ESubscribeTrades (SessionID_String sID) symb,
       ESend sID m] \<and>
    body_str m tag_MDReqID = Some (md_ReqID r) \<and> body_str m tag_MDReqRejReason = Some MDReqRejReason_DUPLICATE_MDREQID"
proof -
  have c: "cache_fin (p_cache p)"
    using gw_ok_FindPeer [OF reach_ok [OF assms(1)] assms(3)] by (rule peer_ok_cache_fin)
  let ?p = "p\<lparr>p_cache := subscribed_cache symb (md_ReqID r) b t (p_cache p)\<rparr>"
  have "cache_fin (p_cache ?p)" using c assms(8) by (simp add: cache_fin_subscribed subscribes_def)
  moreover have "md_ReqID r \<in> ran (symbolToReqID (p_cache ?p))" by (auto simp: subscribed_cache_maps ran_def)
  ultimately have "md_symbol E sy msg sID r g2 ?p w2 =
    md_send E (Ret (md_reject sID (md_ReqID r) (duplicate_text (md_ReqID r)) MDReqRejReason_DUPLICATE_MDREQID)) sID w2" for w2
    using md_symbol_duplicate [OF assms(2) _ _ assms(6,9)] by blast
  then show ?thesis
    using md_symbol_subscribes [OF assms(2) c assms(5)] assms(7,8)
    by (simp add: OnFIXMarketDataRequest_loop [OF assms(3,4)] md_send_reject log_call_def after_subscribe_simps md_reject_fields)
qed

section \<open>Snapshots\<close>

lemma math_Abs_finite [simp]: "f64_finite (math_Abs x) = f64_finite x"
  by (cases x) simp_all








section \<open>Examples\<close>

text \<open>A market data request of type \<open>t\<close> for the symbol \<open>s\<close>, or for \<open>s\<close> and another.\<close>

definition md_msg :: "string \<Rightarrow> tag_value list \<Rightarrow> FieldMap" where
  "md_msg t grp = [tag_MDReqID \<mapsto> [(tag_MDReqID, ''r1'')], tag_SubscriptionRequestType \<mapsto> [(tag_SubscriptionRequestType, t)],
     tag_MarketDepth \<mapsto> [(tag_MarketDepth, ''1'')], tag_NoRelatedSym \<mapsto> grp]"

definition one_symbol :: "tag_value list" where
  "one_symbol = [(tag_NoRelatedSym, ''1''), (tag_Symbol, ''tBTCUSD'')]"

definition two_symbols :: "tag_value list" where
  "two_symbols = [(tag_NoRelatedSym, ''2''), (tag_Symbol, ''tBTCUSD''), (tag_Symbol, ''tETHUSD'')]"

definition md_req :: "string \<Rightarrow> md_request" where
  "md_req t = \<lparr>md_ReqID = ''r1'', md_SubType = t, md_Depth = 1, md_Precision = ''P0'', md_Override = False\<rparr>"

lemma md_msg_request: "read_md_request (md_msg t grp) = Ret (Inr (md_req t))"
  by (simp add: read_md_request_def md_msg_def md_req_def GetString_def GetField_def GetInt_def GetBytes_def atoi_def parseUInt_def wrap64_def evals)

lemma md_msg_reads:
  "md_reads (md_msg t one_symbol) [[tag_Symbol \<mapsto> [(tag_Symbol, ''tBTCUSD'')]]] (md_req t)"
  "md_reads (md_msg t two_symbols)
     [[tag_Symbol \<mapsto> [(tag_Symbol, ''tBTCUSD''), (tag_Symbol, ''tETHUSD'')]], [tag_Symbol \<mapsto> [(tag_Symbol, ''tETHUSD'')]]] (md_req t)"
  unfolding md_reads_def md_msg_request
  by (simp_all add: GetGroup_def md_msg_def one_symbol_def two_symbols_def group_Read_def norelatedsym_template_def atoi_def parseUInt_def wrap64_def evals)

lemma symbol_reads:
  "GetString [tag_Symbol \<mapsto> (tag_Symbol, v) # rest] tag_Symbol = Inr v"
  by (simp add: GetString_def GetField_def)

abbreviation "sample_peer \<equiv> (Peer_New sample_sID)\<lparr>p_bfxUserID := ''u1'', p_started := True\<rparr>"

lemma sample_peer_cache: "p_cache sample_peer = newCache" "cache_fin newCache"
  using peer_ok_cache_fin [OF peer_ok_new] by (simp_all add: Peer_New_def)

lemma sample_subscribes:
  "subscribes calm_env msg sample_sID (md_req ''1'') ''tBTCUSD'' ''book:tBTCUSD'' ''trades:tBTCUSD'' sample_peer w"
  by (simp add: subscribes_def md_req_def sample_peer_cache newCache_def calm_env_def)

lemma passthrough_symbol: "to_bitfinex_or_same PassthroughSymbology s cp = s"
  by (simp add: to_bitfinex_or_same_def PassthroughSymbology_def)

theorem subscription_accepted_witness:
  "\<exists>w'. OnFIXMarketDataRequest calm_env PassthroughSymbology (md_msg ''1'' one_symbol) sample_sID logged_on = Ret (w', None) \<and>
     FindPeer w' (SessionID_String sample_sID) \<noteq> None"
  using subscription_accepted [OF reach_logged_on env_good_calm logged_on_peer md_msg_reads(1) symbol_reads
      passthrough_symbol [symmetric] sample_subscribes]
  by blast

theorem second_symbol_refused_witness:
  "\<exists>w' res m. OnFIXMarketDataRequest calm_env PassthroughSymbology (md_msg ''1'' two_symbols) sample_sID logged_on = Ret (w', res) \<and>
     body_str m tag_MDReqRejReason = Some MDReqRejReason_DUPLICATE_MDREQID \<and> (sample_sID, m) \<in> set (sent w')"
  using second_symbol_refused [OF reach_logged_on env_good_calm logged_on_peer md_msg_reads(2) symbol_reads symbol_reads _
      sample_subscribes sample_supported, of PassthroughSymbology]
  by (fastforce simp: passthrough_symbol sent_def)


text \<open>A reachable state with a subscription.\<close>

definition subscribed_gw :: gw where
  "subscribed_gw = after_subscribe (md_msg ''1'' one_symbol) sample_sID (md_req ''1'') ''tBTCUSD'' ''book:tBTCUSD'' ''trades:tBTCUSD''
     sample_peer (logged_on\<lparr>gw_lastMsgType := ''V''\<rparr>)"

definition md_message :: Message where
  "md_message = (new_msg BeginStringFIX42 ''V'')\<lparr>m_Body := md_msg ''1'' one_symbol\<rparr>"

lemma subscribed_gw_event:
  "handle_event MarketDataService calm_env PassthroughSymbology (FixApp md_message sample_sID) logged_on = Ret subscribed_gw"
proof -
  let ?w = "logged_on\<lparr>gw_lastMsgType := ''V''\<rparr>"
  have "FindPeer ?w (SessionID_String sample_sID) = Some sample_peer" using logged_on_peer by (simp add: FindPeer_def)
  from subscribe_one [OF env_good_calm _ this md_msg_reads(1) symbol_reads _ sample_subscribes]
  have "OnFIXMarketDataRequest calm_env PassthroughSymbology (md_msg ''1'' one_symbol) sample_sID ?w = Ret (subscribed_gw, None)"
    by (simp add: passthrough_symbol sample_peer_cache subscribed_gw_def)
  moreover have "FIX_routes MarketDataService (''FIX.4.2'', ''V'') = Some RMarketDataRequest"
    by (simp add: FIX_routes_table routed_versions_def route_table_def)
  ultimately show ?thesis
    by (simp add: handle_event_def FromApp_def Route_def tryRoute_def md_message_def new_msg_def GetBytes_def GetOrEmpty_def
        GetString_def GetField_def SetField_def fix_version_def BeginStringFIX42_def BeginStringFIXT11_def run_route_def)
qed

lemma reach_subscribed: "gw_reach MarketDataService PassthroughSymbology env_good event_good subscribed_gw"
proof (rule gw_reach.step [OF reach_logged_on])
  show "env_good calm_env" by (rule env_good_calm)
  show "event_good (FixApp md_message sample_sID)" by (simp add: event_good_def)
qed (rule subscribed_gw_event)

lemma subscribed_gw_peer:
  "FindPeer subscribed_gw (SessionID_String sample_sID) =
     Some (sample_peer\<lparr>p_cache := subscribed_cache ''tBTCUSD'' ''r1'' ''book:tBTCUSD'' ''trades:tBTCUSD'' newCache\<rparr>)"
  unfolding subscribed_gw_def after_subscribe_simps sample_peer_cache by (simp add: md_req_def)

theorem request_id_in_use_refused_witness:
  "\<exists>w' res m. OnFIXMarketDataRequest calm_env PassthroughSymbology (md_msg ''2'' one_symbol) sample_sID subscribed_gw = Ret (w', res) \<and>
     gw_peers w' = gw_peers subscribed_gw \<and> gw_trace w' = gw_trace subscribed_gw @ [ESend sample_sID m] \<and>
     body_str m tag_MDReqRejReason = Some MDReqRejReason_DUPLICATE_MDREQID"
proof -
  have "md_ReqID (md_req ''2'') \<in> ran (symbolToReqID (p_cache
      (sample_peer\<lparr>p_cache := subscribed_cache ''tBTCUSD'' ''r1'' ''book:tBTCUSD'' ''trades:tBTCUSD'' newCache\<rparr>)))"
    by (simp add: md_req_def subscribed_cache_maps newCache_def)
  from request_id_in_use_refused [OF reach_subscribed env_good_calm subscribed_gw_peer md_msg_reads(1) symbol_reads sample_supported this]
  show ?thesis by blast
qed

theorem unsubscribe_never_reaches_exchange_witness:
  "\<exists>w' res ms. OnFIXMarketDataRequest calm_env PassthroughSymbology (md_msg ''2'' one_symbol) sample_sID subscribed_gw = Ret (w', res) \<and>
     gw_trace w' = gw_trace subscribed_gw @ map (ESend sample_sID) ms"
proof -
  obtain w' res where h: "OnFIXMarketDataRequest calm_env PassthroughSymbology (md_msg ''2'' one_symbol) sample_sID subscribed_gw = Ret (w', res)"
    using md_symbol_duplicate [OF env_good_calm _ _ symbol_reads sample_supported]
    by (simp add: OnFIXMarketDataRequest_loop [OF subscribed_gw_peer md_msg_reads(1)] md_req_def subscribed_cache_maps newCache_def
        cache_fin_subscribed md_send_reject sample_peer_cache(2) [unfolded newCache_def])
  from unsubscribe_never_reaches_exchange [OF reach_subscribed env_good_calm subscribed_gw_peer md_msg_reads(1) _ sample_supported h]
  show ?thesis using h by (auto simp: md_req_def)
qed

end
