(* ===== verification/Exec_Flow.thy ===== *)
theory Exec_Flow
  imports Md_Flow
begin

text \<open>
  What happens to an order after it was sent: the acknowledgement of the exchange, executions, cancels and
  the snapshot of open orders (\<^verbatim>\<open>service/websocket/fix_msg.go\<close>), together with the cache of the peer.

  The theorems show that an acknowledgement links the order to its OrderID, so that executions find
  it; that an execution is added to exactly that order and reported with the new total; that the
  cancel of a partly filled order is not reported; and how the snapshot of open orders stops early.
\<close>

section \<open>The order with an OrderID\<close>

definition only_order :: "cache \<Rightarrow> string \<Rightarrow> string \<Rightarrow> CachedOrder \<Rightarrow> bool" where
  "only_order c oid k o' \<longleftrightarrow> orders c k = Some o' \<and> co_OrderID o' = oid \<and>
     (\<forall>k' o2. orders c k' = Some o2 \<longrightarrow> co_OrderID o2 = oid \<longrightarrow> k' = k)"

lemma only_order_find:
  assumes "env_good E" "cache_fin c" "only_order c oid k o'"
  shows "range_find (\<lambda>_ o2. co_OrderID o2 = oid) (env_ord E n tr (dom (orders c))) (orders c) = Some (k, o')"
  using assms
  by (intro range_find_unique) (auto simp: only_order_def env_good_def env_ok_def cache_fin_def)

lemma reach_cache_fin: "gw_reach st sy env_good event_good w \<Longrightarrow> FindPeer w pid = Some p \<Longrightarrow> cache_fin (p_cache p)"
  by (rule peer_ok_cache_fin [OF gw_ok_FindPeer [OF reach_ok]])

section \<open>Executions\<close>

definition add_fill :: "TradeExecutionUpdate \<Rightarrow> CachedOrder \<Rightarrow> CachedOrder" where
  "add_fill t o' = o'\<lparr>co_Executions := co_Executions o' @
     [\<lparr>BfxExecutionID = FormatInt (te_ID t), ex_Px = te_ExecPrice t, ex_Qty = f64_abs (te_ExecAmount t)\<rparr>]\<rparr>"

text \<open>The numbers that the report of an execution prints are finite.\<close>

definition fill_printable :: "TradeExecutionUpdate \<Rightarrow> CachedOrder \<Rightarrow> bool" where
  "fill_printable t o' \<longleftrightarrow> f64_finite (co_Qty o') \<and> f64_finite (filledQty o') \<and> f64_finite (avgFillPx o') \<and>
     f64_finite (co_Px o') \<and> f64_finite (co_Stop o') \<and> f64_finite (co_Trail o') \<and> f64_finite (te_ExecAmount t) \<and>
     f64_finite (te_Fee t) \<and> f64_finite (te_ExecPrice t)"

lemma trade_execution_known:
  assumes "env_good E" "FindPeer w (SessionID_String sID) = Some p" "cache_fin (p_cache p)"
    and "only_order (p_cache p) (FormatInt (te_OrderID t)) k o'"
  shows "\<exists>w1. gw_trace w1 = gw_trace w \<and>
    FindPeer w1 (SessionID_String sID) = Some (p\<lparr>p_cache := (p_cache p)\<lparr>orders := (orders (p_cache p))(k \<mapsto> add_fill t o')\<rparr>\<rparr>) \<and>
    FIXTradeExecutionUpdateHandler E sy t sID w =
      ws_send E (FIXExecutionReportFromTradeExecutionUpdate (env_uuid E (gw_trace w1)) (BeginString sID) t (p_bfxUserID p)
        (co_ClOrdID o') (co_Qty o') (filledQty (add_fill t o')) (co_Px o') (co_Stop o') (co_Trail o') (avgFillPx (add_fill t o'))
        sy (TargetCompID sID) (co_TifExpiration o') (co_Flags o')) sID w1"
  using only_order_find [OF assms(1,3,4)] assms(2)
  by (intro exI [of _ "set_cache (SessionID_String sID) p ((p_cache p)\<lparr>orders := (orders (p_cache p))(k \<mapsto> add_fill t o')\<rparr>) w"])
    (simp add: FIXTradeExecutionUpdateHandler_def with_peer_def fetch_order_def LookupByOrderID_def AddExecution_def
      add_fill_def Let_def set_cache_def set_peer_def FindPeer_def)

lemma execution_effect:
  assumes "gw_reach st sy0 env_good event_good w" "env_good E" "FindPeer w (SessionID_String sID) = Some p"
    and "only_order (p_cache p) (FormatInt (te_OrderID t)) k o'" "qty_ok (te_ExecAmount t)"
    and "supported (BeginString sID)" "fill_printable t (add_fill t o')"
  shows "\<exists>w' r p' m cum. FIXTradeExecutionUpdateHandler E sy t sID w = Ret (w', r) \<and> gw_trace w' = gw_trace w @ [ESend sID m] \<and>
    FindPeer w' (SessionID_String sID) = Some p' \<and> orders (p_cache p') = (orders (p_cache p))(k \<mapsto> add_fill t o') \<and>
    body_str m tag_ClOrdID = Some k \<and> body_str m tag_OrderID = Some (FormatInt (te_OrderID t)) \<and>
    NewFromFloat (filledQty (add_fill t o')) = Ret cum \<and> body_str m tag_CumQty = Some (StringFixed cum 4) \<and>
    body_str m tag_OrdStatus =
      Some (if f64_le (co_Qty o') (filledQty (add_fill t o')) then OrdStatus_FILLED else OrdStatus_PARTIALLY_FILLED) \<and>
    f64_le (filledQty o') (filledQty (add_fill t o'))"
proof -
  note c = reach_cache_fin [OF assms(1,3)]
  obtain w1 where w1: "gw_trace w1 = gw_trace w"
    "FindPeer w1 (SessionID_String sID) = Some (p\<lparr>p_cache := (p_cache p)\<lparr>orders := (orders (p_cache p))(k \<mapsto> add_fill t o')\<rparr>\<rparr>)"
    "FIXTradeExecutionUpdateHandler E sy t sID w =
      ws_send E (FIXExecutionReportFromTradeExecutionUpdate (env_uuid E (gw_trace w1)) (BeginString sID) t (p_bfxUserID p)
        (co_ClOrdID o') (co_Qty o') (filledQty (add_fill t o')) (co_Px o') (co_Stop o') (co_Trail o') (avgFillPx (add_fill t o'))
        sy (TargetCompID sID) (co_TifExpiration o') (co_Flags o')) sID w1"
    using trade_execution_known [OF assms(2,3) c assms(4)] by blast
  have "order_ok k o'" using c assms(4) by (simp add: cache_fin_def cache_ok_def only_order_def)
  then have id: "co_ClOrdID o' = k" and "order_ok k (add_fill t o')"
    using assms(5) by (auto simp: order_ok_def add_fill_def qty_ok_abs)
  then have mono: "f64_le (filledQty o') (filledQty (add_fill t o'))"
    by (intro filledQty_mono) (simp_all add: grows_def add_fill_def)
  obtain m where m: "FIXExecutionReportFromTradeExecutionUpdate (env_uuid E (gw_trace w1)) (BeginString sID) t (p_bfxUserID p)
        (co_ClOrdID o') (co_Qty o') (filledQty (add_fill t o')) (co_Px o') (co_Stop o') (co_Trail o') (avgFillPx (add_fill t o'))
        sy (TargetCompID sID) (co_TifExpiration o') (co_Flags o') = Ret m"
    using assms(6,7) trade_report_Ret_iff [of "env_uuid E (gw_trace w1)" "BeginString sID" t "p_bfxUserID p" "co_ClOrdID o'"
        "co_Qty o'" "filledQty (add_fill t o')" "co_Px o'" "co_Stop o'" "co_Trail o'" "avgFillPx (add_fill t o')" sy "TargetCompID sID"
        "co_TifExpiration o'" "co_Flags o'"]
    by (auto simp: fill_printable_def add_fill_def)
  show ?thesis
    using trade_report_status [OF m] w1(1,2) mono id
    unfolding w1(3) m by (auto simp: ws_send_def SendToTarget_def FindPeer_def)
qed

text \<open>
  C4: an execution reaches the client. In a reachable state, when exactly one cached order has the OrderID of the
  execution, the execution is appended to that order, no other order changes, and one execution report is
  sent to the session. It names the order by its ClOrdID and OrderID, its CumQty is the total of all
  fills with the new one, which is not less than before, and it says FILLED exactly when the total
  has reached the quantity of the order.
\<close>

theorem execution_reported:
  assumes "gw_reach st sy0 env_good event_good w" "env_good E" "FindPeer w (SessionID_String sID) = Some p"
    and "only_order (p_cache p) (FormatInt (te_OrderID t)) k o'" "qty_ok (te_ExecAmount t)"
    and "supported (BeginString sID)" "fill_printable t (add_fill t o')"
  shows "\<exists>w' r p' m cum. FIXTradeExecutionUpdateHandler E sy t sID w = Ret (w', r) \<and> gw_trace w' = gw_trace w @ [ESend sID m] \<and>
    FindPeer w' (SessionID_String sID) = Some p' \<and> orders (p_cache p') = (orders (p_cache p))(k \<mapsto> add_fill t o') \<and>
    body_str m tag_ClOrdID = Some k \<and> body_str m tag_OrderID = Some (FormatInt (te_OrderID t)) \<and>
    NewFromFloat (filledQty (add_fill t o')) = Ret cum \<and> body_str m tag_CumQty = Some (StringFixed cum 4) \<and>
    body_str m tag_OrdStatus =
      Some (if f64_le (co_Qty o') (filledQty (add_fill t o')) then OrdStatus_FILLED else OrdStatus_PARTIALLY_FILLED) \<and>
    f64_le (filledQty o') (filledQty (add_fill t o'))"
  by (rule execution_effect [OF assms])

section \<open>Acknowledgements\<close>

definition order_printable :: "Order \<Rightarrow> bool" where
  "order_printable ord \<longleftrightarrow> f64_finite (o_Amount ord) \<and> f64_finite (o_PriceAvg ord) \<and> f64_finite (o_Price ord) \<and>
     f64_finite (o_PriceAuxLimit ord)"

lemma ack_effect:
  assumes "FindPeer w (SessionID_String sID) = Some p" "no_NotifyInfo d = NOrderNew ord" "no_Status d \<noteq> ''ERROR''"
    and "orders (ack_order ord (p_bfxUserID p) (p_cache p)) (FormatInt (o_CID ord)) = Some o'"
    and "supported (BeginString sID)" "order_printable ord" "f64_finite (co_Trail o')"
  shows "\<exists>w' r m. FIXNotificationHandler E sy d sID w = Ret (w', r) \<and> gw_trace w' = gw_trace w @ [ESend sID m] \<and>
    FindPeer w' (SessionID_String sID) = Some (p\<lparr>p_cache := ack_order ord (p_bfxUserID p) (p_cache p)\<rparr>) \<and>
    body_str m tag_OrderID = Some (FormatInt (o_ID ord)) \<and> body_str m tag_ClOrdID = Some (FormatInt (o_CID ord)) \<and>
    body_str m tag_OrdStatus = Some OrdStatus_NEW \<and> body_str m tag_ExecType = Some ExecType_NEW"
proof -
  let ?c = "ack_order ord (p_bfxUserID p) (p_cache p)"
  let ?w1 = "set_cache (SessionID_String sID) p ?c w"
  let ?trailing = "contains (o_Type ord) ''TRAILING''"
  let ?gm = "FIXExecutionReportFromOrder (env_uuid E (gw_trace ?w1)) (BeginString sID) ord (p_bfxUserID p) ExecType_NEW f64_zero
    OrdStatus_NEW '''' sy (TargetCompID sID) (co_Flags o') (if ?trailing then o_Price ord else o_PriceAuxLimit ord)
    (if ?trailing then co_Trail o' else f64_zero)"
  have "LookupByClOrdID ?c (FormatInt (o_CID ord)) = Inr o'" using assms(4) by (simp add: LookupByClOrdID_def)
  then have h: "FIXNotificationHandler E sy d sID w = ws_send E ?gm sID ?w1"
    using assms(1-3) by (simp add: FIXNotificationHandler_def with_peer_def notify_new_def Let_def)
  obtain m where m: "?gm = Ret m"
    using assms(5-7) order_report_Ret_iff [of "env_uuid E (gw_trace ?w1)" "BeginString sID" ord "p_bfxUserID p" ExecType_NEW f64_zero
        OrdStatus_NEW "''''" sy "TargetCompID sID" "co_Flags o'" "if ?trailing then o_Price ord else o_PriceAuxLimit ord"
        "if ?trailing then co_Trail o' else f64_zero"]
    by (auto simp: order_printable_def f64_zero_def)
  show ?thesis
    using order_report_Ret [OF m] unfolding h m
    by (simp add: ws_send_def SendToTarget_def set_cache_def set_peer_def FindPeer_def)
qed

text \<open>
  C5: the acknowledgement of the exchange links an order to its OrderID. When the exchange reports a new order
  whose number is the ClOrdID of a cached order, with an OrderID that no other cached order has, that
  order, and no other, gets the OrderID, so that it is the only order of the cache that executions
  with this OrderID find. One execution report with status NEW and the OrderID is sent to the session.
\<close>

theorem ack_links_order:
  assumes "FindPeer w (SessionID_String sID) = Some p" "no_NotifyInfo d = NOrderNew ord" "no_Status d \<noteq> ''ERROR''"
    and "orders (p_cache p) (FormatInt (o_CID ord)) = Some o'"
    and "\<forall>k o2. orders (p_cache p) k = Some o2 \<longrightarrow> co_OrderID o2 = FormatInt (o_ID ord) \<longrightarrow> k = FormatInt (o_CID ord)"
    and "supported (BeginString sID)" "order_printable ord" "f64_finite (co_Trail o')"
  shows "\<exists>w' r p' m. FIXNotificationHandler E sy d sID w = Ret (w', r) \<and> gw_trace w' = gw_trace w @ [ESend sID m] \<and>
    body_str m tag_OrderID = Some (FormatInt (o_ID ord)) \<and> body_str m tag_OrdStatus = Some OrdStatus_NEW \<and>
    FindPeer w' (SessionID_String sID) = Some p' \<and>
    only_order (p_cache p') (FormatInt (o_ID ord)) (FormatInt (o_CID ord)) (o'\<lparr>co_OrderID := FormatInt (o_ID ord)\<rparr>) \<and>
    (\<forall>k. k \<noteq> FormatInt (o_CID ord) \<longrightarrow> orders (p_cache p') k = orders (p_cache p) k)"
proof -
  have ack: "orders (ack_order ord (p_bfxUserID p) (p_cache p)) =
      (orders (p_cache p))(FormatInt (o_CID ord) \<mapsto> o'\<lparr>co_OrderID := FormatInt (o_ID ord)\<rparr>)"
    using assms(4) by (simp add: ack_order_def UpdateOrder_def Let_def)
  have "only_order (ack_order ord (p_bfxUserID p) (p_cache p)) (FormatInt (o_ID ord)) (FormatInt (o_CID ord))
      (o'\<lparr>co_OrderID := FormatInt (o_ID ord)\<rparr>)"
    using assms(5) by (auto simp: only_order_def ack split: if_splits)
  moreover have "\<exists>w' r m. FIXNotificationHandler E sy d sID w = Ret (w', r) \<and> gw_trace w' = gw_trace w @ [ESend sID m] \<and>
    FindPeer w' (SessionID_String sID) = Some (p\<lparr>p_cache := ack_order ord (p_bfxUserID p) (p_cache p)\<rparr>) \<and>
    body_str m tag_OrderID = Some (FormatInt (o_ID ord)) \<and> body_str m tag_ClOrdID = Some (FormatInt (o_CID ord)) \<and>
    body_str m tag_OrdStatus = Some OrdStatus_NEW \<and> body_str m tag_ExecType = Some ExecType_NEW"
    using assms(8) by (intro ack_effect [where o' = "o'\<lparr>co_OrderID := FormatInt (o_ID ord)\<rparr>", OF assms(1-3) _ assms(6,7)])
      (simp_all add: ack)
  ultimately show ?thesis by (auto simp: ack)
qed

section \<open>Cancelled orders\<close>

text \<open>
  C31: the end of an order is not reported when the order had fills. For an order that the exchange has taken out of its books
  and that is cached under its OrderID, the handler sends a report with the filled quantity of the cache as CumQty,
  unless the status of the order mentions EXECUTED or PARTIALLY FILLED: then it sends nothing. So
  this message, the one by which the exchange ends an order, leads to no report for an order that was partly filled and then cancelled.
\<close>

theorem cancel_reported_unless_filled:
  assumes "gw_reach st sy0 env_good event_good w" "env_good E" "FindPeer w (SessionID_String sID) = Some p"
    and "only_order (p_cache p) (FormatInt (o_ID ord)) k o'"
    and "supported (BeginString sID)" "order_printable ord" "f64_finite (filledQty o')" "f64_finite (co_Trail o')"
  shows "if contains (o_Status ord) OrderStatusExecuted \<or> contains (o_Status ord) OrderStatusPartiallyFilled
    then FIXOrderCancelHandler E sy ord sID w = Ret (w, None)
    else \<exists>w' r m cum. FIXOrderCancelHandler E sy ord sID w = Ret (w', r) \<and> gw_trace w' = gw_trace w @ [ESend sID m] \<and>
      body_str m tag_OrderID = Some (FormatInt (o_ID ord)) \<and> NewFromFloat (filledQty o') = Ret cum \<and>
      body_str m tag_CumQty = Some (StringFixed cum 4) \<and>
      body_str m tag_OrdStatus = Some (if contains (o_Status ord) OrderStatusCanceled then OrdStatus_CANCELED else OrdStatus_NEW)"
proof -
  let ?gm = "FIXExecutionReportFromOrder (env_uuid E (gw_trace w)) (BeginString sID) ord (p_bfxUserID p) (ExecTypeToFIX (o_Status ord))
    (filledQty o') (OrdStatusToFIX (o_Status ord)) (o_Status ord) sy (TargetCompID sID) (co_Flags o') f64_zero (co_Trail o')"
  have h: "FIXOrderCancelHandler E sy ord sID w =
    (if OrdStatusToFIX (o_Status ord) = OrdStatus_FILLED \<or> OrdStatusToFIX (o_Status ord) = OrdStatus_PARTIALLY_FILLED
     then Ret (w, None) else ws_send E ?gm sID w)"
    using only_order_find [OF assms(2) reach_cache_fin [OF assms(1,3)] assms(4)] assms(3)
    by (simp add: FIXOrderCancelHandler_def with_peer_def LookupByOrderID_def Let_def)
  obtain m where m: "?gm = Ret m"
    using assms(5-8) order_report_Ret_iff [of "env_uuid E (gw_trace w)" "BeginString sID" ord "p_bfxUserID p" "ExecTypeToFIX (o_Status ord)"
        "filledQty o'" "OrdStatusToFIX (o_Status ord)" "o_Status ord" sy "TargetCompID sID" "co_Flags o'" f64_zero "co_Trail o'"]
    by (auto simp: order_printable_def f64_zero_def)
  show ?thesis
    using order_report_Ret [OF m] unfolding h m
    by (auto simp: ws_send_def SendToTarget_def OrdStatusToFIX_def)
qed

section \<open>The snapshot of open orders\<close>

text \<open>The order that the snapshot handler adds to the cache, before its OrderID is set.\<close>

definition snapshot_order :: "Peer \<Rightarrow> Order \<Rightarrow> CachedOrder" where
  "snapshot_order p ord =
     newOrder (FormatInt (o_CID ord)) (o_Price ord) (o_PriceAuxLimit ord) (o_PriceTrailing ord) (f64_abs (o_Amount ord))
       (o_Symbol ord) (p_bfxUserID p) (SideToFIX (o_Amount ord)) (fst (OrdTypeToFIX (o_Type ord)))
       (snd (OrdTypeToFIX (o_Type ord))) (fst (TimeInForceToFIX (o_Type ord) (o_MTSTif ord))) (o_MTSTif ord) (o_Flags ord)"

lemma snapshot_order_fresh: "co_OrderID (snapshot_order p ord) = ''''" "co_Executions (snapshot_order p ord) = []"
  by (simp_all add: snapshot_order_def newOrder_def)

definition added_cache :: "Peer \<Rightarrow> Order \<Rightarrow> cache" where
  "added_cache p ord = (p_cache p)\<lparr>orders := (orders (p_cache p))(FormatInt (o_CID ord) \<mapsto> snapshot_order p ord)\<rparr>"

definition after_OrderTrades :: "SessionID \<Rightarrow> Peer \<Rightarrow> Order \<Rightarrow> gw \<Rightarrow> gw" where
  "after_OrderTrades sID p ord w = log_call (EOrderTrades (SessionID_String sID) (o_Symbol ord) (o_ID ord))
     (set_peer (SessionID_String sID) (p\<lparr>p_cache := added_cache p ord\<rparr>) w)"

lemma after_OrderTrades_simps:
  "gw_trace (after_OrderTrades sID p ord w) = gw_trace w @ [EOrderTrades (SessionID_String sID) (o_Symbol ord) (o_ID ord)]"
  by (simp add: after_OrderTrades_def log_call_def set_peer_def)

lemma added_cache_AddOrder:
  "AddOrder (FormatInt (o_CID ord)) (o_Price ord) (o_PriceAuxLimit ord) (o_PriceTrailing ord) (o_Amount ord) (o_Symbol ord)
     (p_bfxUserID p) (SideToFIX (o_Amount ord)) (fst (OrdTypeToFIX (o_Type ord))) (snd (OrdTypeToFIX (o_Type ord)))
     (fst (TimeInForceToFIX (o_Type ord) (o_MTSTif ord))) (o_MTSTif ord) (o_Flags ord) (p_cache p) = (added_cache p ord, snapshot_order p ord)"
  by (simp add: AddOrder_def added_cache_def snapshot_order_def Let_def)

lemma snapshot_loop_first:
  assumes "env_OrderTrades E (gw_trace w) (o_Symbol ord) (o_ID ord) = Inr ts"
    and "(case ts of None \<Rightarrow> (added_cache p ord, None)
      | Some tus \<Rightarrow> add_executions E (gw_trace (after_OrderTrades sID p ord w)) 0 tus (added_cache p ord)) = (c, err)"
  shows "snapshot_loop E sy sID (ord # os) p w =
    (let w1 = after_OrderTrades sID p ord w; p1 = p\<lparr>p_cache := added_cache p ord\<rparr>
     in case err of
          Some e \<Rightarrow> Ret (set_cache (SessionID_String sID) p1 c w1, Some e)
        | None \<Rightarrow>
            (case orders c (FormatInt (o_CID ord)) of
               None \<Rightarrow> Ret (w1, None)
             | Some cached \<Rightarrow>
                 (let cached = cached\<lparr>co_OrderID := FormatInt (o_ID ord)\<rparr>;
                      w = set_cache (SessionID_String sID) p1 (c\<lparr>orders := (orders c)(FormatInt (o_CID ord) \<mapsto> cached)\<rparr>) w1
                  in ws_send E (snapshot_report E sy ord sID (p_bfxUserID p) cached w) sID w)))"
proof -
  have tr: "gw_trace (set_peer pid q w) = gw_trace w" for pid q by (simp add: set_peer_def)
  have acc: "p_bfxUserID (p\<lparr>p_cache := c\<rparr>) = p_bfxUserID p" for c by simp
  show ?thesis
    unfolding snapshot_loop.simps Let_def case_prod_beta added_cache_AddOrder fst_conv snd_conv tr assms(1) sum.case
      after_OrderTrades_def [symmetric] assms(2) acc ..
qed

lemma range_find_none: "(\<And>k v. m k = Some v \<Longrightarrow> \<not> P k v) \<Longrightarrow> range_find P ks m = None"
  using range_find_SomeD by (cases "range_find P ks m") fastforce+

text \<open>
  C32: the snapshot of open orders stops at an order with executions. When the REST client returns executions
  for the first order of the snapshot and the OrderID of the first of them is in use by no cached order,
  the handler returns the error of the cache and sends nothing: the order was added to the cache, but its OrderID
  is set only after its executions have been looked up by that OrderID. The order stays in the cache
  without an OrderID and without executions.
\<close>

theorem snapshot_stops_at_executions:
  assumes "gw_reach st sy0 env_good event_good w" "env_good E" "FindPeer w (SessionID_String sID) = Some p"
    and "env_OrderTrades E (gw_trace w) (o_Symbol ord) (o_ID ord) = Inr (Some (tu # tus))"
    and "\<forall>k o'. orders (p_cache p) k = Some o' \<longrightarrow> co_OrderID o' \<noteq> FormatInt (te_OrderID tu)"
  shows "\<exists>w' err p' o'. FIXOrderSnapshotHandler E sy (ord # os) sID w = Ret (w', Some err) \<and>
    gw_trace w' = gw_trace w @ [EOrderTrades (SessionID_String sID) (o_Symbol ord) (o_ID ord)] \<and>
    FindPeer w' (SessionID_String sID) = Some p' \<and> orders (p_cache p') (FormatInt (o_CID ord)) = Some o' \<and>
    co_OrderID o' = '''' \<and> co_Executions o' = []"
proof -
  have "FormatInt (te_OrderID tu) \<noteq> ''''" by (simp add: FormatInt_def)
  then have "'''' \<noteq> FormatInt (te_OrderID tu)" by metis
  then have "range_find (\<lambda>_ o'. co_OrderID o' = FormatInt (te_OrderID tu)) ks (orders (added_cache p ord)) = None" for ks
    using assms(5) by (intro range_find_none) (auto simp: added_cache_def snapshot_order_fresh split: if_splits)
  then have fails: "add_executions E tr n (tu # tus) (added_cache p ord) =
      (added_cache p ord, Some (''could not find OrderID '' @ FormatInt (te_OrderID tu) @ '' in cache''))" for tr n
    by (simp add: AddExecution_def)
  have "orders (added_cache p ord) (FormatInt (o_CID ord)) = Some (snapshot_order p ord)" by (simp add: added_cache_def)
  then show ?thesis
    unfolding FIXOrderSnapshotHandler_def with_peer_def assms(3) option.case
      snapshot_loop_first [OF assms(4), unfolded option.case, OF fails] Let_def
    by (simp add: after_OrderTrades_simps set_cache_def set_peer_def FindPeer_def snapshot_order_fresh)
qed

text \<open>
  Of a snapshot of open orders only the first order is reported. When the REST client knows no executions for the first order and
  its numbers are finite, the handler caches it under its OrderID, sends one execution report for it and returns: the other
  orders of the snapshot are neither cached nor reported.
\<close>

theorem snapshot_reports_first_only:
  assumes "FindPeer w (SessionID_String sID) = Some p" "supported (BeginString sID)"
    and "env_OrderTrades E (gw_trace w) (o_Symbol ord) (o_ID ord) = Inr None"
    and "order_printable ord" "f64_finite (o_PriceTrailing ord)"
  shows "\<exists>w' r p' m. FIXOrderSnapshotHandler E sy (ord # os) sID w = Ret (w', r) \<and>
    gw_trace w' = gw_trace w @ [EOrderTrades (SessionID_String sID) (o_Symbol ord) (o_ID ord), ESend sID m] \<and>
    body_str m tag_OrderID = Some (FormatInt (o_ID ord)) \<and> FindPeer w' (SessionID_String sID) = Some p' \<and>
    orders (p_cache p') = (orders (p_cache p))(FormatInt (o_CID ord) \<mapsto> (snapshot_order p ord)\<lparr>co_OrderID := FormatInt (o_ID ord)\<rparr>)"
proof -
  let ?o = "(snapshot_order p ord)\<lparr>co_OrderID := FormatInt (o_ID ord)\<rparr>"
  have zero: "filledQty ?o = f64_zero" "avgFillPx ?o = f64_zero"
    by (simp_all add: filledQty_def avgFillPx_def snapshot_order_fresh f64_zero_def)
  have "\<exists>m. snapshot_report E sy ord sID a ?o w1 = Ret m \<and> body_str m tag_OrderID = Some (FormatInt (o_ID ord))" for a w1
  proof -
    obtain er where er: "FIXExecutionReportFromOrder (env_uuid E (gw_trace w1)) (BeginString sID) ord a ExecType_NEW
        f64_zero OrdStatus_NEW (o_Status ord) sy (TargetCompID sID) (o_Flags ord) (o_PriceAuxLimit ord) (o_PriceTrailing ord) = Ret er"
      using assms(2,4,5) order_report_Ret_iff [of "env_uuid E (gw_trace w1)" "BeginString sID" ord a ExecType_NEW f64_zero OrdStatus_NEW
          "o_Status ord" sy "TargetCompID sID" "o_Flags ord" "o_PriceAuxLimit ord" "o_PriceTrailing ord"]
      by (auto simp: order_printable_def f64_zero_def)
    obtain fd where "dec_field tag_AvgPx 4 f64_zero = Ret (tag_AvgPx, fd)"
      using dec_field_Ret_iff [of tag_AvgPx 4 f64_zero] dec_field_tag by (fastforce simp: f64_zero_def)
    then show ?thesis
      unfolding snapshot_report_def zero er using order_report_Ret(3) [OF er] by simp
  qed
  then obtain m where m: "snapshot_report E sy ord sID (p_bfxUserID p) ?o
      (set_cache (SessionID_String sID) (p\<lparr>p_cache := added_cache p ord\<rparr>)
        ((added_cache p ord)\<lparr>orders := (orders (added_cache p ord))(FormatInt (o_CID ord) \<mapsto> ?o)\<rparr>) (after_OrderTrades sID p ord w)) = Ret m"
    "body_str m tag_OrderID = Some (FormatInt (o_ID ord))"
    by blast
  have added: "orders (added_cache p ord) (FormatInt (o_CID ord)) = Some (snapshot_order p ord)"
    "(orders (added_cache p ord))(FormatInt (o_CID ord) \<mapsto> x) = (orders (p_cache p))(FormatInt (o_CID ord) \<mapsto> x)" for x
    by (simp_all add: added_cache_def)
  show ?thesis
    unfolding FIXOrderSnapshotHandler_def with_peer_def assms(1) option.case
      snapshot_loop_first [OF assms(3), unfolded option.case, OF refl] Let_def added(1) m(1)
    using m(2) by (simp add: ws_send_def SendToTarget_def set_cache_def set_peer_def FindPeer_def added(2) after_OrderTrades_simps)
qed

section \<open>Examples\<close>

text \<open>An order that was entered outside of the session, its acknowledgement, and the state after it.\<close>

definition ack_ord :: Order where
  "ack_ord = order_zero\<lparr>o_ID := 42, o_CID := 1, o_Symbol := ''tBTCUSD'', o_Amount := f64_three, o_Type := ''EXCHANGE MARKET'',
     o_Status := ''CANCELED was: PARTIALLY FILLED''\<rparr>"

definition ack_note :: Notification where
  "ack_note = \<lparr>no_MTS = 0, no_Type = ''on-req'', no_MessageID = 0, no_NotifyInfo = NOrderNew ack_ord,
     no_Code = 0, no_Status = ''SUCCESS'', no_Text = ''''\<rparr>"

definition ack_cached :: CachedOrder where
  "ack_cached = (snapshot_order sample_peer ack_ord)\<lparr>co_OrderID := FormatInt 42\<rparr>"

lemma ack_ord_printable: "order_printable ack_ord"
  by (simp add: order_printable_def ack_ord_def order_zero_def f64_samples)

lemma ack_sample:
  "ack_order ack_ord ''u1'' newCache = newCache\<lparr>orders := [FormatInt 1 \<mapsto> ack_cached]\<rparr>"
  by (simp add: ack_order_def UpdateOrder_def AddOrder_def newCache_def ack_cached_def snapshot_order_def case_prod_beta Let_def)
    (simp add: ack_ord_def)

lemma reach_acked:
  obtains w where "gw_reach OrderRoutingService PassthroughSymbology env_good event_good w"
    "FindPeer w (SessionID_String sample_sID) = Some (sample_peer\<lparr>p_cache := newCache\<lparr>orders := [FormatInt 1 \<mapsto> ack_cached]\<rparr>\<rparr>)"
proof -
  have k: "FormatInt (o_CID ack_ord) = FormatInt 1" by (simp add: ack_ord_def)
  have orders: "orders (ack_order ack_ord (p_bfxUserID sample_peer) (p_cache sample_peer)) (FormatInt (o_CID ack_ord)) = Some ack_cached"
    unfolding sample_peer_cache k by (simp add: ack_sample)
  have "no_NotifyInfo ack_note = NOrderNew ack_ord" "no_Status ack_note \<noteq> ''ERROR''" "f64_finite (co_Trail ack_cached)"
    by (simp_all add: ack_note_def ack_cached_def snapshot_order_def newOrder_def ack_ord_def order_zero_def f64_zero_def)
  from ack_effect [OF logged_on_peer this(1,2) orders sample_supported ack_ord_printable this(3)]
  obtain w' r where w': "FIXNotificationHandler calm_env PassthroughSymbology ack_note sample_sID logged_on = Ret (w', r)"
    "FindPeer w' (SessionID_String sample_sID) = Some (sample_peer\<lparr>p_cache := newCache\<lparr>orders := [FormatInt 1 \<mapsto> ack_cached]\<rparr>\<rparr>)"
    unfolding sample_peer_cache by (simp add: ack_sample) blast
  have "gw_reach OrderRoutingService PassthroughSymbology env_good event_good w'"
  proof (rule gw_reach.step [OF reach_logged_on])
    show "env_good calm_env" by (rule env_good_calm)
    show "event_good (FromExchange (DNotification ack_note) sample_sID)"
      using f64_ok_samples by (simp add: event_good_def data_good_def ack_note_def ack_ord_def qty_ok_def f64_three_def)
    show "handle_event OrderRoutingService calm_env PassthroughSymbology (FromExchange (DNotification ack_note) sample_sID) logged_on = Ret w'"
      by (simp add: handle_event_def listen_def isOrderRoutingService_def w'(1))
  qed
  then show thesis using that w'(2) by blast
qed

lemma only_ack: "only_order (newCache\<lparr>orders := [FormatInt 1 \<mapsto> ack_cached]\<rparr>) (FormatInt 42) (FormatInt 1) ack_cached"
  by (simp add: only_order_def ack_cached_def)

lemma ack_fill:
  "filledQty (add_fill sample_trade ack_cached) = f64_one" "avgFillPx (add_fill sample_trade ack_cached) = f64_three"
  "filledQty ack_cached = f64_zero" "co_Qty ack_cached = f64_three"
proof -
  have fills: "co_Executions (add_fill sample_trade ack_cached) = [\<lparr>BfxExecutionID = FormatInt 7, ex_Px = f64_three, ex_Qty = f64_one\<rparr>]"
    by (simp add: add_fill_def ack_cached_def snapshot_order_fresh sample_trade_def f64_samples smant_def)
  have pos: "f64_lt f64_zero f64_one" by (simp add: f64_zero_def f64_one_def smant_def)
  show "filledQty (add_fill sample_trade ack_cached) = f64_one" "avgFillPx (add_fill sample_trade ack_cached) = f64_three"
    by (simp_all add: filledQty_def avgFillPx_def fills f64_sample_sums f64_three_times_one f64_three_over_one pos)
  show "filledQty ack_cached = f64_zero" "co_Qty ack_cached = f64_three"
    by (simp_all add: filledQty_def ack_cached_def snapshot_order_fresh)
      (simp add: snapshot_order_def newOrder_def ack_ord_def f64_samples smant_def)
qed

text \<open>The state after the execution of 1.\<close>

lemma acked_then_filled:
  obtains w w' r m where "gw_reach OrderRoutingService PassthroughSymbology env_good event_good w"
    "FindPeer w (SessionID_String sample_sID) = Some (sample_peer\<lparr>p_cache := newCache\<lparr>orders := [FormatInt 1 \<mapsto> ack_cached]\<rparr>\<rparr>)"
    "FIXTradeExecutionUpdateHandler calm_env PassthroughSymbology sample_trade sample_sID w = Ret (w', r)"
    "\<exists>p'. FindPeer w' (SessionID_String sample_sID) = Some p' \<and> orders (p_cache p') = [FormatInt 1 \<mapsto> add_fill sample_trade ack_cached]"
proof -
  obtain w where w: "gw_reach OrderRoutingService PassthroughSymbology env_good event_good w"
    "FindPeer w (SessionID_String sample_sID) = Some (sample_peer\<lparr>p_cache := newCache\<lparr>orders := [FormatInt 1 \<mapsto> ack_cached]\<rparr>\<rparr>)"
    using reach_acked .
  have trade: "te_OrderID sample_trade = 42" "qty_ok (te_ExecAmount sample_trade)" by (simp_all add: sample_trade_def)
  have px: "co_Px ack_cached = f64_zero" "co_Stop ack_cached = f64_zero" "co_Trail ack_cached = f64_zero"
    by (simp_all add: ack_cached_def snapshot_order_def newOrder_def ack_ord_def order_zero_def)
  have "fill_printable sample_trade (add_fill sample_trade ack_cached)"
    unfolding fill_printable_def ack_fill using ack_fill(4) px
    by (simp add: add_fill_def sample_trade_def f64_one_def f64_three_def f64_zero_def)
  moreover have "only_order (p_cache (sample_peer\<lparr>p_cache := newCache\<lparr>orders := [FormatInt 1 \<mapsto> ack_cached]\<rparr>\<rparr>))
      (FormatInt (te_OrderID sample_trade)) (FormatInt 1) ack_cached"
    using only_ack by (simp add: trade)
  ultimately obtain w' r p' where "FIXTradeExecutionUpdateHandler calm_env PassthroughSymbology sample_trade sample_sID w = Ret (w', r)"
    "FindPeer w' (SessionID_String sample_sID) = Some p'"
    "orders (p_cache p') = (orders (p_cache (sample_peer\<lparr>p_cache := newCache\<lparr>orders := [FormatInt 1 \<mapsto> ack_cached]\<rparr>\<rparr>)))(FormatInt 1 \<mapsto> add_fill sample_trade ack_cached)"
    using execution_effect [OF w(1) env_good_calm w(2) _ trade(2) sample_supported, of "FormatInt 1" ack_cached PassthroughSymbology] by blast
  then show thesis using w that by simp
qed

theorem execution_reported_witness:
  "\<exists>w w' r m. gw_reach OrderRoutingService PassthroughSymbology env_good event_good w \<and>
     FIXTradeExecutionUpdateHandler calm_env PassthroughSymbology sample_trade sample_sID w = Ret (w', r) \<and>
     gw_trace w' = gw_trace w @ [ESend sample_sID m] \<and> body_str m tag_OrdStatus = Some OrdStatus_PARTIALLY_FILLED"
proof -
  obtain w where w: "gw_reach OrderRoutingService PassthroughSymbology env_good event_good w"
    "FindPeer w (SessionID_String sample_sID) = Some (sample_peer\<lparr>p_cache := newCache\<lparr>orders := [FormatInt 1 \<mapsto> ack_cached]\<rparr>\<rparr>)"
    using reach_acked .
  have trade: "te_OrderID sample_trade = 42" "qty_ok (te_ExecAmount sample_trade)" by (simp_all add: sample_trade_def)
  have px: "co_Px ack_cached = f64_zero" "co_Stop ack_cached = f64_zero" "co_Trail ack_cached = f64_zero"
    by (simp_all add: ack_cached_def snapshot_order_def newOrder_def ack_ord_def order_zero_def)
  have "fill_printable sample_trade (add_fill sample_trade ack_cached)"
    unfolding fill_printable_def ack_fill using ack_fill(4) px
    by (simp add: add_fill_def sample_trade_def f64_one_def f64_three_def f64_zero_def)
  moreover have "only_order (p_cache (sample_peer\<lparr>p_cache := newCache\<lparr>orders := [FormatInt 1 \<mapsto> ack_cached]\<rparr>\<rparr>))
      (FormatInt (te_OrderID sample_trade)) (FormatInt 1) ack_cached"
    using only_ack by (simp add: trade)
  moreover have "\<not> f64_le f64_three f64_one" by (simp add: f64_le_def f64_samples smant_def)
  ultimately show ?thesis
    using execution_reported [OF w(1) env_good_calm w(2) _ trade(2) sample_supported, of "FormatInt 1" ack_cached PassthroughSymbology] w(1)
    unfolding ack_fill by fastforce
qed

theorem cancel_reported_unless_filled_witness:
  "\<exists>w. gw_reach OrderRoutingService PassthroughSymbology env_good event_good w \<and>
     FIXOrderCancelHandler calm_env PassthroughSymbology ack_ord sample_sID w = Ret (w, None)"
proof -
  obtain w where w: "gw_reach OrderRoutingService PassthroughSymbology env_good event_good w"
    "FindPeer w (SessionID_String sample_sID) = Some (sample_peer\<lparr>p_cache := newCache\<lparr>orders := [FormatInt 1 \<mapsto> ack_cached]\<rparr>\<rparr>)"
    using reach_acked .
  have "only_order (p_cache (sample_peer\<lparr>p_cache := newCache\<lparr>orders := [FormatInt 1 \<mapsto> ack_cached]\<rparr>\<rparr>))
      (FormatInt (o_ID ack_ord)) (FormatInt 1) ack_cached"
    using only_ack by (simp add: ack_ord_def)
  moreover have "f64_finite (filledQty ack_cached)" "f64_finite (co_Trail ack_cached)"
    unfolding ack_fill by (simp_all add: f64_zero_def ack_cached_def snapshot_order_def newOrder_def ack_ord_def order_zero_def)
  moreover have "contains (o_Status ack_ord) OrderStatusPartiallyFilled" by (simp add: ack_ord_def)
  ultimately show ?thesis
    using cancel_reported_unless_filled [OF w(1) env_good_calm w(2) _ sample_supported ack_ord_printable] w(1) by auto
qed

theorem ack_links_order_witness:
  "\<exists>w w' r p'. FIXNotificationHandler calm_env PassthroughSymbology ack_note sample_sID w = Ret (w', r) \<and>
     FindPeer w' (SessionID_String sample_sID) = Some p' \<and>
     only_order (p_cache p') (FormatInt 42) (FormatInt 1) (ack_cached\<lparr>co_OrderID := FormatInt 42\<rparr>)"
proof -
  obtain w where w: "gw_reach OrderRoutingService PassthroughSymbology env_good event_good w"
    "FindPeer w (SessionID_String sample_sID) = Some (sample_peer\<lparr>p_cache := newCache\<lparr>orders := [FormatInt 1 \<mapsto> ack_cached]\<rparr>\<rparr>)"
    using reach_acked .
  have h: "no_NotifyInfo ack_note = NOrderNew ack_ord" "no_Status ack_note \<noteq> ''ERROR''" "f64_finite (co_Trail ack_cached)"
    by (simp_all add: ack_note_def ack_cached_def snapshot_order_def newOrder_def ack_ord_def order_zero_def f64_zero_def)
  have ids: "o_ID ack_ord = 42" "o_CID ack_ord = 1" by (simp_all add: ack_ord_def)
  have "\<exists>w' r p' m. FIXNotificationHandler calm_env PassthroughSymbology ack_note sample_sID w = Ret (w', r) \<and>
    gw_trace w' = gw_trace w @ [ESend sample_sID m] \<and>
    body_str m tag_OrderID = Some (FormatInt (o_ID ack_ord)) \<and> body_str m tag_OrdStatus = Some OrdStatus_NEW \<and>
    FindPeer w' (SessionID_String sample_sID) = Some p' \<and>
    only_order (p_cache p') (FormatInt (o_ID ack_ord)) (FormatInt (o_CID ack_ord)) (ack_cached\<lparr>co_OrderID := FormatInt (o_ID ack_ord)\<rparr>) \<and>
    (\<forall>k. k \<noteq> FormatInt (o_CID ack_ord) \<longrightarrow> orders (p_cache p') k =
       orders (p_cache (sample_peer\<lparr>p_cache := newCache\<lparr>orders := [FormatInt 1 \<mapsto> ack_cached]\<rparr>\<rparr>)) k)"
    by (intro ack_links_order [OF w(2) h(1,2) _ _ sample_supported ack_ord_printable h(3)]) (auto simp: ids split: if_splits)
  then show ?thesis unfolding ids by blast
qed

definition busy_env :: env where
  "busy_env = calm_env\<lparr>env_OrderTrades := (\<lambda>tr s i. Inr (Some [sample_trade]))\<rparr>"

lemma env_good_busy: "env_good busy_env"
  using env_good_calm by (simp add: env_good_def env_ok_def busy_env_def sample_trade_def)

theorem snapshot_stops_at_executions_witness:
  "\<exists>w' err. FIXOrderSnapshotHandler busy_env PassthroughSymbology [ack_ord] sample_sID logged_on = Ret (w', Some err) \<and>
     gw_trace w' = gw_trace logged_on @ [EOrderTrades (SessionID_String sample_sID) ''tBTCUSD'' 42]"
proof -
  have trades: "env_OrderTrades busy_env (gw_trace logged_on) (o_Symbol ack_ord) (o_ID ack_ord) = Inr (Some (sample_trade # []))"
    by (simp add: busy_env_def)
  have "\<forall>k o'. orders (p_cache sample_peer) k = Some o' \<longrightarrow> co_OrderID o' \<noteq> FormatInt (te_OrderID sample_trade)"
    unfolding sample_peer_cache by (simp add: newCache_def)
  moreover have "o_Symbol ack_ord = ''tBTCUSD''" "o_ID ack_ord = 42" by (simp_all add: ack_ord_def)
  ultimately show ?thesis
    using snapshot_stops_at_executions [OF reach_logged_on env_good_busy logged_on_peer trades, of PassthroughSymbology "[]"] by auto
qed

theorem snapshot_reports_first_only_witness:
  "\<exists>w' r m. FIXOrderSnapshotHandler calm_env PassthroughSymbology [ack_ord, ack_ord\<lparr>o_ID := 43, o_CID := 2\<rparr>] sample_sID logged_on = Ret (w', r) \<and>
     sent w' = sent logged_on @ [(sample_sID, m)] \<and> body_str m tag_OrderID = Some (FormatInt 42)"
proof -
  have none: "env_OrderTrades calm_env (gw_trace logged_on) (o_Symbol ack_ord) (o_ID ack_ord) = Inr None" by (simp add: calm_env_def)
  have "f64_finite (o_PriceTrailing ack_ord)" "o_ID ack_ord = 42" by (simp_all add: ack_ord_def order_zero_def f64_zero_def)
  then show ?thesis
    using snapshot_reports_first_only [OF logged_on_peer sample_supported none ack_ord_printable, of PassthroughSymbology
        "[ack_ord\<lparr>o_ID := 43, o_CID := 2\<rparr>]"]
    by (fastforce simp: sent_def)
qed

end
