(* ===== verification/Order_Book.thy ===== *)
theory Order_Book
  imports Order_Flow Exec_Flow
begin

text \<open>
  An abstract order book, and that a service implements it. A book has an entry for each ClOrdID of a session: the
  OrderID of the exchange, the side, the quantity, and the quantities of its fills. It changes only by four kinds of events: an
  order is placed, linked to an OrderID or filled, or the book is given up. The event \<open>Fill\<close> names an OrderID; when two entries have it,
  the book may fill either of them, as a map in Go is ranged over in any order.

  \<open>book_events\<close> lists, for each event that a service handles, the book events that it may lead to, computed from the message, the book and
  the answers of the exchange. The books of a service are read off the caches of its peers. The theorem is a simulation: each
  event moves the book of its session along some of the listed book events, in their order and each at most once, and no
  other book. So orders are placed and linked only with the numbers of the messages, and an order is filled only by the exchange, by exactly
  the amounts that it reports.
\<close>

section \<open>The specification\<close>

record entry =
  en_OrderID :: string
  en_Side :: string
  en_Qty :: float64
  en_Fills :: "float64 list"

type_synonym book = "string \<rightharpoonup> entry"

datatype book_event = Place string string float64 | Link string string | Fill string float64 | GiveUp

inductive book_step :: "book \<Rightarrow> book_event \<Rightarrow> book \<Rightarrow> bool" where
  place: "book_step B (Place cid side q) (B(cid \<mapsto> \<lparr>en_OrderID = '''', en_Side = side, en_Qty = q, en_Fills = []\<rparr>))"
| link: "B cid = Some e \<Longrightarrow> book_step B (Link cid oid) (B(cid \<mapsto> e\<lparr>en_OrderID := oid\<rparr>))"
| fill: "B cid = Some e \<Longrightarrow> en_OrderID e = oid \<Longrightarrow> book_step B (Fill oid q) (B(cid \<mapsto> e\<lparr>en_Fills := en_Fills e @ [q]\<rparr>))"
| give_up: "book_step B GiveUp Map.empty"

inductive_simps book_step_simps:
  "book_step B (Place cid side q) B'" "book_step B (Link cid oid) B'" "book_step B (Fill oid q) B'" "book_step B GiveUp B'"

inductive book_run :: "book \<Rightarrow> book_event list \<Rightarrow> book \<Rightarrow> bool" where
  nothing: "book_run B [] B"
| more: "book_step B e B1 \<Longrightarrow> book_run B1 es B2 \<Longrightarrow> book_run B (e # es) B2"

lemma book_run_append: "book_run B es B1 \<Longrightarrow> book_run B1 fs B2 \<Longrightarrow> book_run B (es @ fs) B2"
  by (induction rule: book_run.induct) (auto intro: book_run.intros)

section \<open>The book of a cache\<close>

definition entry_of :: "CachedOrder \<Rightarrow> entry" where
  "entry_of o' = \<lparr>en_OrderID = co_OrderID o', en_Side = co_Side o', en_Qty = co_Qty o', en_Fills = map ex_Qty (co_Executions o')\<rparr>"

definition book_of :: "cache \<Rightarrow> book" where
  "book_of c = map_option entry_of \<circ> orders c"

lemma book_of_upd: "book_of (c\<lparr>orders := (orders c)(k \<mapsto> o')\<rparr>) = (book_of c)(k \<mapsto> entry_of o')"
  by (auto simp: book_of_def)

text \<open>The book events of an operation of the cache; an operation that finds no order does nothing.\<close>

fun op_events :: "cache_op \<Rightarrow> book_event list" where
  "op_events (OpAddOrder clordid px stop trail qty symbol account side ordType isMargin tif expTif flags) = [Place clordid side (f64_abs qty)]"
| "op_events (OpUpdateOrder clordid orderid) = [Link clordid orderid]"
| "op_events (OpAddExecution ks orderid execid px qty) = [Fill orderid (f64_abs qty)]"
| "op_events _ = []"

lemma run_op_book: "book_of (run_op p c) = book_of c \<or> book_run (book_of c) (op_events p) (book_of (run_op p c))"
proof (cases p)
  case (OpAddOrder clordid px stop trail qty symbol account side ordType isMargin tif expTif flags)
  then have "book_step (book_of c) (Place clordid side (f64_abs qty)) (book_of (run_op p c))"
    by (simp add: AddOrder_def newOrder_def Let_def book_of_upd entry_of_def book_step_simps)
  then show ?thesis using OpAddOrder by (auto intro: book_run.intros)
next
  case (OpUpdateOrder clordid orderid)
  then show ?thesis
  proof (cases "orders c clordid")
    case (Some o')
    then have "book_step (book_of c) (Link clordid orderid) (book_of (run_op p c))"
      using OpUpdateOrder by (simp add: UpdateOrder_def Let_def book_of_upd book_step_simps) (simp add: book_of_def entry_of_def)
    then show ?thesis using OpUpdateOrder by (auto intro: book_run.intros)
  qed (simp add: UpdateOrder_def)
next
  case (OpAddExecution ks orderid execid px qty)
  show ?thesis
  proof (cases "range_find (\<lambda>_ o'. co_OrderID o' = orderid) ks (orders c)")
    case (Some ko)
    then obtain k o' where ko: "ko = (k, o')" "orders c k = Some o'" "co_OrderID o' = orderid"
      by (cases ko) (auto dest: range_find_SomeD)
    have "book_of c k = Some (entry_of o')" "en_OrderID (entry_of o') = orderid" using ko by (simp_all add: book_of_def entry_of_def)
    then have "book_step (book_of c) (Fill orderid q) ((book_of c)(k \<mapsto> (entry_of o')\<lparr>en_Fills := en_Fills (entry_of o') @ [q]\<rparr>))" for q
      by (rule book_step.fill)
    then have "book_step (book_of c) (Fill orderid (f64_abs qty)) (book_of (run_op p c))"
      using OpAddExecution Some ko by (simp add: AddExecution_def Let_def book_of_upd entry_of_def)
    then show ?thesis using OpAddExecution by (auto intro: book_run.intros)
  qed (simp add: OpAddExecution AddExecution_def)
qed (simp_all add: AddCancel_def MapSymbolToReqID_def MapMDReqIDs_def book_of_def Let_def)

section \<open>Caches that change by operations\<close>

text \<open>\<open>ops L c c'\<close>: the cache \<open>c'\<close> comes from \<open>c\<close> by operations whose book events are some of \<open>L\<close>, in the order of \<open>L\<close>.\<close>

definition ops :: "book_event list \<Rightarrow> cache \<Rightarrow> cache \<Rightarrow> bool" where
  "ops L c c' \<longleftrightarrow> (\<exists>ps. subseq (concat (map op_events ps)) L \<and> c' = fold run_op ps c)"

lemma subseq_prefix: "subseq xs (xs @ ys)"
  by (rule list_emb_append_mono [of _ xs xs "[]" ys, simplified]) simp

lemma ops_refl [simp]: "ops L c c"
  unfolding ops_def by (rule exI [of _ "[]"]) simp

lemma ops_mono: "ops L c c' \<Longrightarrow> subseq L L' \<Longrightarrow> ops L' c c'"
  unfolding ops_def using subseq_order.order_trans by blast

lemma ops_trans: "ops L1 c c1 \<Longrightarrow> ops L2 c1 c2 \<Longrightarrow> ops (L1 @ L2) c c2"
  unfolding ops_def
proof (elim exE conjE)
  fix ps qs
  assume "subseq (concat (map op_events ps)) L1" "c1 = fold run_op ps c" "subseq (concat (map op_events qs)) L2" "c2 = fold run_op qs c1"
  then show "\<exists>rs. subseq (concat (map op_events rs)) (L1 @ L2) \<and> c2 = fold run_op rs c"
    by (intro exI [of _ "ps @ qs"]) (simp add: list_emb_append_mono)
qed

lemma ops_op: "ops L c c1 \<Longrightarrow> ops (L @ op_events p) c (run_op p c1)"
  by (rule ops_trans) (auto simp: ops_def intro: exI [of _ "[p]"])

lemma ops_book: "ops L c c' \<Longrightarrow> \<exists>es. subseq es L \<and> book_run (book_of c) es (book_of c')"
proof -
  have "\<exists>es. subseq es (concat (map op_events ps)) \<and> book_run (book_of c) es (book_of (fold run_op ps c))" for ps
  proof (induction ps arbitrary: c)
    case (Cons p ps)
    obtain es where es: "subseq es (concat (map op_events ps))" "book_run (book_of (run_op p c)) es (book_of (fold run_op ps (run_op p c)))"
      using Cons by blast
    from run_op_book [of p c] show ?case
    proof
      assume "book_of (run_op p c) = book_of c"
      with es show ?thesis by (intro exI [of _ es]) (simp add: list_emb_append2)
    next
      assume "book_run (book_of c) (op_events p) (book_of (run_op p c))"
      with es show ?thesis by (intro exI [of _ "op_events p @ es"]) (auto intro: book_run_append simp: list_emb_append_mono)
    qed
  qed (auto intro: exI [of _ "[]"] book_run.nothing)
  then show "ops L c c' \<Longrightarrow> ?thesis" unfolding ops_def using subseq_order.order_trans by blast
qed

text \<open>The operations of the handlers.\<close>

lemma ops_calls:
  "ops L c c1 \<Longrightarrow> ops (L @ [Place clordid sd (f64_abs q)]) c (fst (AddOrder clordid px stop trail q symb acc sd ot m tif ex fl c1))"
  "ops L c c1 \<Longrightarrow> ops (L @ [Link k i]) c (fst (UpdateOrder k i c1))"
  "ops L c c1 \<Longrightarrow> ops (L @ [Fill i (f64_abs q)]) c (fst (AddExecution ks i x px q c1))"
  using ops_op [of L c c1 "OpAddOrder clordid px stop trail q symb acc sd ot m tif ex fl"] ops_op [of L c c1 "OpUpdateOrder k i"]
    ops_op [of L c c1 "OpAddExecution ks i x px q"]
  by simp_all

lemma ops_md: "ops L c c1 \<Longrightarrow> ops L c (MapSymbolToReqID s i c1)" "ops L c c1 \<Longrightarrow> ops L c (MapMDReqIDs i b t c1)"
  using ops_op [of L c c1 "OpMapSymbol s i"] ops_op [of L c c1 "OpMapMDReqIDs i b t"] by simp_all

lemma ops_place: "ops [Place clordid sd (f64_abs q)] c (fst (AddOrder clordid px stop trail q symb acc sd ot m tif ex fl c))"
  using ops_calls(1) [OF ops_refl, of "[]"] by simp

lemma ops_place_link:
  "ops [Place clordid sd (f64_abs q), Link k i] c (fst (UpdateOrder k i (fst (AddOrder clordid px stop trail q symb acc sd ot m tif ex fl c))))"
  using ops_calls(2) [OF ops_place] by fastforce

section \<open>Handlers\<close>

text \<open>\<open>tracks P pid w w'\<close>: the session has a peer in \<open>w'\<close> if it has one in \<open>w\<close>, and its cache comes from the old one by operations whose
  book events are some of \<open>P\<close>.\<close>

definition tracks :: "book_event list \<Rightarrow> string \<Rightarrow> gw \<Rightarrow> gw \<Rightarrow> bool" where
  "tracks P pid w w' \<longleftrightarrow>
     (case FindPeer w pid of
        None \<Rightarrow> FindPeer w' pid = None
      | Some p \<Rightarrow> \<exists>p'. FindPeer w' pid = Some p' \<and> ops P (p_cache p) (p_cache p'))"

lemma tracks_refl: "tracks P pid w w"
  by (simp add: tracks_def split: option.split)

lemma tracks_trans: "tracks P pid w w1 \<Longrightarrow> tracks Q pid w1 w2 \<Longrightarrow> tracks (P @ Q) pid w w2"
  by (auto simp: tracks_def split: option.splits intro: ops_trans)

lemma tracks_mono: "tracks P pid w w' \<Longrightarrow> subseq P Q \<Longrightarrow> tracks Q pid w w'"
  by (auto simp: tracks_def split: option.splits intro: ops_mono)

lemma tracks_same_peers: "tracks P pid w w' \<Longrightarrow> gw_peers w'' = gw_peers w' \<Longrightarrow> tracks P pid w w''"
  by (simp add: tracks_def FindPeer_def split: option.splits)

lemma tracks_SendToTarget: "tracks P pid w w' \<Longrightarrow> tracks P pid w (fst (SendToTarget E m sID w'))"
  by (rule tracks_same_peers) (simp_all add: SendToTarget_def)

lemma tracks_log_call: "tracks P pid w w' \<Longrightarrow> tracks P pid w (log_call e w')"
  by (rule tracks_same_peers) (simp_all add: log_call_def)

lemma tracks_set_peer: "FindPeer w pid = Some p \<Longrightarrow> ops P (p_cache p) (p_cache p') \<Longrightarrow> tracks P pid w (set_peer pid p' w')"
  by (simp add: tracks_def set_peer_def FindPeer_def)

lemma tracks_set_cache:
  assumes "FindPeer w pid = Some p" "ops P (p_cache p) c"
  shows "tracks P pid w (set_cache pid p c w')" "tracks P pid w (set_peer pid (p\<lparr>p_cache := c\<rparr>) w')"
  unfolding set_cache_def using assms by (auto intro: tracks_set_peer)

lemmas tracks_intros = tracks_refl tracks_SendToTarget tracks_log_call tracks_set_cache

definition tracked :: "book_event list \<Rightarrow> string \<Rightarrow> gw \<Rightarrow> (gw \<times> 'r) go \<Rightarrow> bool" where
  "tracked P pid w g \<longleftrightarrow> (\<forall>w' r. g = Ret (w', r) \<longrightarrow> tracks P pid w w')"

lemma tracked_Ret [simp]: "tracked P pid w (Ret x) \<longleftrightarrow> tracks P pid w (fst x)"
  by (cases x) (simp add: tracked_def)

lemma tracked_Panic [simp]: "tracked P pid w (Panic m)"
  by (simp add: tracked_def)

lemma tracked_bind: "(\<And>x. m = Ret x \<Longrightarrow> tracked P pid w (f x)) \<Longrightarrow> tracked P pid w (go_bind m f)"
  by (cases m) simp_all

lemma tracked_then:
  assumes "tracked P pid w g" "\<And>w' r. tracks P pid w w' \<Longrightarrow> tracked P pid w (f (w', r))"
  shows "tracked P pid w (go_bind g f)"
  using assms by (cases g) auto

lemma tracked_sends:
  assumes "tracks P pid w w'"
  shows "tracked P pid w (send_built E gm sID w')" "tracked P pid w (ws_send E gm sID w')" "tracked P pid w (ws_send_option E om sID w')"
  unfolding send_built_def sendToTarget_def ws_send_def ws_send_option_def
  by (intro tracked_bind, simp add: case_prod_beta tracks_SendToTarget [OF assms] assms split: option.split)+

lemma tracked_with_peer:
  assumes "\<And>p. FindPeer w (SessionID_String sID) = Some p \<Longrightarrow> tracked P pid w (f p)"
  shows "tracked P pid w (with_peer sID w f)"
  using assms by (auto simp: with_peer_def tracks_refl split: option.split)

lemmas tracked_auto = tracked_bind tracked_sends tracks_intros

section \<open>The book events of the FIX side\<close>

text \<open>A new order is placed under its ClOrdID with the side of the message and the amount of the converted request.\<close>

definition new_order_events :: "symbology \<Rightarrow> FieldMap \<Rightarrow> SessionID \<Rightarrow> book_event list" where
  "new_order_events sy msg sID =
     (case OrderNewFromFIXNewOrderSingle msg sy (TargetCompID sID) of
        Inl _ \<Rightarrow> []
      | Inr bo \<Rightarrow> [Place (GetOrEmpty msg tag_ClOrdID) (GetOrEmpty msg tag_Side) (f64_abs (on_Amount bo))])"

text \<open>A replacement of an order of the book is placed under the new ClOrdID, with the side of the order and the quantity of the message, and linked to the
  OrderID of the order.\<close>

definition replace_events :: "book \<Rightarrow> FieldMap \<Rightarrow> book_event list" where
  "replace_events B msg =
     (case B (GetOrEmpty msg tag_OrigClOrdID) of
        None \<Rightarrow> []
      | Some e \<Rightarrow>
          (case GetDecimal msg tag_OrderQty of
             Inl _ \<Rightarrow> []
           | Inr qty \<Rightarrow>
               [Place (GetOrEmpty msg tag_ClOrdID) (en_Side e) (f64_abs (GetAmountFromQtyAndSide (en_Side e) qty)),
                Link (GetOrEmpty msg tag_ClOrdID) (en_OrderID e)]))"

text \<open>A status request may place the order that the exchange reports for the OrderID of the message.\<close>

definition status_events :: "env \<Rightarrow> ext list \<Rightarrow> FieldMap \<Rightarrow> book_event list" where
  "status_events E tr msg =
     (case ParseInt (GetOrEmpty msg tag_OrderID) of
        Inl _ \<Rightarrow> []
      | Inr i \<Rightarrow>
          (case env_GetByOrderId E tr i of
             Inl _ \<Rightarrow> []
           | Inr ord \<Rightarrow> [Place (FormatInt (o_CID ord)) (SideToFIX (o_Amount ord)) (f64_abs (o_Amount ord))]))"

section \<open>The book events of the exchange\<close>

text \<open>The acknowledgement of an order links it, and places it before when it is not in the book.\<close>

definition ack_events :: "Notification \<Rightarrow> book_event list" where
  "ack_events d =
     (case no_NotifyInfo d of
        NOrderNew ord \<Rightarrow>
          (if no_Status d = ''ERROR'' then []
           else [Place (FormatInt (o_CID ord)) (SideToFIX (o_Amount ord)) (f64_abs (o_Amount ord)),
                 Link (FormatInt (o_CID ord)) (FormatInt (o_ID ord))])
      | _ \<Rightarrow> [])"

text \<open>An execution fills an order of its OrderID by its amount, once. When the exchange is asked for the order, it is placed and linked before.\<close>

definition execution_events :: "env \<Rightarrow> ext list \<Rightarrow> TradeExecutionUpdate \<Rightarrow> book_event list" where
  "execution_events E tr t =
     (case env_GetByOrderId E tr (te_OrderID t) of
        Inl _ \<Rightarrow> []
      | Inr os \<Rightarrow> [Place (FormatInt (o_CID os)) (SideToFIX (te_ExecAmount t)) (f64_abs (o_Amount os)),
                   Link (FormatInt (o_CID os)) (FormatInt (o_ID os))]) @
     [Fill (FormatInt (te_OrderID t)) (f64_abs (te_ExecAmount t))]"

text \<open>Each order of a snapshot is placed; then its trades are asked for. The first order for which that succeeds is filled by its trades, by the amount of
  each, and linked, and the snapshot is done.\<close>

fun snapshot_events :: "env \<Rightarrow> string \<Rightarrow> ext list \<Rightarrow> Order list \<Rightarrow> book_event list" where
  "snapshot_events E pid tr [] = []"
| "snapshot_events E pid tr (ord # os) =
     Place (FormatInt (o_CID ord)) (SideToFIX (o_Amount ord)) (f64_abs (o_Amount ord)) #
     (case env_OrderTrades E tr (o_Symbol ord) (o_ID ord) of
        Inl _ \<Rightarrow> snapshot_events E pid (tr @ [EOrderTrades pid (o_Symbol ord) (o_ID ord)]) os
      | Inr ts \<Rightarrow>
          map (\<lambda>tu. Fill (FormatInt (te_OrderID tu)) (f64_abs (te_ExecAmount tu))) (case ts of None \<Rightarrow> [] | Some tus \<Rightarrow> tus) @
          [Link (FormatInt (o_CID ord)) (FormatInt (o_ID ord))])"

section \<open>The handlers follow these events\<close>

subsection \<open>FIX side\<close>

definition book_at :: "gw \<Rightarrow> string \<Rightarrow> book" where
  "book_at w pid = (case FindPeer w pid of None \<Rightarrow> Map.empty | Some p \<Rightarrow> book_of (p_cache p))"

lemma tracked_new_order: "tracked (new_order_events sy msg sID) (SessionID_String sID) w (OnFIXNewOrderSingle E sy msg sID w)"
  unfolding OnFIXNewOrderSingle_def submit_new_def Let_def case_prod_beta new_order_events_def
  by (auto intro!: tracked_auto ops_place simp: sbind_eq_Inr GetString_Inr split: option.split sum.split)

lemma replace_placed:
  assumes "FindPeer w pid = Some p" "GetString msg tag_OrigClOrdID = Inr ocid" "GetString msg tag_ClOrdID = Inr cid"
    "replace_target msg (p_cache p) ocid cid = Inr (oid, cidi, oidi, cached)" "GetDecimal msg tag_OrderQty = Inr qty"
  shows "ops (replace_events (book_at w pid) msg) (p_cache p)
    (fst (UpdateOrder cid oid (fst (AddOrder cid px stop trail (GetAmountFromQtyAndSide (co_Side cached) qty) symb acc (co_Side cached) ot m tif ex fl (p_cache p)))))"
proof -
  have c: "orders (p_cache p) ocid = Some cached" "co_OrderID cached = oid"
    using replace_target_Inr(1,2) [OF assms(4)] by (simp_all add: LookupByClOrdID_Inr)
  have "GetOrEmpty msg tag_OrigClOrdID = ocid" "GetOrEmpty msg tag_ClOrdID = cid" using assms(2,3) by (simp_all add: GetString_Inr)
  then have "replace_events (book_at w pid) msg =
      [Place cid (co_Side cached) (f64_abs (GetAmountFromQtyAndSide (co_Side cached) qty)), Link cid oid]"
    using c assms(1,5) by (simp add: replace_events_def book_at_def book_of_def entry_of_def)
  then show ?thesis using ops_place_link by simp
qed

lemma tracked_replace:
  "tracked (replace_events (book_at w (SessionID_String sID)) msg) (SessionID_String sID) w (OnFIXOrderCancelReplaceRequest E sy msg sID w)"
proof -
  have "tracked (replace_events (book_at w (SessionID_String sID)) msg) (SessionID_String sID) w
      (submit_update E sy sID p ou cached oid cid cidi t tif ty w)"
    if "FindPeer w (SessionID_String sID) = Some p" "GetString msg tag_OrigClOrdID = Inr ocid" "GetString msg tag_ClOrdID = Inr cid"
      "replace_target msg (p_cache p) ocid cid = Inr (oid, cidi, oidi, cached)" "GetDecimal msg tag_OrderQty = Inr qty"
      "ou_Amount ou = GetAmountFromQtyAndSide (co_Side cached) qty" for p ocid cid oid cidi oidi cached qty ou t tif ty
    unfolding submit_update_def Let_def case_prod_beta that(6)
    by (auto intro!: tracked_auto replace_placed [OF that(1-5)] that(1) split: option.split sum.split)
  then show ?thesis
    unfolding OnFIXOrderCancelReplaceRequest_def not_found_reject_def Let_def case_prod_beta
    by (auto intro!: tracked_auto simp: sbind_eq_Inr split: option.split sum.split)
qed

lemma tracked_cancel: "tracked [] (SessionID_String sID) w (OnFIXOrderCancelRequest E msg sID w)"
  unfolding OnFIXOrderCancelRequest_def not_found_reject_def Let_def
  by (auto intro!: tracked_auto split: option.split sum.split)

lemma tracked_status: "tracked (status_events E (gw_trace w) msg) (SessionID_String sID) w (OnFIXOrderStatusRequest E sy msg sID w)"
  unfolding OnFIXOrderStatusRequest_def Let_def case_prod_beta status_events_def
  by (auto intro!: tracked_auto ops_place simp: GetString_Inr split: option.split sum.split)

text \<open>Market data requests: the peer that the loop over the symbols goes on with is the peer of the state.\<close>

definition md_tracked :: "string \<Rightarrow> gw \<Rightarrow> md_next go \<Rightarrow> bool" where
  "md_tracked pid w g \<longleftrightarrow>
     (\<forall>w' p'. g = Ret (Next w' p') \<longrightarrow> tracks [] pid w w' \<and> FindPeer w' pid = Some p') \<and>
     (\<forall>w' r. g = Ret (Return w' r) \<longrightarrow> tracks [] pid w w')"

lemma md_tracked_Ret [simp]:
  "md_tracked pid w (Ret (Next w' p')) \<longleftrightarrow> tracks [] pid w w' \<and> FindPeer w' pid = Some p'"
  "md_tracked pid w (Ret (Return w' r)) \<longleftrightarrow> tracks [] pid w w'"
  by (simp_all add: md_tracked_def)

lemma FindPeer_calls [simp]:
  "FindPeer (log_call e w) pid = FindPeer w pid" "FindPeer (set_peer pid p w) pid = Some p"
  "FindPeer (fst (SendToTarget E m sID w)) pid = FindPeer w pid"
  by (simp_all add: log_call_def set_peer_def SendToTarget_def FindPeer_def)

lemma md_tracked_send: "tracks [] pid w w' \<Longrightarrow> md_tracked pid w (md_send E gm sID w')"
  using tracked_sends(1) [of "[]" pid w w' E gm sID]
  by (cases "send_built E gm sID w'") (auto simp: md_send_def md_tracked_def split: prod.split)

lemma send_built_peers: "send_built E gm sID w = Ret (w', r) \<Longrightarrow> gw_peers w' = gw_peers w"
  by (auto simp: send_built_def sendToTarget_def SendToTarget_def go_bind_eq_Ret)

lemma md_tracked_send_continue:
  assumes "tracks [] pid w w'" "FindPeer w' pid = Some p"
  shows "md_tracked pid w (md_send_continue E gm sID p w')"
proof (cases "send_built E gm sID w'")
  case (Ret x)
  obtain w1 r where x: "x = (w1, r)" by fastforce
  have "tracks [] pid w w1" "FindPeer w1 pid = Some p"
    using tracks_same_peers [OF assms(1), of w1] send_built_peers [OF Ret [unfolded x]] assms(2) by (simp_all add: FindPeer_def)
  then show ?thesis by (simp add: md_send_continue_def Ret x md_tracked_def split: option.split)
qed (simp add: md_send_continue_def md_tracked_def)

lemmas md_tracked_intros = md_tracked_send md_tracked_send_continue

lemma md_tracked_symbol:
  assumes p: "FindPeer w (SessionID_String sID) = Some p"
  shows "md_tracked (SessionID_String sID) w (md_symbol E sy msg sID r g p w)"
proof -
  have set: "tracks [] (SessionID_String sID) w (set_peer (SessionID_String sID) (p\<lparr>p_cache := c\<rparr>) w')" if "ops [] (p_cache p) c" for c w'
    using tracks_set_cache(2) [OF p that] .
  have one: "ops [] (p_cache p) (MapSymbolToReqID s i (p_cache p))"
    and two: "ops [] (p_cache p) (MapMDReqIDs i b t (MapSymbolToReqID s i (p_cache p)))" for s i b t
    by (intro ops_md ops_refl)+
  have "md_tracked (SessionID_String sID) w (md_snapshot E sy sID r s p w)" for s
    unfolding md_snapshot_def Let_def
    by (auto intro!: md_tracked_intros tracks_log_call set one split: sum.split)
  moreover have "md_tracked (SessionID_String sID) w (md_subscribe E msg sID r s p w)" for s
    unfolding md_subscribe_def Let_def
    by (auto intro!: md_tracked_intros tracks_log_call set one two split: sum.split)
  moreover have "md_tracked (SessionID_String sID) w (md_unsubscribe E sID r p w)"
    unfolding md_unsubscribe_def Let_def using p
    by (auto intro!: md_tracked_intros tracks_log_call tracks_refl split: option.split)
  ultimately show ?thesis
    unfolding md_symbol_def Let_def using p
    by (auto intro!: md_tracked_intros tracks_refl split: sum.split)
qed

lemma tracked_md_loop:
  assumes "tracks [] (SessionID_String sID) w0 w" "FindPeer w (SessionID_String sID) = Some p"
  shows "tracked [] (SessionID_String sID) w0 (md_loop E sy msg sID r gs p w)"
  using assms
proof (induction gs arbitrary: p w)
  case (Cons g gs)
  have k: "md_tracked (SessionID_String sID) w (md_symbol E sy msg sID r g p w)"
    using md_tracked_symbol Cons.prems(2) by blast
  show ?case
    unfolding md_loop.simps
  proof (intro tracked_bind)
    fix x assume x: "md_symbol E sy msg sID r g p w = Ret x"
    show "tracked [] (SessionID_String sID) w0 (case x of Next w' p' \<Rightarrow> md_loop E sy msg sID r gs p' w' | Return w' e \<Rightarrow> Ret (w', e))"
      using k [unfolded x] Cons.IH tracks_trans [OF Cons.prems(1)] by (cases x) auto
  qed
qed simp

lemma tracked_market_data: "tracked [] (SessionID_String sID) w (OnFIXMarketDataRequest E sy msg sID w)"
  unfolding OnFIXMarketDataRequest_def
  by (auto intro!: tracked_bind tracked_md_loop tracks_refl split: option.split sum.split)

subsection \<open>Exchange side\<close>

lemma tracked_publish:
  "tracked P (SessionID_String sID) w (FIXTradeHandler E sy t sID w)"
  "tracked P (SessionID_String sID) w (FIXBookSnapshot E sy us sID w)"
  "tracked P (SessionID_String sID) w (FIXBookUpdate E sy u sID w)"
  "tracked P (SessionID_String sID) w (FIXHandleAuth E a sID w)"
  "tracked P (SessionID_String sID) w (FIXOrderUpdateHandler E sy ord sID w)"
  "tracked P (SessionID_String sID) w (FIXOrderCancelHandler E sy ord sID w)"
  unfolding FIXTradeHandler_def FIXBookSnapshot_def FIXBookUpdate_def FIXHandleAuth_def FIXOrderUpdateHandler_def FIXOrderCancelHandler_def Let_def
  by (auto intro!: tracked_with_peer tracked_sends tracks_intros split: option.split list.split sum.split go.split)

lemma tracked_send_each: "tracks P pid w0 w \<Longrightarrow> tracked P pid w0 (send_each E build sID xs w)"
proof (induction xs arbitrary: w)
  case (Cons x xs)
  then show ?case unfolding send_each.simps by (intro tracked_then tracked_sends) (auto split: option.split)
qed simp

lemma tracked_positions:
  "tracked P (SessionID_String sID) w (FIXWalletSnapshotHandler E ws sID w)"
  "tracked P (SessionID_String sID) w (FIXPositionSnapshotHandler E sy ps sID w)"
  unfolding FIXWalletSnapshotHandler_def FIXPositionSnapshotHandler_def
  by (auto intro!: tracked_with_peer tracked_send_each tracks_refl)

lemma tracked_error_event: "tracked P (SessionID_String sID) w (handle_error_event E ev sID w)"
proof -
  obtain w' r where s: "subscription_of E ev sID w = (w', r)" by fastforce
  then have "tracks P (SessionID_String sID) w w'"
    unfolding subscription_of_def Let_def by (auto intro!: tracks_intros split: if_splits option.splits)
  then show ?thesis
    unfolding handle_error_event_def s by (auto intro!: tracks_SendToTarget split: option.split)
qed

lemma ops_ack_order:
  "ops [Place (FormatInt (o_CID ord)) (SideToFIX (o_Amount ord)) (f64_abs (o_Amount ord)), Link (FormatInt (o_CID ord)) (FormatInt (o_ID ord))]
     c (ack_order ord acc c)"
proof (cases "orders c (FormatInt (o_CID ord))")
  case None
  define c1 where "c1 = fst (AddOrder (FormatInt (o_CID ord)) (o_Price ord) (o_PriceAuxLimit ord) (o_PriceTrailing ord)
      (o_Amount ord) (o_Symbol ord) acc (SideToFIX (o_Amount ord)) (fst (OrdTypeToFIX (o_Type ord))) (snd (OrdTypeToFIX (o_Type ord)))
      (fst (TimeInForceToFIX (o_Type ord) (o_MTSTif ord))) (o_MTSTif ord) (o_Flags ord) c)"
  have "fst (UpdateOrder (FormatInt (o_CID ord)) (FormatInt (o_ID ord)) c1) = ack_order ord acc c"
    using None by (simp add: c1_def ack_order_def UpdateOrder_def AddOrder_def Let_def case_prod_beta)
  then show ?thesis using ops_place_link unfolding c1_def by metis
next
  case (Some o')
  then have "ack_order ord acc c = fst (UpdateOrder (FormatInt (o_CID ord)) (FormatInt (o_ID ord)) c)"
    by (simp add: ack_order_def UpdateOrder_def Let_def)
  moreover have "ops [Link (FormatInt (o_CID ord)) (FormatInt (o_ID ord))] c (fst (UpdateOrder (FormatInt (o_CID ord)) (FormatInt (o_ID ord)) c))"
    using ops_calls(2) [OF ops_refl, of "[]"] by simp
  ultimately show ?thesis by (simp add: ops_mono)
qed

lemma tracked_notification: "tracked (ack_events d) (SessionID_String sID) w (FIXNotificationHandler E sy d sID w)"
  unfolding FIXNotificationHandler_def
proof (rule tracked_with_peer)
  fix p assume "FindPeer w (SessionID_String sID) = Some p"
  then have "tracked (ack_events d) (SessionID_String sID) w (notify_new E sy d ord sID p w)" if "no_NotifyInfo d = NOrderNew ord" for ord
    using that unfolding notify_new_def Let_def case_prod_beta ack_events_def
    by (auto intro!: tracked_sends tracks_intros ops_ack_order split: sum.split)
  moreover have "tracked (ack_events d) (SessionID_String sID) w (notify_cancel E sy d ord sID p w)" for ord
    unfolding notify_cancel_def Let_def case_prod_beta
    by (auto intro!: tracked_sends tracks_intros split: sum.split)
  ultimately show "tracked (ack_events d) (SessionID_String sID) w (case no_NotifyInfo d of
      NOrderCancel ord \<Rightarrow> notify_cancel E sy d ord sID p w | NOrderNew ord \<Rightarrow> notify_new E sy d ord sID p w | NOther \<Rightarrow> Ret (w, None))"
    by (auto intro: tracks_refl split: notify_info.split)
qed

text \<open>The order that an execution belongs to: from the cache, or placed and linked as the exchange reports it.\<close>

definition fetch_events :: "env \<Rightarrow> ext list \<Rightarrow> TradeExecutionUpdate \<Rightarrow> book_event list" where
  "fetch_events E tr t =
     (case env_GetByOrderId E tr (te_OrderID t) of
        Inl _ \<Rightarrow> []
      | Inr os \<Rightarrow> [Place (FormatInt (o_CID os)) (SideToFIX (te_ExecAmount t)) (f64_abs (o_Amount os)),
                   Link (FormatInt (o_CID os)) (FormatInt (o_ID os))])"

lemma fetch_order_ops:
  "fetch_order E pid t p w = (w', Some (c, rc)) \<Longrightarrow> ops (fetch_events E (gw_trace w) t) (p_cache p) c"
  unfolding fetch_order_def Let_def case_prod_beta fetch_events_def
  by (auto simp: prod_eq_iff intro: ops_place_link split: sum.splits)

lemma fetch_order_tracks: "tracks L (SessionID_String sID) w (fst (fetch_order E pid t p w))"
  unfolding fetch_order_def Let_def case_prod_beta by (auto intro!: tracks_intros split: sum.split)

lemma execution_events_fetch:
  "execution_events E tr t = fetch_events E tr t @ [Fill (FormatInt (te_OrderID t)) (f64_abs (te_ExecAmount t))]"
  by (simp add: execution_events_def fetch_events_def)

lemma tracked_trade_execution:
  "tracked (execution_events E (gw_trace w) t) (SessionID_String sID) w (FIXTradeExecutionUpdateHandler E sy t sID w)"
  unfolding FIXTradeExecutionUpdateHandler_def
proof (rule tracked_with_peer)
  fix p assume p: "FindPeer w (SessionID_String sID) = Some p"
  let ?L = "execution_events E (gw_trace w) t" and ?pid = "SessionID_String sID"
  obtain w' res where f: "fetch_order E ?pid t p w = (w', res)" by fastforce
  then have w': "tracks ?L ?pid w w'" using fetch_order_tracks [of ?L sID w E ?pid t p] by simp
  have c: "ops ?L (p_cache p) (fst (AddExecution ks (FormatInt (te_OrderID t)) i x (te_ExecAmount t) c))" if "res = Some (c, rc)" for c rc ks i x
    unfolding execution_events_fetch using fetch_order_ops f that by (intro ops_calls) blast
  show "tracked ?L ?pid w (let pid = ?pid
        in case fetch_order E pid t p w of
             (w, None) \<Rightarrow> Ret (w, None)
           | (w, Some (c, rcached)) \<Rightarrow>
               (let ks = env_ord E 1 (gw_trace w) (dom (orders c));
                    (c, r) = AddExecution ks (FormatInt (te_OrderID t)) (FormatInt (te_ID t)) (te_ExecPrice t) (te_ExecAmount t) c;
                    w = set_cache pid p c w
                in case r of
                     Inl err \<Rightarrow> Ret (w, Some err)
                   | Inr (totalFillQty, avgPx) \<Rightarrow>
                       (case rcached of
                          Inl _ \<Rightarrow> Panic ''runtime error: invalid memory address or nil pointer dereference''
                        | Inr cached \<Rightarrow>
                            ws_send E (FIXExecutionReportFromTradeExecutionUpdate (env_uuid E (gw_trace w))
                              (BeginString sID) t (p_bfxUserID p) (co_ClOrdID cached) (co_Qty cached) totalFillQty
                              (co_Px cached) (co_Stop cached) (co_Trail cached) avgPx sy (TargetCompID sID)
                              (co_TifExpiration cached) (co_Flags cached)) sID w)))"
    unfolding Let_def f case_prod_beta
    using w' p c by (auto intro!: tracked_sends tracks_intros split: option.split sum.split)
qed

text \<open>The trades of an order of a snapshot.\<close>

definition trade_events :: "TradeExecutionUpdate list \<Rightarrow> book_event list" where
  "trade_events tus = map (\<lambda>tu. Fill (FormatInt (te_OrderID tu)) (f64_abs (te_ExecAmount tu))) tus"

lemma ops_add_executions: "ops L c0 c \<Longrightarrow> ops (L @ trade_events tus) c0 (fst (add_executions E tr k tus c))"
proof (induction tus arbitrary: k c L)
  case (Cons tu tus)
  let ?f = "Fill (FormatInt (te_OrderID tu)) (f64_abs (te_ExecAmount tu))"
  let ?r = "AddExecution (env_ord E k tr (dom (orders c))) (FormatInt (te_OrderID tu)) (FormatInt (te_ID tu)) (te_ExecPrice tu) (te_ExecAmount tu) c"
  have one: "ops (L @ [?f]) c0 (fst ?r)" using ops_calls(3) [OF Cons.prems] .
  have "ops (L @ trade_events (tu # tus)) c0 (fst ?r)" 
    by (rule ops_mono [OF one]) (use subseq_prefix [of "L @ [?f]" "trade_events tus"] in \<open>simp add: trade_events_def\<close>)
  moreover have "ops (L @ trade_events (tu # tus)) c0 (fst (add_executions E tr (Suc k) tus (fst ?r)))"
    using Cons.IH [OF one, of "Suc k"] by (simp add: trade_events_def)
  ultimately show ?case by (cases ?r) (auto split: sum.split)
qed (simp add: trade_events_def)

lemma ops_set_OrderID:
  assumes "ops L c0 c" "orders c k = Some o'"
  shows "ops (L @ [Link k i]) c0 (c\<lparr>orders := (orders c)(k \<mapsto> o'\<lparr>co_OrderID := i\<rparr>)\<rparr>)"
  using ops_calls(2) [OF assms(1), of k i] assms(2) by (simp add: UpdateOrder_def Let_def)

lemma snapshot_events_Cons:
  "snapshot_events E pid tr (ord # os) =
     [Place (FormatInt (o_CID ord)) (SideToFIX (o_Amount ord)) (f64_abs (o_Amount ord))] @
     (case env_OrderTrades E tr (o_Symbol ord) (o_ID ord) of
        Inl _ \<Rightarrow> snapshot_events E pid (tr @ [EOrderTrades pid (o_Symbol ord) (o_ID ord)]) os
      | Inr ts \<Rightarrow> trade_events (case ts of None \<Rightarrow> [] | Some tus \<Rightarrow> tus) @ [Link (FormatInt (o_CID ord)) (FormatInt (o_ID ord))])"
  by (simp add: trade_events_def split: sum.split)

lemma tracked_snapshot_loop:
  assumes "FindPeer w0 (SessionID_String sID) = Some p0" "ops L (p_cache p0) (p_cache p)" "tracks L (SessionID_String sID) w0 w"
  shows "tracked (L @ snapshot_events E (SessionID_String sID) (gw_trace w) os) (SessionID_String sID) w0 (snapshot_loop E sy sID os p w)"
  using assms(2,3)
proof (induction os arbitrary: p w L)
  case (Cons ord os)
  let ?pid = "SessionID_String sID"
  let ?place = "[Place (FormatInt (o_CID ord)) (SideToFIX (o_Amount ord)) (f64_abs (o_Amount ord))]"
  let ?link = "[Link (FormatInt (o_CID ord)) (FormatInt (o_ID ord))]"
  let ?trades = "env_OrderTrades E (gw_trace w) (o_Symbol ord) (o_ID ord)"
  define c where "c = fst (AddOrder (FormatInt (o_CID ord)) (o_Price ord) (o_PriceAuxLimit ord) (o_PriceTrailing ord)
      (o_Amount ord) (o_Symbol ord) (p_bfxUserID p) (SideToFIX (o_Amount ord)) (fst (OrdTypeToFIX (o_Type ord)))
      (snd (OrdTypeToFIX (o_Type ord))) (fst (TimeInForceToFIX (o_Type ord) (o_MTSTif ord)))
      (o_MTSTif ord) (o_Flags ord) (p_cache p))"
  define p1 where "p1 = p\<lparr>p_cache := c\<rparr>"
  define w1 where "w1 = log_call (EOrderTrades ?pid (o_Symbol ord) (o_ID ord)) (set_peer ?pid p1 w)"
  let ?L = "L @ snapshot_events E ?pid (gw_trace w) (ord # os)"
  have c: "ops (L @ ?place) (p_cache p0) c" using ops_calls(1) [OF Cons.prems(1)] unfolding c_def .
  have set: "tracks K ?pid w0 (set_cache ?pid p' c' w')" if "ops K (p_cache p0) c'" for K c' p' w'
    using tracks_set_peer [OF assms(1), of K "p'\<lparr>p_cache := c'\<rparr>"] that by (simp add: set_cache_def)
  have w1: "tracks (L @ ?place) ?pid w0 w1"
    unfolding w1_def by (intro tracks_log_call tracks_set_peer [OF assms(1)]) (simp add: p1_def c)
  have tr: "gw_trace (set_peer ?pid p1 w) = gw_trace w" "gw_trace w1 = gw_trace w @ [EOrderTrades ?pid (o_Symbol ord) (o_ID ord)]"
    by (simp_all add: w1_def set_peer_def log_call_def)
  show ?case
  proof (cases ?trades)
    case (Inl e)
    have "tracked ((L @ ?place) @ snapshot_events E ?pid (gw_trace w1) os) ?pid w0 (snapshot_loop E sy sID os p1 w1)"
      using c by (intro Cons.IH [OF _ w1]) (simp add: p1_def)
    then show ?thesis
      using Inl unfolding snapshot_loop.simps Let_def case_prod_beta c_def [symmetric] p1_def [symmetric] w1_def [symmetric]
      by (simp add: tr)
  next
    case (Inr ts)
    define tus where "tus = (case ts of None \<Rightarrow> [] | Some tus \<Rightarrow> tus)"
    have all: "?L = (L @ ?place) @ trade_events tus @ ?link" unfolding snapshot_events_Cons Inr tus_def by simp
    obtain c2 err where c2: "(case ts of None \<Rightarrow> (c, None) | Some tus \<Rightarrow> add_executions E (gw_trace w1) 0 tus c) = (c2, err)" by fastforce
    have ops2: "ops ((L @ ?place) @ trade_events tus) (p_cache p0) c2"
      using c2 ops_add_executions [OF c, of tus E "gw_trace w1" 0] c by (cases ts) (auto simp: tus_def trade_events_def)
    then have fills: "ops ?L (p_cache p0) c2" unfolding all append_assoc [symmetric] by (rule ops_mono) (rule subseq_prefix)
    have link: "ops ?L (p_cache p0) (c2\<lparr>orders := (orders c2)(FormatInt (o_CID ord) \<mapsto> o'\<lparr>co_OrderID := FormatInt (o_ID ord)\<rparr>)\<rparr>)"
      if "orders c2 (FormatInt (o_CID ord)) = Some o'" for o'
      using ops_set_OrderID [OF ops2 that] unfolding all by simp
    have "tracks ?L ?pid w0 w1" unfolding all append_assoc [symmetric]
      using w1 by (rule tracks_mono) (metis append_assoc subseq_prefix)
    with fills link show ?thesis
      using Inr c2 unfolding snapshot_loop.simps Let_def case_prod_beta c_def [symmetric] p1_def [symmetric] w1_def [symmetric]
      by (auto simp: tr intro!: tracked_sends set split: option.split)
  qed
qed (simp add: tracks_mono)

lemma tracked_order_snapshot:
  "tracked (snapshot_events E (SessionID_String sID) (gw_trace w) os) (SessionID_String sID) w (FIXOrderSnapshotHandler E sy os sID w)"
  unfolding FIXOrderSnapshotHandler_def
proof (rule tracked_with_peer)
  fix p assume "FindPeer w (SessionID_String sID) = Some p"
  from tracked_snapshot_loop [OF this ops_refl tracks_refl, of "[]"]
  show "tracked (snapshot_events E (SessionID_String sID) (gw_trace w) os) (SessionID_String sID) w (snapshot_loop E sy sID os p w)" by simp
qed

subsection \<open>Events\<close>

text \<open>The book events that an event of a service may lead to in the book \<open>B\<close> of its session; \<open>tr\<close> is the trace of the calls so far. A book is given up at a
  logon and at a logout.\<close>

definition message_events :: "env \<Rightarrow> symbology \<Rightarrow> ext list \<Rightarrow> book \<Rightarrow> Message \<Rightarrow> SessionID \<Rightarrow> book_event list" where
  "message_events E sy tr B m sID =
     (case GetBytes (m_Header m) 35 of
        Inl _ \<Rightarrow> []
      | Inr t \<Rightarrow>
          if t = ''D'' then new_order_events sy (m_Body m) sID
          else if t = ''G'' then replace_events B (m_Body m)
          else if t = ''H'' then status_events E tr (m_Body m)
          else [])"

definition data_events :: "env \<Rightarrow> ext list \<Rightarrow> ws_data \<Rightarrow> SessionID \<Rightarrow> book_event list" where
  "data_events E tr d sID =
     (case d of
        DNotification n \<Rightarrow> ack_events n
      | DTradeExecutionUpdate t \<Rightarrow> execution_events E tr t
      | DOrderSnapshot os \<Rightarrow> snapshot_events E (SessionID_String sID) tr os
      | _ \<Rightarrow> [])"

definition book_events :: "env \<Rightarrow> symbology \<Rightarrow> ext list \<Rightarrow> book \<Rightarrow> gw_event \<Rightarrow> book_event list" where
  "book_events E sy tr B ev =
     (case ev of
        FixApp m sID \<Rightarrow> message_events E sy tr B m sID
      | FromExchange d sID \<Rightarrow> data_events E tr d sID
      | FixAdmin _ _ \<Rightarrow> [GiveUp]
      | FixLogout _ \<Rightarrow> [GiveUp]
      | WsDisconnect _ \<Rightarrow> [])"

lemma tracked_mono: "tracked P pid w g \<Longrightarrow> subseq P Q \<Longrightarrow> tracked Q pid w g"
  by (auto simp: tracked_def intro: tracks_mono)

lemma tracked_listen: "tracked (data_events E (gw_trace w) d sID) (SessionID_String sID) w (listen st E sy d sID w)"
  unfolding listen_def Let_def
  by (cases d)
    (auto simp: data_events_def FIXOrderNewHandler_def FIXWalletUpdateHandler_def FIXBalanceInfoHandler_def
      FIXBalanceUpdateHandler_def FIXPositionUpdateHandler_def
      intro!: tracked_notification tracked_trade_execution tracked_order_snapshot tracked_publish tracked_positions
        tracked_error_event tracks_refl)

lemma tracked_FromApp:
  "tracked (message_events E sy (gw_trace w) (book_at w (SessionID_String sID)) m sID) (SessionID_String sID) w (FromApp st E sy m sID w)"
proof -
  let ?w = "w\<lparr>gw_lastMsgType := GetOrEmpty (m_Header m) 35\<rparr>" and ?pid = "SessionID_String sID"
  let ?L = "message_events E sy (gw_trace w) (book_at w ?pid) m sID"
  have same: "gw_trace ?w = gw_trace w" "book_at ?w ?pid = book_at w ?pid" by (simp_all add: book_at_def FindPeer_def)
  have "tracked ?L ?pid ?w (run_route r E sy m sID ?w)" if "GetBytes (m_Header m) 35 = Inr t" "route_table st t = Some r" for t r
    using that tracked_new_order [of sy "m_Body m" sID ?w E] tracked_replace [of ?w sID "m_Body m" E sy] tracked_cancel [of sID ?w E "m_Body m"]
      tracked_status [of E ?w "m_Body m" sID sy] tracked_market_data [of sID ?w E sy "m_Body m"] same
    by (cases st) (auto simp: route_table_def run_route_def message_events_def split: if_splits)
  then have "tracked ?L ?pid ?w (Route (FIX_routes st) E sy m sID ?w)"
    unfolding Route_def tryRoute_def by (auto simp: FIX_routes_table intro: tracks_refl split: sum.split option.split if_splits)
  then show ?thesis
    unfolding FromApp_def Let_def tracked_def by (simp add: tracks_def FindPeer_def)
qed

section \<open>The simulation\<close>

lemma tracks_books:
  assumes "tracks L pid w w'"
  shows "\<exists>es. subseq es L \<and> book_run (book_at w pid) es (book_at w' pid)"
  using assms ops_book by (auto simp: tracks_def book_at_def split: option.splits intro: exI [of _ "[]"] book_run.nothing)

lemma given_up:
  assumes "book_at w' pid = book_at w pid \<or> book_at w' pid = Map.empty \<and> L = [GiveUp]"
  shows "\<exists>es. subseq es L \<and> book_run (book_at w pid) es (book_at w' pid)"
  using assms
proof (elim disjE conjE)
  assume "book_at w' pid = book_at w pid"
  then show ?thesis by (intro exI [of _ "[]"]) (simp add: book_run.nothing)
next
  assume "book_at w' pid = Map.empty" "L = [GiveUp]"
  then show ?thesis by (intro exI [of _ "[GiveUp]"]) (auto intro: book_run.intros book_step.give_up)
qed

lemma logout_peers: "gw_peers (fst (logout E t sID w)) = gw_peers w"
  by (simp add: logout_def SendToTarget_def split: go.split)

lemma Logon_peer: "\<exists>p'. gw_peers (fst (Logon E pid k s u c p w)) = (gw_peers w)(pid \<mapsto> p') \<and> p_cache p' = p_cache p"
  by (auto simp: Logon_def Let_def set_peer_def split: option.split)

lemma FromAdmin_book: "book_at (fst (FromAdmin E m sID w)) (SessionID_String sID) \<in> {book_at w (SessionID_String sID), Map.empty}"
proof -
  let ?pid = "SessionID_String sID"
  have empty: "book_of (p_cache (Peer_New sID)) = Map.empty" by (simp add: Peer_New_def newCache_def book_of_def)
  have add: "FindPeer (AddPeer sID w) ?pid = Some (Peer_New sID)" by (simp add: AddPeer_def FindPeer_def)
  have on: "book_at (fst (Logon E ?pid k s u c (Peer_New sID) w1)) ?pid = Map.empty" for k s u c w1
    using Logon_peer [of E ?pid k s u c "Peer_New sID" w1] empty by (auto simp: book_at_def FindPeer_def)
  have off: "book_at (fst (logout E t sID w1)) ?pid = book_at w1 ?pid" for t w1
    by (simp add: book_at_def FindPeer_def logout_peers)
  let ?fields = "sbind (logon_field (m_Body m) tagBfxAPIKey) (\<lambda>k. sbind (logon_field (m_Body m) tagBfxAPISecret) (\<lambda>s.
      sbind (logon_field (m_Body m) tagBfxUserID) (\<lambda>u. Inr (k, s, u))))"
  let ?cod = "GetBool (m_Body m) tagCancelOnDisconnect = Inr True"
  show ?thesis
  proof (cases "IsMsgTypeOf m ''A''")
    case False
    then show ?thesis by (simp add: FromAdmin_def)
  next
    case logon: True
    show ?thesis
    proof (cases ?fields)
      case (Inl e)
      then have "FromAdmin E m sID w = (AddPeer sID w, e)" using logon by (simp add: FromAdmin_def Let_def)
      then show ?thesis using add empty by (simp add: book_at_def)
    next
      case (Inr ksu)
      then obtain k s u where ksu: "?fields = Inr (k, s, u)" by (cases ksu) auto
      obtain w1 e where w1: "Logon E ?pid k s u ?cod (Peer_New sID) (AddPeer sID w) = (w1, e)" by fastforce
      then have "book_at w1 ?pid = Map.empty" using on by (metis fst_conv)
      moreover have "fst (FromAdmin E m sID w) = w1 \<or> (\<exists>t. fst (FromAdmin E m sID w) = fst (logout E t sID w1))"
        using logon w1 add ksu by (auto simp: FromAdmin_def Let_def split: option.split prod.split) (metis fst_conv)+
      ultimately show ?thesis using off by auto
    qed
  qed
qed

lemma RemovePeer_book: "RemovePeer pid w = Ret (w', r) \<Longrightarrow> book_at w' pid = Map.empty"
  by (auto simp: RemovePeer_def book_at_def FindPeer_def go_bind_eq_Ret split: option.splits)

text \<open>
  C3: a service implements an order book for each session. The books of a new service are empty. Each event moves the
  book of its own session along some of the book events that \<open>book_events\<close> lists for it, each at most once and in their order, and leaves the books of
  the other sessions as they are. So an order is placed with the number, the side and the amount of its message, linked to the OrderID
  that the exchange gives it, and filled by the exchange only: by an execution once, by its amount, and by a snapshot by the amounts of the trades that
  the exchange reports for its order. A book is given up only at a logon or a logout.
\<close>

theorem service_refines_order_book:
  assumes "gw_reach st sy env_good event_good w" "env_good E" "event_good ev" "handle_event st E sy ev w = Ret w'"
  shows "book_at service_New pid = Map.empty \<and>
    (\<exists>es. subseq es (if pid = SessionID_String (event_session ev) then book_events E sy (gw_trace w) (book_at w pid) ev else []) \<and>
      book_run (book_at w pid) es (book_at w' pid))"
proof (cases "pid = SessionID_String (event_session ev)")
  case False
  have "FindPeer w' pid = FindPeer w pid"
    using handle_event_step [OF assms(2,3) reach_ok [OF assms(1)] assms(4)] False by (simp add: session_step_def)
  then have "book_at w' pid = book_at w pid" by (simp add: book_at_def)
  with False show ?thesis by (auto simp: book_at_def service_New_def FindPeer_def intro: book_run.nothing)
next
  case True
  have "\<exists>es. subseq es (book_events E sy (gw_trace w) (book_at w pid) ev) \<and> book_run (book_at w pid) es (book_at w' pid)"
  proof (cases ev)
    case (FixAdmin m sID)
    then show ?thesis using FromAdmin_book [of E m sID w] assms(4) True
      by (intro given_up) (auto simp: handle_event_def book_events_def)
  next
    case (FixApp m sID)
    then show ?thesis using tracked_FromApp [of E sy w sID m st] assms(4) True
      by (intro tracks_books) (auto simp: handle_event_def go_bind_eq_Ret tracked_def book_events_def)
  next
    case (FixLogout sID)
    then show ?thesis using assms(4) True
      by (intro given_up) (auto simp: handle_event_def OnLogout_def go_bind_eq_Ret book_events_def dest: RemovePeer_book)
  next
    case (FromExchange d sID)
    then show ?thesis using tracked_listen [of E w d sID st sy] assms(4) True
      by (intro tracks_books) (auto simp: handle_event_def go_bind_eq_Ret tracked_def book_events_def)
  next
    case (WsDisconnect sID)
    then have "gw_peers w' = gw_peers w"
      using assms(4) logout_peers [of E "''downstream disconnect''" sID w]
      by (auto simp: handle_event_def report_disconnect_def split: option.splits prod.splits)
    then show ?thesis by (intro given_up) (simp add: book_at_def FindPeer_def)
  qed
  then show ?thesis using True by (simp add: book_at_def service_New_def FindPeer_def)
qed

text \<open>An acknowledged order of quantity 3 is filled by an execution of 1.\<close>

theorem service_refines_order_book_witness:
  "\<exists>w w' es e. handle_event OrderRoutingService calm_env PassthroughSymbology (FromExchange (DTradeExecutionUpdate sample_trade) sample_sID) w = Ret w' \<and>
     subseq es [Fill (FormatInt 42) f64_one] \<and>
     book_run (book_at w (SessionID_String sample_sID)) es (book_at w' (SessionID_String sample_sID)) \<and>
     book_at w (SessionID_String sample_sID) (FormatInt 1) = Some (e\<lparr>en_Fills := []\<rparr>) \<and>
     book_at w' (SessionID_String sample_sID) (FormatInt 1) = Some (e\<lparr>en_Fills := [f64_one]\<rparr>)"
proof -
  let ?ev = "FromExchange (DTradeExecutionUpdate sample_trade) sample_sID"
  obtain w w' r where w: "gw_reach OrderRoutingService PassthroughSymbology env_good event_good w"
    "FindPeer w (SessionID_String sample_sID) = Some (sample_peer\<lparr>p_cache := newCache\<lparr>orders := [FormatInt 1 \<mapsto> ack_cached]\<rparr>\<rparr>)"
    "FIXTradeExecutionUpdateHandler calm_env PassthroughSymbology sample_trade sample_sID w = Ret (w', r)"
    "\<exists>p'. FindPeer w' (SessionID_String sample_sID) = Some p' \<and> orders (p_cache p') = [FormatInt 1 \<mapsto> add_fill sample_trade ack_cached]"
    using acked_then_filled .
  have step: "handle_event OrderRoutingService calm_env PassthroughSymbology ?ev w = Ret w'"
    by (simp add: handle_event_def listen_def isOrderRoutingService_def w(3))
  have "event_good ?ev" by (simp add: event_good_def data_good_def sample_trade_def)
  moreover have "f64_abs f64_one = f64_one" by (simp add: f64_samples smant_def)
  then have "book_events calm_env PassthroughSymbology (gw_trace w) B ?ev = [Fill (FormatInt 42) f64_one]" for B
    by (simp add: book_events_def data_events_def execution_events_def calm_env_def sample_trade_def)
  ultimately obtain es where "subseq es [Fill (FormatInt 42) f64_one]"
    "book_run (book_at w (SessionID_String sample_sID)) es (book_at w' (SessionID_String sample_sID))"
    using service_refines_order_book [OF w(1) env_good_calm _ step, of "SessionID_String sample_sID"] by auto
  moreover have "book_at w (SessionID_String sample_sID) (FormatInt 1) = Some ((entry_of ack_cached)\<lparr>en_Fills := []\<rparr>)"
    using w(2) by (simp add: book_at_def book_of_def entry_of_def ack_cached_def snapshot_order_fresh)
  moreover have "book_at w' (SessionID_String sample_sID) (FormatInt 1) = Some ((entry_of ack_cached)\<lparr>en_Fills := [f64_one]\<rparr>)"
    using w(4) \<open>f64_abs f64_one = f64_one\<close>
    by (auto simp: book_at_def book_of_def entry_of_def add_fill_def ack_cached_def snapshot_order_fresh sample_trade_def)
  ultimately show ?thesis using step by blast
qed

end
