(* ===== verification/Go_Parse.thy ===== *)
theory Go_Parse
  imports Go_Decimal
begin

text \<open>
  The functions of Go's \<^verbatim>\<open>strconv\<close> that read floats and booleans, as the conversion of old orders
  (\<^verbatim>\<open>convert/websocket.go\<close>) and the command line client use them. \<open>ParseFloat\<close> accepts a sign, decimal digits with at most
  one point, and an exponent, or the name of an infinity or of NaN in any case. Its result is the
  nearest float; a finite text whose nearest float is infinite is out of range. The digits of the
  exponent count until the exponent has reached 10000, as in the library.
\<close>

definition is_digit :: "char \<Rightarrow> bool" where
  "is_digit c \<longleftrightarrow> char_digit c \<noteq> None"

definition lower :: "char \<Rightarrow> char" where
  "lower c = (let n = (of_char c :: nat) in if 65 \<le> n \<and> n \<le> 90 then char_of (n + 32) else c)"

definition special :: "string \<Rightarrow> float64 option" where
  "special s =
     (let t = map lower s
      in if t \<in> {''+inf'', ''+infinity'', ''inf'', ''infinity''} then Some (Inf False)
         else if t \<in> {''-inf'', ''-infinity''} then Some (Inf True)
         else if t = ''nan'' then Some NaN
         else None)"

text \<open>The digits, how many of them follow the point, and the rest of the text.\<close>

definition read_mantissa :: "string \<Rightarrow> string \<times> nat \<times> string" where
  "read_mantissa s =
     (let ip = takeWhile is_digit s; r = dropWhile is_digit s
      in case r of
           [] \<Rightarrow> (ip, 0, [])
         | c # r' \<Rightarrow>
             if c = CHR ''.''
             then (let fp = takeWhile is_digit r' in (ip @ fp, length fp, dropWhile is_digit r'))
             else (ip, 0, r))"

fun exp_digits :: "nat \<Rightarrow> string \<Rightarrow> nat option" where
  "exp_digits e [] = Some e"
| "exp_digits e (c # s) =
     (case char_digit c of
        None \<Rightarrow> None
      | Some d \<Rightarrow> exp_digits (if e < 10000 then e * 10 + d else e) s)"

definition read_exponent :: "string \<Rightarrow> int option" where
  "read_exponent r =
     (case r of
        [] \<Rightarrow> Some 0
      | c # r' \<Rightarrow>
          if c = CHR ''e'' \<or> c = CHR ''E'' then
            (let (neg, ds) = parse_sign r'
             in if ds = [] then None
                else map_option (\<lambda>e. if neg then - int e else int e) (exp_digits 0 ds))
          else None)"

text \<open>The value \<open>n * 10^e\<close>, rounded.\<close>

definition round_decimal :: "bool \<Rightarrow> nat \<Rightarrow> int \<Rightarrow> float64" where
  "round_decimal s n e = (if 0 \<le> e then round_frac s (n * 10 ^ nat e) 1 else round_frac s n (10 ^ nat (- e)))"

definition ParseFloat :: "string \<Rightarrow> float64 res" where
  "ParseFloat s =
     (case special s of
        Some f \<Rightarrow> Inr f
      | None \<Rightarrow>
          (let (neg, t) = parse_sign s; (ds, nf, r) = read_mantissa t
           in case (if ds = [] then None else read_exponent r) of
                None \<Rightarrow> Inl (''strconv.ParseFloat: parsing '' @ quote s @ '': invalid syntax'')
              | Some e \<Rightarrow>
                  (case digits_val 0 ds of
                     None \<Rightarrow> Inl (''strconv.ParseFloat: parsing '' @ quote s @ '': invalid syntax'')
                   | Some n \<Rightarrow>
                       (let f = round_decimal neg n (e - int nf)
                        in if f64_finite f then Inr f
                           else Inl (''strconv.ParseFloat: parsing '' @ quote s @ '': value out of range'')))))"

definition ParseBool :: "string \<Rightarrow> bool res" where
  "ParseBool s =
     (if s \<in> {''1'', ''t'', ''T'', ''true'', ''TRUE'', ''True''} then Inr True
      else if s \<in> {''0'', ''f'', ''F'', ''false'', ''FALSE'', ''False''} then Inr False
      else Inl (''strconv.ParseBool: parsing '' @ quote s @ '': invalid syntax''))"

section \<open>Lemmas\<close>

text \<open>The text \<open>n * 10^e\<close> is rounded as the decimal library rounds the same number.\<close>

lemma round_decimal_dec: "round_decimal (v < 0) (nat \<bar>v\<bar>) e = dec_Float64 (mk_dec v e)"
  by (cases "e = 0") (simp_all add: round_decimal_def dec_Float64_def mk_dec_def)

lemma ParseFloat_ok:
  assumes "ParseFloat s = Inr f"
  shows "f64_ok f"
proof (cases "special s")
  case (Some g)
  with assms have "f = g" by (simp add: ParseFloat_def)
  with Some show ?thesis by (auto simp: special_def Let_def split: if_splits)
next
  case None
  with assms obtain neg n e where "f = round_decimal neg n e"
    by (auto simp: ParseFloat_def Let_def split: prod.splits option.splits if_splits)
  then show ?thesis by (simp add: round_decimal_def round_frac_ok)
qed

lemma ParseFloat_one: "ParseFloat ''1'' = Inr f64_one"
proof -
  have "qfrac 1 1 = of_nat (2 ^ 52) * 2 powi (- 52)" by (simp add: qfrac_def power_int_def power_one_over)
  from round_frac_float [OF f64_ok_samples(1) [unfolded f64_one_def] _ _ this]
  have "round_frac False (Suc 0) (Suc 0) = f64_one" by (simp add: f64_one_def)
  moreover have "special ''1'' = None" by (simp add: special_def lower_def)
  moreover have "read_mantissa ''1'' = (''1'', 0, [])" by (simp add: read_mantissa_def is_digit_def evals)
  ultimately show ?thesis
    by (simp add: ParseFloat_def read_exponent_def round_decimal_def evals) (simp add: f64_one_def)
qed

end
