(* ===== verification/Convert_V1.thy ===== *)
theory Convert_V1
  imports Go_Parse Fix_Handlers
begin

text \<open>
  Conversions of untyped values and of orders of the first version of the exchange's API
  (\<^verbatim>\<open>convert/websocket.go\<close>). A value of type \<^verbatim>\<open>interface{}\<close> is one of the types that the functions ask
  for, or something else. The conversion of a float to an \<^verbatim>\<open>int64\<close> truncates; Go leaves open what it
  gives for a float outside of the range, so that is an argument (\<open>big\<close>).

  The theorem says exactly which orders are converted, and what becomes of the status, the type, the amounts and the side.
\<close>

section \<open>Untyped values\<close>

datatype iface = IInt64 int | IFloat64 float64 | IBool bool | IString string | IOther

definition Int64OrZero :: "iface \<Rightarrow> int" where
  "Int64OrZero i = (case i of IInt64 r \<Rightarrow> r | _ \<Rightarrow> 0)"

definition Float64OrZero :: "iface \<Rightarrow> float64" where
  "Float64OrZero i = (case i of IFloat64 r \<Rightarrow> r | _ \<Rightarrow> f64_zero)"

definition BoolOrFalse :: "iface \<Rightarrow> bool" where
  "BoolOrFalse i = (case i of IBool r \<Rightarrow> r | _ \<Rightarrow> False)"

definition StringOrEmpty :: "iface \<Rightarrow> string" where
  "StringOrEmpty i = (case i of IString r \<Rightarrow> r | _ \<Rightarrow> '''')"

section \<open>Orders\<close>

record V1Order =
  v1_ID :: int
  v1_Symbol :: string
  v1_Exchange :: string
  v1_Price :: string
  v1_AvgExecutionPrice :: string
  v1_Side :: string
  v1_Type :: string
  v1_Timestamp :: string
  v1_IsLive :: bool
  v1_IsCanceled :: bool
  v1_IsHidden :: bool
  v1_WasForced :: bool
  v1_OriginalAmount :: string
  v1_RemainingAmount :: string
  v1_ExecutedAmount :: string

text \<open>The integer part of a finite float.\<close>

fun f64_trunc :: "float64 \<Rightarrow> int option" where
  "f64_trunc (Fin s m e) =
     Some (let n = (if 0 \<le> e then int m * 2 ^ nat e else int (m div 2 ^ nat (- e))) in if s then - n else n)"
| "f64_trunc _ = None"

definition f64_int64 :: "(float64 \<Rightarrow> int) \<Rightarrow> float64 \<Rightarrow> int" where
  "f64_int64 big x = (case f64_trunc x of Some i \<Rightarrow> if int64_ok i then i else big x | None \<Rightarrow> big x)"

definition v1_type :: "string \<Rightarrow> string" where
  "v1_type t =
     (if t = ''market'' then ''MARKET''
      else if t = ''limit'' then ''LIMIT''
      else if t = ''exchange limit'' then ''EXCHANGE LIMIT''
      else if t = ''stop'' then ''STOP''
      else if t = ''trailing-stop'' then ''TRAILING STOP''
      else '''')"

definition OrderFromV1Order :: "(float64 \<Rightarrow> int) \<Rightarrow> V1Order \<Rightarrow> Order res" where
  "OrderFromV1Order big v =
     sbind (ParseFloat (v1_Timestamp v)) (\<lambda>ts.
     sbind (ParseFloat (v1_Price v)) (\<lambda>p.
     sbind (ParseFloat (v1_AvgExecutionPrice v)) (\<lambda>ap.
       (let status = (if v1_IsCanceled v then OrderStatusCanceled
                      else if v1_IsLive v then OrderStatusActive else '''');
            mul = (if v1_Side v = ''sell'' then f64_of_int (- 1) else f64_of_int 1)
        in sbind (ParseFloat (v1_OriginalAmount v)) (\<lambda>oa.
           sbind (ParseFloat (v1_RemainingAmount v)) (\<lambda>orem.
             Inr (order_zero\<lparr>o_ID := v1_ID v, o_Symbol := v1_Symbol v, o_Hidden := v1_IsHidden v,
               o_MTSCreated := f64_int64 big ts, o_MTSUpdated := f64_int64 big ts, o_Price := p, o_PriceAvg := ap,
               o_Status := status, o_AmountOrig := oa, o_Amount := f64_mul orem mul, o_Type := v1_type (v1_Type v)\<rparr>)))))))"

section \<open>Lemmas\<close>

lemma f64_of_int_unit: "f64_of_int 1 = f64_one" "f64_of_int (- 1) = f64_neg f64_one"
proof -
  have q: "qfrac 1 1 = of_nat (2 ^ 52) * 2 powi (- 52)" by (simp add: qfrac_def power_int_def power_one_over)
  have "round_frac s (Suc 0) (Suc 0) = Fin s (2 ^ 52) (- 52)" for s
    using round_frac_float [of s "2 ^ 52" "- 52" 1 1] q by (simp add: min_exp_def max_exp_def)
  then show "f64_of_int 1 = f64_one" "f64_of_int (- 1) = f64_neg f64_one"
    by (simp_all add: f64_of_int_def f64_one_def)
qed

lemma f64_mul_unit:
  assumes "f64_ok x"
  shows "f64_mul x f64_one = x" "f64_mul x (f64_neg f64_one) = f64_neg x"
proof -
  have fin: "round_dyadic s (m * 2 ^ 52) (e - 52) = Fin s m e" if ok: "f64_ok (Fin s' m e)" for s s' m e
  proof (cases "m = 0")
    case True
    then show ?thesis using ok by (simp add: round_dyadic_def round_frac_def case_prod_beta scale_def)
  next
    case False
    have "of_nat (m * 2 ^ 52) * 2 powi (e - 52) = (of_nat m * 2 powi e :: rat)"
      by (simp add: power_int_diff)
    with round_dyadic_float [of s m e "m * 2 ^ 52" "e - 52"] ok False show ?thesis by simp
  qed
  show "f64_mul x f64_one = x" "f64_mul x (f64_neg f64_one) = f64_neg x"
    using assms fin by (cases x; simp add: f64_one_def)+
qed

lemma OrderFromV1Order_Inr:
  assumes "OrderFromV1Order big v = Inr ord"
  obtains ts p ap oa orem where "ParseFloat (v1_Timestamp v) = Inr ts" "ParseFloat (v1_Price v) = Inr p"
    "ParseFloat (v1_AvgExecutionPrice v) = Inr ap" "ParseFloat (v1_OriginalAmount v) = Inr oa" "ParseFloat (v1_RemainingAmount v) = Inr orem"
    "o_Price ord = p" "o_PriceAvg ord = ap" "o_AmountOrig ord = oa" "o_MTSCreated ord = f64_int64 big ts" "o_MTSUpdated ord = f64_int64 big ts"
    "o_Amount ord = (if v1_Side v = ''sell'' then f64_neg orem else orem)"
    "o_ID ord = v1_ID v" "o_Symbol ord = v1_Symbol v" "o_Hidden ord = v1_IsHidden v"
    "o_Status ord = (if v1_IsCanceled v then OrderStatusCanceled else if v1_IsLive v then OrderStatusActive else '''')"
proof -
  obtain ts p ap oa orem where r: "ParseFloat (v1_Timestamp v) = Inr ts" "ParseFloat (v1_Price v) = Inr p"
    "ParseFloat (v1_AvgExecutionPrice v) = Inr ap" "ParseFloat (v1_OriginalAmount v) = Inr oa" "ParseFloat (v1_RemainingAmount v) = Inr orem"
    using assms unfolding OrderFromV1Order_def Let_def sbind_eq_Inr by blast
  have "o_Amount ord = (if v1_Side v = ''sell'' then f64_neg orem else orem)"
    using assms [symmetric] f64_mul_unit [OF ParseFloat_ok [OF r(5)]]
    unfolding OrderFromV1Order_def r Let_def sbind.simps f64_of_int_unit sum.inject by (cases "v1_Side v = ''sell''") simp_all
  moreover have "o_Price ord = p" "o_PriceAvg ord = ap" "o_AmountOrig ord = oa" "o_MTSCreated ord = f64_int64 big ts" "o_MTSUpdated ord = f64_int64 big ts"
    "o_ID ord = v1_ID v" "o_Symbol ord = v1_Symbol v" "o_Hidden ord = v1_IsHidden v"
    "o_Status ord = (if v1_IsCanceled v then OrderStatusCanceled else if v1_IsLive v then OrderStatusActive else '''')"
    using assms [symmetric] unfolding OrderFromV1Order_def r Let_def sbind.simps sum.inject by simp_all
  ultimately show thesis using r that by blast
qed

section \<open>Properties\<close>

text \<open>
  C40: an order of the first API version is converted exactly when its timestamp, its two prices and its two amounts can be
  read as floats. The converted order was created and updated at the integer part of that timestamp (Go leaves it open outside of
  64 bits), has the read prices and the read original amount, and its remaining amount gets the sign of the side, exactly; the original
  amount does not. A canceled order is canceled even when it is live.
\<close>

theorem v1_order_converted:
  "(case OrderFromV1Order big v of
      Inl _ \<Rightarrow> isl (ParseFloat (v1_Timestamp v)) \<or> isl (ParseFloat (v1_Price v)) \<or> isl (ParseFloat (v1_AvgExecutionPrice v)) \<or>
        isl (ParseFloat (v1_OriginalAmount v)) \<or> isl (ParseFloat (v1_RemainingAmount v))
    | Inr ord \<Rightarrow>
        (\<exists>ts. ParseFloat (v1_Timestamp v) = Inr ts \<and> o_MTSUpdated ord = o_MTSCreated ord \<and>
          o_MTSCreated ord = (case f64_trunc ts of Some i \<Rightarrow> if int64_ok i then i else big ts | None \<Rightarrow> big ts)) \<and>
        ParseFloat (v1_OriginalAmount v) = Inr (o_AmountOrig ord) \<and>
        ParseFloat (v1_RemainingAmount v) = Inr (if v1_Side v = ''sell'' then f64_neg (o_Amount ord) else o_Amount ord) \<and>
        ParseFloat (v1_Price v) = Inr (o_Price ord) \<and> ParseFloat (v1_AvgExecutionPrice v) = Inr (o_PriceAvg ord) \<and>
        o_ID ord = v1_ID v \<and> o_Symbol ord = v1_Symbol v \<and> o_Hidden ord = v1_IsHidden v \<and>
        o_Status ord = (if v1_IsCanceled v then OrderStatusCanceled else if v1_IsLive v then OrderStatusActive else ''''))"
proof (cases "OrderFromV1Order big v")
  case (Inl e)
  then show ?thesis by (auto simp: OrderFromV1Order_def sbind_eq_Inl Let_def)
next
  case (Inr ord)
  have neg: "f64_neg (f64_neg x) = x" for x by (cases x) simp_all
  obtain ts p ap oa orem where "ParseFloat (v1_Timestamp v) = Inr ts" "ParseFloat (v1_Price v) = Inr p"
    "ParseFloat (v1_AvgExecutionPrice v) = Inr ap" "ParseFloat (v1_OriginalAmount v) = Inr oa" "ParseFloat (v1_RemainingAmount v) = Inr orem"
    "o_Price ord = p" "o_PriceAvg ord = ap" "o_AmountOrig ord = oa" "o_MTSCreated ord = f64_int64 big ts" "o_MTSUpdated ord = f64_int64 big ts"
    "o_Amount ord = (if v1_Side v = ''sell'' then f64_neg orem else orem)"
    "o_ID ord = v1_ID v" "o_Symbol ord = v1_Symbol v" "o_Hidden ord = v1_IsHidden v"
    "o_Status ord = (if v1_IsCanceled v then OrderStatusCanceled else if v1_IsLive v then OrderStatusActive else '''')"
    by (rule OrderFromV1Order_Inr [OF Inr])
  then show ?thesis unfolding Inr sum.case f64_int64_def by (simp add: neg)
qed

end
