(* ===== verification/Fix_Dictionary.thy ===== *)
theory Fix_Dictionary
  imports Convert_Msg
begin

text \<open>
  The data dictionary of the gateway (\<^verbatim>\<open>spec/BitfinexFIX42.xml\<close>) for the execution report of FIX 4.2, as a typing of messages: the
  fields that the message may have, which of them it must have, and the type of each. A character field has one character of its
  enumeration, a field of several values has values of its enumeration that are separated by spaces, quantities and prices are
  decimals, and times can be read back. Types that the gateway never sends are not looked into (\<open>FOther\<close>).

  The theorem says exactly which execution reports of the gateway are well typed.
\<close>

section \<open>The dictionary\<close>

datatype field_type = FString | FChar string | FMulti string | FDecimal | FTime | FOther

definition er_fields :: "(tag \<times> bool \<times> field_type) list" where
  "er_fields =
     [(37, True, FString), (198, False, FString), (11, False, FString), (41, False, FString),
      (109, False, FString), (76, False, FString), (382, False, FOther), (66, False, FString),
      (17, True, FString), (20, True, FChar ''0123''), (19, False, FString),
      (150, True, FChar ''0123456789ABCDE''), (39, True, FChar ''0123456789ABCDE''), (103, False, FOther),
      (378, False, FOther), (1, False, FString), (63, False, FChar ''0123456789''), (64, False, FOther),
      (55, True, FString), (65, False, FString), (48, False, FString), (22, False, FString),
      (167, False, FString), (200, False, FOther), (205, False, FOther), (201, False, FOther),
      (202, False, FDecimal), (206, False, FOther), (231, False, FDecimal), (223, False, FDecimal),
      (207, False, FString), (106, False, FString), (348, False, FOther), (349, False, FOther),
      (107, False, FString), (350, False, FOther), (351, False, FOther), (54, True, FChar ''123456789''),
      (38, False, FDecimal), (152, False, FDecimal), (40, False, FChar ''123456789ABCDEFGHIP''),
      (44, False, FDecimal), (99, False, FDecimal), (211, False, FDecimal), (388, False, FChar ''012345''),
      (389, False, FDecimal), (15, False, FString), (376, False, FString), (377, False, FOther),
      (59, False, FChar ''0123456''), (168, False, FTime), (432, False, FOther), (126, False, FTime),
      (18, False, FMulti ''0123456789ABCDEFGILMNOPRSTUVW''), (47, False, FChar ''ABCDEFHIJKLMNOPRSTUWXYZ''),
      (32, False, FDecimal), (31, False, FDecimal), (194, False, FDecimal), (195, False, FDecimal),
      (30, False, FString), (336, False, FString), (29, False, FChar ''1234''), (151, True, FDecimal),
      (14, True, FDecimal), (6, True, FDecimal), (424, False, FDecimal), (425, False, FDecimal),
      (426, False, FDecimal), (427, False, FOther), (75, False, FOther), (60, False, FTime),
      (113, False, FOther), (12, False, FDecimal), (13, False, FChar ''123''), (381, False, FDecimal),
      (119, False, FDecimal), (120, False, FString), (155, False, FDecimal), (156, False, FChar ''MD''),
      (21, False, FChar ''123''), (110, False, FDecimal), (111, False, FDecimal), (77, False, FChar ''CO''),
      (210, False, FDecimal), (58, False, FString), (354, False, FOther), (355, False, FOther),
      (193, False, FOther), (192, False, FDecimal), (439, False, FString), (440, False, FString),
      (442, False, FChar ''123'')]"

definition er_dictionary :: "tag \<rightharpoonup> bool \<times> field_type" where
  "er_dictionary = map_of er_fields"

fun value_ok :: "field_type \<Rightarrow> string \<Rightarrow> bool" where
  "value_ok (FChar es) v = (case v of [c] \<Rightarrow> c \<in> set es | _ \<Rightarrow> False)"
| "value_ok (FMulti es) v = list_all (\<lambda>x. case x of [c] \<Rightarrow> c \<in> set es | _ \<Rightarrow> False) (split_on CHR '' '' v)"
| "value_ok FDecimal v = (\<not> isl (NewFromString v))"
| "value_ok FTime v = (FIXUTCTimestamp_Read v \<noteq> None)"
| "value_ok _ v = True"

definition field_ok :: "tag \<Rightarrow> string \<Rightarrow> bool" where
  "field_ok t v = (case er_dictionary t of None \<Rightarrow> False | Some (_, ty) \<Rightarrow> value_ok ty v)"

text \<open>An execution report is well typed when it has the required fields, and each of its fields is in the dictionary with a value of its type.\<close>

definition er_typed :: "Message \<Rightarrow> bool" where
  "er_typed m \<longleftrightarrow> list_all (\<lambda>(t, required, _). required \<longrightarrow> body_str m t \<noteq> None) er_fields \<and>
     (\<forall>t v. body_str m t = Some v \<longrightarrow> field_ok t v)"

section \<open>Lemmas\<close>

lemma er_dictionary_sent:
  "er_dictionary tag_OrderID = Some (True, FString)" "er_dictionary tag_ExecID = Some (True, FString)"
  "er_dictionary tag_ExecTransType = Some (True, FChar ''0123'')" "er_dictionary tag_ExecType = Some (True, FChar ''0123456789ABCDE'')"
  "er_dictionary tag_OrdStatus = Some (True, FChar ''0123456789ABCDE'')" "er_dictionary tag_Symbol = Some (True, FString)"
  "er_dictionary tag_Side = Some (True, FChar ''123456789'')" "er_dictionary tag_LeavesQty = Some (True, FDecimal)"
  "er_dictionary tag_CumQty = Some (True, FDecimal)" "er_dictionary tag_AvgPx = Some (True, FDecimal)"
  "er_dictionary tag_Account = Some (False, FString)" "er_dictionary tag_LastShares = Some (False, FDecimal)"
  "er_dictionary tag_OrderQty = Some (False, FDecimal)" "er_dictionary tag_Text = Some (False, FString)"
  "er_dictionary tag_OrdType = Some (False, FChar ''123456789ABCDEFGHIP'')" "er_dictionary tag_ClOrdID = Some (False, FString)"
  "er_dictionary tag_Price = Some (False, FDecimal)" "er_dictionary tag_StopPx = Some (False, FDecimal)"
  "er_dictionary tag_PegDifference = Some (False, FDecimal)" "er_dictionary tag_TimeInForce = Some (False, FChar ''0123456'')"
  "er_dictionary tag_ExpireTime = Some (False, FTime)" "er_dictionary tag_ExecInst = Some (False, FMulti ''0123456789ABCDEFGILMNOPRSTUVW'')"
  "er_dictionary tag_CashMargin = None" "er_dictionary tag_DisplayMethod = None"
  by (simp_all add: er_dictionary_def er_fields_def)

lemma decimal_ok: "0 \<le> p \<Longrightarrow> int32_ok p \<Longrightarrow> \<not> isl (NewFromString (StringFixed d p))"
  using NewFromString_StringFixed [of p d] by (metis isl_def sum.distinct(1))

text \<open>The fields of a message are well typed, whether or not all the required ones are there.\<close>

definition fields_typed :: "Message \<Rightarrow> bool" where
  "fields_typed m \<longleftrightarrow> (\<forall>t v. body_str m t = Some v \<longrightarrow> field_ok t v)"

named_theorems typing

lemma typed_set [typing]:
  "body_str m t = None \<Longrightarrow> fields_typed (msg_set t v m) \<longleftrightarrow> field_ok t v \<and> fields_typed m"
proof -
  assume "body_str m t = None"
  then have "(body_str (msg_set t v m) k = Some w \<longrightarrow> field_ok k w) \<longleftrightarrow>
      (k = t \<and> w = v \<longrightarrow> field_ok t v) \<and> (body_str m k = Some w \<longrightarrow> field_ok k w)" for k w
    by (cases "k = t") auto
  then show ?thesis unfolding fields_typed_def by blast
qed

lemma typed_set_if [typing]:
  "body_str m t = None \<Longrightarrow> fields_typed (set_if b t v m) \<longleftrightarrow> (b \<longrightarrow> field_ok t v) \<and> fields_typed m"
  by (simp add: set_if_def typed_set)

lemma dec_field_ok: "er_dictionary t = Some (r, FDecimal) \<Longrightarrow> 0 \<le> p \<Longrightarrow> int32_ok p \<Longrightarrow> field_ok t (StringFixed d p)"
  by (simp add: field_ok_def decimal_ok)

lemma text_ok: "er_dictionary t = Some (r, FString) \<Longrightarrow> field_ok t v"
  by (simp add: field_ok_def)

lemma set_dec_if_cases:
  "set_dec_if b t p x m = Ret m' \<Longrightarrow> m' = m \<or> (\<exists>d. m' = msg_set t (StringFixed d p) m)"
  by (auto simp: set_dec_if_def dec_field_def go_bind_eq_Ret split: if_splits)

lemma typed_set_dec_if:
  "set_dec_if b t p x m = Ret m' \<Longrightarrow> er_dictionary t = Some (r, FDecimal) \<Longrightarrow> 0 \<le> p \<Longrightarrow> int32_ok p \<Longrightarrow> body_str m t = None \<Longrightarrow>
     fields_typed m' \<longleftrightarrow> fields_typed m"
  using set_dec_if_cases [of b t p x m m'] by (auto simp: typed_set dec_field_ok)

lemma other_set_dec_if: "set_dec_if b t p x m = Ret m' \<Longrightarrow> k \<noteq> t \<Longrightarrow> body_str m' k = body_str m k"
  using set_dec_if_cases [of b t p x m m'] by auto

text \<open>The instruction of a report: a peg and post-only, written one after the other.\<close>

definition exec_inst :: "bool \<Rightarrow> bool \<Rightarrow> string" where
  "exec_inst pegged postOnly =
     (if postOnly then (if pegged then ExecInst_PRIMARY_PEG else '''') @ ExecInst_PARTICIPANT_DONT_INITIATE
      else if pegged then ExecInst_PRIMARY_PEG else '''')"

lemma exec_inst_ok: "(exec_inst a b \<noteq> '''' \<longrightarrow> field_ok tag_ExecInst (exec_inst a b)) \<longleftrightarrow> \<not> (a \<and> b)"
  by (cases a; cases b) (simp_all add: exec_inst_def field_ok_def er_dictionary_sent)

text \<open>The fields that every report of the gateway starts with: they are the required ones.\<close>

lemma er_base_typed:
  assumes "er_base uuid BeginStringFIX42 orderID execType ordStatus symb side remaining cumAmt avgPx = Ret e"
  shows "fields_typed e \<longleftrightarrow> field_ok tag_ExecType execType \<and> field_ok tag_OrdStatus ordStatus \<and> field_ok tag_Side side"
    and "dom (body_str e) = {tag_OrderID, tag_ExecID, tag_ExecType, tag_OrdStatus, tag_Side, tag_LeavesQty, tag_CumQty, tag_Symbol,
      tag_AvgPx, tag_ExecTransType}"
proof -
  obtain av where e: "e = set_all ([(tag_OrderID, orderID), (tag_ExecID, uuid), (tag_ExecType, execType),
      (tag_OrdStatus, ordStatus), (tag_Side, side), (tag_LeavesQty, StringFixed remaining 4),
      (tag_CumQty, StringFixed cumAmt 4), (tag_Symbol, symb)] @ [(tag_AvgPx, StringFixed av 2)] @ [(tag_ExecTransType, ExecTransType_STATUS)])
      (new_msg BeginStringFIX42 ''8'')"
    using assms by (auto simp: er_base_def Let_def go_bind_eq_Ret version_msg_def AvgPxToFIX_def dest!: dec_field_tag)
  have "fields_typed (new_msg BeginStringFIX42 ''8'')" by (simp add: fields_typed_def)
  moreover have "field_ok tag_ExecTransType ExecTransType_STATUS" by (simp add: field_ok_def er_dictionary_sent)
  ultimately show "fields_typed e \<longleftrightarrow> field_ok tag_ExecType execType \<and> field_ok tag_OrdStatus ordStatus \<and> field_ok tag_Side side"
    by (auto simp: e set_all_def typing text_ok dec_field_ok er_dictionary_sent int32_ok_def)
  have "body_str (new_msg BeginStringFIX42 ''8'') = Map.empty" by (rule ext) simp
  then show "dom (body_str e) = {tag_OrderID, tag_ExecID, tag_ExecType, tag_OrdStatus, tag_Side, tag_LeavesQty, tag_CumQty, tag_Symbol,
      tag_AvgPx, tag_ExecTransType}"
    by (simp add: e body_str_set_all insert_commute)
qed

lemma exec_report_parts:
  assumes "FIXExecutionReport uuid BeginStringFIX42 symbol clOrdID orderID account execType side origQty thisQty cumQty px
    stop trail avgPx ordStatus ordType isMargin tif expTime text sy cp flags = Ret e"
  obtains amt cumAmt ls e0 e1 e2 e3 where
    "er_base uuid BeginStringFIX42 orderID execType ordStatus (from_bitfinex_or_same sy symbol cp) side
      (if terminal_status ordStatus then dec_zero else dec_sub amt cumAmt) cumAmt avgPx = Ret e0"
    "set_dec_if (\<not> f64_eq px f64_zero \<and> (ordType = OrdType_LIMIT \<or> ordType = OrdType_STOP_LIMIT)) tag_Price 4 px
      (msg_set tag_ClOrdID clOrdID (msg_set tag_OrdType ordType (set_if isMargin tag_CashMargin CashMargin_MARGIN_CLOSE
        (set_if (text \<noteq> '''') tag_Text text (msg_set tag_OrderQty (StringFixed amt 4)
          (set_if (dec_cmp ls dec_zero \<noteq> 0) tag_LastShares (StringFixed ls 4) (msg_set tag_Account account e0))))))) = Ret e1"
    "set_dec_if (\<not> f64_eq stop f64_zero \<and> (ordType = OrdType_STOP \<or> ordType = OrdType_STOP_LIMIT)) tag_StopPx 4 stop e1 = Ret e2"
    "set_dec_if (\<not> f64_eq trail f64_zero) tag_PegDifference 4 trail e2 = Ret e3"
    "e = set_if (tif = TimeInForce_GOOD_TILL_DATE) tag_ExpireTime (FIXUTCTimestamp_Write expTime Millis) (msg_set tag_TimeInForce tif
      (set_if (exec_inst (\<not> f64_eq trail f64_zero) (flags AND FlagPostOnly \<noteq> 0) \<noteq> '''') tag_ExecInst
        (exec_inst (\<not> f64_eq trail f64_zero) (flags AND FlagPostOnly \<noteq> 0))
        (set_if (flags AND FlagHidden \<noteq> 0) tag_DisplayMethod DisplayMethod_UNDISCLOSED e3)))"
  using assms unfolding FIXExecutionReport_def Let_def go_bind_eq_Ret go.inject exec_inst_def [symmetric]
  by (elim exE conjE) (erule that, assumption+, rule sym)


lemma required_fields:
  "list_all (\<lambda>(t, required, _). required \<longrightarrow> body_str m t \<noteq> None) er_fields \<longleftrightarrow>
     {tag_OrderID, tag_ExecID, tag_ExecType, tag_OrdStatus, tag_Side, tag_LeavesQty, tag_CumQty, tag_Symbol,
      tag_AvgPx, tag_ExecTransType} \<subseteq> dom (body_str m)"
  by (auto simp: er_fields_def)

lemma dom_set_dec_if: "set_dec_if b t p x m = Ret m' \<Longrightarrow> dom (body_str m) \<subseteq> dom (body_str m')"
  using set_dec_if_cases [of b t p x m m'] by auto

lemma dom_set: "dom (body_str (msg_set t v m)) = insert t (dom (body_str m))"
  by auto

lemma dom_set_if: "dom (body_str m) \<subseteq> dom (body_str (set_if b t v m))"
  by auto


lemma exec_report_required:
  assumes "FIXExecutionReport uuid BeginStringFIX42 symbol clOrdID orderID account execType side origQty thisQty cumQty px
    stop trail avgPx ordStatus ordType isMargin tif expTime text sy cp flags = Ret e"
  shows "list_all (\<lambda>(t, required, _). required \<longrightarrow> body_str e t \<noteq> None) er_fields"
proof (rule exec_report_parts [OF assms])
  fix amt cumAmt ls e0 e1 e2 e3
  assume base: "er_base uuid BeginStringFIX42 orderID execType ordStatus (from_bitfinex_or_same sy symbol cp) side
      (if terminal_status ordStatus then dec_zero else dec_sub amt cumAmt) cumAmt avgPx = Ret e0"
    and steps: "set_dec_if (\<not> f64_eq px f64_zero \<and> (ordType = OrdType_LIMIT \<or> ordType = OrdType_STOP_LIMIT)) tag_Price 4 px
      (msg_set tag_ClOrdID clOrdID (msg_set tag_OrdType ordType (set_if isMargin tag_CashMargin CashMargin_MARGIN_CLOSE
        (set_if (text \<noteq> '''') tag_Text text (msg_set tag_OrderQty (StringFixed amt 4)
          (set_if (dec_cmp ls dec_zero \<noteq> 0) tag_LastShares (StringFixed ls 4) (msg_set tag_Account account e0))))))) = Ret e1"
    "set_dec_if (\<not> f64_eq stop f64_zero \<and> (ordType = OrdType_STOP \<or> ordType = OrdType_STOP_LIMIT)) tag_StopPx 4 stop e1 = Ret e2"
    "set_dec_if (\<not> f64_eq trail f64_zero) tag_PegDifference 4 trail e2 = Ret e3"
    and e: "e = set_if (tif = TimeInForce_GOOD_TILL_DATE) tag_ExpireTime (FIXUTCTimestamp_Write expTime Millis) (msg_set tag_TimeInForce tif
      (set_if (exec_inst (\<not> f64_eq trail f64_zero) (flags AND FlagPostOnly \<noteq> 0) \<noteq> '''') tag_ExecInst
        (exec_inst (\<not> f64_eq trail f64_zero) (flags AND FlagPostOnly \<noteq> 0))
        (set_if (flags AND FlagHidden \<noteq> 0) tag_DisplayMethod DisplayMethod_UNDISCLOSED e3)))"
  have "dom (body_str e0) \<subseteq> dom (body_str e1)"
    by (rule subset_trans [OF _ dom_set_dec_if [OF steps(1)]]) auto
  also have "\<dots> \<subseteq> dom (body_str e3)"
    using dom_set_dec_if [OF steps(2)] dom_set_dec_if [OF steps(3)] by blast
  also have "\<dots> \<subseteq> dom (body_str e)"
    unfolding e by auto
  finally show ?thesis unfolding required_fields er_base_typed(2) [OF base] .
qed

lemma exec_report_fields:
  assumes "FIXExecutionReport uuid BeginStringFIX42 symbol clOrdID orderID account execType side origQty thisQty cumQty px
    stop trail avgPx ordStatus ordType isMargin tif expTime text sy cp flags = Ret e"
  shows "fields_typed e \<longleftrightarrow> field_ok tag_ExecType execType \<and> field_ok tag_OrdStatus ordStatus \<and> field_ok tag_Side side \<and>
    field_ok tag_OrdType ordType \<and> field_ok tag_TimeInForce tif \<and> \<not> isMargin \<and> flags AND FlagHidden = 0 \<and>
    (f64_eq trail f64_zero \<or> flags AND FlagPostOnly = 0) \<and>
    (tif = TimeInForce_GOOD_TILL_DATE \<longrightarrow> FIXUTCTimestamp_Read (FIXUTCTimestamp_Write expTime Millis) \<noteq> None)"
proof (rule exec_report_parts [OF assms])
  fix amt cumAmt ls e0 e1 e2 e3
  let ?base = "msg_set tag_ClOrdID clOrdID (msg_set tag_OrdType ordType (set_if isMargin tag_CashMargin CashMargin_MARGIN_CLOSE
        (set_if (text \<noteq> '''') tag_Text text (msg_set tag_OrderQty (StringFixed amt 4)
          (set_if (dec_cmp ls dec_zero \<noteq> 0) tag_LastShares (StringFixed ls 4) (msg_set tag_Account account e0))))))"
  let ?inst = "exec_inst (\<not> f64_eq trail f64_zero) (flags AND FlagPostOnly \<noteq> 0)"
  assume base: "er_base uuid BeginStringFIX42 orderID execType ordStatus (from_bitfinex_or_same sy symbol cp) side
      (if terminal_status ordStatus then dec_zero else dec_sub amt cumAmt) cumAmt avgPx = Ret e0"
    and steps: "set_dec_if (\<not> f64_eq px f64_zero \<and> (ordType = OrdType_LIMIT \<or> ordType = OrdType_STOP_LIMIT)) tag_Price 4 px
      ?base = Ret e1"
    "set_dec_if (\<not> f64_eq stop f64_zero \<and> (ordType = OrdType_STOP \<or> ordType = OrdType_STOP_LIMIT)) tag_StopPx 4 stop e1 = Ret e2"
    "set_dec_if (\<not> f64_eq trail f64_zero) tag_PegDifference 4 trail e2 = Ret e3"
    and e: "e = set_if (tif = TimeInForce_GOOD_TILL_DATE) tag_ExpireTime (FIXUTCTimestamp_Write expTime Millis) (msg_set tag_TimeInForce tif
      (set_if (?inst \<noteq> '''') tag_ExecInst ?inst (set_if (flags AND FlagHidden \<noteq> 0) tag_DisplayMethod DisplayMethod_UNDISCLOSED e3)))"
  have other: "k \<noteq> tag_PegDifference \<Longrightarrow> k \<noteq> tag_StopPx \<Longrightarrow> k \<noteq> tag_Price \<Longrightarrow> body_str e3 k = body_str ?base k" for k
    unfolding other_set_dec_if [OF steps(3)] other_set_dec_if [OF steps(2)] other_set_dec_if [OF steps(1)] ..
  have new: "k \<notin> dom (body_str e0) \<Longrightarrow> body_str e0 k = None" for k by auto
  have fresh: "body_str ?base tag_Price = None" "body_str e1 tag_StopPx = None" "body_str e2 tag_PegDifference = None"
    "body_str e3 tag_DisplayMethod = None" "body_str e3 tag_ExecInst = None" "body_str e3 tag_TimeInForce = None"
    "body_str e3 tag_ExpireTime = None"
    by (simp_all add: other other_set_dec_if [OF steps(2)] other_set_dec_if [OF steps(1)] new er_base_typed(2) [OF base])
  have "fields_typed e3 \<longleftrightarrow> fields_typed ?base"
    using typed_set_dec_if [OF steps(3) er_dictionary_sent(19)] typed_set_dec_if [OF steps(2) er_dictionary_sent(18)]
      typed_set_dec_if [OF steps(1) er_dictionary_sent(17)] fresh by (simp add: int32_ok_def)
  also have "\<dots> \<longleftrightarrow> field_ok tag_OrdType ordType \<and> \<not> isMargin \<and> fields_typed e0"
    by (simp add: typing text_ok [where r = False] dec_field_ok [where r = False] er_dictionary_sent int32_ok_def new er_base_typed(2) [OF base] field_ok_def [of tag_CashMargin])
  finally have e3: "fields_typed e3 \<longleftrightarrow> field_ok tag_OrdType ordType \<and> \<not> isMargin \<and> fields_typed e0" .
  have "fields_typed e \<longleftrightarrow> (tif = TimeInForce_GOOD_TILL_DATE \<longrightarrow> field_ok tag_ExpireTime (FIXUTCTimestamp_Write expTime Millis)) \<and>
      field_ok tag_TimeInForce tif \<and> (?inst \<noteq> '''' \<longrightarrow> field_ok tag_ExecInst ?inst) \<and>
      (flags AND FlagHidden \<noteq> 0 \<longrightarrow> field_ok tag_DisplayMethod DisplayMethod_UNDISCLOSED) \<and> fields_typed e3"
    unfolding e by (simp add: typing fresh)
  also have "\<dots> \<longleftrightarrow> (tif = TimeInForce_GOOD_TILL_DATE \<longrightarrow> FIXUTCTimestamp_Read (FIXUTCTimestamp_Write expTime Millis) \<noteq> None) \<and>
      field_ok tag_TimeInForce tif \<and> (f64_eq trail f64_zero \<or> flags AND FlagPostOnly = 0) \<and> flags AND FlagHidden = 0 \<and> fields_typed e3"
    unfolding exec_inst_ok by (simp add: field_ok_def [of tag_ExpireTime] field_ok_def [of tag_DisplayMethod] er_dictionary_sent)
  finally show ?thesis unfolding e3 er_base_typed(1) [OF base] by blast
qed

text \<open>
  C18: an execution report of FIX 4.2 conforms to the data dictionary of the gateway exactly when the codes that it is made of are of
  the dictionary's enumerations, the order is not a margin order (the report would carry CashMargin) and not hidden (it would carry
  DisplayMethod), it is not both pegged and post-only (the two instructions would not be separated), and the expiry of a good till
  date order is a time that can be read back. The required fields are always there.
\<close>

theorem exec_report_conforms:
  assumes "FIXExecutionReport uuid BeginStringFIX42 symbol clOrdID orderID account execType side origQty thisQty cumQty px
    stop trail avgPx ordStatus ordType isMargin tif expTime text sy cp flags = Ret e"
  shows "er_typed e \<longleftrightarrow>
    value_ok (FChar ''0123456789ABCDE'') execType \<and> value_ok (FChar ''0123456789ABCDE'') ordStatus \<and>
    value_ok (FChar ''123456789'') side \<and> value_ok (FChar ''123456789ABCDEFGHIP'') ordType \<and> value_ok (FChar ''0123456'') tif \<and>
    \<not> isMargin \<and> flags AND FlagHidden = 0 \<and> (f64_eq trail f64_zero \<or> flags AND FlagPostOnly = 0) \<and>
    (tif = TimeInForce_GOOD_TILL_DATE \<longrightarrow> FIXUTCTimestamp_Read (FIXUTCTimestamp_Write expTime Millis) \<noteq> None)"
proof -
  have "field_ok t v \<longleftrightarrow> value_ok ty v" if "er_dictionary t = Some (r, ty)" for t v r ty using that by (simp add: field_ok_def)
  note typed = this [OF er_dictionary_sent(4)] this [OF er_dictionary_sent(5)] this [OF er_dictionary_sent(7)]
    this [OF er_dictionary_sent(15)] this [OF er_dictionary_sent(20)]
  show ?thesis
    using exec_report_required [OF assms] exec_report_fields [OF assms] unfolding er_typed_def fields_typed_def typed by blast
qed

theorem exec_report_conforms_witness: "\<exists>e. sample_report = Ret e \<and> er_typed e"
proof -
  obtain e where e: "sample_report = Ret e" using sample_report_returns by blast
  have "flag AND 0 = (0 :: int)" "f64_eq f64_zero f64_zero" for flag by (simp_all add: f64_zero_def)
  then have "er_typed e" unfolding exec_report_conforms [OF e [unfolded sample_report_def]] by simp
  with e show ?thesis by blast
qed

end
