(* ===== verification/Fix_Client.thy ===== *)
theory Fix_Client
  imports Go_Parse Order_Flow Md_Flow
begin

text \<open>
  The FIX client that comes with the gateway (\<^verbatim>\<open>integration_test/fix_client\<close>): its commands ask for the parts of an order,
  a market data request or a cancel, build the FIX message and send it (\<^verbatim>\<open>cmd/order.go\<close>, \<^verbatim>\<open>cmd/marketdata.go\<close>,
  \<^verbatim>\<open>cmd/cancel.go\<close>); the control loop reads the names of the commands (\<^verbatim>\<open>control.go\<close>). The channel of the
  keyboard is the list of the lines that are still to come; receiving from it after the end of the input gives an empty
  string, as a closed channel does. The clock and the result of a send depend on the number of lines
  that are left.

  The theorems connect the client with the gateway: what it sends is what the gateway's conversions accept, and what
  arrives there of what was entered.
\<close>

section \<open>The keyboard\<close>

type_synonym 'a rd = "string list \<Rightarrow> (string + 'a) \<times> string list"

definition rd_ret :: "'a \<Rightarrow> 'a rd" where
  "rd_ret x = (\<lambda>ks. (Inr x, ks))"

definition rd_bind :: "'a rd \<Rightarrow> ('a \<Rightarrow> 'b rd) \<Rightarrow> 'b rd" where
  "rd_bind m f = (\<lambda>ks. case m ks of (Inl e, ks') \<Rightarrow> (Inl e, ks') | (Inr x, ks') \<Rightarrow> f x ks')"

definition rd_key :: "string rd" where
  "rd_key ks = (case ks of [] \<Rightarrow> (Inr '''', []) | k # ks \<Rightarrow> (Inr k, ks))"

text \<open>A line that is read as a value of some type; the error is prefixed.\<close>

definition rd_as :: "(string \<Rightarrow> 'a res) \<Rightarrow> string \<Rightarrow> 'a rd" where
  "rd_as rdr what = rd_bind rd_key (\<lambda>s ks. (map_sum (\<lambda>e. what @ '': '' @ e) id (rdr s), ks))"

section \<open>Orders\<close>

text \<open>What the user enters for an order. The prices that are not asked for are zero.\<close>

record order_input =
  oi_ClOrdID :: string
  oi_Symbol :: string
  oi_OrdType :: string
  oi_Px :: float64
  oi_Stop :: float64
  oi_Peg :: float64
  oi_Qty :: float64
  oi_Side :: string
  oi_Option :: string

definition client_ord_type :: "string \<Rightarrow> string" where
  "client_ord_type s =
     (if s = ''market'' then OrdType_MARKET
      else if s = ''limit'' then OrdType_LIMIT
      else if s = ''stop'' then OrdType_STOP
      else if s = ''stop limit'' then OrdType_STOP_LIMIT
      else '''')"

definition client_side :: "string \<Rightarrow> string" where
  "client_side s = (if s = ''buy'' then Side_BUY else if s = ''sell'' then Side_SELL else '''')"

text \<open>The stop price and the peg, in this order; a trailing stop is asked only for the peg.\<close>

definition read_stop :: "(float64 \<times> float64) rd" where
  "read_stop =
     rd_bind rd_key (\<lambda>trailing.
       if trailing = ''true'' \<or> trailing = ''yes''
       then rd_bind (rd_as ParseFloat ''could not parse stop peg'') (\<lambda>peg. rd_ret (f64_zero, peg))
       else rd_bind (rd_as ParseFloat ''could not read stop px'') (\<lambda>stop. rd_ret (stop, f64_zero)))"

definition read_order :: "order_input rd" where
  "read_order =
     rd_bind rd_key (\<lambda>clordid.
     rd_bind rd_key (\<lambda>symbol.
     rd_bind rd_key (\<lambda>str.
       (let ordtype = client_ord_type str
        in rd_bind (if ordtype = OrdType_STOP_LIMIT \<or> ordtype = OrdType_LIMIT
                    then rd_as ParseFloat ''could not read px'' else rd_ret f64_zero) (\<lambda>px.
           rd_bind (if ordtype = OrdType_STOP then read_stop else rd_ret (f64_zero, f64_zero)) (\<lambda>(stop, peg).
           rd_bind (rd_as ParseFloat ''could not read qty'') (\<lambda>qty.
           rd_bind rd_key (\<lambda>side.
           rd_bind rd_key (\<lambda>opts.
             rd_ret \<lparr>oi_ClOrdID = clordid, oi_Symbol = symbol, oi_OrdType = ordtype, oi_Px = px, oi_Stop = stop,
               oi_Peg = peg, oi_Qty = qty, oi_Side = client_side side, oi_Option = opts\<rparr>)))))))))"

definition buildFixOrder ::
  "time \<Rightarrow> string \<Rightarrow> string \<Rightarrow> float64 \<Rightarrow> float64 \<Rightarrow> float64 \<Rightarrow> string \<Rightarrow> string \<Rightarrow> Message go" where
  "buildFixOrder now clordid symbol px stop qty side ordType =
     (let m = set_all [(tag_ClOrdID, clordid), (tag_HandlInst, HandlInst_MANUAL_ORDER_BEST_EXECUTION),
                (tag_Symbol, symbol), (tag_Side, side), (tag_TransactTime, FIXUTCTimestamp_Write now Millis),
                (tag_OrdType, ordType)] (new_msg BeginStringFIX42 ''D'')
      in go_bind (set_dec_if True tag_OrderQty 4 qty m) (\<lambda>m.
         (let m = msg_set tag_Side side m
          in if ordType = OrdType_LIMIT then set_dec_if True tag_Price 4 px m
             else if ordType = OrdType_STOP_LIMIT
               then go_bind (set_dec_if True tag_Price 4 px m) (set_dec_if True tag_StopPx 4 stop)
             else if ordType = OrdType_STOP then set_dec_if True tag_StopPx 4 stop m
             else Ret m)))"

definition order_message :: "time \<Rightarrow> order_input \<Rightarrow> Message go" where
  "order_message now i =
     go_bind (buildFixOrder now (oi_ClOrdID i) (oi_Symbol i) (oi_Px i) (oi_Stop i) (oi_Qty i) (oi_Side i) (oi_OrdType i)) (\<lambda>m.
       (let m = set_if (oi_Option i = ''hidden'') tag_DisplayMethod DisplayMethod_UNDISCLOSED m;
            m = set_if (oi_Option i = ''postonly'') tag_ExecInst ExecInst_PARTICIPANT_DONT_INITIATE m;
            m = set_if (oi_Option i = ''fok'') tag_TimeInForce TimeInForce_FILL_OR_KILL m;
            pegged = (\<not> f64_eq (oi_Peg i) f64_zero)
        in set_dec_if pegged tag_PegDifference 4 (oi_Peg i) (set_if pegged tag_ExecInst ExecInst_PRIMARY_PEG m)))"

text \<open>The result of a command: the messages it sent, its error, and what is left of the input.\<close>

type_synonym cmd = "(nat \<Rightarrow> time) \<Rightarrow> (nat \<Rightarrow> Message \<Rightarrow> string option) \<Rightarrow> string list \<Rightarrow>
  (Message list \<times> string option \<times> string list) go"

definition Order_Execute :: cmd where
  "Order_Execute clock SendFIX ks =
     (case read_order ks of
        (Inl err, ks') \<Rightarrow> Ret ([], Some err, ks')
      | (Inr i, ks') \<Rightarrow> go_bind (order_message (clock (length ks')) i) (\<lambda>m. Ret ([m], SendFIX (length ks') m, ks')))"

section \<open>Market data requests\<close>

definition newMdRequest :: "string \<Rightarrow> string \<Rightarrow> int \<Rightarrow> string \<Rightarrow> Message" where
  "newMdRequest reqID symbol depth precision =
     (let m = set_all [(tag_MDReqID, reqID), (tag_SubscriptionRequestType, SubscriptionRequestType_SNAPSHOT_PLUS_UPDATES),
                (tag_MarketDepth, FormatInt depth)] (new_msg BeginStringFIX42 ''V'');
          m = set_if (precision \<noteq> '''') tag_PricePrecision precision m
      in msg_set_group tag_NoRelatedSym norelatedsym_template [SetField tag_Symbol symbol Map.empty] m)"

definition buildFixMdRequests :: "string list \<Rightarrow> int \<Rightarrow> bool \<Rightarrow> string \<Rightarrow> Message list" where
  "buildFixMdRequests symbs depth raw precLevel =
     map (\<lambda>s. newMdRequest (''req-'' @ s) s depth (if raw then ''R0'' else '''')) symbs"

text \<open>\<^verbatim>\<open>strconv.Atoi\<close> on a 64-bit machine: \<^verbatim>\<open>ParseInt\<close> with its own name in the error.\<close>

definition Atoi :: "string \<Rightarrow> int res" where
  "Atoi s = map_sum (\<lambda>e. ''strconv.Atoi'' @ drop (length ''strconv.ParseInt'') e) id (ParseInt s)"

fun send_requests :: "(Message \<Rightarrow> string option) \<Rightarrow> Message list \<Rightarrow> Message list \<times> string option" where
  "send_requests SendFIX [] = ([], None)"
| "send_requests SendFIX (m # ms) =
     (case SendFIX m of
        Some err \<Rightarrow> ([m], Some err)
      | None \<Rightarrow> (let (sent_ms, e) = send_requests SendFIX ms in (m # sent_ms, e)))"

definition read_md :: "(string \<times> bool \<times> string \<times> int) rd" where
  "read_md =
     rd_bind rd_key (\<lambda>symbol.
     rd_bind (rd_as ParseBool ''raw not bool'') (\<lambda>raw.
     rd_bind (if raw then rd_ret '''' else rd_key) (\<lambda>agg.
     rd_bind (rd_as Atoi ''depth not int'') (\<lambda>depth. rd_ret (symbol, raw, agg, depth)))))"

definition MarketData_Execute :: cmd where
  "MarketData_Execute clock SendFIX ks =
     (case read_md ks of
        (Inl err, ks') \<Rightarrow> Ret ([], Some err, ks')
      | (Inr (symbol, raw, agg, depth), ks') \<Rightarrow>
          (let (ms, e) = send_requests (SendFIX (length ks')) (buildFixMdRequests [symbol] depth raw agg)
           in Ret (ms, e, ks')))"

section \<open>Cancels\<close>

definition buildFixCancel :: "time \<Rightarrow> string \<Rightarrow> string \<Rightarrow> string \<Rightarrow> string \<Rightarrow> Message" where
  "buildFixCancel now cancelClOrdID clOrdID symbol side =
     set_all [(tag_OrigClOrdID, cancelClOrdID), (tag_ClOrdID, clOrdID), (tag_Symbol, symbol), (tag_Side, side),
       (tag_TransactTime, FIXUTCTimestamp_Write now Millis)] (new_msg BeginStringFIX42 ''F'')"

definition read_cancel :: "(string \<times> string \<times> string \<times> string) rd" where
  "read_cancel =
     rd_bind rd_key (\<lambda>cancelid. rd_bind rd_key (\<lambda>clordid. rd_bind rd_key (\<lambda>symbol. rd_bind rd_key (\<lambda>side.
       rd_ret (cancelid, clordid, symbol, client_side side)))))"

definition Cancel_Execute :: cmd where
  "Cancel_Execute clock SendFIX ks =
     (case read_cancel ks of
        (Inl err, ks') \<Rightarrow> Ret ([], Some err, ks')
      | (Inr (cancelid, clordid, symbol, side), ks') \<Rightarrow>
          (let m = buildFixCancel (clock (length ks')) cancelid clordid symbol side
           in Ret ([m], SendFIX (length ks') m, ks')))"

section \<open>The control loop\<close>

text \<open>The lines that are read from the standard input: each ends with a newline, and text after the last newline is dropped.\<close>

definition control_read :: "string \<Rightarrow> string list" where
  "control_read stdin = butlast (split_on (CHR 0x0A) stdin)"

lemma control_read_lines:
  assumes "\<forall>l \<in> set ls. CHR 0x0A \<notin> set l" "CHR 0x0A \<notin> set rest"
  shows "control_read (concat (map (\<lambda>l. l @ [CHR 0x0A]) ls) @ rest) = ls"
proof -
  have "split_on (CHR 0x0A) (concat (map (\<lambda>l. l @ [CHR 0x0A]) ls) @ rest) = ls @ [rest]"
    using assms by (induction ls) simp_all
  then show ?thesis by (simp add: control_read_def)
qed

definition client_cmds :: "string \<rightharpoonup> cmd" where
  "client_cmds = [''nos'' \<mapsto> Order_Execute, ''md'' \<mapsto> MarketData_Execute, ''cxl'' \<mapsto> Cancel_Execute]"

lemma rd_shorter:
  "length (snd (rd_key ks)) \<le> length ks"
  "length (snd (rd_ret x ks)) \<le> length ks"
  "length (snd (rd_as rdr what ks)) \<le> length ks"
  by (auto simp: rd_key_def rd_ret_def rd_as_def rd_bind_def split: list.splits)

lemma rd_bind_shorter:
  assumes "length (snd (m ks)) \<le> length ks" "\<And>x ks. length (snd (f x ks)) \<le> length ks"
  shows "length (snd (rd_bind m f ks)) \<le> length ks"
  using assms(1) by (auto simp: rd_bind_def split: prod.splits sum.splits) (metis assms(2) le_trans snd_conv)

lemmas rd_shorter_intros = rd_shorter rd_bind_shorter

lemma read_stop_shorter: "length (snd (read_stop ks)) \<le> length ks"
  unfolding read_stop_def by (auto intro!: rd_shorter_intros)

lemma reads_shorter:
  "length (snd (read_order ks)) \<le> length ks" "length (snd (read_md ks)) \<le> length ks" "length (snd (read_cancel ks)) \<le> length ks"
  unfolding read_order_def read_md_def read_cancel_def Let_def
  by (auto intro!: rd_shorter_intros read_stop_shorter split: prod.splits)

lemma cmds_shorter:
  assumes "client_cmds line = Some c" "c clock SendFIX ks = Ret (ms, e, ks')"
  shows "length ks' \<le> length ks"
  using assms reads_shorter [of ks]
  by (auto simp: client_cmds_def Order_Execute_def MarketData_Execute_def Cancel_Execute_def go_bind_eq_Ret Let_def
      split: if_splits prod.splits sum.splits)

text \<open>
  One pass of the outer loop: commands until the input ends, with the messages that were sent and the texts that were logged. After the end of
  the input the inner loop ends at once, so every later pass does nothing.
\<close>

function control_run :: "(nat \<Rightarrow> time) \<Rightarrow> (nat \<Rightarrow> Message \<Rightarrow> string option) \<Rightarrow> string list \<Rightarrow> (Message list \<times> string list) go" where
  "control_run clock SendFIX [] = Ret ([], [])"
| "control_run clock SendFIX (line # ks) =
     (case client_cmds line of
        None \<Rightarrow> go_bind (control_run clock SendFIX ks) (\<lambda>(ms, ls). Ret (ms, (''command not recognized: '' @ line) # ls))
      | Some c \<Rightarrow>
          (case c clock SendFIX ks of
             Panic s \<Rightarrow> Panic s
           | Ret (ms, e, ks') \<Rightarrow>
               go_bind (control_run clock SendFIX ks') (\<lambda>(ms', ls).
                 Ret (ms @ ms', (case e of None \<Rightarrow> [] | Some err \<Rightarrow> [err]) @ ls))))"
  by pat_completeness auto

termination
  by (relation "measure (\<lambda>(_, _, ks). length ks)") (auto dest: cmds_shorter)

section \<open>What arrives at the gateway\<close>

lemma set_dec_if_Ret: "set_dec_if b t p x m = Ret m' \<longleftrightarrow>
    (if b then \<exists>d. NewFromFloat x = Ret d \<and> m' = msg_set t (StringFixed d p) m else m' = m)"
  by (auto simp: set_dec_if_def dec_field_def go_bind_eq_Ret)

lemma read_body:
  "GetString (m_Body m) t = (case body_str m t of Some v \<Rightarrow> Inr v | None \<Rightarrow> Inl (ConditionallyRequiredFieldMissing t))"
  "Has (m_Body m) t \<longleftrightarrow> body_str m t \<noteq> None"
  "GetOrEmpty (m_Body m) t = (case body_str m t of Some v \<Rightarrow> v | None \<Rightarrow> '''')"
  by (auto simp: body_str_def str_field_def GetString_cases GetOrEmpty_def)

lemma GetDecimal_body:
  "body_str m t = Some v \<Longrightarrow> NewFromString v = Inr d \<Longrightarrow> GetDecimal (m_Body m) t = Inr d"
  by (auto simp: body_str_def str_field_def GetString_def GetField_def GetDecimal_def FIXDecimal_Read_def split: option.splits sum.splits)

text \<open>The float that arrives for a float that is sent with four places.\<close>

definition four_places :: "float64 \<Rightarrow> float64 go" where
  "four_places x =
     go_bind (NewFromFloat x) (\<lambda>d.
       case NewFromString (StringFixed d 4) of Inr z \<Rightarrow> Ret (dec_Float64 z) | Inl e \<Rightarrow> Panic e)"

lemma four_places_zero: "four_places f64_zero = Ret f64_zero"
  by code_simp

lemma sent_decimal:
  assumes "NewFromFloat x = Ret d"
  obtains z where "NewFromString (StringFixed d 4) = Inr z" "four_places x = Ret (dec_Float64 z)"
  using NewFromString_StringFixed [of 4 d] assms by (auto simp: four_places_def int32_ok_def)

lemma GetPx_body:
  assumes "body_str m t = Some (StringFixed d 4)" "NewFromFloat x = Ret d"
  shows "\<exists>y. GetPx (m_Body m) t = Inr y \<and> four_places x = Ret y"
  using sent_decimal [OF assms(2)] GetDecimal_body [OF assms(1)] by (metis GetPx_def sbind.simps(2))

text \<open>The fields of an order message.\<close>

lemma buildFixOrder_fields:
  assumes "buildFixOrder now clordid symbol px stop qty side ordType = Ret m"
  shows "body_str m tag_ClOrdID = Some clordid \<and> body_str m tag_Symbol = Some symbol \<and> body_str m tag_Side = Some side \<and>
      body_str m tag_OrdType = Some ordType \<and> body_str m tag_ExecInst = None \<and> body_str m tag_TimeInForce = None \<and>
      body_str m tag_DisplayMethod = None \<and> body_str m tag_CashMargin = None \<and> body_str m tag_ContingencyType = None \<and>
      (\<exists>d. NewFromFloat qty = Ret d \<and> body_str m tag_OrderQty = Some (StringFixed d 4))"
    "ordType \<in> {OrdType_LIMIT, OrdType_STOP_LIMIT} \<Longrightarrow> \<exists>d. NewFromFloat px = Ret d \<and> body_str m tag_Price = Some (StringFixed d 4)"
    "ordType \<in> {OrdType_STOP, OrdType_STOP_LIMIT} \<Longrightarrow> \<exists>d. NewFromFloat stop = Ret d \<and> body_str m tag_StopPx = Some (StringFixed d 4)"
proof -
  consider "ordType = OrdType_LIMIT" | "ordType = OrdType_STOP_LIMIT" | "ordType = OrdType_STOP"
    | "ordType \<notin> {OrdType_LIMIT, OrdType_STOP_LIMIT, OrdType_STOP}" by blast
  then show "body_str m tag_ClOrdID = Some clordid \<and> body_str m tag_Symbol = Some symbol \<and> body_str m tag_Side = Some side \<and>
      body_str m tag_OrdType = Some ordType \<and> body_str m tag_ExecInst = None \<and> body_str m tag_TimeInForce = None \<and>
      body_str m tag_DisplayMethod = None \<and> body_str m tag_CashMargin = None \<and> body_str m tag_ContingencyType = None \<and>
      (\<exists>d. NewFromFloat qty = Ret d \<and> body_str m tag_OrderQty = Some (StringFixed d 4))"
    using assms by cases (auto simp: buildFixOrder_def go_bind_eq_Ret Let_def set_dec_if_Ret body_str_set_all)
  show "ordType \<in> {OrdType_LIMIT, OrdType_STOP_LIMIT} \<Longrightarrow> \<exists>d. NewFromFloat px = Ret d \<and> body_str m tag_Price = Some (StringFixed d 4)"
    "ordType \<in> {OrdType_STOP, OrdType_STOP_LIMIT} \<Longrightarrow> \<exists>d. NewFromFloat stop = Ret d \<and> body_str m tag_StopPx = Some (StringFixed d 4)"
    using assms by (auto simp: buildFixOrder_def go_bind_eq_Ret Let_def set_dec_if_Ret)
qed

lemma order_message_fields:
  assumes "order_message now i = Ret m"
  obtains m0 where "buildFixOrder now (oi_ClOrdID i) (oi_Symbol i) (oi_Px i) (oi_Stop i) (oi_Qty i) (oi_Side i) (oi_OrdType i) = Ret m0"
    "\<And>k. k \<notin> {tag_ExecInst, tag_TimeInForce, tag_DisplayMethod, tag_PegDifference} \<Longrightarrow> body_str m k = body_str m0 k"
    "body_str m tag_ExecInst = (if \<not> f64_eq (oi_Peg i) f64_zero then Some ExecInst_PRIMARY_PEG
       else if oi_Option i = ''postonly'' then Some ExecInst_PARTICIPANT_DONT_INITIATE else None)"
    "\<not> f64_eq (oi_Peg i) f64_zero \<Longrightarrow> \<exists>d. NewFromFloat (oi_Peg i) = Ret d \<and> body_str m tag_PegDifference = Some (StringFixed d 4)"
    "body_str m tag_TimeInForce = (if oi_Option i = ''fok'' then Some TimeInForce_FILL_OR_KILL else None)"
    "body_str m tag_DisplayMethod = (if oi_Option i = ''hidden'' then Some DisplayMethod_UNDISCLOSED else None)"
proof -
  obtain m0 where m0: "buildFixOrder now (oi_ClOrdID i) (oi_Symbol i) (oi_Px i) (oi_Stop i) (oi_Qty i) (oi_Side i) (oi_OrdType i) = Ret m0"
    using assms by (auto simp: order_message_def go_bind_eq_Ret)
  note none = buildFixOrder_fields(1) [OF m0]
  have "set_dec_if (\<not> f64_eq (oi_Peg i) f64_zero) tag_PegDifference 4 (oi_Peg i)
      (set_if (\<not> f64_eq (oi_Peg i) f64_zero) tag_ExecInst ExecInst_PRIMARY_PEG
        (set_if (oi_Option i = ''fok'') tag_TimeInForce TimeInForce_FILL_OR_KILL
          (set_if (oi_Option i = ''postonly'') tag_ExecInst ExecInst_PARTICIPANT_DONT_INITIATE
            (set_if (oi_Option i = ''hidden'') tag_DisplayMethod DisplayMethod_UNDISCLOSED m0)))) = Ret m"
    using assms m0 by (simp add: order_message_def Let_def)
  with none show thesis
    by (intro that [OF m0]) (auto simp: set_dec_if_Ret split: if_splits)
qed

text \<open>The order type that the gateway submits for an input.\<close>

definition client_type :: "order_input \<Rightarrow> string" where
  "client_type i =
     (if oi_Option i = ''fok'' then OrderTypeExchangeFOK
      else if oi_OrdType i = OrdType_MARKET then OrderTypeExchangeMarket
      else if oi_OrdType i = OrdType_LIMIT then OrderTypeExchangeLimit
      else if oi_OrdType i = OrdType_STOP then
        (if f64_eq (oi_Peg i) f64_zero then OrderTypeExchangeStop else OrderTypeExchangeTrailingStop)
      else if oi_OrdType i = OrdType_STOP_LIMIT then OrderTypeExchangeStopLimit
      else '''')"

lemma contains_exec_inst:
  "contains ExecInst_PRIMARY_PEG ExecInst_PRIMARY_PEG" "contains ExecInst_PARTICIPANT_DONT_INITIATE ExecInst_PARTICIPANT_DONT_INITIATE"
  "\<not> contains ExecInst_PARTICIPANT_DONT_INITIATE ExecInst_PRIMARY_PEG" "\<not> contains ExecInst_PRIMARY_PEG ExecInst_PARTICIPANT_DONT_INITIATE"
  by code_simp+

lemma client_type_read:
  assumes "order_message now i = Ret m"
  shows "OrderNewTypeFromFIX (m_Body m) = Inr (client_type i)"
    "GetFlagsFromFIX (m_Body m) = (oi_Option i = ''hidden'', oi_Option i = ''postonly'' \<and> f64_eq (oi_Peg i) f64_zero, False)"
  by (rule order_message_fields [OF assms]; drule buildFixOrder_fields(1);
      auto simp: OrderNewTypeFromFIX_def GetFlagsFromFIX_def read_body client_type_def contains_exec_inst Let_def)+

lemma client_prices_read:
  assumes "order_message now i = Ret m"
  shows "\<exists>px aux trail. GetPricesFromOrdType (m_Body m) = Inr (oi_OrdType i, px, aux, trail, f64_zero) \<and>
    (if oi_OrdType i \<in> {OrdType_LIMIT, OrdType_STOP_LIMIT} then four_places (oi_Px i) = Ret px
     else if oi_OrdType i = OrdType_STOP then four_places (oi_Stop i) = Ret px else px = f64_zero) \<and>
    (if oi_OrdType i = OrdType_STOP_LIMIT then four_places (oi_Stop i) = Ret aux else aux = f64_zero) \<and>
    (if oi_OrdType i = OrdType_STOP \<and> \<not> f64_eq (oi_Peg i) f64_zero then four_places (oi_Peg i) = Ret trail else trail = f64_zero)"
proof (rule order_message_fields [OF assms])
  fix m0
  assume m0: "buildFixOrder now (oi_ClOrdID i) (oi_Symbol i) (oi_Px i) (oi_Stop i) (oi_Qty i) (oi_Side i) (oi_OrdType i) = Ret m0"
    and same: "\<And>k. k \<notin> {tag_ExecInst, tag_TimeInForce, tag_DisplayMethod, tag_PegDifference} \<Longrightarrow> body_str m k = body_str m0 k"
    and inst: "body_str m tag_ExecInst = (if \<not> f64_eq (oi_Peg i) f64_zero then Some ExecInst_PRIMARY_PEG
       else if oi_Option i = ''postonly'' then Some ExecInst_PARTICIPANT_DONT_INITIATE else None)"
    and peg: "\<not> f64_eq (oi_Peg i) f64_zero \<Longrightarrow> \<exists>d. NewFromFloat (oi_Peg i) = Ret d \<and> body_str m tag_PegDifference = Some (StringFixed d 4)"
  note b = buildFixOrder_fields [OF m0]
  have ty: "GetString (m_Body m) tag_OrdType = Inr (oi_OrdType i)" and cont: "\<not> Has (m_Body m) tag_ContingencyType"
    using b(1) by (simp_all add: read_body same)
  have ot: "body_str m tag_OrdType = Some (oi_OrdType i)" using b(1) by (simp add: same)
  have px: "\<exists>y. GetPx (m_Body m) tag_Price = Inr y \<and> four_places (oi_Px i) = Ret y" if "oi_OrdType i \<in> {OrdType_LIMIT, OrdType_STOP_LIMIT}"
    using b(2) [OF that] GetPx_body [of m tag_Price] same [of tag_Price] by auto
  have stop: "\<exists>y. GetPx (m_Body m) tag_StopPx = Inr y \<and> four_places (oi_Stop i) = Ret y" if "oi_OrdType i \<in> {OrdType_STOP, OrdType_STOP_LIMIT}"
    using b(3) [OF that] GetPx_body [of m tag_StopPx] same [of tag_StopPx] by auto
  have trail: "\<exists>y. GetPx (m_Body m) tag_PegDifference = Inr y \<and> four_places (oi_Peg i) = Ret y" if "\<not> f64_eq (oi_Peg i) f64_zero"
    using peg [OF that] GetPx_body [of m tag_PegDifference] by auto
  consider "oi_OrdType i = OrdType_LIMIT" | "oi_OrdType i = OrdType_STOP_LIMIT" | "oi_OrdType i = OrdType_STOP"
    | "oi_OrdType i \<notin> {OrdType_LIMIT, OrdType_STOP_LIMIT, OrdType_STOP}" by blast
  then show ?thesis
  proof cases
    case 3
    then show ?thesis
      using stop trail by (cases "f64_eq (oi_Peg i) f64_zero") (auto simp: GetPricesFromOrdType_def ot read_body inst contains_exec_inst)
  qed (use px stop in \<open>auto simp: GetPricesFromOrdType_def ty cont\<close>)
qed

lemma client_fields_read:
  assumes "order_message now i = Ret m"
  shows "GetString (m_Body m) tag_ClOrdID = Inr (oi_ClOrdID i)" "GetString (m_Body m) tag_Symbol = Inr (oi_Symbol i)"
    "GetString (m_Body m) tag_Side = Inr (oi_Side i)"
    "\<exists>z. GetDecimal (m_Body m) tag_OrderQty = Inr z \<and> four_places (oi_Qty i) = Ret (dec_Float64 z)"
proof -
  have f: "body_str m tag_ClOrdID = Some (oi_ClOrdID i) \<and> body_str m tag_Symbol = Some (oi_Symbol i) \<and> body_str m tag_Side = Some (oi_Side i) \<and>
      (\<exists>d. NewFromFloat (oi_Qty i) = Ret d \<and> body_str m tag_OrderQty = Some (StringFixed d 4))"
    by (rule order_message_fields [OF assms], drule buildFixOrder_fields(1)) simp
  then show "GetString (m_Body m) tag_ClOrdID = Inr (oi_ClOrdID i)" "GetString (m_Body m) tag_Symbol = Inr (oi_Symbol i)"
    "GetString (m_Body m) tag_Side = Inr (oi_Side i)" by (simp_all add: read_body)
  from f obtain d where d: "NewFromFloat (oi_Qty i) = Ret d" "body_str m tag_OrderQty = Some (StringFixed d 4)" by blast
  show "\<exists>z. GetDecimal (m_Body m) tag_OrderQty = Inr z \<and> four_places (oi_Qty i) = Ret (dec_Float64 z)"
    using sent_decimal [OF d(1)] GetDecimal_body [OF d(2)] by metis
qed

lemma rd_Inr:
  "rd_bind m f ks = (Inr y, ks') \<longleftrightarrow> (\<exists>x k. m ks = (Inr x, k) \<and> f x k = (Inr y, ks'))"
  "rd_ret x ks = (Inr y, ks') \<longleftrightarrow> y = x \<and> ks' = ks"
  by (auto simp: rd_bind_def rd_ret_def split: prod.splits sum.splits)

lemma read_order_stop: "read_order ks = (Inr i, ks') \<Longrightarrow> oi_OrdType i \<noteq> OrdType_STOP \<Longrightarrow> oi_Stop i = f64_zero"
  by (auto simp: read_order_def rd_Inr Let_def split: if_splits prod.splits)

section \<open>Properties\<close>

text \<open>
  C37: an order that the client sends is an order that the gateway takes. The request to the exchange has the entered
  symbol, side and options. The quantity (with the sign of the side), the price of a limit or stop limit order, the stop price of a
  stop order and the peg of a trailing stop are the entered ones after rounding to four decimal places (\<open>four_places\<close>), no more exactly than
  that. Three inputs are lost on the way: the peg of an order that is not a stop order, the post-only option of any order with a peg, and the
  stop price of a stop limit order, which is always zero, since the client does not ask for it.
\<close>

theorem client_order_accepted:
  assumes "Order_Execute clock SendFIX ks = Ret (ms, e, ks')" "m \<in> set ms"
  shows "\<exists>i r q. read_order ks = (Inr i, ks') \<and> OrderNewFromFIXNewOrderSingle (m_Body m) sy cp = Inr r \<and>
    on_Symbol r = to_bitfinex_or_same sy (oi_Symbol i) cp \<and> on_Type r = client_type i \<and>
    four_places (oi_Qty i) = Ret q \<and> on_Amount r = (if oi_Side i = Side_SELL then f64_neg q else q) \<and>
    (if oi_OrdType i \<in> {OrdType_LIMIT, OrdType_STOP_LIMIT} then four_places (oi_Px i) = Ret (on_Price r)
     else if oi_OrdType i = OrdType_STOP then four_places (oi_Stop i) = Ret (on_Price r) else on_Price r = f64_zero) \<and>
    (if oi_OrdType i = OrdType_STOP \<and> \<not> f64_eq (oi_Peg i) f64_zero
     then four_places (oi_Peg i) = Ret (on_PriceTrailing r) else on_PriceTrailing r = f64_zero) \<and>
    on_PriceAuxLimit r = f64_zero \<and> on_Hidden r = (oi_Option i = ''hidden'') \<and>
    on_PostOnly r = (oi_Option i = ''postonly'' \<and> f64_eq (oi_Peg i) f64_zero)"
proof -
  obtain i where i: "read_order ks = (Inr i, ks')" and m: "order_message (clock (length ks')) i = Ret m"
    using assms by (auto simp: Order_Execute_def go_bind_eq_Ret split: prod.splits sum.splits)
  have stop: "oi_OrdType i = OrdType_STOP_LIMIT \<Longrightarrow> oi_Stop i = f64_zero"
    using read_order_stop [OF i] by simp
  obtain px aux trail where prices: "GetPricesFromOrdType (m_Body m) = Inr (oi_OrdType i, px, aux, trail, f64_zero)"
    "if oi_OrdType i \<in> {OrdType_LIMIT, OrdType_STOP_LIMIT} then four_places (oi_Px i) = Ret px
     else if oi_OrdType i = OrdType_STOP then four_places (oi_Stop i) = Ret px else px = f64_zero"
    "if oi_OrdType i = OrdType_STOP_LIMIT then four_places (oi_Stop i) = Ret aux else aux = f64_zero"
    "if oi_OrdType i = OrdType_STOP \<and> \<not> f64_eq (oi_Peg i) f64_zero then four_places (oi_Peg i) = Ret trail else trail = f64_zero"
    using client_prices_read [OF m] by blast
  have aux: "aux = f64_zero" using prices(3) stop four_places_zero by (simp split: if_splits)
  note str = client_fields_read(1-3) [OF m]
  obtain z where qty: "GetDecimal (m_Body m) tag_OrderQty = Inr z" "four_places (oi_Qty i) = Ret (dec_Float64 z)"
    using client_fields_read(4) [OF m] by blast
  have "OrderNewFromFIXNewOrderSingle (m_Body m) sy cp = Inr
      \<lparr>on_GID = 0, on_CID = (case ParseInt (oi_ClOrdID i) of Inr n \<Rightarrow> n | Inl _ \<Rightarrow> 0), on_Type = client_type i,
       on_Symbol = to_bitfinex_or_same sy (oi_Symbol i) cp, on_Amount = GetAmountFromQtyAndSide (oi_Side i) z, on_Price = px,
       on_Leverage = 0, on_PriceTrailing = trail, on_PriceAuxLimit = aux, on_PriceOcoStop = f64_zero, on_Hidden = (oi_Option i = ''hidden''),
       on_PostOnly = (oi_Option i = ''postonly'' \<and> f64_eq (oi_Peg i) f64_zero), on_Close = False, on_OcoOrder = False, on_TimeInForce = ''''\<rparr>"
    by (simp add: OrderNewFromFIXNewOrderSingle_def str client_type_read [OF m] prices(1) qty)
  then show ?thesis using i prices(2,4) aux qty(2) by (simp add: GetAmountFromQtyAndSide_def)
qed

definition sample_keys :: "string list" where
  "sample_keys = [''7'', ''tBTCUSD'', ''market'', ''1'', ''sell'', ''hidden'']"

theorem client_order_accepted_witness:
  "\<exists>m r. Order_Execute (\<lambda>_. 0) (\<lambda>_ _. None) sample_keys = Ret ([m], None, []) \<and>
     OrderNewFromFIXNewOrderSingle (m_Body m) PassthroughSymbology ''c'' = Inr r \<and> on_Type r = OrderTypeExchangeMarket \<and> on_Hidden r"
proof -
  let ?i = "\<lparr>oi_ClOrdID = ''7'', oi_Symbol = ''tBTCUSD'', oi_OrdType = OrdType_MARKET, oi_Px = f64_zero, oi_Stop = f64_zero,
    oi_Peg = f64_zero, oi_Qty = f64_one, oi_Side = Side_SELL, oi_Option = ''hidden''\<rparr>"
  have i: "read_order sample_keys = (Inr ?i, [])"
    by (simp add: read_order_def sample_keys_def rd_bind_def rd_key_def rd_ret_def rd_as_def client_ord_type_def client_side_def ParseFloat_one Let_def)
  obtain d where "NewFromFloat f64_one = Ret d" using NewFromFloat_Ret_iff [of f64_one] by (auto simp: f64_one_def)
  moreover have "f64_eq f64_zero f64_zero" by (simp add: f64_zero_def)
  ultimately obtain m where "order_message 0 ?i = Ret m"
    by (simp add: order_message_def buildFixOrder_def set_dec_if_def dec_field_def Let_def)
  then have m: "Order_Execute (\<lambda>_. 0) (\<lambda>_ _. None) sample_keys = Ret ([m], None, [])" by (simp add: Order_Execute_def i)
  from client_order_accepted [OF m, of m PassthroughSymbology "''c''"] m show ?thesis
    by (auto simp: i client_type_def)
qed

section \<open>Market data requests at the gateway\<close>

lemma wrap64_absorb: "wrap64 (wrap64 a * 10 + d) = wrap64 (a * 10 + d)" "wrap64 (- wrap64 a) = wrap64 (- a)"
  by (simp_all add: wrap64_def)

lemma parseUInt_loop_digits: "parseUInt_loop (wrap64 (int k)) s = map_option (\<lambda>n. wrap64 (int n)) (digits_val k s)"
proof (induction s arbitrary: k)
  case (Cons c s)
  show ?case
  proof (cases "char_digit c")
    case (Some d)
    have "parseUInt_loop (wrap64 (int k)) (c # s) = parseUInt_loop (wrap64 (int (10 * k + d))) s"
      by (simp add: Some wrap64_absorb mult.commute)
    then show ?thesis unfolding Cons by (simp add: Some)
  qed simp
qed simp

lemma parseUInt_nat_str: "parseUInt (nat_str n) = Some (wrap64 (int n))"
  using parseUInt_loop_digits [of 0 "nat_str n"] by (simp add: parseUInt_def wrap64_def)

text \<open>The integer field of a message: the text of a 64-bit integer is read as that integer.\<close>

lemma atoi_FormatInt:
  assumes "int64_ok i"
  shows "atoi (FormatInt i) = Ret (Some i)"
proof (cases "i < 0")
  case True
  then show ?thesis using wrap64_id [OF assms]
    by (simp add: FormatInt_def atoi_def parseUInt_nat_str wrap64_absorb)
next
  case False
  obtain c t where c: "nat_str (nat i) = c # t" by (cases "nat_str (nat i)") auto
  moreover have "c \<noteq> CHR ''-''" using set_nat_str [of c "nat i"] c by auto
  ultimately show ?thesis using False wrap64_id [OF assms] parseUInt_nat_str [of "nat i"] by (simp add: FormatInt_def atoi_def)
qed

lemma GetInt_body: "body_str m t = Some v \<Longrightarrow> atoi v = Ret (Some i) \<Longrightarrow> GetInt (m_Body m) t = Ret (Inr i)"
  by (auto simp: GetInt_def GetBytes_def body_str_def str_field_def GetString_def GetField_def split: option.splits)

lemma newMdRequest_fields:
  assumes "k \<noteq> tag_NoRelatedSym"
  shows "body_str (newMdRequest reqID symbol depth prec) k =
     (if k = tag_PricePrecision \<and> prec \<noteq> '''' then Some prec else if k = tag_MDReqID then Some reqID
      else if k = tag_SubscriptionRequestType then Some SubscriptionRequestType_SNAPSHOT_PLUS_UPDATES
      else if k = tag_MarketDepth then Some (FormatInt depth) else None)"
proof -
  have other: "body_str (msg_set_group tag_NoRelatedSym template gs m) k = body_str m k" for template gs m
    using assms by (simp add: msg_set_group_def SetGroup_def body_str_def str_field_def GetString_def GetField_def)
  show ?thesis unfolding newMdRequest_def Let_def other by (simp add: body_str_set_all)
qed

lemma nat_str_one: "nat_str (Suc 0) = ''1''"
  by code_simp

lemma newMdRequest_group:
  "GetGroup tag_NoRelatedSym norelatedsym_template (m_Body (newMdRequest reqID symbol depth prec)) =
     Ret (Inr [[tag_Symbol \<mapsto> [(tag_Symbol, symbol)]]])"
proof -
  have "group_Write tag_NoRelatedSym norelatedsym_template [SetField tag_Symbol symbol Map.empty] =
      [(tag_NoRelatedSym, ''1''), (tag_Symbol, symbol)]"
    by (simp add: group_Write_def norelatedsym_template_def SetField_def nat_str_one)
  moreover have "atoi ''1'' = Ret (Some 1)" by (simp add: atoi_def parseUInt_def wrap64_def evals)
  ultimately show ?thesis
    by (simp add: newMdRequest_def msg_set_group_def SetGroup_def GetGroup_def group_Read_def norelatedsym_template_def Let_def)
qed

lemma Atoi_range: "Atoi s = Inr i \<Longrightarrow> int64_ok i"
  by (cases "ParseInt s") (auto simp: Atoi_def dest: ParseInt_Inr_range)

lemma rd_as_Inr: "rd_as rdr what ks = (Inr x, ks') \<Longrightarrow> \<exists>s. rdr s = Inr x"
  by (auto simp: rd_as_def rd_Inr) (metis id_apply map_sum.simps sum.distinct(1) sum.exhaust sum.inject(2))

lemma read_md_depth: "read_md ks = (Inr (symbol, raw, agg, depth), ks') \<Longrightarrow> int64_ok depth"
  by (auto simp: read_md_def rd_Inr dest!: rd_as_Inr intro: Atoi_range)

text \<open>
  C38: a market data request of the client at the gateway. With an entered depth below zero it is refused for that depth. With any other
  depth it is read as one symbol under the request number
  \<^verbatim>\<open>req-<symbol>\<close>, as a subscription with that depth, or with depth 100 when zero was entered. The book is then
  raw or has the precision P0: the aggregation level that the client asks for has no influence.
\<close>

theorem client_md_request:
  assumes "MarketData_Execute clock SendFIX ks = Ret (ms, e, ks')" "m \<in> set ms"
  shows "\<exists>symbol raw agg depth. read_md ks = (Inr (symbol, raw, agg, depth), ks') \<and>
    (if depth < 0 then read_md_request (m_Body m) = Ret (Inl (rejectError (''invalid market depth for market data request: '' @ FormatInt depth)))
     else \<exists>g r. md_reads (m_Body m) [g] r \<and> GetString g tag_Symbol = Inr symbol \<and> md_ReqID r = ''req-'' @ symbol \<and>
       md_SubType r = SubscriptionRequestType_SNAPSHOT_PLUS_UPDATES \<and> md_Depth r = (if depth = 0 then 100 else depth) \<and>
       book_precision (m_Body m) r = (if raw then ''R0'' else ''P0''))"
proof -
  obtain symbol raw agg depth where i: "read_md ks = (Inr (symbol, raw, agg, depth), ks')"
    and m: "m = newMdRequest (''req-'' @ symbol) symbol depth (if raw then ''R0'' else '''')"
    using assms by (auto simp: MarketData_Execute_def buildFixMdRequests_def Let_def split: prod.splits sum.splits option.splits)
  note f = newMdRequest_fields [of _ "''req-'' @ symbol" symbol depth "if raw then ''R0'' else ''''", folded m]
  have depth: "GetInt (m_Body m) tag_MarketDepth = Ret (Inr depth)"
    by (rule GetInt_body [OF _ atoi_FormatInt [OF read_md_depth [OF i]]]) (simp add: f)
  have agg: "GetBool (m_Body m) tag_AggregatedBook \<noteq> Inr False"
    using f [of tag_AggregatedBook] by (auto simp: GetBool_def GetField_def body_str_def str_field_def GetString_def split: option.splits)
  have g: "GetGroup tag_NoRelatedSym norelatedsym_template (m_Body m) = Ret (Inr [[tag_Symbol \<mapsto> [(tag_Symbol, symbol)]]])"
    unfolding m by (rule newMdRequest_group)
  define r where "r = \<lparr>md_ReqID = ''req-'' @ symbol, md_SubType = SubscriptionRequestType_SNAPSHOT_PLUS_UPDATES,
    md_Depth = (if depth = 0 then 100 else depth), md_Precision = (if raw then ''R0'' else ''P0''), md_Override = raw\<rparr>"
  have rd: "read_md_request (m_Body m) = Ret (if depth < 0
      then Inl (rejectError (''invalid market depth for market data request: '' @ FormatInt depth)) else Inr r)"
    by (simp add: read_md_request_def read_body f depth r_def validatePrecision_def Let_def)
  then have "md_reads (m_Body m) [[tag_Symbol \<mapsto> [(tag_Symbol, symbol)]]] r" if "\<not> depth < 0"
    using that by (simp add: md_reads_def g)
  then show ?thesis using i rd agg symbol_reads [of symbol "[]"] by (fastforce simp: r_def book_precision_def)
qed

definition sample_md_keys :: "string list" where
  "sample_md_keys = [''tBTCUSD'', ''false'', ''P3'', ''25'']"

theorem client_md_request_witness:
  "\<exists>m r g. MarketData_Execute (\<lambda>_. 0) (\<lambda>_ _. None) sample_md_keys = Ret ([m], None, []) \<and> md_reads (m_Body m) [g] r \<and>
     md_Depth r = 25 \<and> book_precision (m_Body m) r = ''P0''"
proof -
  have i: "read_md sample_md_keys = (Inr (''tBTCUSD'', False, ''P3'', 25), [])"
    by (simp add: read_md_def sample_md_keys_def rd_bind_def rd_key_def rd_ret_def rd_as_def ParseBool_def Atoi_def evals)
  then obtain m where m: "MarketData_Execute (\<lambda>_. 0) (\<lambda>_ _. None) sample_md_keys = Ret ([m], None, [])"
    by (simp add: MarketData_Execute_def buildFixMdRequests_def)
  from client_md_request [OF m, of m] m i show ?thesis by auto
qed

end
