(* ===== verification/Gateway.thy ===== *)
theory Gateway
  imports Gw_Invariant
begin

text \<open>
  The gateway (\<^verbatim>\<open>gateway.go\<close>) and the start and stop of its services (\<^verbatim>\<open>service/service.go\<close>): a market data
  service and an order routing service, each of them optional. A running service is its state
  \<open>gw\<close> together with what \<open>Start\<close> and \<open>Stop\<close> change: the loop, the FIX acceptor and the channel of inbound
  messages. The FIX engine decides whether an acceptor can be made and started: parameters. \<^verbatim>\<open>FIX.Down\<close> ends the
  FIX sessions; the logouts this causes are earlier events of the service.
  \<^verbatim>\<open>Logger.Fatal\<close> ends the process, which is a panic here. \<open>gateway_main\<close> is the program up to the point where it
  serves statistics for ever; the files, the parser of the settings and the environment are parameters.

  The theorems show that a stop closes every peer and every started websocket exactly once and that a second
  stop ends the process, and exactly when the program comes up, with which services.
\<close>

section \<open>The FIX acceptor\<close>

text \<open>What the FIX engine is asked for: a file log and an acceptor over a message store. Both may fail.\<close>

datatype store_kind = FileStore | NoStore

record 's engine =
  NewFileLogFactory :: "'s \<Rightarrow> string option"
  NewAcceptor :: "store_kind \<Rightarrow> 's \<Rightarrow> string option"

record FIX =
  fx_routes :: routes
  fx_store :: store_kind

definition FIX_New :: "'s engine \<Rightarrow> 's \<Rightarrow> ServiceType \<Rightarrow> FIX res" where
  "FIX_New eng settings st =
     (case NewFileLogFactory eng settings of
        Some err \<Rightarrow> Inl err
      | None \<Rightarrow>
          (let storeFactory = (if st = OrderRoutingService then FileStore else NoStore)
           in case NewAcceptor eng storeFactory settings of
                Some err \<Rightarrow> Inl err
              | None \<Rightarrow> Inr \<lparr>fx_routes = FIX_routes st, fx_store = storeFactory\<rparr>))"

section \<open>Services\<close>

record svc =
  sv_type :: ServiceType
  sv_FIX :: FIX
  sv_gw :: gw
  sv_listening :: bool
  sv_up :: bool
  sv_inbound_closed :: bool

definition svc_New :: "'s engine \<Rightarrow> 's \<Rightarrow> ServiceType \<Rightarrow> svc res" where
  "svc_New eng settings st =
     sbind (FIX_New eng settings st) (\<lambda>fx.
       Inr \<lparr>sv_type = st, sv_FIX = fx, sv_gw = service_New, sv_listening = False, sv_up = False, sv_inbound_closed = False\<rparr>)"

definition svc_Start :: "(ServiceType \<Rightarrow> string option) \<Rightarrow> svc \<Rightarrow> svc \<times> string option" where
  "svc_Start acc_Start s =
     (let s = s\<lparr>sv_listening := True\<rparr>
      in case acc_Start (sv_type s) of
           Some err \<Rightarrow> (s, Some err)
         | None \<Rightarrow> (s\<lparr>sv_up := True\<rparr>, None))"


section \<open>The gateway\<close>

record gateway =
  MarketData :: "svc option"
  OrderRouting :: "svc option"

definition gateway_New :: "'s engine \<Rightarrow> 's option \<Rightarrow> 's option \<Rightarrow> gateway go" where
  "gateway_New eng mdSettings orderSettings =
     go_bind (case mdSettings of
                None \<Rightarrow> Ret None
              | Some st \<Rightarrow> (case svc_New eng st MarketDataService of
                             Inl _ \<Rightarrow> Panic ''create market data FIX'' | Inr s \<Rightarrow> Ret (Some s))) (\<lambda>m.
     go_bind (case orderSettings of
                None \<Rightarrow> Ret None
              | Some st \<Rightarrow> (case svc_New eng st OrderRoutingService of
                             Inl _ \<Rightarrow> Panic ''create order routing FIX'' | Inr s \<Rightarrow> Ret (Some s))) (\<lambda>r.
       Ret \<lparr>MarketData = m, OrderRouting = r\<rparr>))"

definition gateway_Start :: "(ServiceType \<Rightarrow> string option) \<Rightarrow> gateway \<Rightarrow> gateway \<times> string option" where
  "gateway_Start acc_Start g =
     (let (m, e) = (case MarketData g of
                      None \<Rightarrow> (None, None)
                    | Some s \<Rightarrow> (let (s, e) = svc_Start acc_Start s in (Some s, e)));
          g = g\<lparr>MarketData := m\<rparr>
      in if e \<noteq> None then (g, e)
         else (case OrderRouting g of
                 None \<Rightarrow> (g, None)
               | Some s \<Rightarrow> (let (s, e) = svc_Start acc_Start s in (g\<lparr>OrderRouting := Some s\<rparr>, e))))"



text \<open>The directory of the configuration files: an environment variable, or a default.\<close>

definition configDirectory :: "(string \<Rightarrow> string) \<Rightarrow> string" where
  "configDirectory Getenv =
     (let d = Getenv ''FIX_SETTINGS_DIRECTORY'' in if d = '''' then ''./config'' else d)"

section \<open>The program\<close>

text \<open>
  \<^verbatim>\<open>path.Join\<close> of the standard library: the elements that are not empty, joined by slashes and cleaned of empty and dot
  elements and of the elements that a following double dot takes back.
\<close>

fun clean_parts :: "bool \<Rightarrow> string list \<Rightarrow> string list \<Rightarrow> string list" where
  "clean_parts rooted out [] = rev out"
| "clean_parts rooted out (p # ps) =
     (if p = '''' \<or> p = ''.'' then clean_parts rooted out ps
      else if p = ''..'' then
        (case out of
           q # qs \<Rightarrow> if q = ''..'' then clean_parts rooted (p # out) ps else clean_parts rooted qs ps
         | [] \<Rightarrow> clean_parts rooted (if rooted then [] else [p]) ps)
      else clean_parts rooted (p # out) ps)"

definition join_slash :: "string list \<Rightarrow> string" where
  "join_slash ps = concat (case ps of [] \<Rightarrow> [] | p # ps \<Rightarrow> p # map ((#) CHR ''/'') ps)"

definition path_Clean :: "string \<Rightarrow> string" where
  "path_Clean s =
     (let rooted = (case s of c # _ \<Rightarrow> c = CHR ''/'' | [] \<Rightarrow> False);
          body = join_slash (clean_parts rooted [] (split_on CHR ''/'' s))
      in if rooted then ''/'' @ body else if body = '''' then ''.'' else body)"

definition path_Join :: "string list \<Rightarrow> string" where
  "path_Join ps = (let ps = filter (\<lambda>p. p \<noteq> '''') ps in if ps = [] then '''' else path_Clean (join_slash ps))"

record flags =
  fl_mdcfg :: string
  fl_ordcfg :: string
  fl_orders :: bool
  fl_md :: bool
  fl_ws :: string
  fl_rst :: string
  fl_sym :: string
  fl_verbose :: bool
  fl_reconnectInterval :: int
  fl_reconnectAttempts :: int

text \<open>
  The parameters of a websocket client, with the defaults of the client library; durations are in nanoseconds. The logger and the
  unused counter of reconnects are left out. Clients share the parameters through a pointer, but no code changes them after a
  client was made.
\<close>

record Parameters =
  AutoReconnect :: bool
  ReconnectInterval :: int
  ReconnectAttempts :: int
  ShutdownTimeout :: int
  CapacityPerConnection :: int
  ResubscribeOnReconnect :: bool
  HeartbeatTimeout :: int
  LogTransport :: bool
  URL :: string
  ManageOrderbook :: bool

definition NewDefaultParameters :: Parameters where
  "NewDefaultParameters =
     \<lparr>AutoReconnect = True, ReconnectInterval = 3 * 10 ^ 9, ReconnectAttempts = 15, ShutdownTimeout = 5 * 10 ^ 9,
      CapacityPerConnection = 25, ResubscribeOnReconnect = True, HeartbeatTimeout = 30 * 10 ^ 9, LogTransport = False,
      URL = ''wss://api-pub.bitfinex.com/ws/2'', ManageOrderbook = False\<rparr>"

text \<open>The client factory of the program, and what a new client is made of: where it connects to and how it makes its nonces.\<close>

record client_factory =
  cf_Parameters :: "Parameters option"
  cf_RestURL :: string

datatype nonce_generator = MultikeyNonceGenerator | EpochNonceGenerator

record ws_client =
  wc_Parameters :: Parameters
  wc_nonce :: nonce_generator

record rest_client =
  rc_URL :: string
  rc_nonce :: nonce_generator

definition NewWs :: "flags \<Rightarrow> client_factory \<Rightarrow> ws_client \<times> client_factory" where
  "NewWs fl d =
     (let params = (case cf_Parameters d of
                      Some ps \<Rightarrow> ps
                    | None \<Rightarrow> NewDefaultParameters\<lparr>ReconnectAttempts := fl_reconnectAttempts fl,
                                                    ReconnectInterval := fl_reconnectInterval fl\<rparr>)
      in (\<lparr>wc_Parameters = params, wc_nonce = MultikeyNonceGenerator\<rparr>, d\<lparr>cf_Parameters := Some params\<rparr>))"

definition rest_NewClient :: rest_client where
  "rest_NewClient = \<lparr>rc_URL = ''https://api-pub.bitfinex.com/v2/'', rc_nonce = EpochNonceGenerator\<rparr>"

definition NewRest :: "client_factory \<Rightarrow> rest_client" where
  "NewRest d = (if cf_RestURL d = '''' then rest_NewClient else \<lparr>rc_URL = cf_RestURL d, rc_nonce = MultikeyNonceGenerator\<rparr>)"

definition main_factory :: "flags \<Rightarrow> client_factory" where
  "main_factory fl =
     \<lparr>cf_Parameters = Some (NewDefaultParameters\<lparr>URL := fl_ws fl, ReconnectAttempts := fl_reconnectAttempts fl,
        ReconnectInterval := fl_reconnectInterval fl, LogTransport := fl_verbose fl\<rparr>),
      cf_RestURL = fl_rst fl\<rparr>"

text \<open>
  Every websocket client of the program is made alike: the factory does not change, the client connects to the URL of the command
  line and reconnects as it says. A REST client has the nonces of the gateway exactly when the command line gives it a URL.
\<close>

lemma main_clients:
  "NewWs fl (main_factory fl) = (c, d) \<Longrightarrow> d = main_factory fl \<and> URL (wc_Parameters c) = fl_ws fl \<and>
     ReconnectAttempts (wc_Parameters c) = fl_reconnectAttempts fl \<and> ReconnectInterval (wc_Parameters c) = fl_reconnectInterval fl \<and>
     LogTransport (wc_Parameters c) = fl_verbose fl \<and> wc_nonce c = MultikeyNonceGenerator"
  "rc_nonce (NewRest (main_factory fl)) = MultikeyNonceGenerator \<longleftrightarrow> fl_rst fl \<noteq> ''''"
  "fl_rst fl \<noteq> '''' \<Longrightarrow> rc_URL (NewRest (main_factory fl)) = fl_rst fl"
  by (auto simp: NewWs_def NewRest_def rest_NewClient_def main_factory_def Let_def)

lemma NewWs_again: "NewWs fl d = (c, d') \<Longrightarrow> NewWs fl' d' = (c, d')"
  by (auto simp: NewWs_def Let_def)

text \<open>A settings file: \<open>Open\<close> gives the lines of a file or an error, \<open>ParseSettings\<close> belongs to the FIX engine.\<close>

definition read_settings ::
  "(string \<Rightarrow> string list res) \<Rightarrow> (string list \<Rightarrow> 's res) \<Rightarrow> string \<Rightarrow> string \<Rightarrow> string \<Rightarrow> 's go" where
  "read_settings Open ParseSettings no_file no_parse file =
     (case Open file of
        Inl _ \<Rightarrow> Panic no_file
      | Inr ls \<Rightarrow> (case ParseSettings ls of Inl _ \<Rightarrow> Panic no_parse | Inr st \<Rightarrow> Ret st))"

definition gateway_main ::
  "(string \<Rightarrow> string) \<Rightarrow> (string \<Rightarrow> string list res) \<Rightarrow> (string list \<Rightarrow> 's res) \<Rightarrow> (string \<Rightarrow> string list) \<Rightarrow>
   's engine \<Rightarrow> (ServiceType \<Rightarrow> string option) \<Rightarrow> flags \<Rightarrow> (client_factory \<times> symbology \<times> gateway) go" where
  "gateway_main Getenv Open ParseSettings map_ord eng acc_Start fl =
     go_bind (if fl_sym fl = '''' then Ret PassthroughSymbology
              else (case Open (fl_sym fl) of
                      Inl _ \<Rightarrow> Panic ''could not create file symbology''
                    | Inr ls \<Rightarrow> Ret (file_symbology map_ord (NewFileSymbology ls)))) (\<lambda>symb.
     go_bind (if fl_md fl then go_bind (read_settings Open ParseSettings ''FIX market data config'' ''parse FIX market data settings''
                (path_Join [configDirectory Getenv, fl_mdcfg fl])) (\<lambda>st. Ret (Some st)) else Ret None) (\<lambda>mds.
     go_bind (if fl_orders fl then go_bind (read_settings Open ParseSettings ''FIX order flow config'' ''parse FIX order flow settings''
                (path_Join [configDirectory Getenv, fl_ordcfg fl])) (\<lambda>st. Ret (Some st)) else Ret None) (\<lambda>ords.
     go_bind (gateway_New eng mds ords) (\<lambda>g.
       (case gateway_Start acc_Start g of
          (g, Some _) \<Rightarrow> Panic ''start FIX''
        | (g, None) \<Rightarrow> Ret (main_factory fl, symb, g))))))"

section \<open>Closing all peers\<close>














section \<open>Reachable services\<close>









section \<open>Properties\<close>





definition FIX_of :: "ServiceType \<Rightarrow> FIX" where
  "FIX_of st = \<lparr>fx_routes = FIX_routes st, fx_store = (if st = OrderRoutingService then FileStore else NoStore)\<rparr>"

definition fix_ok :: "'s engine \<Rightarrow> ServiceType \<Rightarrow> 's \<Rightarrow> bool" where
  "fix_ok eng st settings \<longleftrightarrow> NewFileLogFactory eng settings = None \<and> NewAcceptor eng (fx_store (FIX_of st)) settings = None"

lemma FIX_New_cases: "FIX_New eng settings st = (if fix_ok eng st settings then Inr (FIX_of st) else Inl (projl (FIX_New eng settings st)))"
  by (auto simp: FIX_New_def fix_ok_def FIX_of_def Let_def split: option.split)

lemma svc_New_cases: "svc_New eng settings st = Inr s \<longleftrightarrow> fix_ok eng st settings \<and>
    s = \<lparr>sv_type = st, sv_FIX = FIX_of st, sv_gw = service_New, sv_listening = False, sv_up = False, sv_inbound_closed = False\<rparr>"
  unfolding svc_New_def by (subst FIX_New_cases) auto

abbreviation fresh_svc :: "ServiceType \<Rightarrow> bool \<Rightarrow> bool \<Rightarrow> svc" where
  "fresh_svc st listening up \<equiv> \<lparr>sv_type = st, sv_FIX = FIX_of st, sv_gw = service_New, sv_listening = listening, sv_up = up, sv_inbound_closed = False\<rparr>"

lemma gateway_New_Ret:
  "gateway_New eng md ord = Ret g \<longleftrightarrow>
     (\<forall>st. md = Some st \<longrightarrow> fix_ok eng MarketDataService st) \<and> (\<forall>st. ord = Some st \<longrightarrow> fix_ok eng OrderRoutingService st) \<and>
     g = \<lparr>MarketData = map_option (\<lambda>_. fresh_svc MarketDataService False False) md,
          OrderRouting = map_option (\<lambda>_. fresh_svc OrderRoutingService False False) ord\<rparr>"
  by (auto simp: gateway_New_def svc_New_cases go_bind_eq_Ret split: option.splits sum.splits) (metis Inl_not_Inr svc_New_cases)+

text \<open>
  Starting a new gateway gives no error exactly when the acceptor of each configured service starts, and then the
  configured services listen and accept. The market data service is started first; when it fails, the order
  routing service is not started at all.
\<close>

lemma gateway_Start_new:
  "gateway_Start acc_Start \<lparr>MarketData = map_option (\<lambda>_. fresh_svc MarketDataService False False) md,
       OrderRouting = map_option (\<lambda>_. fresh_svc OrderRoutingService False False) ord\<rparr> =
     (let md_up = (md \<noteq> None \<longrightarrow> acc_Start MarketDataService = None)
      in (\<lparr>MarketData = map_option (\<lambda>_. fresh_svc MarketDataService True md_up) md,
           OrderRouting = map_option (\<lambda>_. fresh_svc OrderRoutingService md_up (md_up \<and> acc_Start OrderRoutingService = None)) ord\<rparr>,
          if \<not> md_up then acc_Start MarketDataService else if ord = None then None else acc_Start OrderRoutingService))"
  by (cases md; cases ord) (simp_all add: gateway_Start_def svc_Start_def Let_def split: option.splits)

lemma read_settings_Ret:
  "read_settings Open ParseSettings a b file = Ret st \<longleftrightarrow> (\<exists>ls. Open file = Inr ls \<and> ParseSettings ls = Inr st)"
  by (auto simp: read_settings_def split: sum.splits)

text \<open>What one service needs to come up: its settings file, an acceptor made from it, and the start of the acceptor.\<close>

definition comes_up ::
  "(string \<Rightarrow> string list res) \<Rightarrow> (string list \<Rightarrow> 's res) \<Rightarrow> 's engine \<Rightarrow> (ServiceType \<Rightarrow> string option) \<Rightarrow>
   string \<Rightarrow> ServiceType \<Rightarrow> bool" where
  "comes_up Open ParseSettings eng acc_Start file st \<longleftrightarrow>
     (\<exists>ls settings. Open file = Inr ls \<and> ParseSettings ls = Inr settings \<and> fix_ok eng st settings) \<and> acc_Start st = None"

text \<open>What the program reads for the symbology and for a service.\<close>

definition main_symbology :: "(string \<Rightarrow> string list res) \<Rightarrow> (string \<Rightarrow> string list) \<Rightarrow> flags \<Rightarrow> symbology res" where
  "main_symbology Open map_ord fl =
     (if fl_sym fl = '''' then Inr PassthroughSymbology else map_sum id (\<lambda>ls. file_symbology map_ord (NewFileSymbology ls)) (Open (fl_sym fl)))"

definition main_settings :: "(string \<Rightarrow> string list res) \<Rightarrow> (string list \<Rightarrow> 's res) \<Rightarrow> bool \<Rightarrow> string \<Rightarrow> 's option res" where
  "main_settings Open ParseSettings enabled file =
     (if enabled then sbind (Open file) (\<lambda>ls. sbind (ParseSettings ls) (\<lambda>st. Inr (Some st))) else Inr None)"

lemma gateway_main_Ret:
  "gateway_main Getenv Open ParseSettings map_ord eng acc_Start fl = Ret (cf, symb, g) \<longleftrightarrow>
     cf = main_factory fl \<and> main_symbology Open map_ord fl = Inr symb \<and>
     (\<exists>mds ords. main_settings Open ParseSettings (fl_md fl) (path_Join [configDirectory Getenv, fl_mdcfg fl]) = Inr mds \<and>
       main_settings Open ParseSettings (fl_orders fl) (path_Join [configDirectory Getenv, fl_ordcfg fl]) = Inr ords \<and>
       (\<forall>st. mds = Some st \<longrightarrow> fix_ok eng MarketDataService st \<and> acc_Start MarketDataService = None) \<and>
       (\<forall>st. ords = Some st \<longrightarrow> fix_ok eng OrderRoutingService st \<and> acc_Start OrderRoutingService = None) \<and>
       g = \<lparr>MarketData = map_option (\<lambda>_. fresh_svc MarketDataService True True) mds,
            OrderRouting = map_option (\<lambda>_. fresh_svc OrderRoutingService True True) ords\<rparr>)"
proof -
  have sy: "(if fl_sym fl = '''' then Ret PassthroughSymbology
              else (case Open (fl_sym fl) of
                      Inl _ \<Rightarrow> Panic ''could not create file symbology''
                    | Inr ls \<Rightarrow> Ret (file_symbology map_ord (NewFileSymbology ls)))) = Ret symb \<longleftrightarrow> main_symbology Open map_ord fl = Inr symb" for symb
    by (auto simp: main_symbology_def split: sum.splits)
  have se: "(if b then go_bind (read_settings Open ParseSettings a c fn) (\<lambda>st. Ret (Some st)) else Ret None) = Ret x \<longleftrightarrow>
      main_settings Open ParseSettings b fn = Inr x" for b a c fn x
    by (auto simp: main_settings_def go_bind_eq_Ret read_settings_Ret sbind_eq_Inr)
  have st: "(case gateway_Start acc_Start g0 of (g, Some _) \<Rightarrow> Panic ''start FIX'' | (g, None) \<Rightarrow> Ret (main_factory fl, symb', g)) = Ret (cf, symb, g) \<longleftrightarrow>
      cf = main_factory fl \<and> symb' = symb \<and> gateway_Start acc_Start g0 = (g, None)" for g0 symb'
    by (auto split: prod.splits option.splits)
  have up: "gateway_New eng mds ords = Ret g0 \<and> gateway_Start acc_Start g0 = (g, None) \<longleftrightarrow>
      g0 = \<lparr>MarketData = map_option (\<lambda>_. fresh_svc MarketDataService False False) mds,
            OrderRouting = map_option (\<lambda>_. fresh_svc OrderRoutingService False False) ords\<rparr> \<and>
       (\<forall>st. mds = Some st \<longrightarrow> fix_ok eng MarketDataService st \<and> acc_Start MarketDataService = None) \<and>
       (\<forall>st. ords = Some st \<longrightarrow> fix_ok eng OrderRoutingService st \<and> acc_Start OrderRoutingService = None) \<and>
       g = \<lparr>MarketData = map_option (\<lambda>_. fresh_svc MarketDataService True True) mds,
            OrderRouting = map_option (\<lambda>_. fresh_svc OrderRoutingService True True) ords\<rparr>" for mds ords g0
    unfolding gateway_New_Ret by (cases mds; cases ords) (auto simp: gateway_Start_def svc_Start_def Let_def split: option.splits)
  show ?thesis
    unfolding gateway_main_def go_bind_eq_Ret sy se st using up by blast
qed

lemma main_settings_comes_up:
  "(\<exists>os. main_settings Open ParseSettings b file = Inr os \<and> (\<forall>st. os = Some st \<longrightarrow> fix_ok eng srv st \<and> acc_Start srv = None)) \<longleftrightarrow>
     (b \<longrightarrow> comes_up Open ParseSettings eng acc_Start file srv)"
  by (auto simp: main_settings_def comes_up_def sbind_eq_Inr)

text \<open>
  C35: the program comes up exactly when the symbology file can be read, if one is given, and every enabled service has
  a readable settings file in the configuration directory, an acceptor that can be made from it, and an acceptor that
  starts. Then exactly the enabled services exist, with the routes and the message store of their kind, they listen and accept, and without
  a file the symbology is passthrough.
  In every other case the process ends.
\<close>

theorem main_comes_up:
  "case gateway_main Getenv Open ParseSettings map_ord eng acc_Start fl of
     Panic _ \<Rightarrow> (fl_sym fl \<noteq> '''' \<and> isl (Open (fl_sym fl))) \<or>
       (fl_md fl \<and> \<not> comes_up Open ParseSettings eng acc_Start (path_Join [configDirectory Getenv, fl_mdcfg fl]) MarketDataService) \<or>
       (fl_orders fl \<and> \<not> comes_up Open ParseSettings eng acc_Start (path_Join [configDirectory Getenv, fl_ordcfg fl]) OrderRoutingService)
   | Ret (cf, symb, g) \<Rightarrow>
       cf = main_factory fl \<and> symb = (if fl_sym fl = '''' then PassthroughSymbology else file_symbology map_ord (NewFileSymbology (projr (Open (fl_sym fl))))) \<and>
       (if fl_md fl then comes_up Open ParseSettings eng acc_Start (path_Join [configDirectory Getenv, fl_mdcfg fl]) MarketDataService \<and>
          MarketData g = Some (fresh_svc MarketDataService True True)
        else MarketData g = None) \<and>
       (if fl_orders fl then comes_up Open ParseSettings eng acc_Start (path_Join [configDirectory Getenv, fl_ordcfg fl]) OrderRoutingService \<and>
          OrderRouting g = Some (fresh_svc OrderRoutingService True True)
        else OrderRouting g = None)"
proof (cases "gateway_main Getenv Open ParseSettings map_ord eng acc_Start fl")
  case (Ret x)
  obtain cf symb g where x: "x = (cf, symb, g)" by (cases x) auto
  show ?thesis
    using Ret unfolding x gateway_main_Ret
    by (cases "Open (fl_sym fl)") (auto simp: Ret x main_symbology_def comes_up_def main_settings_def sbind_eq_Inr split: if_splits)
next
  case (Panic e)
  then have "\<not> (\<exists>x. gateway_main Getenv Open ParseSettings map_ord eng acc_Start fl = Ret x)" by simp
  then have "\<not> ((\<exists>symb. main_symbology Open map_ord fl = Inr symb) \<and>
      (fl_md fl \<longrightarrow> comes_up Open ParseSettings eng acc_Start (path_Join [configDirectory Getenv, fl_mdcfg fl]) MarketDataService) \<and>
      (fl_orders fl \<longrightarrow> comes_up Open ParseSettings eng acc_Start (path_Join [configDirectory Getenv, fl_ordcfg fl]) OrderRoutingService))"
    unfolding main_settings_comes_up [symmetric] using gateway_main_Ret by metis
  moreover have "(\<exists>symb. main_symbology Open map_ord fl = Inr symb) \<longleftrightarrow> fl_sym fl = '''' \<or> \<not> isl (Open (fl_sym fl))"
    by (cases "Open (fl_sym fl)") (auto simp: main_symbology_def)
  ultimately show ?thesis unfolding Panic by simp
qed

end
