(* ===== verification/Client_Main.thy ===== *)
theory Client_Main
  imports Fix_Client Gateway
begin

text \<open>
  The FIX client as a program (\<^verbatim>\<open>integration_test/fix_client/main.go\<close>, \<^verbatim>\<open>util.go\<close>) and what its FIX application adds to a logon
  (\<^verbatim>\<open>integration_test/mock/mock_fix.go\<close>), composed with the logon of the gateway. Files, the settings and the initiator of the FIX
  engine are parameters; \<open>log.Fatal\<close> is a panic with its text, as in the gateway.
\<close>

section \<open>The program\<close>

text \<open>The application of the client: the credentials that it logs on with.\<close>

record TestFixClient =
  tc_APIKey :: string
  tc_APISecret :: string
  tc_BfxUserID :: string
  tc_CancelOnDisconnect :: bool

definition loadSettings :: "(string \<Rightarrow> string list res) \<Rightarrow> (string list \<Rightarrow> 's res) \<Rightarrow> string \<Rightarrow> 's go" where
  "loadSettings Open ParseSettings file =
     (case Open file of
        Inl e \<Rightarrow> Panic e
      | Inr cfg \<Rightarrow> (case ParseSettings cfg of Inl e \<Rightarrow> Panic e | Inr st \<Rightarrow> Ret st))"

text \<open>A setting of the global section, which has to be there.\<close>

definition client_setting :: "('s \<Rightarrow> string \<Rightarrow> string res) \<Rightarrow> 's \<Rightarrow> string \<Rightarrow> string go" where
  "client_setting Setting st name =
     (case Setting st name of
        Inl _ \<Rightarrow> Panic (''Please provide an '' @ [CHR 0x27] @ name @ [CHR 0x27] @ '' setting in your FIX global configuration settings'')
      | Inr v \<Rightarrow> Ret v)"

text \<open>
  The program up to its control loop. \<open>NewInitiator\<close> makes the initiator of the engine with a message store, \<open>Start\<close> starts it; a
  client that takes orders keeps its messages in files.
\<close>

definition client_main ::
  "(string \<Rightarrow> string list res) \<Rightarrow> (string list \<Rightarrow> 's res) \<Rightarrow> (store_kind \<Rightarrow> 's \<Rightarrow> string option) \<Rightarrow>
   ('s \<Rightarrow> string \<Rightarrow> string res) \<Rightarrow> string option \<Rightarrow> string \<Rightarrow> bool \<Rightarrow> (store_kind \<times> TestFixClient) go" where
  "client_main Open ParseSettings NewInitiator Setting Start cfg cod =
     go_bind (loadSettings Open ParseSettings cfg) (\<lambda>st.
       (let storeFactory = (if contains cfg ''orders'' then FileStore else NoStore)
        in case NewInitiator storeFactory st of
             Some err \<Rightarrow> Panic err
           | None \<Rightarrow>
               go_bind (client_setting Setting st ''ApiKey'') (\<lambda>apiKey.
               go_bind (client_setting Setting st ''ApiSecret'') (\<lambda>apiSecret.
               go_bind (client_setting Setting st ''BfxUserID'') (\<lambda>bfxUser.
               (case Start of
                  Some err \<Rightarrow> Panic err
                | None \<Rightarrow> Ret (storeFactory, \<lparr>tc_APIKey = apiKey, tc_APISecret = apiSecret, tc_BfxUserID = bfxUser,
                                            tc_CancelOnDisconnect = cod\<rparr>)))))))"

text \<open>The exit code of the program, by the signal that ends it.\<close>

datatype os_signal = SIGINT | SIGTERM | OtherSignal

fun listenSignal :: "os_signal \<Rightarrow> int" where
  "listenSignal SIGINT = 0"
| "listenSignal SIGTERM = 0"
| "listenSignal OtherSignal = 1"

text \<open>An administrative message on its way out: a logon gets the credentials.\<close>

definition TestFixClient_ToAdmin :: "TestFixClient \<Rightarrow> Message \<Rightarrow> Message" where
  "TestFixClient_ToAdmin c msg =
     (case MsgType msg of
        Inl _ \<Rightarrow> msg
      | Inr msgType \<Rightarrow>
          if msgType = ''A'' then
            (let msg = msg_set tagBfxAPIKey (tc_APIKey c) msg;
                 msg = msg_set tagBfxAPISecret (tc_APISecret c) msg;
                 msg = msg_set tagBfxUserID (tc_BfxUserID c) msg
             in if tc_CancelOnDisconnect c then msg_set tagCancelOnDisconnect (FIXBoolean_Write True) msg else msg)
          else msg)"

section \<open>Lemmas\<close>

lemma loadSettings_Ret: "loadSettings Open ParseSettings file = Ret st \<longleftrightarrow> (\<exists>cfg. Open file = Inr cfg \<and> ParseSettings cfg = Inr st)"
  by (auto simp: loadSettings_def split: sum.splits)

lemma client_setting_Ret: "client_setting Setting st name = Ret v \<longleftrightarrow> Setting st name = Inr v"
  by (simp add: client_setting_def split: sum.splits)

text \<open>The program reaches its control loop exactly when the settings can be read, the engine takes them and they have the credentials.\<close>

lemma client_main_Ret:
  "client_main Open ParseSettings NewInitiator Setting Start cfg cod = Ret (store, c) \<longleftrightarrow>
     store = (if contains cfg ''orders'' then FileStore else NoStore) \<and> Start = None \<and> tc_CancelOnDisconnect c = cod \<and>
     (\<exists>ls st. Open cfg = Inr ls \<and> ParseSettings ls = Inr st \<and> NewInitiator store st = None \<and> Setting st ''ApiKey'' = Inr (tc_APIKey c) \<and>
       Setting st ''ApiSecret'' = Inr (tc_APISecret c) \<and> Setting st ''BfxUserID'' = Inr (tc_BfxUserID c))"
  by (cases c) (auto simp: client_main_def Let_def go_bind_eq_Ret loadSettings_Ret client_setting_Ret split: option.splits)

lemma GetString_set: "GetString (m_Body (msg_set t v m)) k = (if k = t then Inr v else GetString (m_Body m) k)"
  by (auto simp: msg_set_def SetField_def GetString_def GetField_def split: option.splits list.splits)

lemma GetBool_set:
  "GetBool (m_Body (msg_set t v m)) k = (if k = t then GetField FIXBoolean_Read [k \<mapsto> [(k, v)]] k else GetBool (m_Body m) k)"
  by (auto simp: msg_set_def SetField_def GetBool_def GetField_def split: option.splits list.splits)

lemma MsgType_set: "MsgType (msg_set t v m) = MsgType m"
  by (simp add: MsgType_def msg_set_def)

text \<open>What the gateway reads from a logon of the client.\<close>

lemma client_logon_read:
  fixes c :: TestFixClient and msg :: Message
  assumes "MsgType msg = Inr ''A''" "\<not> Has (m_Body msg) tagCancelOnDisconnect"
  defines "m \<equiv> TestFixClient_ToAdmin c msg"
  shows "IsMsgTypeOf m ''A''" "GetString (m_Body m) tagBfxAPIKey = Inr (tc_APIKey c)"
    "GetString (m_Body m) tagBfxAPISecret = Inr (tc_APISecret c)" "GetString (m_Body m) tagBfxUserID = Inr (tc_BfxUserID c)"
    "GetBool (m_Body m) tagCancelOnDisconnect = Inr True \<longleftrightarrow> tc_CancelOnDisconnect c"
  using assms(1,2) unfolding m_def
  by (simp_all add: TestFixClient_ToAdmin_def IsMsgTypeOf_def MsgType_set GetString_set GetBool_set GetBool_def [of "m_Body msg"] GetField_def
      FIXBoolean_Read_Write Has_def Let_def)

section \<open>The client logs on\<close>

text \<open>
  C39: the FIX client logs on to the gateway with the credentials of its settings. When the program of the client comes up and its
  credentials are not empty, its logon makes the gateway connect a new peer of the session to the exchange with the API key, the
  secret and the user of the settings, and with the cancel-on-disconnect of the command line; a failed connection is answered with a
  logout that has the error.
\<close>

theorem client_logs_on:
  assumes "client_main Open ParseSettings NewInitiator Setting Start cfg cod = Ret (store, c)"
    and "tc_APIKey c \<noteq> ''''" "tc_APISecret c \<noteq> ''''" "tc_BfxUserID c \<noteq> ''''"
    and "MsgType msg = Inr ''A''" "\<not> Has (m_Body msg) tagCancelOnDisconnect" "supported (BeginString sID)"
  shows "\<exists>ls st key sec uid. Open cfg = Inr ls \<and> ParseSettings ls = Inr st \<and>
    Setting st ''ApiKey'' = Inr key \<and> Setting st ''ApiSecret'' = Inr sec \<and> Setting st ''BfxUserID'' = Inr uid \<and>
    (let pid = SessionID_String sID; tr = gw_trace w @ [ECredentials pid key sec cod]; w' = fst (FromAdmin E (TestFixClient_ToAdmin c msg) sID w)
     in FindPeer w' pid = Some ((Peer_New sID)\<lparr>p_bfxUserID := uid, p_started := (env_Connect E tr = None)\<rparr>) \<and>
        (case env_Connect E tr of
           None \<Rightarrow> gw_trace w' = tr @ [EConnect pid]
         | Some err \<Rightarrow> \<exists>m. gw_trace w' = tr @ [EConnect pid, ESend sID m] \<and> MsgType m = Inr ''5'' \<and> body_str m tag_Text = Some err))"
proof -
  obtain ls st where st: "Open cfg = Inr ls" "ParseSettings ls = Inr st" "Setting st ''ApiKey'' = Inr (tc_APIKey c)"
      "Setting st ''ApiSecret'' = Inr (tc_APISecret c)" "Setting st ''BfxUserID'' = Inr (tc_BfxUserID c)" "tc_CancelOnDisconnect c = cod"
    using assms(1) by (auto simp: client_main_Ret)
  note read = client_logon_read [OF assms(5,6), where c = c]
  show ?thesis
    using st logon_effect [OF read(1) assms(7) read(2) assms(2) read(3) assms(3) read(4) assms(4), of w E]
    unfolding Let_def read(5) st(6) by (auto split: option.splits)
qed

text \<open>A client that takes orders, with the settings of its three credentials.\<close>

definition sample_open :: "string \<Rightarrow> string list res" where
  "sample_open file = (if file = ''conf/orders.cfg'' then Inr [''k'', ''s'', ''u1''] else Inl ''no such file'')"

definition sample_setting :: "string list \<Rightarrow> string \<Rightarrow> string res" where
  "sample_setting st name = (case map_of [(''ApiKey'', st ! 0), (''ApiSecret'', st ! 1), (''BfxUserID'', st ! 2)] name of
     None \<Rightarrow> Inl ''setting not found'' | Some v \<Rightarrow> Inr v)"

definition sample_client :: TestFixClient where
  "sample_client = \<lparr>tc_APIKey = ''k'', tc_APISecret = ''s'', tc_BfxUserID = ''u1'', tc_CancelOnDisconnect = True\<rparr>"

lemma sample_client_main:
  "client_main sample_open Inr (\<lambda>_ _. None) sample_setting None ''conf/orders.cfg'' True = Ret (FileStore, sample_client)"
  by (simp add: client_main_Ret sample_open_def sample_setting_def sample_client_def)

theorem client_logs_on_witness:
  "\<exists>m. gw_trace (fst (FromAdmin unreachable_env (TestFixClient_ToAdmin sample_client (new_msg BeginStringFIX42 ''A'')) sample_sID sample_gw)) =
     [ECredentials (SessionID_String sample_sID) ''k'' ''s'' True, EConnect (SessionID_String sample_sID), ESend sample_sID m] \<and>
     body_str m tag_Text = Some ''connection refused''"
proof -
  have "tc_APIKey sample_client \<noteq> ''''" "tc_APISecret sample_client \<noteq> ''''" "tc_BfxUserID sample_client \<noteq> ''''"
    "MsgType (new_msg BeginStringFIX42 ''A'') = Inr ''A''" "\<not> Has (m_Body (new_msg BeginStringFIX42 ''A'')) tagCancelOnDisconnect"
    by (simp_all add: sample_client_def MsgType_def new_msg_def GetString_def GetField_def Has_def SetField_def)
  from client_logs_on [OF sample_client_main this sample_supported, of sample_gw unreachable_env] show ?thesis
    by (auto simp: sample_open_def sample_setting_def unreachable_env_def sample_gw_def Let_def)
qed

end
