(* ===== verification/Spec2Isabelle.thy ===== *)
theory Spec2Isabelle
  imports No_Store Nonce Peer_Lifecycle Order_Book Exec_Flow Convert_V1 Fix_Dictionary Client_Main
begin

text \<open>
  A verification development for the Bitfinex FIX gateway (\<^verbatim>\<open>bfxfixgw\<close>), a Go program that lets FIX clients trade and
  take market data on the Bitfinex exchange. Paths below are relative to the root of the repository.

  \<^bold>\<open>The program.\<close> A gateway (\<^verbatim>\<open>gateway.go\<close>) has an order routing service and a market data service, each
  optional. A service (\<^verbatim>\<open>service/service.go\<close>) accepts FIX sessions through the FIX engine and keeps one peer for each session
  (\<^verbatim>\<open>service/peer\<close>): the websocket and REST clients of the exchange and a cache of orders and subscriptions. A FIX message
  enters through the application callbacks (\<^verbatim>\<open>service/fix/fix.go\<close>), is routed by its type and handled in
  \<^verbatim>\<open>service/fix/fix_msg.go\<close>, which converts it (\<^verbatim>\<open>convert/websocket_order.go\<close>), changes the cache and calls the exchange. A
  message of the exchange goes through the channel of the peer to the loop of the service (\<open>listen\<close>), which dispatches it to a handler of
  \<^verbatim>\<open>service/websocket/fix_msg.go\<close>; that changes the cache and sends a FIX message built by \<^verbatim>\<open>convert/fix_msg.go\<close>. Symbols are translated
  by the symbology (\<^verbatim>\<open>service/symbol\<close>).

  \<^bold>\<open>Foundations.\<close>
  \<^item> \<open>Gw_Prelude\<close>: results that may fail (\<open>res\<close>, an \<open>Inl\<close> is the error) or panic (\<open>go\<close>), ranging over a map in an
    order that Go leaves open (the order is an argument), strings and integers of \<^verbatim>\<open>strconv\<close>, and the locale \<open>keyed_store\<close>.
  \<^item> \<open>Go_Float64\<close>: IEEE binary64 with rounding to nearest even; the locale of a running total gives that sums of non-negative
    numbers do not decrease. \<open>Go_Decimal\<close>: the decimals of \<^verbatim>\<open>shopspring/decimal\<close>, with the shortest digits of a
    float. \<open>Go_Time\<close>: civil time and FIX timestamps. \<open>Go_Parse\<close>: \<^verbatim>\<open>strconv.ParseFloat\<close> and \<^verbatim>\<open>ParseBool\<close>.
  \<^item> \<open>Fix_Message\<close>, \<open>Fix_Enums\<close>: fields, repeating groups, rejects and session identifiers of \<^verbatim>\<open>quickfixgo/quickfix\<close>.
    \<open>Bfx_Types\<close>: the records of the exchange's client library.

  \<^bold>\<open>Components.\<close>
  \<^item> \<open>Order_Cache\<close> (\<^verbatim>\<open>service/peer/cache.go\<close>): every method, the invariant over all sequences of calls, monotone fills, lookups.
  \<^item> \<open>Symbology\<close> (\<^verbatim>\<open>service/symbol\<close>): the contract \<open>symbol_roundtrip\<close>, interpreted on both implementations.
  \<^item> \<open>Convert_Fix\<close>, \<open>Convert_Order\<close>, \<open>Convert_Msg\<close>, \<open>Convert_V1\<close> (\<^verbatim>\<open>convert/*.go\<close>): which messages are accepted and why
    others are rejected, round trips of side, type and order number, the quantities of execution reports.
  \<^item> \<open>Gw_World\<close>: the state \<open>gw\<close> of a service (its peers, the last message type, the trace of the calls that left it) and the environment
    \<open>env\<close> (websocket, REST, FIX engine, random identifiers, map orders), whose answers may depend on the trace, and the answer to a new order on the whole state. The snapshot of
    a book goes through \<^verbatim>\<open>BookService.All\<close> of the REST client as it is in the vendored library.
  \<^item> \<open>Fix_Handlers\<close>, \<open>Ws_Handlers\<close>, \<open>Fix_App\<close>, \<open>Gw_Service\<close>: every handler, routing and logon, the dispatch of exchange messages, and the
    events of a service with its reachable states (\<open>gw_reach\<close>).
  \<^item> \<open>No_Store\<close> (\<^verbatim>\<open>service/fix/nostore.go\<close>): equivalence with the in-memory store of the engine. \<open>Nonce\<close> (\<^verbatim>\<open>service/peer/nonce.go\<close>):
    nonces as 64-bit words, strictly increasing for at most 1000 calls per second, and 999 in the second of the start.
  \<^item> \<open>Peer_Lifecycle\<close>: the goroutines around a peer (listener, loop, watcher, removal) as a step relation with their
    channels and lock, the timer of the listener included; what a removal leaves behind, exactly where the goroutines come to a standstill and
    where for ever, and that they come to rest but for the timer. The locale
    \<open>paid_steps\<close> bounds the runs of a step relation whose steps are paid for, with a potential and the gains of single steps.
  \<^item> \<open>Gateway\<close> (\<^verbatim>\<open>gateway.go\<close>): construction, start, stop, the clients that its factory makes, and when the program comes up. A stop waits
    for the listeners of the started peers with the mutex held, so it may never return: its result is an option (\<open>None\<close>), and whether the listener of
    a peer ends is an argument. The engine (\<open>engine\<close>: log factory and acceptor) is a parameter; the kind of service decides routes and message store (\<open>FIX_New\<close>).
  \<^item> \<open>Fix_Dictionary\<close> (\<^verbatim>\<open>spec/BitfinexFIX42.xml\<close>): the fields of the FIX 4.2 execution report as a typing of messages, and which
    reports of \<open>Convert_Msg\<close> are well typed.
  \<^item> \<open>Fix_Client\<close> (\<^verbatim>\<open>integration_test/fix_client\<close>): the commands of the FIX client, composed with the gateway's side.
    \<open>Client_Main\<close> (\<^verbatim>\<open>main.go\<close>, \<^verbatim>\<open>util.go\<close>, \<^verbatim>\<open>mock/mock_fix.go\<close>): its program and its logon, composed with the logon of the gateway.

  \<^bold>\<open>Properties that span components.\<close>
  \<^item> \<open>Gw_Invariant\<close>: the contract \<open>session_handler\<close> of an operation for one session, interpreted on every handler of both
    sides, on routing, logon and removal. It gives the invariant of all reachable states and the separation of sessions.
  \<^item> \<open>Order_Book\<close>: an abstract order book that may place, link and fill orders; for each event of a service the list of the book events that it
    may lead to, computed from the message and the answers of the exchange (\<open>book_events\<close>); and the simulation that a service implements it.
  \<^item> \<open>Order_Flow\<close>, \<open>Exec_Flow\<close>, \<open>Md_Flow\<close>: what a request or an exchange message does from end to end: the calls that leave the gateway,
    the cache afterwards, and the messages that are sent, on success and on error.

  \<^bold>\<open>Hypotheses.\<close> \<open>env_ok\<close> says that the order in which a finite map is ranged over lists its keys once each. \<open>env_good\<close> and
  \<open>event_good\<close> add that the amounts of the exchange are numbers, which JSON text guarantees. \<open>supported\<close> says that the session speaks a FIX
  version the gateway knows, which its configuration decides. No fuel is used: loops over lists are structural recursion, and the
  printing of numbers and the control loop of the client are recursive functions with termination proofs. Machine integers are 64-bit: \<open>wrap64\<close> where the code may
  overflow, words for the nonces.

  \<^bold>\<open>Not modelled.\<close> The session layer and the wire format of the FIX engine, the connection handling and the JSON codecs of the exchange clients, and the
  parser of settings files are third-party code: parameters of the model. Logging has no effect on the state.
  The container \<^verbatim>\<open>service/websocket/websocket.go\<close> only holds what the handlers take as arguments. The mutexes of the cache make each
  method atomic, so a method is one step. The test suites, their mocks and assertions (\<^verbatim>\<open>integration_test\<close>; of the mock application only the logon is
  modelled), what the FIX client does with incoming messages, and the statistics server of the gateway are left out. Of the data
  dictionary only the FIX 4.2 execution report is modelled.
\<close>

end
